(* ===== verification/Prelude.thy ===== *)
theory Prelude
  imports Main "HOL-Library.Product_Lexorder" "HOL-Library.Monad_Syntax"
begin

text \<open>
  Shared vocabulary of the development: the Go standard-library string functions the sources
  use, the relational operations on tables (a table is a list of rows), the ordering and
  limiting of query results, and the collections of rules the component theories extend.

  Strings are byte strings (Go's \<open>string\<close>, HOL's \<^typ>\<open>string\<close>). \<open>ToLower\<close> and
  \<open>TrimSpace\<close> are exact on ASCII input; a byte above 127 is left as it is, so the
  model does not cover Go's case folding of non-ASCII letters nor its trimming of
  non-ASCII white space.
\<close>

named_theorems table_simps \<open>how the relational operations act on the rows of a table\<close>
named_theorems preserves_intros \<open>rules that carry an invariant through a program\<close>

section \<open>Go strings\<close>

type_synonym bytes = string

definition code :: "char \<Rightarrow> nat" where
  "code c = of_char c"

definition isSpace :: "char \<Rightarrow> bool" where
  "isSpace c \<longleftrightarrow> code c \<in> {9, 10, 11, 12, 13, 32}"

definition toLowerChar :: "char \<Rightarrow> char" where
  "toLowerChar c = (if 65 \<le> code c \<and> code c \<le> 90 then char_of (code c + 32) else c)"

definition ToLower :: "string \<Rightarrow> string" where
  "ToLower s = map toLowerChar s"

definition trim_with :: "(char \<Rightarrow> bool) \<Rightarrow> string \<Rightarrow> string" where
  "trim_with p s = rev (dropWhile p (rev (dropWhile p s)))"

definition TrimSpace :: "string \<Rightarrow> string" where
  "TrimSpace s = trim_with isSpace s"

definition TrimRight :: "string \<Rightarrow> (char \<Rightarrow> bool) \<Rightarrow> string" where
  "TrimRight s p = rev (dropWhile p (rev s))"

fun strings_Join :: "string list \<Rightarrow> string \<Rightarrow> string" where
  "strings_Join [] sep = []"
| "strings_Join [s] sep = s"
| "strings_Join (s # t # rest) sep = s @ sep @ strings_Join (t # rest) sep"

text \<open>PostgreSQL's \<open>BTRIM\<close> removes blanks only, where Go's \<open>TrimSpace\<close> removes every
  white-space character.\<close>

definition BTRIM :: "string \<Rightarrow> string" where
  "BTRIM s = trim_with (\<lambda>c. c = CHR '' '') s"

definition EqualFold :: "string \<Rightarrow> string \<Rightarrow> bool" where
  "EqualFold s t \<longleftrightarrow> ToLower s = ToLower t"

subsection \<open>Facts about strings\<close>

lemma code_char_of [simp]: "n < 256 \<Longrightarrow> code (char_of n) = n"
  by (simp add: code_def)

lemma toLowerChar_idem [simp]: "toLowerChar (toLowerChar c) = toLowerChar c"
  by (auto simp: toLowerChar_def)

lemma ToLower_idem [simp]: "ToLower (ToLower s) = ToLower s"
  by (simp add: ToLower_def)

lemma ToLower_Nil [simp]: "ToLower [] = []"
  by (simp add: ToLower_def)

lemma ToLower_eq_Nil [simp]: "ToLower s = [] \<longleftrightarrow> s = []"
  by (simp add: ToLower_def)

lemma length_ToLower [simp]: "length (ToLower s) = length s"
  by (simp add: ToLower_def)

lemma isSpace_toLowerChar [simp]: "isSpace (toLowerChar c) = isSpace c"
  by (auto simp: isSpace_def toLowerChar_def)

lemma blank_toLowerChar [simp]: "toLowerChar c = CHR '' '' \<longleftrightarrow> c = CHR '' ''"
proof
  assume "toLowerChar c = CHR '' ''"
  then have "code (toLowerChar c) = 32" by (simp add: code_def)
  then show "c = CHR '' ''"
    using \<open>toLowerChar c = CHR '' ''\<close>
    by (auto simp: toLowerChar_def split: if_splits dest: arg_cong [where f = code])
qed (simp add: toLowerChar_def code_def)

lemma trim_with_map:
  assumes "\<And>c. p (f c) = p c"
  shows "trim_with p (map f s) = map f (trim_with p s)"
proof -
  have "p \<circ> f = p" using assms by auto
  then show ?thesis
    by (simp add: trim_with_def dropWhile_map rev_map)
qed

lemma TrimSpace_ToLower: "TrimSpace (ToLower s) = ToLower (TrimSpace s)"
  by (simp add: TrimSpace_def ToLower_def trim_with_map)

lemma BTRIM_ToLower: "BTRIM (ToLower s) = ToLower (BTRIM s)"
  by (simp add: BTRIM_def ToLower_def trim_with_map)

text \<open>Trimming leaves a string with no trimmed character at either end, and such a string is
  left alone by any weaker trimming.\<close>

definition trimmed :: "(char \<Rightarrow> bool) \<Rightarrow> string \<Rightarrow> bool" where
  "trimmed p s \<longleftrightarrow> s = [] \<or> (\<not> p (hd s) \<and> \<not> p (last s))"

lemma trim_with_trimmed: "trimmed p (trim_with p s)"
proof (cases "trim_with p s = []")
  case True
  then show ?thesis by (simp add: trimmed_def)
next
  case False
  let ?x = "dropWhile p s"
  have split: "?x = trim_with p s @ rev (takeWhile p (rev ?x))"
    unfolding trim_with_def by (metis rev_append rev_rev_ident takeWhile_dropWhile_id)
  with False have "hd (trim_with p s) = hd ?x" by (metis hd_append2)
  moreover have "?x \<noteq> []" using False by (metis dropWhile.simps(1) rev.simps(1) trim_with_def)
  ultimately have "\<not> p (hd (trim_with p s))" by (simp add: hd_dropWhile)
  moreover from False have "dropWhile p (rev ?x) \<noteq> []"
    by (simp add: trim_with_def)
  then have "\<not> p (last (trim_with p s))"
    unfolding trim_with_def last_rev by (rule hd_dropWhile)
  ultimately show ?thesis by (simp add: trimmed_def)
qed

lemma trim_with_fixed:
  assumes "trimmed p s" and "\<And>c. q c \<Longrightarrow> p c"
  shows "trim_with q s = s"
proof (cases "s = []")
  case False
  with assms have "dropWhile q s = s" "dropWhile q (rev s) = rev s"
    by (auto simp: trimmed_def dropWhile_eq_self_iff hd_rev)
  then show ?thesis by (simp add: trim_with_def)
qed (simp add: trim_with_def)

lemma TrimSpace_idem [simp]: "TrimSpace (TrimSpace s) = TrimSpace s"
  unfolding TrimSpace_def by (rule trim_with_fixed [OF trim_with_trimmed])

lemma BTRIM_idem [simp]: "BTRIM (BTRIM s) = BTRIM s"
  unfolding BTRIM_def by (rule trim_with_fixed [OF trim_with_trimmed])

lemma isSpace_blank [simp]: "isSpace (CHR '' '')"
  by (simp add: isSpace_def code_def)

lemma BTRIM_TrimSpace [simp]: "BTRIM (TrimSpace s) = TrimSpace s"
  unfolding BTRIM_def TrimSpace_def
  by (rule trim_with_fixed [OF trim_with_trimmed]) auto

section \<open>Tables\<close>

text \<open>
  A table is the list of its rows. A query filters it, an update rewrites the rows a predicate
  selects, a deletion drops them and an insertion appends a row. \<open>find_row\<close> is GORM's
  \<open>Take\<close>: the first row the predicate selects.
\<close>

definition find_row :: "('r \<Rightarrow> bool) \<Rightarrow> 'r list \<Rightarrow> 'r option" where
  "find_row P t = find P t"

definition update_rows :: "('r \<Rightarrow> bool) \<Rightarrow> ('r \<Rightarrow> 'r) \<Rightarrow> 'r list \<Rightarrow> 'r list" where
  "update_rows P f t = map (\<lambda>r. if P r then f r else r) t"

definition delete_rows :: "('r \<Rightarrow> bool) \<Rightarrow> 'r list \<Rightarrow> 'r list" where
  "delete_rows P t = filter (\<lambda>r. \<not> P r) t"

definition count_rows :: "('r \<Rightarrow> bool) \<Rightarrow> 'r list \<Rightarrow> nat" where
  "count_rows P t = length (filter P t)"

definition exists_row :: "('r \<Rightarrow> bool) \<Rightarrow> 'r list \<Rightarrow> bool" where
  "exists_row P t = list_ex P t"

text \<open>\<open>ORDER BY key ASC\<close> and \<open>ORDER BY key DESC\<close>.\<close>

definition order_asc :: "('r \<Rightarrow> 'k::linorder) \<Rightarrow> 'r list \<Rightarrow> 'r list" where
  "order_asc k t = sort_key k t"

definition order_desc :: "('r \<Rightarrow> 'k::linorder) \<Rightarrow> 'r list \<Rightarrow> 'r list" where
  "order_desc k t = rev (sort_key k t)"

text \<open>\<open>ORDER BY key DESC LIMIT 1\<close> and \<open>ORDER BY key ASC LIMIT 1\<close>.\<close>

definition newest :: "('r \<Rightarrow> 'k::linorder) \<Rightarrow> 'r list \<Rightarrow> 'r option" where
  "newest k t = (case order_desc k t of [] \<Rightarrow> None | r # _ \<Rightarrow> Some r)"

definition oldest :: "('r \<Rightarrow> 'k::linorder) \<Rightarrow> 'r list \<Rightarrow> 'r option" where
  "oldest k t = (case order_asc k t of [] \<Rightarrow> None | r # _ \<Rightarrow> Some r)"

subsection \<open>Facts about tables\<close>

lemma find_row_SomeD: "find_row P t = Some r \<Longrightarrow> r \<in> set t \<and> P r"
  by (metis find_Some_iff find_row_def nth_mem)

lemma find_row_None_iff: "find_row P t = None \<longleftrightarrow> (\<forall>r\<in>set t. \<not> P r)"
  by (auto simp: find_row_def find_None_iff)

lemma distinct_key_eq:
  "distinct (map k t) \<Longrightarrow> x \<in> set t \<Longrightarrow> y \<in> set t \<Longrightarrow> k x = k y \<Longrightarrow> x = y"
  by (simp add: distinct_map inj_on_def)

lemma find_row_key:
  assumes "distinct (map k t)" "r \<in> set t"
  shows "find_row (\<lambda>x. k x = k r) t = Some r"
proof -
  obtain x where x: "find_row (\<lambda>x. k x = k r) t = Some x"
    using assms(2) by (cases "find_row (\<lambda>x. k x = k r) t") (auto simp: find_row_None_iff)
  then have "x \<in> set t" "k x = k r" by (auto dest: find_row_SomeD)
  with assms have "x = r" by (auto dest: distinct_key_eq)
  with x show ?thesis by simp
qed

lemma find_row_append:
  "find_row P (s @ t) = (case find_row P s of Some r \<Rightarrow> Some r | None \<Rightarrow> find_row P t)"
  by (induction s) (auto simp: find_row_def)

lemma exists_row_iff [table_simps]: "exists_row P t \<longleftrightarrow> (\<exists>r\<in>set t. P r)"
  by (simp add: exists_row_def list_ex_iff)

lemma set_update_rows [table_simps]:
  "set (update_rows P f t) = {f r | r. r \<in> set t \<and> P r} \<union> {r \<in> set t. \<not> P r}"
  by (auto simp: update_rows_def image_iff)

lemma set_delete_rows [table_simps]: "set (delete_rows P t) = {r \<in> set t. \<not> P r}"
  by (auto simp: delete_rows_def)

lemma map_update_rows:
  "(\<And>r. P r \<Longrightarrow> k (f r) = k r) \<Longrightarrow> map k (update_rows P f t) = map k t"
  by (auto simp: update_rows_def)

lemma distinct_delete_rows: "distinct (map k t) \<Longrightarrow> distinct (map k (delete_rows P t))"
  by (simp add: delete_rows_def distinct_map_filter)

lemma count_rows_0_iff [table_simps]: "count_rows P t = 0 \<longleftrightarrow> (\<forall>r\<in>set t. \<not> P r)"
  by (simp add: count_rows_def filter_empty_conv)

lemma count_rows_pos_iff: "0 < count_rows P t \<longleftrightarrow> (\<exists>r\<in>set t. P r)"
  using count_rows_0_iff by (metis gr0I less_numeral_extra(3))

lemma count_rows_append [simp]: "count_rows P (s @ t) = count_rows P s + count_rows P t"
  by (simp add: count_rows_def)

lemma count_rows_Cons: "count_rows P (r # t) = (if P r then 1 else 0) + count_rows P t"
  by (simp add: count_rows_def)

lemma count_rows_Nil [simp]: "count_rows P [] = 0"
  by (simp add: count_rows_def)

lemma update_rows_id: "(\<And>r. r \<in> set t \<Longrightarrow> \<not> P r) \<Longrightarrow> update_rows P f t = t"
  by (auto simp: update_rows_def intro: map_idI)

lemma set_order [table_simps]: "set (order_asc k t) = set t" "set (order_desc k t) = set t"
  by (simp_all add: order_asc_def order_desc_def)

lemma length_order [simp]: "length (order_asc k t) = length t" "length (order_desc k t) = length t"
  by (simp_all add: order_asc_def order_desc_def)

lemma sort_key_eq_Nil: "sort_key k t = [] \<longleftrightarrow> t = []"
  by (metis length_0_conv length_sort)

lemma newest_None_iff: "newest k t = None \<longleftrightarrow> t = []"
  by (auto simp: newest_def order_desc_def sort_key_eq_Nil split: list.splits)

lemma oldest_None_iff: "oldest k t = None \<longleftrightarrow> t = []"
  by (auto simp: oldest_def order_asc_def sort_key_eq_Nil split: list.splits)

lemma newest_SomeD:
  assumes "newest k t = Some r"
  shows "r \<in> set t" "\<And>x. x \<in> set t \<Longrightarrow> k x \<le> k r"
proof -
  obtain rs where rs: "rev (sort_key k t) = r # rs"
    using assms by (auto simp: newest_def order_desc_def split: list.splits)
  then have srt: "sort_key k t = rev rs @ [r]"
    by (metis rev.simps(2) rev_rev_ident)
  then show "r \<in> set t" by (metis in_set_conv_decomp set_sort)
  have "sorted (map k (rev rs @ [r]))" using srt by (metis sorted_sort_key)
  then show "k x \<le> k r" if "x \<in> set t" for x
    using that srt by (auto simp: sorted_append simp flip: set_sort [of k t])
qed

lemma oldest_SomeD:
  assumes "oldest k t = Some r"
  shows "r \<in> set t" "\<And>x. x \<in> set t \<Longrightarrow> k r \<le> k x"
proof -
  obtain rs where rs: "sort_key k t = r # rs"
    using assms by (auto simp: oldest_def order_asc_def split: list.splits)
  then show "r \<in> set t" by (metis list.set_intros(1) set_sort)
  have "sorted (map k (r # rs))" using rs by (metis sorted_sort_key)
  then show "k r \<le> k x" if "x \<in> set t" for x
    using that rs by (auto simp flip: set_sort [of k t])
qed

lemma delete_one_row_count:
  assumes "distinct (map k t)" "r \<in> set t" "P r"
  shows "count_rows P (delete_rows (\<lambda>x. k x = k r) t) = count_rows P t - 1"
proof -
  obtain a b where t: "t = a @ r # b" using assms(2) by (metis split_list)
  with assms(1) have "k r \<notin> k ` set a" "k r \<notin> k ` set b" by auto
  then have "\<forall>x\<in>set a. k x \<noteq> k r" "\<forall>x\<in>set b. k x \<noteq> k r" by (metis image_eqI)+
  then have "filter (\<lambda>x. k x \<noteq> k r) a = a" "filter (\<lambda>x. k x \<noteq> k r) b = b"
    by (simp_all only: filter_id_conv)
  then have "delete_rows (\<lambda>x. k x = k r) t = a @ b"
    unfolding t delete_rows_def by simp
  then show ?thesis using assms(3) by (simp add: t count_rows_def)
qed

lemma count_rows_split:
  "count_rows P t = count_rows (\<lambda>r. P r \<and> Q r) t + count_rows (\<lambda>r. P r \<and> \<not> Q r) t"
  by (induction t) (auto simp: count_rows_Cons)

lemma count_rows_update:
  assumes "\<And>r. r \<in> set t \<Longrightarrow> P r \<Longrightarrow> Q (f r) = Q r"
  shows "count_rows Q (update_rows P f t) = count_rows Q t"
  using assms by (induction t) (auto simp: count_rows_Cons update_rows_def)

lemma count_rows_cong:
  "(\<And>r. r \<in> set t \<Longrightarrow> P r = Q r) \<Longrightarrow> count_rows P t = count_rows Q t"
  by (auto simp: count_rows_def cong: filter_cong)

lemma count_rows_mono:
  "(\<And>r. r \<in> set t \<Longrightarrow> P r \<Longrightarrow> Q r) \<Longrightarrow> count_rows P t \<le> count_rows Q t"
  by (induction t) (auto simp: count_rows_Cons)

lemma count_rows_key_le_1:
  assumes "distinct (map k t)"
  shows "count_rows (\<lambda>r. k r = x) t \<le> 1"
  using assms by (induction t) (auto simp: count_rows_Cons count_rows_0_iff image_iff)

lemma count_rows_update_le:
  assumes "\<And>r. r \<in> set t \<Longrightarrow> P r \<Longrightarrow> Q (f r) \<Longrightarrow> Q r"
  shows "count_rows Q (update_rows P f t) \<le> count_rows Q t"
  using assms by (induction t) (auto simp: count_rows_Cons update_rows_def)

lemma count_rows_delete_le: "count_rows Q (delete_rows P t) \<le> count_rows Q t"
  by (induction t) (auto simp: count_rows_Cons delete_rows_def)

lemma count_rows_le_1D:
  assumes "count_rows P t \<le> 1" "x \<in> set t" "y \<in> set t" "P x" "P y"
  shows "x = y"
proof -
  have "x \<in> set (filter P t)" "y \<in> set (filter P t)" using assms by simp_all
  with assms(1) show ?thesis unfolding count_rows_def by (cases "filter P t") auto
qed

lemma filter_update_rows:
  assumes "\<And>r. P r \<Longrightarrow> P (f r)"
  shows "filter (\<lambda>r. \<not> P r) (update_rows P f t) = filter (\<lambda>r. \<not> P r) t"
  using assms by (induction t) (auto simp: update_rows_def)

lemma update_rows_mem: "r \<in> set t \<Longrightarrow> (if P r then f r else r) \<in> set (update_rows P f t)"
  unfolding update_rows_def set_map by (rule imageI)

end
