(* ===== verification/Schema.thy ===== *)
theory Schema
  imports Prelude
begin

text \<open>
  The data model: the domain types of \<open>internal/domain/models.go\<close>, the tables of
  \<open>internal/repository/models.go\<close>, and the errors a repository call returns.

  The copies \<open>rowToUser\<close>, \<open>otpRow\<close>, \<open>refreshRow\<close>, \<open>signingToMaterial\<close> and
  \<open>stepUp2FAOut\<close> from a table row to the struct handed to the service keep every field the
  service reads, so one record stands for the row and for the struct. Columns that no code
  reads (\<open>updated_at\<close>, \<open>role_mounts.created_at\<close>, the legacy \<open>roles.parent_id\<close>,
  \<open>signing_keys.valid_from\<close>) are left out.

  A UUID is a natural number, \<open>uuid.Nil\<close> is 0; instants and durations are integers
  (nanoseconds).
\<close>

type_synonym uuid = nat
type_synonym instant = int
type_synonym duration = int

abbreviation (input) uuid_Nil :: uuid where "uuid_Nil \<equiv> 0"

section \<open>Domain types\<close>

datatype user_kind = UserHuman | UserService

datatype role_level = RoleDirectMember | RoleMember | RoleRoleAdmin

datatype otp_purpose =
    OTPLogin | OTPSessionRevoke | OTPPasswordChange | OTPPasswordReset | OTPStepUp2FA | OTPGeneric

datatype role_request_status = RoleRequestPending | RoleRequestApproved | RoleRequestRejected

datatype step_up_status = StepUpPending | StepUpApproved | StepUpExpired

datatype delivery_state = DeliveryPending | DeliveryActive

section \<open>Rows\<close>

record user =
  u_id :: uuid
  u_login :: string
  u_email :: "string option"
  u_kind :: user_kind
  u_password_hash :: "string option"
  u_service_secret_hash :: "string option"
  u_superuser :: bool
  u_password_changed_at :: "instant option"
  u_locked_until :: "instant option"
  u_banned_at :: "instant option"
  u_banned_by :: "uuid option"
  u_ban_reason :: string
  u_token_version :: int
  u_created_at :: instant

record role =
  r_id :: uuid
  r_name :: string
  r_description :: string
  r_created_at :: instant

record role_mount =
  m_child :: uuid
  m_parent :: uuid

record role_tag =
  rt_role :: uuid
  rt_tag :: string

record user_role =
  ur_id :: uuid
  ur_user :: uuid
  ur_role :: uuid
  ur_level :: role_level
  ur_valid_from :: instant
  ur_valid_until :: "instant option"
  ur_granted_by :: "uuid option"

record user_role_tag =
  urt_user_role :: uuid
  urt_tag :: string

record signing_key =
  k_kid :: string
  k_secret_cipher :: bytes
  k_nonce :: bytes
  k_deprecated_at :: "instant option"
  k_is_current :: bool

record refresh_session =
  s_id :: uuid
  s_user :: uuid
  s_device :: string
  s_label :: "string option"
  s_hash :: bytes
  s_created_at :: instant
  s_expires_at :: instant
  s_used_at :: "instant option"
  s_revoked_at :: "instant option"

record password_history =
  ph_id :: uuid
  ph_user :: uuid
  ph_hash :: string
  ph_ciphertext :: bytes
  ph_nonce :: bytes
  ph_created_at :: instant

record email_otp =
  o_id :: uuid
  o_user :: uuid
  o_purpose :: otp_purpose
  o_code_hash :: bytes
  o_expires_at :: instant
  o_consumed_at :: "instant option"
  o_delivery_state :: delivery_state
  o_attempts :: int
  o_correlation :: "string option"
  o_created_at :: instant

record failed_login =
  f_login :: string
  f_ip :: "string option"
  f_created_at :: instant

record step_up_session =
  su_id :: uuid
  su_correlation :: string
  su_user :: uuid
  su_status :: step_up_status
  su_expires_at :: instant
  su_resolved_at :: "instant option"

record role_request =
  q_id :: uuid
  q_requester :: uuid
  q_target :: uuid
  q_role :: uuid
  q_status :: role_request_status
  q_decided_by :: "uuid option"
  q_decided_at :: "instant option"

record registration_invite =
  i_id :: uuid
  i_token_hash :: bytes
  i_email :: "string option"
  i_superuser :: bool
  i_expires_at :: instant
  i_used_at :: "instant option"
  i_created_by :: uuid

record magic_link =
  l_id :: uuid
  l_token_hash :: bytes
  l_user :: uuid
  l_expires_at :: instant
  l_used_at :: "instant option"

text \<open>A row of \<open>user_identity_keys\<close>, the table \<open>migrateUserIdentityKeys\<close> creates.\<close>

record identity_key =
  ik_identity :: string
  ik_user :: uuid

section \<open>The database\<close>

record db =
  users :: "user list"
  identity_keys :: "identity_key list"
  roles :: "role list"
  role_mounts :: "role_mount list"
  role_tags :: "role_tag list"
  user_roles :: "user_role list"
  user_role_tags :: "user_role_tag list"
  signing_keys :: "signing_key list"
  refresh_sessions :: "refresh_session list"
  password_histories :: "password_history list"
  email_otps :: "email_otp list"
  failed_logins :: "failed_login list"
  step_ups :: "step_up_session list"
  role_requests :: "role_request list"
  invites :: "registration_invite list"
  magic_links :: "magic_link list"

definition empty_db :: db where
  "empty_db = \<lparr>users = [], identity_keys = [], roles = [], role_mounts = [], role_tags = [],
    user_roles = [], user_role_tags = [], signing_keys = [], refresh_sessions = [],
    password_histories = [], email_otps = [], failed_logins = [], step_ups = [],
    role_requests = [], invites = [], magic_links = []\<rparr>"

section \<open>Repository results\<close>

text \<open>
  The errors. \<open>svc_error\<close> has the sentinels of \<open>internal/service/errors.go\<close>:
  \<open>ErrPasswordPolicy\<close> and \<open>ErrInvalidArgument\<close> carry the detail the code wraps around
  them, \<open>ErrOther\<close> is an error the service builds with \<open>fmt.Errorf\<close> or receives from a
  library, \<open>RepoError\<close> an error of the store the service passes on.

  \<open>repo_error\<close> has the sentinels the repository package declares, the violations the database
  reports, the failure of the connection itself, the error of the service's callback in
  \<open>CompletePasswordResetOTP\<close>, and the errors the code builds with \<open>errors.New\<close>, by their
  message.
\<close>

datatype svc_error =
    ErrInvalidCredentials
  | ErrLocked
  | ErrBanned
  | ErrStaleSigningKey
  | ErrWrongTokenType
  | ErrOTPInvalid
  | ErrPasswordPolicy string
  | ErrForbidden
  | ErrNotFound
  | ErrInvalidInvite
  | ErrCannotBanSelf
  | ErrCannotBanSuperuser
  | ErrTagNotConfigured
  | ErrInvalidArgument string
  | ErrRequestNotPending
  | ErrOther string
  | RepoError repo_error
and repo_error =
    ErrRecordNotFound
  | ErrUserInactive
  | ErrTokenVersionMismatch
  | ErrRefreshInvalid
  | ErrInvalidMaxSessions
  | ErrRoleRequestNotPending
  | UniqueViolation
  | ForeignKeyViolation
  | CheckViolation
  | NumericOutOfRange
  | DatabaseFailure
  | PreparerError svc_error
  | RepoMessage string

text \<open>
  A repository call is one transaction on the database: it either fails, and the transaction
  is rolled back, or returns a value with the database it commits.
\<close>

type_synonym 'a repo = "db \<Rightarrow> repo_error + ('a \<times> db)"

definition reads :: "(db \<Rightarrow> 'a) \<Rightarrow> 'a repo" where
  "reads f d = Inr (f d, d)"

definition writes :: "(db \<Rightarrow> db) \<Rightarrow> unit repo" where
  "writes f d = Inr ((), f d)"

text \<open>An invariant of the database that a call keeps whenever it commits.\<close>

definition keeps :: "(db \<Rightarrow> bool) \<Rightarrow> 'a repo \<Rightarrow> bool" where
  "keeps I f \<longleftrightarrow> (\<forall>d x d'. I d \<longrightarrow> f d = Inr (x, d') \<longrightarrow> I d')"

lemma keepsI: "(\<And>d x d'. I d \<Longrightarrow> f d = Inr (x, d') \<Longrightarrow> I d') \<Longrightarrow> keeps I f"
  by (auto simp: keeps_def)

lemma keepsD: "keeps I f \<Longrightarrow> f d = Inr (x, d') \<Longrightarrow> I d \<Longrightarrow> I d'"
  by (auto simp: keeps_def)

lemma keeps_reads [preserves_intros]: "keeps I (reads f)"
  by (auto simp: keeps_def reads_def)

lemma keeps_writes: "(\<And>d. I d \<Longrightarrow> I (f d)) \<Longrightarrow> keeps I (writes f)"
  by (auto simp: keeps_def writes_def)

lemma keeps_writes_frame [preserves_intros]:
  "(\<And>d. I (f d) = I d) \<Longrightarrow> keeps I (writes f)"
  by (auto simp: keeps_def writes_def)

lemma keeps_conj [preserves_intros]:
  "keeps I f \<Longrightarrow> keeps J f \<Longrightarrow> keeps (\<lambda>d. I d \<and> J d) f"
  by (auto simp: keeps_def)

text \<open>Whether a call commits with a given answer; executable, unlike the existential it decides.\<close>

definition returns :: "repo_error + ('a \<times> db) \<Rightarrow> 'a \<Rightarrow> bool" where
  "returns r x \<longleftrightarrow> (case r of Inl _ \<Rightarrow> False | Inr (y, _) \<Rightarrow> y = x)"

lemma returns_iff: "returns r x \<longleftrightarrow> (\<exists>d'. r = Inr (x, d'))"
  by (auto simp: returns_def split: sum.splits)

end
