(* ===== verification/Users.thy ===== *)
theory Users
  imports Schema
begin

text \<open>
  The account store: \<open>internal/repository/users.go\<close>, with the triggers and unique indexes that
  \<open>internal/repository/schema_migrate.go\<close> installs on the \<open>users\<close> table.
  Main result: the identity-key table keeps the human login-or-email namespace unambiguous,
  so \<open>GetHumanUserByLoginOrEmail\<close> never meets two rows.
\<close>

section \<open>Triggers and constraints of the users table\<close>

definition canonicalize_user_identity :: "user \<Rightarrow> repo_error + user" where
  "canonicalize_user_identity u =
     (let u1 = u\<lparr>u_login := ToLower (BTRIM (u_login u)),
                u_email := map_option (\<lambda>e. ToLower (BTRIM e)) (u_email u)\<rparr>
      in if u_login u1 = [] then Inl CheckViolation
         else if u_kind u1 = UserHuman \<and> (u_email u1 = None \<or> u_email u1 = Some [])
         then Inl CheckViolation
         else Inr u1)"

definition insert_identity_key :: "string \<Rightarrow> uuid \<Rightarrow> identity_key list \<Rightarrow> repo_error + identity_key list" where
  "insert_identity_key s i ks =
     (if exists_row (\<lambda>k. ik_identity k = s) ks then Inl UniqueViolation
      else Inr (ks @ [\<lparr>ik_identity = s, ik_user = i\<rparr>]))"

definition sync_human_identity_keys :: "user \<Rightarrow> identity_key list \<Rightarrow> repo_error + identity_key list" where
  "sync_human_identity_keys u ks =
     (let ks1 = delete_rows (\<lambda>k. ik_user k = u_id u) ks
      in if u_kind u = UserHuman then
           (case insert_identity_key (u_login u) (u_id u) ks1 of
              Inl e \<Rightarrow> Inl e
            | Inr ks2 \<Rightarrow>
                (case u_email u of
                   None \<Rightarrow> Inr ks2
                 | Some e \<Rightarrow> if e \<noteq> u_login u then insert_identity_key e (u_id u) ks2 else Inr ks2))
         else Inr ks1)"

text \<open>
  The unique indexes on \<open>users\<close>: the primary key, \<open>users_login_ci_unique\<close> and
  \<open>users_email_ci_unique\<close> (which subsume the plain unique indexes of the model); the checks
  \<open>users_human_email\<close> and \<open>users_service_secret\<close>.
\<close>

definition user_conflicts :: "user \<Rightarrow> user \<Rightarrow> bool" where
  "user_conflicts u v \<longleftrightarrow>
     u_id v = u_id u
     \<or> ToLower (BTRIM (u_login v)) = ToLower (BTRIM (u_login u))
     \<or> (case u_email u of None \<Rightarrow> False
        | Some e \<Rightarrow> map_option (\<lambda>e. ToLower (BTRIM e)) (u_email v) = Some (ToLower (BTRIM e)))"

definition insert_user :: "user \<Rightarrow> db \<Rightarrow> repo_error + db" where
  "insert_user u0 d =
     (case canonicalize_user_identity u0 of
        Inl e \<Rightarrow> Inl e
      | Inr u \<Rightarrow>
          if u_kind u = UserService \<and> u_service_secret_hash u = None then Inl CheckViolation
          else if exists_row (user_conflicts u) (users d) then Inl UniqueViolation
          else (case sync_human_identity_keys u (identity_keys d) of
                  Inl e \<Rightarrow> Inl e
                | Inr ks \<Rightarrow> Inr (d\<lparr>users := users d @ [u], identity_keys := ks\<rparr>)))"

section \<open>Accounts\<close>

definition new_user :: "uuid \<Rightarrow> instant \<Rightarrow> string \<Rightarrow> user_kind \<Rightarrow> user" where
  "new_user i now lg kd =
     \<lparr>u_id = i, u_login = lg, u_email = None, u_kind = kd, u_password_hash = None,
      u_service_secret_hash = None, u_superuser = False, u_password_changed_at = None,
      u_locked_until = None, u_banned_at = None, u_banned_by = None, u_ban_reason = [],
      u_token_version = 0, u_created_at = now\<rparr>"

definition CreateHumanUser :: "uuid \<Rightarrow> instant \<Rightarrow> string \<Rightarrow> string \<Rightarrow> string \<Rightarrow> uuid repo" where
  "CreateHumanUser i now lg em passwordHash d =
     (let u = (new_user i now (ToLower (TrimSpace lg)) UserHuman)
              \<lparr>u_email := Some (ToLower (TrimSpace em)), u_password_hash := Some passwordHash,
               u_password_changed_at := Some now\<rparr>
      in case insert_user u d of Inl e \<Rightarrow> Inl e | Inr d' \<Rightarrow> Inr (i, d'))"

definition CreatePasswordlessHuman :: "uuid \<Rightarrow> instant \<Rightarrow> string \<Rightarrow> string \<Rightarrow> uuid repo" where
  "CreatePasswordlessHuman i now lg em d =
     (let u = (new_user i now (ToLower (TrimSpace lg)) UserHuman)
              \<lparr>u_email := Some (ToLower (TrimSpace em))\<rparr>
      in case insert_user u d of Inl e \<Rightarrow> Inl e | Inr d' \<Rightarrow> Inr (i, d'))"

definition CreateServiceUser :: "uuid \<Rightarrow> instant \<Rightarrow> string \<Rightarrow> string \<Rightarrow> bool \<Rightarrow> uuid repo" where
  "CreateServiceUser i now lg secretHash su d =
     (let u = (new_user i now lg UserService)
              \<lparr>u_service_secret_hash := Some secretHash, u_superuser := su\<rparr>
      in case insert_user u d of Inl e \<Rightarrow> Inl e | Inr d' \<Rightarrow> Inr (i, d'))"

definition human_identity_matches :: "string \<Rightarrow> user \<Rightarrow> bool" where
  "human_identity_matches s u \<longleftrightarrow>
     u_kind u = UserHuman
     \<and> (ToLower (BTRIM (u_login u)) = s
        \<or> ToLower (BTRIM (case u_email u of None \<Rightarrow> [] | Some e \<Rightarrow> e)) = s)"

definition GetHumanUserByLoginOrEmail :: "string \<Rightarrow> user option repo" where
  "GetHumanUserByLoginOrEmail identity d =
     (let s = ToLower (TrimSpace identity);
          rows = take 2 (filter (human_identity_matches s) (users d))
      in case rows of
           [] \<Rightarrow> Inr (None, d)
         | [u] \<Rightarrow> Inr (Some u, d)
         | _ \<Rightarrow> Inl (RepoMessage ''ambiguous normalized human identity''))"

definition GetUserByLogin :: "string \<Rightarrow> user option repo" where
  "GetUserByLogin lg = reads (\<lambda>d. find_row (\<lambda>u. ToLower (u_login u) = ToLower lg) (users d))"

definition GetUserByID :: "uuid \<Rightarrow> user option repo" where
  "GetUserByID i = reads (\<lambda>d. find_row (\<lambda>u. u_id u = i) (users d))"

definition SetLockedUntil :: "uuid \<Rightarrow> instant option \<Rightarrow> unit repo" where
  "SetLockedUntil i t =
     writes (\<lambda>d. d\<lparr>users := update_rows (\<lambda>u. u_id u = i) (\<lambda>u. u\<lparr>u_locked_until := t\<rparr>) (users d)\<rparr>)"

definition UpdatePassword :: "instant \<Rightarrow> uuid \<Rightarrow> string \<Rightarrow> unit repo" where
  "UpdatePassword now i hash =
     writes (\<lambda>d. d\<lparr>users := update_rows (\<lambda>u. u_id u = i)
       (\<lambda>u. u\<lparr>u_password_hash := Some hash, u_password_changed_at := Some now\<rparr>) (users d)\<rparr>)"

definition CountHumanUsers :: "nat repo" where
  "CountHumanUsers = reads (\<lambda>d. count_rows (\<lambda>u. u_kind u = UserHuman) (users d))"

definition SetSuperuser :: "uuid \<Rightarrow> bool \<Rightarrow> unit repo" where
  "SetSuperuser i v =
     writes (\<lambda>d. d\<lparr>users := update_rows (\<lambda>u. u_id u = i) (\<lambda>u. u\<lparr>u_superuser := v\<rparr>) (users d)\<rparr>)"

section \<open>Password history\<close>

text \<open>GORM's \<open>Limit\<close>: a negative limit is no limit. PostgreSQL rejects a negative \<open>OFFSET\<close>.\<close>

definition limit_rows :: "int \<Rightarrow> 'r list \<Rightarrow> 'r list" where
  "limit_rows n t = (if n < 0 then t else take (nat n) t)"

definition ListPasswordHistory :: "uuid \<Rightarrow> int \<Rightarrow> password_history list repo" where
  "ListPasswordHistory i limit =
     reads (\<lambda>d. limit_rows limit (order_desc ph_created_at
                  (filter (\<lambda>h. ph_user h = i) (password_histories d))))"

definition insert_history :: "password_history \<Rightarrow> db \<Rightarrow> repo_error + db" where
  "insert_history h d =
     (if exists_row (\<lambda>x. ph_id x = ph_id h) (password_histories d) then Inl UniqueViolation
      else Inr (d\<lparr>password_histories := password_histories d @ [h]\<rparr>))"

definition InsertPasswordHistory :: "uuid \<Rightarrow> instant \<Rightarrow> uuid \<Rightarrow> string \<Rightarrow> bytes \<Rightarrow> bytes \<Rightarrow> unit repo" where
  "InsertPasswordHistory hid now i hash ciphertext nonce d =
     (case insert_history \<lparr>ph_id = hid, ph_user = i, ph_hash = hash, ph_ciphertext = ciphertext,
                           ph_nonce = nonce, ph_created_at = now\<rparr> d of
        Inl e \<Rightarrow> Inl e | Inr d' \<Rightarrow> Inr ((), d'))"

text \<open>\<open>DELETE ... WHERE id IN (SELECT id ... ORDER BY key DESC OFFSET keep)\<close>.\<close>

definition trim_history :: "(password_history \<Rightarrow> 'k::linorder) \<Rightarrow> uuid \<Rightarrow> nat \<Rightarrow> db \<Rightarrow> db" where
  "trim_history key i keep d =
     (let doomed = map ph_id (drop keep (order_desc key (filter (\<lambda>h. ph_user h = i) (password_histories d))))
      in d\<lparr>password_histories := delete_rows (\<lambda>h. ph_id h \<in> set doomed) (password_histories d)\<rparr>)"

definition TrimPasswordHistory :: "uuid \<Rightarrow> int \<Rightarrow> unit repo" where
  "TrimPasswordHistory i keep d =
     (if keep < 0 then Inl (RepoMessage ''OFFSET must not be negative'')
      else Inr ((), trim_history ph_created_at i (nat keep) d))"

section \<open>Bans\<close>

text \<open>The largest value of a PostgreSQL \<open>bigint\<close> (and of Go's \<open>int64\<close>).\<close>

definition maxInt64 :: int where "maxInt64 = 9223372036854775807"

definition revoke_user_sessions :: "uuid \<Rightarrow> instant \<Rightarrow> db \<Rightarrow> db" where
  "revoke_user_sessions i now d =
     d\<lparr>refresh_sessions := update_rows (\<lambda>s. s_user s = i \<and> s_revoked_at s = None)
        (\<lambda>s. s\<lparr>s_revoked_at := Some now\<rparr>) (refresh_sessions d)\<rparr>"

definition SetUserBan :: "instant \<Rightarrow> uuid \<Rightarrow> uuid option \<Rightarrow> string \<Rightarrow> unit repo" where
  "SetUserBan now i bannedBy reason d =
     (case find_row (\<lambda>u. u_id u = i) (users d) of
        None \<Rightarrow> Inl ErrRecordNotFound
      | Some u \<Rightarrow>
          (case bannedBy of
             None \<Rightarrow>
               Inr ((), d\<lparr>users := update_rows (\<lambda>u. u_id u = i)
                 (\<lambda>u. u\<lparr>u_banned_at := None, u_banned_by := None, u_ban_reason := []\<rparr>) (users d)\<rparr>)
           | Some b \<Rightarrow>
               if u_token_version u \<ge> maxInt64 then Inl NumericOutOfRange
               else Inr ((), revoke_user_sessions i now
                 (d\<lparr>users := update_rows (\<lambda>u. u_id u = i)
                   (\<lambda>u. u\<lparr>u_banned_at := Some now, u_banned_by := Some b,
                         u_ban_reason := TrimSpace reason,
                         u_token_version := u_token_version u + 1\<rparr>) (users d)\<rparr>))))"

section \<open>The identity invariant\<close>

text \<open>
  What identifies an account. No operation but insertion writes these columns, so every other
  operation leaves \<open>map ident (users d)\<close> alone.
\<close>

definition ident :: "user \<Rightarrow> uuid \<times> string \<times> string option \<times> user_kind" where
  "ident u = (u_id u, u_login u, u_email u, u_kind u)"

lemma ident_eq_iff:
  "ident u = ident v \<longleftrightarrow>
     u_id u = u_id v \<and> u_login u = u_login v \<and> u_email u = u_email v \<and> u_kind u = u_kind v"
  by (auto simp: ident_def)

text \<open>
  Accounts have distinct ids; a human account has a canonical, nonblank login and email, both
  entered in the key table under the account's id; the key table has one row per identity, and
  every key belongs to an account.
\<close>

definition canonical :: "string \<Rightarrow> bool" where
  "canonical s \<longleftrightarrow> s \<noteq> [] \<and> ToLower (BTRIM s) = s"

definition ident_keyed :: "identity_key list \<Rightarrow> uuid \<times> string \<times> string option \<times> user_kind \<Rightarrow> bool" where
  "ident_keyed ks = (\<lambda>(i, lg, em, kd). kd = UserHuman \<longrightarrow>
     canonical lg \<and> \<lparr>ik_identity = lg, ik_user = i\<rparr> \<in> set ks
     \<and> (case em of None \<Rightarrow> False | Some e \<Rightarrow> canonical e \<and> \<lparr>ik_identity = e, ik_user = i\<rparr> \<in> set ks))"

definition identity_ok_on ::
  "(uuid \<times> string \<times> string option \<times> user_kind) list \<Rightarrow> identity_key list \<Rightarrow> bool" where
  "identity_ok_on us ks \<longleftrightarrow>
     distinct (map fst us) \<and> distinct (map ik_identity ks)
     \<and> (\<forall>k\<in>set ks. ik_user k \<in> fst ` set us) \<and> (\<forall>u\<in>set us. ident_keyed ks u)"

definition identity_ok :: "db \<Rightarrow> bool" where
  "identity_ok d \<longleftrightarrow> identity_ok_on (map ident (users d)) (identity_keys d)"

lemma identity_ok_frame:
  assumes "map ident (users d') = map ident (users d)" "identity_keys d' = identity_keys d"
  shows "identity_ok d' = identity_ok d"
  using assms by (simp add: identity_ok_def)

lemma insert_identity_key_cases:
  assumes "insert_identity_key s i ks = Inr ks'"
  shows "ks' = ks @ [\<lparr>ik_identity = s, ik_user = i\<rparr>] \<and> s \<notin> ik_identity ` set ks"
  using assms by (auto simp: insert_identity_key_def table_simps split: if_splits)

lemma canonicalize_cases:
  assumes "canonicalize_user_identity u0 = Inr u"
  shows "u_id u = u_id u0" "u_kind u = u_kind u0"
    "u_kind u = UserHuman \<Longrightarrow> canonical (u_login u)"
    "u_kind u = UserHuman \<Longrightarrow> \<exists>e. u_email u = Some e \<and> canonical e"
  using assms
  by (auto simp: canonicalize_user_identity_def canonical_def Let_def BTRIM_ToLower split: if_splits)

lemma ident_keyed_append: "ident_keyed ks w \<Longrightarrow> ident_keyed (ks @ new) w"
  by (auto simp: ident_keyed_def split: prod.splits option.splits)

lemma identity_ok_on_grow:
  assumes ok: "identity_ok_on us ks" and fresh: "fst w \<notin> fst ` set us"
    and d: "distinct (map ik_identity (ks @ new))" and own: "\<forall>k\<in>set new. ik_user k = fst w"
    and w: "ident_keyed (ks @ new) w"
  shows "identity_ok_on (us @ [w]) (ks @ new)"
proof -
  have "distinct (map fst (us @ [w]))" using ok fresh by (auto simp: identity_ok_on_def)
  moreover have "\<forall>k\<in>set (ks @ new). ik_user k \<in> fst ` set (us @ [w])"
    using ok own by (auto simp: identity_ok_on_def)
  moreover have "\<forall>x\<in>set (us @ [w]). ident_keyed (ks @ new) x"
    using ok w by (auto simp: identity_ok_on_def intro: ident_keyed_append)
  ultimately show ?thesis using d by (simp add: identity_ok_on_def)
qed

lemma sync_keys_ok:
  assumes sync: "sync_human_identity_keys u ks = Inr ks'"
    and ok: "identity_ok_on us ks" and fresh: "u_id u \<notin> fst ` set us"
    and canon: "u_kind u = UserHuman \<Longrightarrow> canonical (u_login u)"
      "u_kind u = UserHuman \<Longrightarrow> \<exists>e. u_email u = Some e \<and> canonical e"
  shows "identity_ok_on (us @ [ident u]) ks'"
proof -
  from ok fresh have "\<forall>k\<in>set ks. ik_user k \<noteq> u_id u"
    unfolding identity_ok_on_def by metis
  then have none: "delete_rows (\<lambda>k. ik_user k = u_id u) ks = ks"
    by (auto simp: delete_rows_def filter_id_conv)
  have fst_ident: "fst (ident u) = u_id u" by (simp add: ident_def)
  note grow = identity_ok_on_grow [OF ok, of "ident u", unfolded fst_ident, OF fresh]
  show ?thesis
  proof (cases "u_kind u")
    case UserService
    with sync none have "ks' = ks @ []" by (simp add: sync_human_identity_keys_def)
    then show ?thesis
      using grow [of "[]"] ok UserService by (simp add: ident_keyed_def ident_def identity_ok_on_def)
  next
    case UserHuman
    then obtain e where e: "u_email u = Some e" "canonical e" using canon(2) by blast
    define kl where "kl = \<lparr>ik_identity = u_login u, ik_user = u_id u\<rparr>"
    define ke where "ke = \<lparr>ik_identity = e, ik_user = u_id u\<rparr>"
    have "ks' = ks @ (if e \<noteq> u_login u then [kl, ke] else [kl])"
      and "distinct (map ik_identity ks')"
      using sync none UserHuman e ok
      by (auto simp: sync_human_identity_keys_def kl_def ke_def identity_ok_on_def
          split: sum.splits if_splits dest!: insert_identity_key_cases)
    with grow [of "if e \<noteq> u_login u then [kl, ke] else [kl]"] show ?thesis
      using UserHuman e canon(1) by (auto simp: ident_keyed_def ident_def kl_def ke_def)
  qed
qed

lemma insert_user_ok:
  assumes ins: "insert_user u0 d = Inr d'" and ok: "identity_ok d"
  shows "identity_ok d'"
proof -
  from ins obtain u ks where u: "canonicalize_user_identity u0 = Inr u"
    and free: "\<not> exists_row (user_conflicts u) (users d)"
    and ks: "sync_human_identity_keys u (identity_keys d) = Inr ks"
    and d': "d' = d\<lparr>users := users d @ [u], identity_keys := ks\<rparr>"
    by (auto simp: insert_user_def split: sum.splits if_splits)
  from free have "u_id u \<notin> fst ` set (map ident (users d))"
    by (auto simp: table_simps user_conflicts_def ident_def)
  with sync_keys_ok [OF ks, of "map ident (users d)"] canonicalize_cases [OF u] ok
  show ?thesis by (simp add: identity_ok_def d')
qed

lemmas create_defs = CreateHumanUser_def CreatePasswordlessHuman_def CreateServiceUser_def

lemma create_keeps_identity [preserves_intros]:
  "keeps identity_ok (CreateHumanUser i now lg em h)"
  "keeps identity_ok (CreatePasswordlessHuman i now lg em)"
  "keeps identity_ok (CreateServiceUser i now lg h su)"
  by (auto simp: keeps_def create_defs Let_def split: sum.splits intro: insert_user_ok)

lemma identity_update_rows:
  assumes "\<And>u. ident (f u) = ident u"
  shows "identity_ok (d\<lparr>users := update_rows P f (users d)\<rparr>) = identity_ok d"
  by (rule identity_ok_frame) (simp_all add: map_update_rows assms)

lemma user_updates_keep_identity [preserves_intros]:
  "keeps identity_ok (SetLockedUntil i t)"
  "keeps identity_ok (UpdatePassword now i h)"
  "keeps identity_ok (SetSuperuser i v)"
  unfolding SetLockedUntil_def UpdatePassword_def SetSuperuser_def
  by (auto intro!: keeps_writes_frame identity_update_rows simp: ident_def)

lemma SetUserBan_keeps_identity [preserves_intros]: "keeps identity_ok (SetUserBan now i b r)"
  by (auto simp: keeps_def SetUserBan_def revoke_user_sessions_def ident_def identity_ok_def
      map_update_rows split: option.splits if_splits)

text \<open>Two human accounts never answer to the same identity.\<close>

lemma human_identity_unique:
  assumes ok: "identity_ok d" and uv: "u \<in> set (users d)" "v \<in> set (users d)"
    and m: "human_identity_matches s u" "human_identity_matches s v"
  shows "u_id u = u_id v"
proof -
  have key: "\<lparr>ik_identity = s, ik_user = u_id w\<rparr> \<in> set (identity_keys d)"
    if "w \<in> set (users d)" "human_identity_matches s w" for w
  proof -
    from ok that(1) have "ident_keyed (identity_keys d) (ident w)"
      by (simp add: identity_ok_def identity_ok_on_def)
    with that(2) show ?thesis
      by (auto simp: ident_keyed_def ident_def human_identity_matches_def canonical_def
          split: option.splits)
  qed
  from ok have "inj_on ik_identity (set (identity_keys d))"
    by (simp add: identity_ok_def identity_ok_on_def distinct_map)
  then have "\<lparr>ik_identity = s, ik_user = u_id u\<rparr> = \<lparr>ik_identity = s, ik_user = u_id v\<rparr>"
    by (rule inj_onD) (use key uv m in auto)
  then show ?thesis by simp
qed

lemma distinct_same_key_short:
  assumes "distinct (map k t)" "\<And>x y. x \<in> set t \<Longrightarrow> y \<in> set t \<Longrightarrow> k x = k y"
  shows "length t \<le> 1"
proof (rule ccontr)
  assume "\<not> length t \<le> 1"
  then obtain x y r where t: "t = x # y # r"
    by (cases t; cases "tl t") auto
  then have "k x = k y" by (intro assms(2)) simp_all
  with assms(1) show False by (simp add: t)
qed

lemma GetHumanUser_unambiguous:
  assumes ok: "identity_ok d"
  obtains r where "GetHumanUserByLoginOrEmail s d = Inr (r, d)"
    "\<And>u. r = Some u \<Longrightarrow> u \<in> set (users d) \<and> human_identity_matches (ToLower (TrimSpace s)) u"
    "r = None \<Longrightarrow> \<forall>u\<in>set (users d). \<not> human_identity_matches (ToLower (TrimSpace s)) u"
proof -
  let ?t = "filter (human_identity_matches (ToLower (TrimSpace s))) (users d)"
  from ok have "distinct (map u_id (users d))"
    by (simp add: identity_ok_def identity_ok_on_def ident_def comp_def)
  then have "distinct (map u_id ?t)" by (rule distinct_map_filter)
  moreover have "\<And>u v. u \<in> set ?t \<Longrightarrow> v \<in> set ?t \<Longrightarrow> u_id u = u_id v"
    using human_identity_unique [OF ok] by auto
  ultimately have "length ?t \<le> 1" by (rule distinct_same_key_short)
  then have "?t = [] \<or> (\<exists>u. ?t = [u])" by (cases ?t) auto
  then show thesis
  proof
    assume "?t = []"
    then show thesis
      by (intro that [of None]) (auto simp: GetHumanUserByLoginOrEmail_def filter_empty_conv)
  next
    assume "\<exists>u. ?t = [u]"
    then obtain u where u: "?t = [u]" ..
    then have "u \<in> set (users d) \<and> human_identity_matches (ToLower (TrimSpace s)) u"
      by (metis (mono_tags, lifting) filter_eq_Cons_iff in_set_conv_decomp)
    with u show thesis by (intro that [of "Some u"]) (auto simp: GetHumanUserByLoginOrEmail_def)
  qed
qed

end
