(* ===== verification/Sessions.thy ===== *)
theory Sessions
  imports Users
begin

text \<open>
  Refresh sessions: \<open>internal/repository/sessions.go\<close>. One row per user and device; issuing a
  session evicts the user's oldest active sessions beyond the configured maximum, rotation
  replaces the token hash of exactly one live row, and both refuse a banned user or a stale
  token version under the user's row lock.
\<close>

section \<open>Operations\<close>

definition session_active :: "instant \<Rightarrow> refresh_session \<Rightarrow> bool" where
  "session_active now s \<longleftrightarrow> s_revoked_at s = None \<and> now < s_expires_at s"

definition active_of :: "uuid \<Rightarrow> instant \<Rightarrow> refresh_session \<Rightarrow> bool" where
  "active_of i now s \<longleftrightarrow> s_user s = i \<and> session_active now s"

text \<open>The eviction loop: drop the oldest active session of another device until the projected
  number fits.\<close>

definition eviction_victim :: "uuid \<Rightarrow> string \<Rightarrow> instant \<Rightarrow> refresh_session list \<Rightarrow> refresh_session option" where
  "eviction_victim i dev now ss =
     oldest (\<lambda>s. (s_created_at s, s_id s)) (filter (\<lambda>s. active_of i now s \<and> s_device s \<noteq> dev) ss)"

function evict :: "uuid \<Rightarrow> string \<Rightarrow> instant \<Rightarrow> int \<Rightarrow> int \<Rightarrow> refresh_session list \<Rightarrow> repo_error + refresh_session list" where
  "evict i dev now maxSessions projected ss =
     (if projected > maxSessions then
        (case eviction_victim i dev now ss of
           None \<Rightarrow> Inl (RepoMessage ''active refresh session count changed unexpectedly'')
         | Some v \<Rightarrow> evict i dev now maxSessions (projected - 1) (delete_rows (\<lambda>s. s_id s = s_id v) ss))
      else Inr ss)"
  by pat_completeness auto
termination
  by (relation "measure (\<lambda>(i, dev, now, maxSessions, projected, ss). nat (projected - maxSessions))") auto

declare evict.simps [simp del]

text \<open>\<open>INSERT ... ON CONFLICT (user_id, device_id) DO UPDATE ... RETURNING id\<close>.\<close>

definition upsert_session ::
  "uuid \<Rightarrow> instant \<Rightarrow> uuid \<Rightarrow> string \<Rightarrow> string \<Rightarrow> bytes \<Rightarrow> instant \<Rightarrow> refresh_session list
   \<Rightarrow> repo_error + (uuid \<times> refresh_session list)" where
  "upsert_session newID now i dev label hash expires ss =
     (let lbl = (if label = [] then None else Some label)
      in case find_row (\<lambda>s. s_user s = i \<and> s_device s = dev) ss of
           Some old \<Rightarrow>
             Inr (s_id old, update_rows (\<lambda>s. s_user s = i \<and> s_device s = dev)
               (\<lambda>s. s\<lparr>s_hash := hash, s_expires_at := expires, s_used_at := None, s_revoked_at := None,
                     s_label := (case lbl of None \<Rightarrow> s_label s | Some l \<Rightarrow> Some l),
                     s_created_at := now\<rparr>) ss)
         | None \<Rightarrow>
             if exists_row (\<lambda>s. s_id s = newID) ss then Inl UniqueViolation
             else Inr (newID, ss @ [\<lparr>s_id = newID, s_user = i, s_device = dev, s_label = lbl,
                    s_hash = hash, s_created_at = now, s_expires_at = expires,
                    s_used_at = None, s_revoked_at = None\<rparr>]))"

definition UpsertRefreshSessionForActiveVersion ::
  "uuid \<Rightarrow> instant \<Rightarrow> uuid \<Rightarrow> int \<Rightarrow> string \<Rightarrow> string \<Rightarrow> bytes \<Rightarrow> instant \<Rightarrow> int \<Rightarrow> (user \<times> uuid) repo" where
  "UpsertRefreshSessionForActiveVersion newID now i expectedTokenVersion dev label hash expires maxSessions d =
     (if maxSessions \<le> 0 then Inl ErrInvalidMaxSessions
      else case find_row (\<lambda>u. u_id u = i) (users d) of
        None \<Rightarrow> Inl ErrRecordNotFound
      | Some u \<Rightarrow>
          if u_banned_at u \<noteq> None then Inl ErrUserInactive
          else if u_token_version u \<noteq> expectedTokenVersion then Inl ErrTokenVersionMismatch
          else
            let existing = find_row (\<lambda>s. s_user s = i \<and> s_device s = dev) (refresh_sessions d);
                active = int (count_rows (active_of i now) (refresh_sessions d));
                existingIsActive = (case existing of None \<Rightarrow> False | Some s \<Rightarrow> session_active now s);
                projected = (if existingIsActive then active else active + 1)
            in case evict i dev now maxSessions projected (refresh_sessions d) of
                 Inl e \<Rightarrow> Inl e
               | Inr ss \<Rightarrow>
                   (case upsert_session newID now i dev label hash expires ss of
                      Inl e \<Rightarrow> Inl e
                    | Inr (sid, ss') \<Rightarrow> Inr ((u, sid), d\<lparr>refresh_sessions := ss'\<rparr>)))"

definition rotatable :: "instant \<Rightarrow> uuid \<Rightarrow> uuid \<Rightarrow> bytes \<Rightarrow> refresh_session \<Rightarrow> bool" where
  "rotatable now i sid oldHash s \<longleftrightarrow>
     s_id s = sid \<and> s_user s = i \<and> s_hash s = oldHash \<and> s_used_at s = None
     \<and> s_revoked_at s = None \<and> now < s_expires_at s"

definition RotateRefreshSessionForActiveVersion ::
  "instant \<Rightarrow> uuid \<Rightarrow> uuid \<Rightarrow> int \<Rightarrow> bytes \<Rightarrow> bytes \<Rightarrow> instant \<Rightarrow> user repo" where
  "RotateRefreshSessionForActiveVersion now i sid expectedTokenVersion oldHash newHash expires d =
     (case find_row (\<lambda>u. u_id u = i) (users d) of
        None \<Rightarrow> Inl ErrRecordNotFound
      | Some u \<Rightarrow>
          if u_banned_at u \<noteq> None then Inl ErrUserInactive
          else if u_token_version u \<noteq> expectedTokenVersion then Inl ErrTokenVersionMismatch
          else case find_row (rotatable now i sid oldHash) (refresh_sessions d) of
                 None \<Rightarrow> Inl ErrRefreshInvalid
               | Some s \<Rightarrow>
                   let P = (\<lambda>s. s_id s = sid \<and> s_user s = i \<and> s_hash s = oldHash
                                \<and> s_used_at s = None \<and> s_revoked_at s = None)
                   in if count_rows P (refresh_sessions d) \<noteq> 1 then Inl ErrRefreshInvalid
                      else Inr (u, d\<lparr>refresh_sessions := update_rows P
                             (\<lambda>s. s\<lparr>s_hash := newHash, s_expires_at := expires\<rparr>) (refresh_sessions d)\<rparr>))"

definition CountActiveRefreshSessions :: "instant \<Rightarrow> uuid \<Rightarrow> nat repo" where
  "CountActiveRefreshSessions now i = reads (\<lambda>d. count_rows (active_of i now) (refresh_sessions d))"

definition GetRefreshByUserDevice :: "uuid \<Rightarrow> string \<Rightarrow> refresh_session option repo" where
  "GetRefreshByUserDevice i dev =
     reads (\<lambda>d. find_row (\<lambda>s. s_user s = i \<and> s_device s = dev) (refresh_sessions d))"

definition GetRefreshByID :: "uuid \<Rightarrow> refresh_session option repo" where
  "GetRefreshByID sid = reads (\<lambda>d. find_row (\<lambda>s. s_id s = sid) (refresh_sessions d))"

definition ListRefreshSessions :: "uuid \<Rightarrow> refresh_session list repo" where
  "ListRefreshSessions i =
     reads (\<lambda>d. order_desc s_created_at (filter (\<lambda>s. s_user s = i) (refresh_sessions d)))"

definition MarkRefreshUsed :: "instant \<Rightarrow> uuid \<Rightarrow> unit repo" where
  "MarkRefreshUsed now sid =
     writes (\<lambda>d. d\<lparr>refresh_sessions := update_rows (\<lambda>s. s_id s = sid \<and> s_used_at s = None)
       (\<lambda>s. s\<lparr>s_used_at := Some now\<rparr>) (refresh_sessions d)\<rparr>)"

definition RevokeRefreshSession :: "instant \<Rightarrow> uuid \<Rightarrow> unit repo" where
  "RevokeRefreshSession now sid =
     writes (\<lambda>d. d\<lparr>refresh_sessions := update_rows (\<lambda>s. s_id s = sid)
       (\<lambda>s. s\<lparr>s_revoked_at := Some now\<rparr>) (refresh_sessions d)\<rparr>)"

definition RevokeRefreshByHash :: "instant \<Rightarrow> uuid \<Rightarrow> bytes \<Rightarrow> unit repo" where
  "RevokeRefreshByHash now i hash =
     writes (\<lambda>d. d\<lparr>refresh_sessions :=
       update_rows (\<lambda>s. s_user s = i \<and> s_hash s = hash \<and> s_revoked_at s = None)
       (\<lambda>s. s\<lparr>s_revoked_at := Some now\<rparr>) (refresh_sessions d)\<rparr>)"

definition FindRefreshByTokenHash :: "instant \<Rightarrow> bytes \<Rightarrow> refresh_session option repo" where
  "FindRefreshByTokenHash now hash =
     reads (\<lambda>d. find_row (\<lambda>s. s_hash s = hash \<and> session_active now s) (refresh_sessions d))"

section \<open>Invariants\<close>

text \<open>Session ids are distinct and so are the (user, device) pairs: the primary key and
  \<open>idx_refresh_user_dev\<close>.\<close>

definition session_key :: "refresh_session \<Rightarrow> uuid \<times> string" where
  "session_key s = (s_user s, s_device s)"

definition sessions_ok_on :: "refresh_session list \<Rightarrow> bool" where
  "sessions_ok_on ss \<longleftrightarrow> distinct (map s_id ss) \<and> distinct (map session_key ss)"

definition sessions_ok :: "db \<Rightarrow> bool" where
  "sessions_ok d \<longleftrightarrow> sessions_ok_on (refresh_sessions d)"

text \<open>A banned account has no unrevoked session.\<close>

definition banned_ids :: "user list \<Rightarrow> uuid set" where
  "banned_ids us = u_id ` set (filter (\<lambda>u. u_banned_at u \<noteq> None) us)"

definition ban_ok :: "db \<Rightarrow> bool" where
  "ban_ok d \<longleftrightarrow>
     (\<forall>s\<in>set (refresh_sessions d). s_user s \<in> banned_ids (users d) \<longrightarrow> s_revoked_at s \<noteq> None)"

lemma sessions_ok_delete: "sessions_ok_on ss \<Longrightarrow> sessions_ok_on (delete_rows P ss)"
  by (simp add: sessions_ok_on_def distinct_delete_rows)

lemma sessions_ok_update:
  assumes "\<And>s. s_id (f s) = s_id s" "\<And>s. session_key (f s) = session_key s"
  shows "sessions_ok_on (update_rows P f ss) = sessions_ok_on ss"
  by (simp add: sessions_ok_on_def map_update_rows assms)

section \<open>The eviction loop\<close>

lemma eviction_victim_SomeD:
  assumes "eviction_victim i dev now ss = Some v"
  shows "v \<in> set ss" "active_of i now v" "s_device v \<noteq> dev"
  using oldest_SomeD(1) [OF assms [unfolded eviction_victim_def]] by auto

lemma eviction_victim_NoneD:
  "eviction_victim i dev now ss = None \<Longrightarrow> count_rows (\<lambda>s. active_of i now s \<and> s_device s \<noteq> dev) ss = 0"
  by (simp add: eviction_victim_def oldest_None_iff count_rows_def)

text \<open>
  The loop succeeds whenever the active sessions of other devices can make up the excess, and
  then removes exactly that many of them and nothing else.
\<close>

lemma evict_ok:
  assumes "sessions_ok_on ss"
    and "projected - maxSessions \<le> int (count_rows (\<lambda>s. active_of i now s \<and> s_device s \<noteq> dev) ss)"
  shows "\<exists>ss'. evict i dev now maxSessions projected ss = Inr ss' \<and> sessions_ok_on ss'
     \<and> set ss' \<subseteq> set ss
     \<and> (\<forall>s\<in>set ss. s \<notin> set ss' \<longrightarrow> active_of i now s \<and> s_device s \<noteq> dev)
     \<and> int (count_rows (\<lambda>s. active_of i now s \<and> s_device s \<noteq> dev) ss') =
        int (count_rows (\<lambda>s. active_of i now s \<and> s_device s \<noteq> dev) ss) - max 0 (projected - maxSessions)"
  using assms
proof (induction i dev now maxSessions projected ss rule: evict.induct)
  case (1 i dev now maxSessions projected ss)
  let ?P = "\<lambda>s. active_of i now s \<and> s_device s \<noteq> dev"
  show ?case
  proof (cases "projected > maxSessions")
    case False
    with "1.prems" show ?thesis by (auto simp: evict.simps [of i dev now maxSessions projected ss])
  next
    case True
    with "1.prems"(2) have "count_rows ?P ss \<noteq> 0" by linarith
    then obtain v where v: "eviction_victim i dev now ss = Some v"
      using eviction_victim_NoneD by (metis not_None_eq)
    note vD = eviction_victim_SomeD [OF v]
    let ?ss = "delete_rows (\<lambda>s. s_id s = s_id v) ss"
    have cnt: "count_rows ?P ?ss = count_rows ?P ss - 1"
      using "1.prems"(1) vD by (intro delete_one_row_count) (auto simp: sessions_ok_on_def)
    have only: "s = v" if "s \<in> set ss" "s_id s = s_id v" for s
      using "1.prems"(1) that vD(1) distinct_key_eq [of s_id ss s v] by (simp add: sessions_ok_on_def)
    have "projected - 1 - maxSessions \<le> int (count_rows ?P ?ss)"
      using "1.prems"(2) cnt \<open>count_rows ?P ss \<noteq> 0\<close> by linarith
    from "1.IH" [OF True v sessions_ok_delete [OF "1.prems"(1)] this]
    obtain ss' where ss': "evict i dev now maxSessions (projected - 1) ?ss = Inr ss'"
      "sessions_ok_on ss'" "set ss' \<subseteq> set ?ss"
      "\<forall>s\<in>set ?ss. s \<notin> set ss' \<longrightarrow> ?P s"
      "int (count_rows ?P ss') = int (count_rows ?P ?ss) - max 0 (projected - 1 - maxSessions)"
      by blast
    have "evict i dev now maxSessions projected ss = Inr ss'"
      using True v ss'(1) by (simp add: evict.simps [of i dev now maxSessions projected ss])
    moreover have "\<forall>s\<in>set ss. s \<notin> set ss' \<longrightarrow> ?P s"
      using ss'(4) only vD by (auto simp: table_simps)
    moreover have "int (count_rows ?P ss') = int (count_rows ?P ss) - max 0 (projected - maxSessions)"
      using ss'(5) cnt True \<open>count_rows ?P ss \<noteq> 0\<close> by linarith
    ultimately show ?thesis using ss'(2,3) by (auto simp: table_simps)
  qed
qed

section \<open>Issuing a session\<close>

lemma upsert_session_SomeD:
  assumes "upsert_session newID now i dev label hash expires ss = Inr (sid, ss')"
    and ok: "sessions_ok_on ss"
  shows "sessions_ok_on ss'"
    and "count_rows (\<lambda>s. active_of i t s \<and> s_device s \<noteq> dev) ss' =
         count_rows (\<lambda>s. active_of i t s \<and> s_device s \<noteq> dev) ss"
    and "\<exists>s\<in>set ss'. s_id s = sid \<and> session_key s = (i, dev) \<and> s_hash s = hash
         \<and> s_expires_at s = expires \<and> s_revoked_at s = None \<and> s_used_at s = None"
    and "\<And>s. session_key s \<noteq> (i, dev) \<Longrightarrow> s \<in> set ss' \<longleftrightarrow> s \<in> set ss"
proof -
  let ?K = "\<lambda>s. s_user s = i \<and> s_device s = dev"
  have "sessions_ok_on ss' \<and>
    count_rows (\<lambda>s. active_of i t s \<and> s_device s \<noteq> dev) ss' =
      count_rows (\<lambda>s. active_of i t s \<and> s_device s \<noteq> dev) ss \<and>
    (\<exists>s\<in>set ss'. s_id s = sid \<and> session_key s = (i, dev) \<and> s_hash s = hash
         \<and> s_expires_at s = expires \<and> s_revoked_at s = None \<and> s_used_at s = None) \<and>
    (\<forall>s. session_key s \<noteq> (i, dev) \<longrightarrow> (s \<in> set ss' \<longleftrightarrow> s \<in> set ss))"
  proof (cases "find_row ?K ss")
    case None
    let ?n = "\<lparr>s_id = newID, s_user = i, s_device = dev,
      s_label = (if label = [] then None else Some label), s_hash = hash, s_created_at = now,
      s_expires_at = expires, s_used_at = None, s_revoked_at = None\<rparr>"
    from assms(1) None have ss': "ss' = ss @ [?n]" and new: "newID \<notin> s_id ` set ss" "sid = newID"
      by (auto simp: upsert_session_def Let_def table_simps split: if_splits)
    from None have "(i, dev) \<notin> session_key ` set ss"
      by (auto simp: find_row_None_iff session_key_def)
    with new ok show ?thesis
      by (auto simp: ss' sessions_ok_on_def session_key_def count_rows_Cons)
  next
    case (Some old)
    let ?f = "\<lambda>s. s\<lparr>s_hash := hash, s_expires_at := expires, s_used_at := None, s_revoked_at := None,
      s_label := (case if label = [] then None else Some label of None \<Rightarrow> s_label s | Some l \<Rightarrow> Some l),
      s_created_at := now\<rparr>"
    from assms(1) Some have ss': "ss' = update_rows ?K ?f ss" and sid: "sid = s_id old"
      by (auto simp: upsert_session_def Let_def)
    from Some have old: "old \<in> set ss" "?K old" by (auto dest: find_row_SomeD)
    have "sessions_ok_on ss'"
      unfolding ss' using ok by (subst sessions_ok_update) (auto simp: session_key_def)
    moreover have "count_rows (\<lambda>s. active_of i t s \<and> s_device s \<noteq> dev) ss' =
        count_rows (\<lambda>s. active_of i t s \<and> s_device s \<noteq> dev) ss"
      unfolding ss' by (rule count_rows_update) auto
    moreover have "?f old \<in> set ss'" using old by (auto simp: ss' table_simps)
    moreover have "\<forall>s. session_key s \<noteq> (i, dev) \<longrightarrow> (s \<in> set ss' \<longleftrightarrow> s \<in> set ss)"
      by (auto simp: ss' table_simps session_key_def)
    ultimately show ?thesis
      using old(2) by (intro conjI bexI [of _ "?f old"]) (auto simp: sid session_key_def)
  qed
  then show "sessions_ok_on ss'"
    and "count_rows (\<lambda>s. active_of i t s \<and> s_device s \<noteq> dev) ss' =
         count_rows (\<lambda>s. active_of i t s \<and> s_device s \<noteq> dev) ss"
    and "\<exists>s\<in>set ss'. s_id s = sid \<and> session_key s = (i, dev) \<and> s_hash s = hash
         \<and> s_expires_at s = expires \<and> s_revoked_at s = None \<and> s_used_at s = None"
    and "\<And>s. session_key s \<noteq> (i, dev) \<Longrightarrow> s \<in> set ss' \<longleftrightarrow> s \<in> set ss"
    by blast+
qed

lemma device_row_unique:
  assumes "sessions_ok_on ss"
  shows "count_rows (\<lambda>s. active_of i now s \<and> \<not> s_device s \<noteq> dev) ss =
    (case find_row (\<lambda>s. s_user s = i \<and> s_device s = dev) ss of
       None \<Rightarrow> 0 | Some s \<Rightarrow> if session_active now s then 1 else 0)"
proof (cases "find_row (\<lambda>s. s_user s = i \<and> s_device s = dev) ss")
  case None
  then have "count_rows (\<lambda>s. active_of i now s \<and> \<not> s_device s \<noteq> dev) ss = 0"
    by (auto simp: find_row_None_iff count_rows_0_iff active_of_def)
  with None show ?thesis by simp
next
  case (Some x)
  then have x: "x \<in> set ss" "session_key x = (i, dev)"
    by (auto dest: find_row_SomeD simp: session_key_def)
  have only: "s = x" if "s \<in> set ss" "session_key s = (i, dev)" for s
    using assms that x distinct_key_eq [of session_key ss s x] by (simp add: sessions_ok_on_def)
  have "count_rows (\<lambda>s. active_of i now s \<and> \<not> s_device s \<noteq> dev) ss =
      count_rows (\<lambda>s. session_key s = (i, dev) \<and> session_active now x) ss"
    using only by (intro count_rows_cong) (auto simp: session_key_def active_of_def)
  also have "\<dots> = (if session_active now x then count_rows (\<lambda>s. session_key s = (i, dev)) ss else 0)"
    by (simp add: count_rows_0_iff)
  also have "count_rows (\<lambda>s. session_key s = (i, dev)) ss = 1"
  proof -
    have "count_rows (\<lambda>s. session_key s = (i, dev)) ss > 0" using x by (auto simp: count_rows_pos_iff)
    with assms show ?thesis
      using count_rows_key_le_1 [of session_key ss "(i, dev)"] by (simp add: sessions_ok_on_def)
  qed
  finally show ?thesis by (simp add: Some)
qed

lemma active_split:
  "count_rows (active_of i now) ss =
     count_rows (\<lambda>s. active_of i now s \<and> s_device s \<noteq> dev) ss
     + count_rows (\<lambda>s. active_of i now s \<and> \<not> s_device s \<noteq> dev) ss"
  by (rule count_rows_split)

text \<open>The projected count of the code is one more than the active sessions of other devices,
  whether or not the device already has a session.\<close>

lemma projected_eq:
  assumes "sessions_ok_on ss"
  shows "(if case find_row (\<lambda>s. s_user s = i \<and> s_device s = dev) ss of
              None \<Rightarrow> False | Some s \<Rightarrow> session_active now s
          then int (count_rows (active_of i now) ss)
          else int (count_rows (active_of i now) ss) + 1)
         = int (count_rows (\<lambda>s. active_of i now s \<and> s_device s \<noteq> dev) ss) + 1"
  using device_row_unique [OF assms, of i now dev] active_split [of i now ss dev]
  by (auto split: option.splits)

lemma upsert_total:
  assumes ok: "sessions_ok d" and mx: "0 < maxSessions"
    and u: "find_row (\<lambda>u. u_id u = i) (users d) = Some u" "u_banned_at u = None" "u_token_version u = v"
    and new: "newID \<notin> s_id ` set (refresh_sessions d)"
  shows "\<exists>sid d'. UpsertRefreshSessionForActiveVersion newID now i v dev label hash expires maxSessions d
      = Inr ((u, sid), d')"
proof -
  let ?ss = "refresh_sessions d"
  let ?n = "int (count_rows (\<lambda>s. active_of i now s \<and> s_device s \<noteq> dev) ?ss)"
  from ok have ok': "sessions_ok_on ?ss" by (simp add: sessions_ok_def)
  from mx have le: "?n + 1 - maxSessions \<le> ?n" by simp
  from evict_ok [OF ok' le]
  obtain ss where ss: "evict i dev now maxSessions (?n + 1) ?ss = Inr ss" "set ss \<subseteq> set ?ss" by blast
  have "\<exists>sid ss'. upsert_session newID now i dev label hash expires ss = Inr (sid, ss')"
    using new ss(2) by (auto simp: upsert_session_def Let_def table_simps split: option.splits)
  then show ?thesis
    using mx u projected_eq [OF ok', where i = i and dev = dev and now = now] ss(1)
    by (auto simp: UpsertRefreshSessionForActiveVersion_def Let_def)
qed

lemma upsert_InrD:
  assumes up: "UpsertRefreshSessionForActiveVersion newID now i v dev label hash expires maxSessions d
      = Inr ((u, sid), d')"
    and ok: "sessions_ok d"
  shows "0 < maxSessions" "find_row (\<lambda>u. u_id u = i) (users d) = Some u"
    "u_banned_at u = None" "u_token_version u = v" "users d' = users d" "identity_keys d' = identity_keys d"
    "d' = d\<lparr>refresh_sessions := refresh_sessions d'\<rparr>"
    "sessions_ok d'"
    "int (count_rows (active_of i now) (refresh_sessions d')) \<le> maxSessions"
    "\<exists>s\<in>set (refresh_sessions d'). s_id s = sid \<and> session_key s = (i, dev) \<and> s_hash s = hash
       \<and> s_expires_at s = expires \<and> s_revoked_at s = None \<and> s_used_at s = None"
    "\<And>s. s_user s \<noteq> i \<Longrightarrow> s \<in> set (refresh_sessions d') \<longleftrightarrow> s \<in> set (refresh_sessions d)"
proof -
  let ?ss = "refresh_sessions d"
  let ?Q = "\<lambda>s. active_of i now s \<and> s_device s \<noteq> dev"
  let ?n = "int (count_rows ?Q ?ss)"
  from ok have ok': "sessions_ok_on ?ss" by (simp add: sessions_ok_def)
  from up show mx: "0 < maxSessions"
    by (auto simp: UpsertRefreshSessionForActiveVersion_def split: if_splits)
  from up projected_eq [OF ok', where i = i and dev = dev and now = now] show u: "find_row (\<lambda>u. u_id u = i) (users d) = Some u"
    "u_banned_at u = None" "u_token_version u = v"
    by (auto simp: UpsertRefreshSessionForActiveVersion_def Let_def
        split: if_splits option.splits sum.splits)
  from mx have le: "?n + 1 - maxSessions \<le> ?n" by simp
  from evict_ok [OF ok' le] obtain ss where ss: "evict i dev now maxSessions (?n + 1) ?ss = Inr ss"
    "sessions_ok_on ss" "set ss \<subseteq> set ?ss" "\<forall>s\<in>set ?ss. s \<notin> set ss \<longrightarrow> ?Q s"
    "int (count_rows ?Q ss) = ?n - max 0 (?n + 1 - maxSessions)" by blast
  from up mx u projected_eq [OF ok', where i = i and dev = dev and now = now] ss(1) obtain ss' where
    up': "upsert_session newID now i dev label hash expires ss = Inr (sid, ss')"
    and d': "d' = d\<lparr>refresh_sessions := ss'\<rparr>"
    by (auto simp: UpsertRefreshSessionForActiveVersion_def Let_def split: sum.splits)
  note ups = upsert_session_SomeD [OF up' ss(2)]
  show "users d' = users d" "identity_keys d' = identity_keys d"
    "d' = d\<lparr>refresh_sessions := refresh_sessions d'\<rparr>" by (simp_all add: d')
  show ok2: "sessions_ok d'" using ups(1) by (simp add: d' sessions_ok_def)
  show "\<exists>s\<in>set (refresh_sessions d'). s_id s = sid \<and> session_key s = (i, dev) \<and> s_hash s = hash
       \<and> s_expires_at s = expires \<and> s_revoked_at s = None \<and> s_used_at s = None"
    using ups(3) by (simp add: d')
  have "count_rows (\<lambda>s. active_of i now s \<and> \<not> s_device s \<noteq> dev) ss' \<le> 1"
    using device_row_unique [OF ups(1), of i now dev] by (auto split: option.splits)
  moreover have "int (count_rows ?Q ss') \<le> maxSessions - 1"
    using ups(2) [of now] ss(5) by linarith
  ultimately show "int (count_rows (active_of i now) (refresh_sessions d')) \<le> maxSessions"
    using active_split [of i now ss' dev] by (simp add: d')
  show "s \<in> set (refresh_sessions d') \<longleftrightarrow> s \<in> set (refresh_sessions d)" if "s_user s \<noteq> i" for s
    using ups(4) [of s] ss(3,4) that by (auto simp: d' session_key_def active_of_def)
qed

section \<open>Rotation\<close>

lemma rotate_InrD:
  assumes rot: "RotateRefreshSessionForActiveVersion now i sid v oldHash newHash expires d = Inr (u, d')"
  shows "find_row (\<lambda>u. u_id u = i) (users d) = Some u" "u_banned_at u = None" "u_token_version u = v"
    "\<exists>s\<in>set (refresh_sessions d). rotatable now i sid oldHash s"
    "d' = d\<lparr>refresh_sessions := update_rows (\<lambda>s. s_id s = sid \<and> s_user s = i \<and> s_hash s = oldHash
         \<and> s_used_at s = None \<and> s_revoked_at s = None)
       (\<lambda>s. s\<lparr>s_hash := newHash, s_expires_at := expires\<rparr>) (refresh_sessions d)\<rparr>"
  using rot
  by (auto simp: RotateRefreshSessionForActiveVersion_def Let_def
      split: option.splits if_splits dest!: find_row_SomeD)

text \<open>Rotation fails closed: every way it can be refused, in the order of the code.\<close>

lemma rotate_complete:
  assumes ok: "sessions_ok d" and u: "find_row (\<lambda>u. u_id u = i) (users d) = Some u"
    "u_banned_at u = None" "u_token_version u = v"
    and s: "s \<in> set (refresh_sessions d)" "rotatable now i sid oldHash s"
  shows "\<exists>d'. RotateRefreshSessionForActiveVersion now i sid v oldHash newHash expires d = Inr (u, d')"
proof -
  let ?P = "\<lambda>s. s_id s = sid \<and> s_user s = i \<and> s_hash s = oldHash
                \<and> s_used_at s = None \<and> s_revoked_at s = None"
  obtain x where x: "find_row (rotatable now i sid oldHash) (refresh_sessions d) = Some x"
    using s by (cases "find_row (rotatable now i sid oldHash) (refresh_sessions d)")
      (auto simp: find_row_None_iff)
  have "count_rows ?P (refresh_sessions d) \<le> count_rows (\<lambda>s. s_id s = sid) (refresh_sessions d)"
    by (rule count_rows_mono) simp
  also have "\<dots> \<le> 1"
    using ok by (intro count_rows_key_le_1) (simp add: sessions_ok_def sessions_ok_on_def)
  finally have "count_rows ?P (refresh_sessions d) \<le> 1" .
  moreover have "count_rows ?P (refresh_sessions d) > 0"
    using s by (auto simp: count_rows_pos_iff rotatable_def)
  ultimately have "count_rows ?P (refresh_sessions d) = 1" by simp
  with u x show ?thesis by (simp add: RotateRefreshSessionForActiveVersion_def)
qed

section \<open>Every operation keeps the session invariants\<close>

lemma session_update_keeps:
  assumes "\<And>s. s_id (f s) = s_id s" "\<And>s. session_key (f s) = session_key s"
  shows "sessions_ok (d\<lparr>refresh_sessions := update_rows P f (refresh_sessions d)\<rparr>) = sessions_ok d"
  by (simp add: sessions_ok_def sessions_ok_update assms)

lemma sessions_ok_frame: "refresh_sessions d' = refresh_sessions d \<Longrightarrow> sessions_ok d' = sessions_ok d"
  by (simp add: sessions_ok_def)

lemma keeps_sessions_ok [preserves_intros]:
  "keeps sessions_ok (UpsertRefreshSessionForActiveVersion newID now i v dev label hash expires mx)"
  "keeps sessions_ok (RotateRefreshSessionForActiveVersion now i sid v oldHash newHash expires)"
  "keeps sessions_ok (MarkRefreshUsed now sid)"
  "keeps sessions_ok (RevokeRefreshSession now sid)"
  "keeps sessions_ok (RevokeRefreshByHash now i hash)"
  "keeps sessions_ok (SetUserBan now i by reason)"
proof -
  show "keeps sessions_ok (UpsertRefreshSessionForActiveVersion newID now i v dev label hash expires mx)"
    by (rule keepsI) (metis upsert_InrD(8) surj_pair)
  show "keeps sessions_ok (RotateRefreshSessionForActiveVersion now i sid v oldHash newHash expires)"
    by (rule keepsI) (auto dest!: rotate_InrD(5) simp: session_update_keeps session_key_def)
  show "keeps sessions_ok (MarkRefreshUsed now sid)" "keeps sessions_ok (RevokeRefreshSession now sid)"
    "keeps sessions_ok (RevokeRefreshByHash now i hash)"
    unfolding MarkRefreshUsed_def RevokeRefreshSession_def RevokeRefreshByHash_def
    by (rule keeps_writes_frame, simp add: session_update_keeps session_key_def)+
  show "keeps sessions_ok (SetUserBan now i by reason)"
    by (auto simp: keeps_def SetUserBan_def revoke_user_sessions_def sessions_ok_def
        sessions_ok_update session_key_def split: option.splits if_splits)
qed

lemma ban_ok_frame:
  "refresh_sessions d' = refresh_sessions d \<Longrightarrow> banned_ids (users d') = banned_ids (users d)
    \<Longrightarrow> ban_ok d' = ban_ok d"
  by (simp add: ban_ok_def)

lemma ban_ok_session_update:
  assumes "ban_ok d" "\<And>s. s_user (f s) = s_user s" "\<And>s. P s \<Longrightarrow> s_revoked_at s \<noteq> None \<Longrightarrow> s_revoked_at (f s) \<noteq> None"
  shows "ban_ok (d\<lparr>refresh_sessions := update_rows P f (refresh_sessions d)\<rparr>)"
  using assms by (auto simp: ban_ok_def table_simps)

lemma banned_ids_iff: "i \<in> banned_ids us \<longleftrightarrow> (\<exists>u\<in>set us. u_id u = i \<and> u_banned_at u \<noteq> None)"
  by (auto simp: banned_ids_def)

lemma banned_ids_update:
  assumes "\<And>u. u_id (f u) = u_id u" "\<And>u. u_banned_at (f u) = u_banned_at u"
  shows "banned_ids (update_rows P f us) = banned_ids us"
  unfolding banned_ids_def by (induction us) (auto simp: update_rows_def assms)

lemma banned_ids_update_other:
  assumes "j \<in> banned_ids (update_rows (\<lambda>u. u_id u = i) f us)" "j \<noteq> i" "\<And>u. u_id (f u) = u_id u"
  shows "j \<in> banned_ids us"
  using assms by (auto simp: banned_ids_iff table_simps)

lemma banned_ids_update_self:
  assumes "\<And>u. u_banned_at (f u) = None"
  shows "i \<notin> banned_ids (update_rows (\<lambda>u. u_id u = i) f us)"
  unfolding banned_ids_def by (induction us) (auto simp: update_rows_def assms)

lemma banned_ids_insert:
  assumes "insert_user u0 d = Inr d'" "u_banned_at u0 = None"
  shows "banned_ids (users d') = banned_ids (users d)" "refresh_sessions d' = refresh_sessions d"
proof -
  from assms(1) obtain u ks where u: "canonicalize_user_identity u0 = Inr u"
    and d': "d' = d\<lparr>users := users d @ [u], identity_keys := ks\<rparr>"
    by (auto simp: insert_user_def split: sum.splits if_splits)
  from u assms(2) have "u_banned_at u = None"
    by (auto simp: canonicalize_user_identity_def Let_def split: if_splits)
  then show "banned_ids (users d') = banned_ids (users d)" "refresh_sessions d' = refresh_sessions d"
    by (simp_all add: d' banned_ids_def)
qed

lemma insert_user_ban_ok:
  "insert_user u0 d = Inr d' \<Longrightarrow> u_banned_at u0 = None \<Longrightarrow> ban_ok d \<Longrightarrow> ban_ok d'"
  using banned_ids_insert [of u0 d d'] ban_ok_frame [of d' d] by blast

text \<open>The user row a transaction locks decides whether the account is banned.\<close>

lemma not_banned_lookup:
  assumes "identity_ok d" "find_row (\<lambda>u. u_id u = i) (users d) = Some u" "u_banned_at u = None"
  shows "i \<notin> banned_ids (users d)"
proof
  assume "i \<in> banned_ids (users d)"
  then obtain v where v: "v \<in> set (users d)" "u_id v = i" "u_banned_at v \<noteq> None"
    by (auto simp: banned_ids_iff)
  from assms(1) have "distinct (map u_id (users d))"
    by (simp add: identity_ok_def identity_ok_on_def ident_def comp_def)
  then have "find_row (\<lambda>x. u_id x = u_id v) (users d) = Some v" using v(1) by (rule find_row_key)
  with v assms(2,3) show False by simp
qed

definition account_inv :: "db \<Rightarrow> bool" where
  "account_inv d \<longleftrightarrow> identity_ok d \<and> sessions_ok d \<and> ban_ok d"

lemma SetUserBan_ban_ok [preserves_intros]: "keeps ban_ok (SetUserBan now i by reason)"
proof (rule keepsI)
  fix d x d'
  assume inv: "ban_ok d" and eq: "SetUserBan now i by reason d = Inr (x, d')"
  have other: "j \<in> banned_ids (users d') \<Longrightarrow> j \<noteq> i \<Longrightarrow> j \<in> banned_ids (users d)" for j
    using eq by (auto simp: SetUserBan_def revoke_user_sessions_def split: option.splits if_splits
        dest!: banned_ids_update_other)
  show "ban_ok d'"
  proof (cases "by")
    case None
    with eq have "refresh_sessions d' = refresh_sessions d" "i \<notin> banned_ids (users d')"
      by (simp_all add: SetUserBan_def banned_ids_update_self split: option.splits)
        (auto simp: banned_ids_update_self)
    with inv other show ?thesis by (metis ban_ok_def)
  next
    case (Some b)
    with eq have "refresh_sessions d' = update_rows (\<lambda>s. s_user s = i \<and> s_revoked_at s = None)
        (\<lambda>s. s\<lparr>s_revoked_at := Some now\<rparr>) (refresh_sessions d)"
      by (auto simp: SetUserBan_def revoke_user_sessions_def split: option.splits if_splits)
    with inv other show ?thesis by (auto simp: ban_ok_def table_simps)
  qed
qed

lemma session_writes_keep_ban_ok [preserves_intros]:
  "keeps ban_ok (MarkRefreshUsed now sid)"
  "keeps ban_ok (RevokeRefreshSession now sid)"
  "keeps ban_ok (RevokeRefreshByHash now i hash)"
  unfolding MarkRefreshUsed_def RevokeRefreshSession_def RevokeRefreshByHash_def
  by (rule keeps_writes, rule ban_ok_session_update, simp_all)+

lemma user_writes_keep_ban_ok [preserves_intros]:
  "keeps ban_ok (SetLockedUntil i t)"
  "keeps ban_ok (UpdatePassword now i h)"
  "keeps ban_ok (SetSuperuser i b)"
  unfolding SetLockedUntil_def UpdatePassword_def SetSuperuser_def
  by (rule keeps_writes_frame, rule ban_ok_frame, simp_all add: banned_ids_update)+

lemma create_keep_ban_ok [preserves_intros]:
  "keeps ban_ok (CreateHumanUser i now lg em h)"
  "keeps ban_ok (CreatePasswordlessHuman i now lg em)"
  "keeps ban_ok (CreateServiceUser i now lg h su)"
  by (auto simp: keeps_def create_defs new_user_def Let_def split: sum.splits
      elim: insert_user_ban_ok)

lemma upsert_keeps_account_inv [preserves_intros]:
  "keeps account_inv (UpsertRefreshSessionForActiveVersion newID now i v dev label hash expires mx)"
proof (rule keepsI)
  fix d x d'
  assume inv: "account_inv d"
    and eq: "UpsertRefreshSessionForActiveVersion newID now i v dev label hash expires mx d = Inr (x, d')"
  obtain u sid where x: "x = (u, sid)" by (cases x)
  from inv have "sessions_ok d" by (simp add: account_inv_def)
  note up = upsert_InrD [OF eq [unfolded x] this]
  have nb: "i \<notin> banned_ids (users d)"
    using inv up(2,3) by (auto simp: account_inv_def dest: not_banned_lookup)
  have "ban_ok d'"
    unfolding ban_ok_def up(5)
  proof (intro ballI impI)
    fix s assume s: "s \<in> set (refresh_sessions d')" "s_user s \<in> banned_ids (users d)"
    with nb have "s_user s \<noteq> i" by auto
    with up(11) s(1) have "s \<in> set (refresh_sessions d)" by blast
    with inv s(2) show "s_revoked_at s \<noteq> None" by (auto simp: account_inv_def ban_ok_def)
  qed
  moreover have "identity_ok d'" using inv identity_ok_frame [of d' d] up(5,6) by (simp add: account_inv_def)
  ultimately show "account_inv d'" using up(8) by (simp add: account_inv_def)
qed

lemma rotate_keeps_account_inv [preserves_intros]:
  "keeps account_inv (RotateRefreshSessionForActiveVersion now i sid v oldHash newHash expires)"
proof (rule keepsI)
  fix d u d'
  assume inv: "account_inv d"
    and eq: "RotateRefreshSessionForActiveVersion now i sid v oldHash newHash expires d = Inr (u, d')"
  note rot = rotate_InrD [OF eq]
  from rot(5) have "ban_ok d'"
    using inv by (auto intro: ban_ok_session_update simp: account_inv_def)
  moreover have "sessions_ok d'" using keeps_sessions_ok(2) eq inv
    by (metis account_inv_def keepsD)
  moreover have "identity_ok d'" using inv rot(5) identity_ok_frame [of d' d] by (simp add: account_inv_def)
  ultimately show "account_inv d'" by (simp add: account_inv_def)
qed

section \<open>The session limit\<close>

text \<open>
  A concrete store for the witnesses of this and later theories: one active human account with
  two live sessions, on two devices.
\<close>

definition sample_user :: user where
  "sample_user = (new_user 1 0 ''ann'' UserHuman)\<lparr>u_email := Some ''ann@x.org''\<rparr>"

definition sample_session :: "uuid \<Rightarrow> string \<Rightarrow> instant \<Rightarrow> refresh_session" where
  "sample_session sid dev created =
     \<lparr>s_id = sid, s_user = 1, s_device = dev, s_label = None, s_hash = ''h'' @ dev,
      s_created_at = created, s_expires_at = 1000, s_used_at = None, s_revoked_at = None\<rparr>"

definition sample_db :: db where
  "sample_db = empty_db\<lparr>users := [sample_user],
     identity_keys := [\<lparr>ik_identity = ''ann'', ik_user = 1\<rparr>, \<lparr>ik_identity = ''ann@x.org'', ik_user = 1\<rparr>],
     refresh_sessions := [sample_session 10 ''phone'' 5, sample_session 11 ''tablet'' 6]\<rparr>"

lemma sample_db_sessions_ok: "sessions_ok sample_db"
  by (simp add: sample_db_def sessions_ok_def sessions_ok_on_def sample_session_def session_key_def)

lemma sample_db_user: "find_row (\<lambda>u. u_id u = 1) (users sample_db) = Some sample_user"
  by (simp add: sample_db_def find_row_def sample_user_def new_user_def)

text \<open>
  C23. For an active account at the expected token version, issuing a session with a positive
  session limit always succeeds (the error \<open>active refresh session count changed unexpectedly\<close>
  of the eviction loop is unreachable), leaves the account at most \<open>maxSessions\<close> active
  sessions, stores the new token hash under the device, and touches no other account's session.
\<close>

theorem session_limit_enforced:
  assumes "sessions_ok d" "0 < maxSessions"
    and "find_row (\<lambda>u. u_id u = i) (users d) = Some u" "u_banned_at u = None" "u_token_version u = v"
    and "\<forall>s\<in>set (refresh_sessions d). s_id s \<noteq> newID"
  shows "\<exists>sid d'. UpsertRefreshSessionForActiveVersion newID now i v dev label hash expires maxSessions d
            = Inr ((u, sid), d')
     \<and> int (count_rows (active_of i now) (refresh_sessions d')) \<le> maxSessions
     \<and> (\<exists>s\<in>set (refresh_sessions d'). s_id s = sid \<and> s_user s = i \<and> s_device s = dev
           \<and> s_hash s = hash \<and> s_expires_at s = expires \<and> s_revoked_at s = None)
     \<and> (\<forall>s. s_user s \<noteq> i \<longrightarrow> (s \<in> set (refresh_sessions d') \<longleftrightarrow> s \<in> set (refresh_sessions d)))"
proof -
  obtain sid d' where up: "UpsertRefreshSessionForActiveVersion newID now i v dev label hash expires maxSessions d
      = Inr ((u, sid), d')"
    using upsert_total [OF assms(1-5), of newID] assms(6) by (metis imageE)
  note D = upsert_InrD [OF up assms(1)]
  from D(10) have "\<exists>s\<in>set (refresh_sessions d'). s_id s = sid \<and> s_user s = i \<and> s_device s = dev
     \<and> s_hash s = hash \<and> s_expires_at s = expires \<and> s_revoked_at s = None"
    by (auto simp: session_key_def)
  with up D(9,11) show ?thesis by blast
qed

theorem session_limit_enforced_witness:
  "\<exists>sid d'. UpsertRefreshSessionForActiveVersion 12 20 1 0 ''laptop'' [] ''h2'' 1000 2 sample_db
       = Inr ((sample_user, sid), d')
     \<and> int (count_rows (active_of 1 20) (refresh_sessions d')) \<le> 2"
  using session_limit_enforced [OF sample_db_sessions_ok, of 2 1 sample_user 0 12 20 "''laptop''" "[]" "''h2''" 1000]
    sample_db_user
  by (auto simp: sample_user_def new_user_def sample_db_def sample_session_def)

end
