(* ===== verification/OTP.thy ===== *)
theory OTP
  imports Users
begin

text \<open>
  One-time codes sent by email: \<open>internal/repository/otp.go\<close>. A password-reset code is
  reserved before the message is sent, activated after delivery, and completed in a
  transaction that also changes the password. The partial unique index
  \<open>email_otp_one_active_password_reset\<close> of the schema is part of the model.
\<close>

section \<open>Rows\<close>

definition otp_key :: "email_otp \<Rightarrow> instant \<times> uuid" where
  "otp_key r = (o_created_at r, o_id r)"

definition reset_of :: "uuid \<Rightarrow> email_otp \<Rightarrow> bool" where
  "reset_of i r \<longleftrightarrow> o_user r = i \<and> o_purpose r = OTPPasswordReset"

definition pending_reset :: "uuid \<Rightarrow> email_otp \<Rightarrow> bool" where
  "pending_reset i r \<longleftrightarrow> reset_of i r \<and> o_consumed_at r = None"

text \<open>The rows the partial unique index ranges over.\<close>

definition live_reset :: "uuid \<Rightarrow> email_otp \<Rightarrow> bool" where
  "live_reset i r \<longleftrightarrow> pending_reset i r \<and> o_delivery_state r = DeliveryActive"

definition insert_otp :: "email_otp \<Rightarrow> email_otp list \<Rightarrow> repo_error + email_otp list" where
  "insert_otp r rows =
     (if exists_row (\<lambda>x. o_id x = o_id r) rows then Inl UniqueViolation
      else if live_reset (o_user r) r \<and> exists_row (live_reset (o_user r)) rows then Inl UniqueViolation
      else Inr (rows @ [r]))"

definition consume_rows :: "(email_otp \<Rightarrow> bool) \<Rightarrow> instant \<Rightarrow> email_otp list \<Rightarrow> email_otp list" where
  "consume_rows P now rows =
     update_rows (\<lambda>r. P r \<and> o_consumed_at r = None) (\<lambda>r. r\<lparr>o_consumed_at := Some now\<rparr>) rows"

section \<open>Challenges\<close>

definition CreateEmailOTP ::
  "uuid \<Rightarrow> instant \<Rightarrow> uuid \<Rightarrow> otp_purpose \<Rightarrow> bytes \<Rightarrow> instant \<Rightarrow> string option \<Rightarrow> uuid repo" where
  "CreateEmailOTP oid now i purpose codeHash expires correlation d =
     (let r = \<lparr>o_id = oid, o_user = i, o_purpose = purpose, o_code_hash = codeHash,
               o_expires_at = expires, o_consumed_at = None, o_delivery_state = DeliveryActive,
               o_attempts = 0, o_correlation = correlation, o_created_at = now\<rparr>
      in case insert_otp r (email_otps d) of
           Inl e \<Rightarrow> Inl e | Inr rows \<Rightarrow> Inr (oid, d\<lparr>email_otps := rows\<rparr>))"

definition GetLatestOTP :: "uuid \<Rightarrow> otp_purpose \<Rightarrow> email_otp option repo" where
  "GetLatestOTP i purpose =
     reads (\<lambda>d. newest otp_key (filter (\<lambda>r. o_user r = i \<and> o_purpose r = purpose \<and> o_consumed_at r = None
              \<and> (purpose = OTPPasswordReset \<longrightarrow> o_delivery_state r = DeliveryActive)) (email_otps d)))"

definition GetOTPByCorrelation :: "string \<Rightarrow> email_otp option repo" where
  "GetOTPByCorrelation correlation =
     reads (\<lambda>d. newest o_created_at
       (filter (\<lambda>r. o_correlation r = Some correlation \<and> o_consumed_at r = None) (email_otps d)))"

definition GetMostRecentOTP :: "uuid \<Rightarrow> otp_purpose \<Rightarrow> email_otp option repo" where
  "GetMostRecentOTP i purpose =
     reads (\<lambda>d. newest o_created_at (filter (\<lambda>r. o_user r = i \<and> o_purpose r = purpose) (email_otps d)))"

definition ConsumeOTP :: "instant \<Rightarrow> uuid \<Rightarrow> unit repo" where
  "ConsumeOTP now oid d =
     (if count_rows (\<lambda>r. o_id r = oid \<and> o_consumed_at r = None) (email_otps d) = 0
      then Inl (RepoMessage ''otp already consumed or missing'')
      else Inr ((), d\<lparr>email_otps := consume_rows (\<lambda>r. o_id r = oid) now (email_otps d)\<rparr>))"

definition IncrementOTPAttempt :: "uuid \<Rightarrow> unit repo" where
  "IncrementOTPAttempt oid =
     writes (\<lambda>d. d\<lparr>email_otps := update_rows (\<lambda>r. o_id r = oid)
       (\<lambda>r. r\<lparr>o_attempts := o_attempts r + 1\<rparr>) (email_otps d)\<rparr>)"

section \<open>Password-reset codes\<close>

definition lockOTPUser :: "uuid \<Rightarrow> db \<Rightarrow> bool" where
  "lockOTPUser i d \<longleftrightarrow> exists_row (\<lambda>u. u_id u = i) (users d)"

text \<open>One microsecond, in nanoseconds.\<close>

definition Microsecond :: duration where "Microsecond = 1000"

text \<open>\<open>None\<close> is the answer \<open>issued = false\<close>: the cooldown has not elapsed.\<close>

definition issuePasswordResetOTP ::
  "bool \<Rightarrow> uuid \<Rightarrow> uuid \<Rightarrow> bytes \<Rightarrow> instant \<Rightarrow> instant \<Rightarrow> duration \<Rightarrow> uuid option repo" where
  "issuePasswordResetOTP reserved oid i codeHash now0 expires minInterval d =
     (if \<not> lockOTPUser i d then Inl ErrRecordNotFound
      else
        let latest = newest otp_key (filter (reset_of i) (email_otps d));
            cooling = (case latest of None \<Rightarrow> False
                       | Some l \<Rightarrow> minInterval > 0 \<and> now0 - o_created_at l < minInterval);
            now = (case latest of None \<Rightarrow> now0
                   | Some l \<Rightarrow> if \<not> now0 > o_created_at l then o_created_at l + Microsecond else now0)
        in if cooling then Inr (None, d)
           else
             let rows = (if reserved then email_otps d else consume_rows (reset_of i) now (email_otps d));
                 r = \<lparr>o_id = oid, o_user = i, o_purpose = OTPPasswordReset, o_code_hash = codeHash,
                      o_expires_at = expires, o_consumed_at = None,
                      o_delivery_state = (if reserved then DeliveryPending else DeliveryActive),
                      o_attempts = 0, o_correlation = None, o_created_at = now\<rparr>
             in case insert_otp r rows of
                  Inl e \<Rightarrow> Inl e
                | Inr rows' \<Rightarrow> Inr (Some oid, d\<lparr>email_otps := rows'\<rparr>))"

definition IssuePasswordResetOTP ::
  "uuid \<Rightarrow> uuid \<Rightarrow> bytes \<Rightarrow> instant \<Rightarrow> instant \<Rightarrow> duration \<Rightarrow> uuid option repo" where
  "IssuePasswordResetOTP = issuePasswordResetOTP False"

definition ReservePasswordResetOTP ::
  "uuid \<Rightarrow> uuid \<Rightarrow> bytes \<Rightarrow> instant \<Rightarrow> instant \<Rightarrow> duration \<Rightarrow> uuid option repo" where
  "ReservePasswordResetOTP = issuePasswordResetOTP True"

datatype reset_activation = PasswordResetActivated | PasswordResetSuperseded

definition ActivatePasswordResetOTP :: "uuid \<Rightarrow> uuid \<Rightarrow> instant \<Rightarrow> reset_activation repo" where
  "ActivatePasswordResetOTP i oid now d =
     (if \<not> lockOTPUser i d then Inl ErrRecordNotFound
      else case find_row (\<lambda>r. o_id r = oid \<and> reset_of i r) (email_otps d) of
        None \<Rightarrow> Inl ErrRecordNotFound
      | Some t \<Rightarrow>
          if o_delivery_state t = DeliveryActive \<and> o_consumed_at t = None
          then Inr (PasswordResetActivated, d)
          else if o_consumed_at t \<noteq> None \<or> \<not> now < o_expires_at t
          then Inr (PasswordResetSuperseded, d)
          else if o_delivery_state t \<noteq> DeliveryPending
          then Inl (RepoMessage ''invalid password reset delivery state'')
          else if count_rows (\<lambda>r. live_reset i r \<and> otp_key r > otp_key t) (email_otps d) > 0
          then Inr (PasswordResetSuperseded,
                    d\<lparr>email_otps := consume_rows (\<lambda>r. o_id r = o_id t) now (email_otps d)\<rparr>)
          else
            let rows = consume_rows (\<lambda>r. reset_of i r \<and> o_id r \<noteq> o_id t \<and> otp_key r < otp_key t) now
                         (email_otps d);
                P = (\<lambda>r. o_id r = oid \<and> o_user r = i \<and> o_delivery_state r = DeliveryPending
                         \<and> o_consumed_at r = None)
            in if exists_row P rows \<and> exists_row (live_reset i) rows then Inl UniqueViolation
               else if count_rows P rows \<noteq> 1
               then Inl (RepoMessage ''password reset reservation activation failed'')
               else Inr (PasswordResetActivated,
                      d\<lparr>email_otps := update_rows P (\<lambda>r. r\<lparr>o_delivery_state := DeliveryActive\<rparr>) rows\<rparr>))"

subsection \<open>Completion\<close>

record reset_mutation =
  rm_hash :: string
  rm_ciphertext :: bytes
  rm_nonce :: bytes

text \<open>The correct-code branch: one transaction, so an error anywhere leaves every table as it was.\<close>

definition apply_password_reset ::
  "(password_history list \<Rightarrow> svc_error + reset_mutation) option \<Rightarrow> uuid \<Rightarrow> uuid \<Rightarrow> instant \<Rightarrow> int
   \<Rightarrow> email_otp \<Rightarrow> bool repo" where
  "apply_password_reset prepare hid i now historyLimit row d =
     (case prepare of
        None \<Rightarrow> Inl (RepoMessage ''password reset preparer is required'')
      | Some prep \<Rightarrow>
          let history = (if historyLimit > 0
                then limit_rows historyLimit (order_desc (\<lambda>h. (ph_created_at h, ph_id h))
                       (filter (\<lambda>h. ph_user h = i) (password_histories d)))
                else [])
          in case prep history of
            Inl e \<Rightarrow> Inl (PreparerError e)
          | Inr m \<Rightarrow>
              if rm_hash m = [] \<or> rm_ciphertext m = [] \<or> rm_nonce m = []
              then Inl (RepoMessage ''incomplete password reset mutation'')
              else if count_rows (\<lambda>u. u_id u = i) (users d) \<noteq> 1
              then Inl (RepoMessage ''password reset user missing'')
              else
                let d1 = d\<lparr>users := update_rows (\<lambda>u. u_id u = i)
                       (\<lambda>u. u\<lparr>u_password_hash := Some (rm_hash m), u_password_changed_at := Some now\<rparr>) (users d)\<rparr>
                in case insert_history \<lparr>ph_id = hid, ph_user = i, ph_hash = rm_hash m,
                        ph_ciphertext = rm_ciphertext m, ph_nonce = rm_nonce m, ph_created_at = now\<rparr> d1 of
                  Inl e \<Rightarrow> Inl e
                | Inr d2 \<Rightarrow>
                    let d3 = (if historyLimit \<ge> 0
                          then trim_history (\<lambda>h. (ph_created_at h, ph_id h)) i (nat historyLimit) d2 else d2)
                    in if count_rows (\<lambda>r. o_id r = o_id row \<and> o_consumed_at r = None) (email_otps d3) \<noteq> 1
                       then Inl (RepoMessage ''password reset OTP already consumed'')
                       else Inr (True, d3\<lparr>email_otps := consume_rows (\<lambda>r. o_id r = o_id row) now (email_otps d3)\<rparr>))"

definition CompletePasswordResetOTP ::
  "uuid \<Rightarrow> uuid \<Rightarrow> bytes \<Rightarrow> instant \<Rightarrow> int \<Rightarrow> int
   \<Rightarrow> (password_history list \<Rightarrow> svc_error + reset_mutation) option \<Rightarrow> bool repo" where
  "CompletePasswordResetOTP hid i candidateHash now maxAttempts0 historyLimit prepare d =
     (let maxAttempts = (if maxAttempts0 \<le> 0 then 1 else maxAttempts0)
      in if \<not> lockOTPUser i d then Inl ErrRecordNotFound
         else case newest otp_key (filter (live_reset i) (email_otps d)) of
           None \<Rightarrow> Inr (False, d)
         | Some row \<Rightarrow>
             if \<not> now < o_expires_at row \<or> o_attempts row \<ge> maxAttempts
             then Inr (False, d\<lparr>email_otps := consume_rows (\<lambda>r. o_id r = o_id row) now (email_otps d)\<rparr>)
             else if candidateHash = o_code_hash row
             then apply_password_reset prepare hid i now historyLimit row d
             else
               let next = o_attempts row + 1
               in Inr (False, d\<lparr>email_otps := update_rows (\<lambda>r. o_id r = o_id row \<and> o_consumed_at r = None)
                    (\<lambda>r. r\<lparr>o_attempts := next,
                          o_consumed_at := (if next \<ge> maxAttempts then Some now else o_consumed_at r)\<rparr>)
                    (email_otps d)\<rparr>))"

section \<open>The index invariant\<close>

text \<open>Challenge ids are distinct, and a user has at most one usable reset code.\<close>

definition otps_ok_on :: "email_otp list \<Rightarrow> bool" where
  "otps_ok_on rows \<longleftrightarrow> distinct (map o_id rows) \<and> (\<forall>i. count_rows (live_reset i) rows \<le> 1)"

definition otps_ok :: "db \<Rightarrow> bool" where
  "otps_ok d \<longleftrightarrow> otps_ok_on (email_otps d)"

lemmas otp_row_defs = live_reset_def pending_reset_def reset_of_def

lemma live_reset_user: "live_reset i r \<Longrightarrow> o_user r = i"
  by (simp add: otp_row_defs)

lemma otps_ok_one:
  assumes "otps_ok_on rows" "r \<in> set rows" "s \<in> set rows" "live_reset i r" "live_reset i s"
  shows "r = s"
  using assms count_rows_le_1D [of "live_reset i" rows r s] by (simp add: otps_ok_on_def)

lemma insert_otp_InrD: "insert_otp r rows = Inr rows' \<Longrightarrow> rows' = rows @ [r]"
  by (simp add: insert_otp_def split: if_splits)

lemma insert_otp_ok:
  assumes "insert_otp r rows = Inr rows'" "otps_ok_on rows"
  shows "otps_ok_on rows'" "rows' = rows @ [r]"
proof -
  from assms(1) show rows': "rows' = rows @ [r]" by (simp add: insert_otp_def split: if_splits)
  from assms(1) have new: "o_id r \<notin> o_id ` set rows"
    and free: "live_reset (o_user r) r \<Longrightarrow> count_rows (live_reset (o_user r)) rows = 0"
    by (auto simp: insert_otp_def table_simps split: if_splits)
  have "count_rows (live_reset i) rows' \<le> 1" for i
    using assms(2) free live_reset_user [of i r] by (auto simp: rows' count_rows_Cons otps_ok_on_def)
  with assms(2) new show "otps_ok_on rows'" by (simp add: otps_ok_on_def rows')
qed

text \<open>An update that keeps the ids and creates no usable code keeps the invariant.\<close>

lemma otps_ok_update:
  assumes "otps_ok_on rows" "\<And>r. o_id (f r) = o_id r"
    and "\<And>r i. r \<in> set rows \<Longrightarrow> P r \<Longrightarrow> live_reset i (f r) \<Longrightarrow> live_reset i r"
  shows "otps_ok_on (update_rows P f rows)"
proof -
  have "count_rows (live_reset i) (update_rows P f rows) \<le> count_rows (live_reset i) rows" for i
    by (rule count_rows_update_le) (rule assms(3))
  then show ?thesis
    using assms(1,2) by (auto simp: otps_ok_on_def map_update_rows intro: le_trans)
qed

lemma consume_rows_ok: "otps_ok_on rows \<Longrightarrow> otps_ok_on (consume_rows P now rows)"
  unfolding consume_rows_def by (rule otps_ok_update) (auto simp: otp_row_defs)

lemma set_consume_rows:
  "r \<in> set (consume_rows P now rows) \<Longrightarrow>
     (\<exists>x\<in>set rows. o_id r = o_id x \<and> o_user r = o_user x \<and> o_purpose r = o_purpose x
        \<and> o_created_at r = o_created_at x \<and> o_delivery_state r = o_delivery_state x
        \<and> o_expires_at r = o_expires_at x \<and> o_code_hash r = o_code_hash x
        \<and> (o_consumed_at r = None \<longleftrightarrow> o_consumed_at x = None \<and> \<not> P x))"
  by (auto simp: consume_rows_def table_simps)

section \<open>Every operation keeps the index invariant\<close>

lemma otps_ok_frame: "email_otps d' = email_otps d \<Longrightarrow> otps_ok d' = otps_ok d"
  by (simp add: otps_ok_def)

lemma CreateEmailOTP_InrD:
  assumes "CreateEmailOTP oid now i purpose h ex c d = Inr (x, d')"
  shows "x = oid" "insert_otp \<lparr>o_id = oid, o_user = i, o_purpose = purpose, o_code_hash = h,
      o_expires_at = ex, o_consumed_at = None, o_delivery_state = DeliveryActive,
      o_attempts = 0, o_correlation = c, o_created_at = now\<rparr> (email_otps d) = Inr (email_otps d')"
    "d' = d\<lparr>email_otps := email_otps d'\<rparr>"
  using assms by (auto simp: CreateEmailOTP_def Let_def split: sum.splits)

lemma CreateEmailOTP_keeps [preserves_intros]: "keeps otps_ok (CreateEmailOTP oid now i purpose h ex c)"
  by (rule keepsI) (auto simp: otps_ok_def dest!: CreateEmailOTP_InrD(2) intro: insert_otp_ok(1))

lemma ConsumeOTP_keeps [preserves_intros]: "keeps otps_ok (ConsumeOTP now oid)"
  by (auto simp: keeps_def ConsumeOTP_def otps_ok_def intro: consume_rows_ok split: if_splits)

lemma IncrementOTPAttempt_keeps [preserves_intros]: "keeps otps_ok (IncrementOTPAttempt oid)"
  unfolding IncrementOTPAttempt_def
  by (rule keeps_writes) (auto simp: otps_ok_def otp_row_defs intro!: otps_ok_update)

text \<open>What issuing does when it issues: the new row is newer than every reset row of the user,
  and the cooldown has elapsed since each of them.\<close>

lemma issue_InrD:
  assumes "issuePasswordResetOTP reserved oid i h now ex mi d = Inr (Some x, d')"
  obtains r where "x = oid" "o_id r = oid" "reset_of i r" "o_consumed_at r = None" "o_code_hash r = h"
    "o_expires_at r = ex" "o_attempts r = 0" "now \<le> o_created_at r"
    "o_delivery_state r = (if reserved then DeliveryPending else DeliveryActive)"
    "\<And>s. s \<in> set (email_otps d) \<Longrightarrow> reset_of i s \<Longrightarrow> o_created_at s < o_created_at r"
    "\<And>s. s \<in> set (email_otps d) \<Longrightarrow> reset_of i s \<Longrightarrow> 0 < mi \<Longrightarrow> mi \<le> now - o_created_at s"
    "insert_otp r (if reserved then email_otps d else consume_rows (reset_of i) (o_created_at r) (email_otps d))
       = Inr (email_otps d')"
    "d' = d\<lparr>email_otps := email_otps d'\<rparr>"
proof -
  let ?latest = "newest otp_key (filter (reset_of i) (email_otps d))"
  define t where "t = (case ?latest of None \<Rightarrow> now
     | Some l \<Rightarrow> if \<not> now > o_created_at l then o_created_at l + Microsecond else now)"
  define r where "r = \<lparr>o_id = oid, o_user = i, o_purpose = OTPPasswordReset, o_code_hash = h,
     o_expires_at = ex, o_consumed_at = None,
     o_delivery_state = (if reserved then DeliveryPending else DeliveryActive),
     o_attempts = 0, o_correlation = None, o_created_at = t\<rparr>"
  have le: "o_created_at s \<le> o_created_at l"
    if "?latest = Some l" "s \<in> set (email_otps d)" "reset_of i s" for s l
    using newest_SomeD(2) [OF that(1), of s] that(2,3) by (auto simp: otp_key_def)
  have no_row: "\<not> reset_of i s" if "?latest = None" "s \<in> set (email_otps d)" for s
    using that by (auto simp: newest_None_iff filter_empty_conv)
  have t: "now \<le> t" by (auto simp: t_def Microsecond_def split: option.splits)
  have newer: "o_created_at s < t" if "s \<in> set (email_otps d)" "reset_of i s" for s
  proof (cases ?latest)
    case None
    with that no_row show ?thesis by blast
  next
    case (Some l)
    with le [OF Some that] show ?thesis by (simp add: t_def Microsecond_def)
  qed
  have not_cooling: "\<not> (mi > 0 \<and> now - o_created_at l < mi)" if "?latest = Some l" for l
    using assms that by (auto simp: issuePasswordResetOTP_def Let_def split: if_splits)
  have cool: "mi \<le> now - o_created_at s" if "s \<in> set (email_otps d)" "reset_of i s" "0 < mi" for s
  proof (cases ?latest)
    case None
    with that no_row show ?thesis by blast
  next
    case (Some l)
    with le [OF Some that(1,2)] not_cooling [OF Some] that(3) show ?thesis by linarith
  qed
  from assms have "insert_otp r (if reserved then email_otps d else consume_rows (reset_of i) t (email_otps d))
       = Inr (email_otps d')" "d' = d\<lparr>email_otps := email_otps d'\<rparr>" "x = oid"
    unfolding issuePasswordResetOTP_def Let_def t_def [symmetric] r_def [symmetric]
    by (auto split: if_splits sum.splits)
  with t newer cool show thesis by (intro that [of r]) (auto simp: r_def reset_of_def)
qed

lemma issue_keeps:
  "keeps otps_ok (issuePasswordResetOTP reserved oid i h now ex mi)"
proof (rule keepsI)
  fix d x d'
  assume ok: "otps_ok d" and eq: "issuePasswordResetOTP reserved oid i h now ex mi d = Inr (x, d')"
  show "otps_ok d'"
  proof (cases x)
    case None
    with eq have "d' = d"
      by (auto simp: issuePasswordResetOTP_def Let_def split: if_splits sum.splits)
    with ok show ?thesis by simp
  next
    case (Some y)
    obtain r where "insert_otp r
        (if reserved then email_otps d else consume_rows (reset_of i) (o_created_at r) (email_otps d))
        = Inr (email_otps d')"
      by (rule issue_InrD [OF eq [unfolded Some]]) (rule that)
    from insert_otp_ok(1) [OF this] ok show ?thesis
      by (simp add: otps_ok_def consume_rows_ok)
  qed
qed

lemma issue_reset_keeps [preserves_intros]:
  "keeps otps_ok (IssuePasswordResetOTP oid i h now ex mi)"
  "keeps otps_ok (ReservePasswordResetOTP oid i h now ex mi)"
  unfolding IssuePasswordResetOTP_def ReservePasswordResetOTP_def by (rule issue_keeps)+

text \<open>
  Activation. Either nothing but the target's own consumption happens, or the older reset rows
  are consumed and the pending target becomes the usable one; the index never objects.
\<close>

definition activated_rows :: "uuid \<Rightarrow> instant \<Rightarrow> email_otp \<Rightarrow> email_otp list \<Rightarrow> email_otp list" where
  "activated_rows i now t rows =
     update_rows (\<lambda>r. o_id r = o_id t) (\<lambda>r. r\<lparr>o_delivery_state := DeliveryActive\<rparr>)
       (consume_rows (\<lambda>r. reset_of i r \<and> o_id r \<noteq> o_id t \<and> otp_key r < otp_key t) now rows)"

lemma activation_target:
  fixes now :: instant and f :: "email_otp \<Rightarrow> email_otp"
  assumes ok: "otps_ok_on rows" and t: "t \<in> set rows" "reset_of i t" "o_consumed_at t = None"
      "o_delivery_state t = DeliveryPending"
    and none: "\<forall>r\<in>set rows. \<not> (live_reset i r \<and> otp_key r > otp_key t)"
  defines "rows1 \<equiv> consume_rows (\<lambda>r. reset_of i r \<and> o_id r \<noteq> o_id t \<and> otp_key r < otp_key t) now rows"
    and "P \<equiv> \<lambda>r. o_id r = o_id t \<and> o_user r = i \<and> o_delivery_state r = DeliveryPending \<and> o_consumed_at r = None"
  shows "\<not> exists_row (live_reset i) rows1" "count_rows P rows1 = 1"
    "update_rows P f rows1 = update_rows (\<lambda>r. o_id r = o_id t) f rows1"
proof -
  have ids: "distinct (map o_id rows)" using ok by (simp add: otps_ok_on_def)
  then have ids1: "distinct (map o_id rows1)"
    by (simp add: rows1_def consume_rows_def map_update_rows)
  have only: "r = t" if "r \<in> set rows" "o_id r = o_id t" for r
    using distinct_key_eq [OF ids that(1) t(1) that(2)] .
  have dead: False if r: "r \<in> set rows1" "live_reset i r" for r
  proof -
    from r(1) obtain x where x: "x \<in> set rows" "o_id r = o_id x" "o_user r = o_user x"
      "o_purpose r = o_purpose x" "o_created_at r = o_created_at x" "o_delivery_state r = o_delivery_state x"
      "o_consumed_at r = None \<longleftrightarrow> o_consumed_at x = None \<and>
         \<not> (reset_of i x \<and> o_id x \<noteq> o_id t \<and> otp_key x < otp_key t)"
      unfolding rows1_def by (blast dest: set_consume_rows)
    with r(2) have live: "live_reset i x" and stay: "\<not> (o_id x \<noteq> o_id t \<and> otp_key x < otp_key t)"
      by (auto simp: otp_row_defs)
    have "o_id x \<noteq> o_id t" using live only [OF x(1)] t(4) by (auto simp: otp_row_defs)
    then have "otp_key x \<noteq> otp_key t" by (simp add: otp_key_def)
    with stay \<open>o_id x \<noteq> o_id t\<close> have "otp_key x > otp_key t" by (simp add: not_less order_le_less)
    with none x(1) live show False by blast
  qed
  then show "\<not> exists_row (live_reset i) rows1" by (auto simp: table_simps)
  have t1: "t \<in> set rows1" using t by (auto simp: rows1_def consume_rows_def table_simps)
  have only1: "r = t" if "r \<in> set rows1" "o_id r = o_id t" for r
    using distinct_key_eq [OF ids1 that(1) t1 that(2)] .
  have P: "P r \<longleftrightarrow> o_id r = o_id t" if "r \<in> set rows1" for r
    using only1 [OF that] t by (auto simp: P_def reset_of_def)
  then have "count_rows P rows1 = count_rows (\<lambda>r. o_id r = o_id t) rows1"
    by (intro count_rows_cong) blast
  moreover have "count_rows (\<lambda>r. o_id r = o_id t) rows1 = 1"
    using count_rows_key_le_1 [OF ids1, of "o_id t"] t1 count_rows_pos_iff [of "\<lambda>r. o_id r = o_id t" rows1]
    by force
  ultimately show "count_rows P rows1 = 1" by simp
  show "update_rows P f rows1 = update_rows (\<lambda>r. o_id r = o_id t) f rows1"
    using P by (simp add: update_rows_def)
qed

lemma activate_cases:
  assumes ok: "otps_ok d"
    and t: "find_row (\<lambda>r. o_id r = oid \<and> reset_of i r) (email_otps d) = Some t"
    and u: "lockOTPUser i d"
  shows "ActivatePasswordResetOTP i oid now d =
     (if live_reset i t then Inr (PasswordResetActivated, d)
      else if o_consumed_at t \<noteq> None \<or> o_expires_at t \<le> now then Inr (PasswordResetSuperseded, d)
      else if \<exists>r\<in>set (email_otps d). live_reset i r \<and> otp_key r > otp_key t
      then Inr (PasswordResetSuperseded,
                d\<lparr>email_otps := consume_rows (\<lambda>r. o_id r = o_id t) now (email_otps d)\<rparr>)
      else Inr (PasswordResetActivated, d\<lparr>email_otps := activated_rows i now t (email_otps d)\<rparr>))"
proof -
  from t have tD: "t \<in> set (email_otps d)" "o_id t = oid" "reset_of i t" by (auto dest: find_row_SomeD)
  have live: "live_reset i t \<longleftrightarrow> o_delivery_state t = DeliveryActive \<and> o_consumed_at t = None"
    using tD by (auto simp: live_reset_def pending_reset_def)
  show ?thesis
  proof (cases "live_reset i t \<or> o_consumed_at t \<noteq> None \<or> o_expires_at t \<le> now
      \<or> (\<exists>r\<in>set (email_otps d). live_reset i r \<and> otp_key r > otp_key t)")
    case True
    then show ?thesis
      using t u live by (cases "o_delivery_state t")
        (auto simp: ActivatePasswordResetOTP_def count_rows_pos_iff not_less)
  next
    case False
    with live have st: "o_delivery_state t = DeliveryPending" "o_consumed_at t = None"
      by (cases "o_delivery_state t"; auto)+
    from False have none: "\<forall>r\<in>set (email_otps d). \<not> (live_reset i r \<and> otp_key r > otp_key t)" by blast
    note act = activation_target [OF ok [unfolded otps_ok_def] tD(1,3) st(2,1) none, unfolded tD(2)]
    from False st u t tD(2) show ?thesis
      by (simp add: ActivatePasswordResetOTP_def Let_def act count_rows_pos_iff not_less
          activated_rows_def)
  qed
qed

lemma activated_rows_ok:
  assumes ok: "otps_ok_on rows" and t: "t \<in> set rows" "reset_of i t" "o_consumed_at t = None"
      "o_delivery_state t = DeliveryPending"
    and none: "\<forall>r\<in>set rows. \<not> (live_reset i r \<and> otp_key r > otp_key t)"
  shows "otps_ok_on (activated_rows i now t rows)"
proof -
  let ?rows1 = "consume_rows (\<lambda>r. reset_of i r \<and> o_id r \<noteq> o_id t \<and> otp_key r < otp_key t) now rows"
  let ?f = "\<lambda>r. r\<lparr>o_delivery_state := DeliveryActive\<rparr>"
  note ok1 = consume_rows_ok [OF ok, of "\<lambda>r. reset_of i r \<and> o_id r \<noteq> o_id t \<and> otp_key r < otp_key t" now]
  have t1: "t \<in> set ?rows1" using t by (auto simp: consume_rows_def table_simps)
  have only: "r = t" if "r \<in> set ?rows1" "o_id r = o_id t" for r
    using ok1 distinct_key_eq [of o_id ?rows1 r t] that t1 by (simp add: otps_ok_on_def)
  have "count_rows (live_reset j) (update_rows (\<lambda>r. o_id r = o_id t) ?f ?rows1) \<le> 1" for j
  proof (cases "j = i")
    case True
    have "\<not> exists_row (live_reset i) ?rows1" using activation_target(1) [OF ok t none] .
    then have "\<forall>r\<in>set ?rows1. \<not> live_reset i r" by (simp add: table_simps)
    then have "count_rows (live_reset i) (update_rows (\<lambda>r. o_id r = o_id t) ?f ?rows1)
        \<le> count_rows (\<lambda>r. o_id r = o_id t) (update_rows (\<lambda>r. o_id r = o_id t) ?f ?rows1)"
      by (intro count_rows_mono) (auto simp: table_simps)
    also have "\<dots> \<le> 1" using ok1
      by (intro count_rows_key_le_1) (simp add: map_update_rows otps_ok_on_def)
    finally show ?thesis using True by simp
  next
    case False
    then have "count_rows (live_reset j) (update_rows (\<lambda>r. o_id r = o_id t) ?f ?rows1)
        \<le> count_rows (live_reset j) ?rows1"
      using t(2) only by (intro count_rows_update_le) (auto simp: otp_row_defs)
    also have "\<dots> \<le> 1" using ok1 by (simp add: otps_ok_on_def)
    finally show ?thesis .
  qed
  moreover have "distinct (map o_id (activated_rows i now t rows))"
    using ok1 by (simp add: activated_rows_def map_update_rows otps_ok_on_def)
  ultimately show ?thesis by (simp add: otps_ok_on_def activated_rows_def)
qed

lemma activate_keeps [preserves_intros]: "keeps otps_ok (ActivatePasswordResetOTP i oid now)"
proof (rule keepsI)
  fix d x d'
  assume ok: "otps_ok d" and eq: "ActivatePasswordResetOTP i oid now d = Inr (x, d')"
  from eq obtain t where t: "find_row (\<lambda>r. o_id r = oid \<and> reset_of i r) (email_otps d) = Some t"
    and u: "lockOTPUser i d"
    by (auto simp: ActivatePasswordResetOTP_def split: if_splits option.splits)
  from t have tD: "t \<in> set (email_otps d)" "reset_of i t" by (auto dest: find_row_SomeD)
  have st: "o_delivery_state t = DeliveryPending" if "\<not> live_reset i t" "o_consumed_at t = None"
    using that tD by (cases "o_delivery_state t") (auto simp: live_reset_def pending_reset_def)
  show "otps_ok d'"
    using eq ok tD st activated_rows_ok [of "email_otps d" t i now]
    unfolding activate_cases [OF ok t u]
    by (auto simp: otps_ok_def intro: consume_rows_ok split: if_splits)
qed

section \<open>Completion\<close>

text \<open>The history of an account, newest first.\<close>

definition history_of :: "uuid \<Rightarrow> password_history list \<Rightarrow> password_history list" where
  "history_of i t = order_desc (\<lambda>h. (ph_created_at h, ph_id h)) (filter (\<lambda>h. ph_user h = i) t)"

lemma trim_history_frame [simp]:
  "users (trim_history k i n d) = users d" "email_otps (trim_history k i n d) = email_otps d"
  "d\<lparr>password_histories := password_histories (trim_history k i n d)\<rparr> = trim_history k i n d"
  by (simp_all add: trim_history_def Let_def)

text \<open>On a table whose ids are unique, trimming leaves the newest rows of the account and all rows of the others.\<close>

lemma filter_not_dropped:
  assumes "distinct (map f xs)"
  shows "filter (\<lambda>x. f x \<notin> f ` set (drop n xs)) xs = take n xs"
proof -
  have "f x \<notin> f ` set (drop n xs)" if "x \<in> set (take n xs)" for x
    using assms that distinct_append [of "map f (take n xs)" "map f (drop n xs)"]
    by (metis append_take_drop_id disjoint_iff image_eqI list.set_map map_append)
  moreover have "filter (\<lambda>x. f x \<notin> f ` set (drop n xs)) (take n xs @ drop n xs)
      = filter (\<lambda>x. f x \<notin> f ` set (drop n xs)) (take n xs)" unfolding filter_append by (simp add: filter_empty_conv)
  ultimately show ?thesis by (metis append_take_drop_id filter_True)
qed

lemma order_desc_filter: "order_desc k (filter P t) = filter P (order_desc k t)"
  by (simp add: order_desc_def filter_sort flip: rev_filter)

lemma distinct_order_desc: "distinct (map f t) \<Longrightarrow> distinct (map f (order_desc k t))"
  by (simp add: order_desc_def distinct_map flip: rev_map)

lemma trim_history_keeps:
  assumes "distinct (map ph_id (password_histories d))"
  shows "order_desc k (filter (\<lambda>h. ph_user h = i) (password_histories (trim_history k i n d)))
      = take n (order_desc k (filter (\<lambda>h. ph_user h = i) (password_histories d)))"
    and "filter (\<lambda>h. ph_user h \<noteq> i) (password_histories (trim_history k i n d)) = filter (\<lambda>h. ph_user h \<noteq> i) (password_histories d)"
proof -
  let ?t = "password_histories d"
  let ?mine = "order_desc k (filter (\<lambda>h. ph_user h = i) ?t)"
  have "distinct (map ph_id ?mine)" using assms by (intro distinct_order_desc) (simp add: distinct_map_filter)
  then have "filter (\<lambda>h. ph_id h \<notin> ph_id ` set (drop n ?mine)) ?mine = take n ?mine" by (rule filter_not_dropped)
  then show "order_desc k (filter (\<lambda>h. ph_user h = i) (password_histories (trim_history k i n d))) = take n ?mine"
    by (simp add: trim_history_def delete_rows_def order_desc_filter Let_def conj_commute)
  have "ph_id h \<notin> ph_id ` set (drop n ?mine)" if "h \<in> set ?t" "ph_user h \<noteq> i" for h
  proof
    assume "ph_id h \<in> ph_id ` set (drop n ?mine)"
    then obtain g where "g \<in> set (drop n ?mine)" "ph_id h = ph_id g" by blast
    moreover from this have "g \<in> set ?t" "ph_user g = i" by (auto simp: table_simps dest!: in_set_dropD)
    ultimately have "h = g" using assms that(1) by (simp add: distinct_map inj_on_def)
    then show False using that(2) \<open>ph_user g = i\<close> by simp
  qed
  then show "filter (\<lambda>h. ph_user h \<noteq> i) (password_histories (trim_history k i n d)) = filter (\<lambda>h. ph_user h \<noteq> i) ?t"
    by (auto simp: trim_history_def delete_rows_def Let_def intro!: filter_cong)
qed

lemma reset_history_kept:
  assumes "distinct (map ph_id (password_histories d))" "insert_history e d = Inr d2" "ph_user e = i"
    and "d3 = (if n \<ge> 0 then trim_history (\<lambda>h. (ph_created_at h, ph_id h)) i (nat n) d2 else d2)"
  shows "history_of i (password_histories d3) = limit_rows n (history_of i (password_histories d @ [e]))"
    and "filter (\<lambda>h. ph_user h \<noteq> i) (password_histories d3) = filter (\<lambda>h. ph_user h \<noteq> i) (password_histories d)"
proof -
  have d2: "password_histories d2 = password_histories d @ [e]" and "distinct (map ph_id (password_histories d2))"
    using assms(1,2) by (auto simp: insert_history_def exists_row_def list_ex_iff split: if_splits) (metis)
  note t = trim_history_keeps [OF this(2), where k = "\<lambda>h. (ph_created_at h, ph_id h)" and i = i and n = "nat n"]
  show "history_of i (password_histories d3) = limit_rows n (history_of i (password_histories d @ [e]))"
    using t(1) by (simp add: assms(4) history_of_def limit_rows_def d2)
  show "filter (\<lambda>h. ph_user h \<noteq> i) (password_histories d3) = filter (\<lambda>h. ph_user h \<noteq> i) (password_histories d)"
    using t(2) assms(3) by (simp add: assms(4) d2)
qed

lemma apply_reset_InrD:
  assumes "apply_password_reset prepare hid i now historyLimit row d = Inr (b, d')"
  obtains prep m d2 where "b" "prepare = Some prep"
    "prep (if historyLimit > 0 then limit_rows historyLimit
        (order_desc (\<lambda>h. (ph_created_at h, ph_id h)) (filter (\<lambda>h. ph_user h = i) (password_histories d))) else [])
      = Inr m"
    "rm_hash m \<noteq> []"
    "count_rows (\<lambda>u. u_id u = i) (users d) = 1"
    "insert_history \<lparr>ph_id = hid, ph_user = i, ph_hash = rm_hash m, ph_ciphertext = rm_ciphertext m,
        ph_nonce = rm_nonce m, ph_created_at = now\<rparr> d = Inr d2"
    "d' = d\<lparr>users := update_rows (\<lambda>u. u_id u = i)
            (\<lambda>u. u\<lparr>u_password_hash := Some (rm_hash m), u_password_changed_at := Some now\<rparr>) (users d),
          password_histories := password_histories (if historyLimit \<ge> 0
            then trim_history (\<lambda>h. (ph_created_at h, ph_id h)) i (nat historyLimit) d2 else d2),
          email_otps := consume_rows (\<lambda>r. o_id r = o_id row) now (email_otps d)\<rparr>"
proof -
  let ?h = "if historyLimit > 0 then limit_rows historyLimit
        (order_desc (\<lambda>h. (ph_created_at h, ph_id h)) (filter (\<lambda>h. ph_user h = i) (password_histories d))) else []"
  from assms obtain prep m where pm: "prepare = Some prep" "prep ?h = Inr m"
    "rm_hash m \<noteq> []" "count_rows (\<lambda>u. u_id u = i) (users d) = 1" "b"
    by (auto simp: apply_password_reset_def Let_def split: option.splits sum.splits if_splits)
  let ?e = "\<lparr>ph_id = hid, ph_user = i, ph_hash = rm_hash m, ph_ciphertext = rm_ciphertext m, ph_nonce = rm_nonce m,
      ph_created_at = now\<rparr>"
  let ?d1 = "d\<lparr>users := update_rows (\<lambda>u. u_id u = i)
       (\<lambda>u. u\<lparr>u_password_hash := Some (rm_hash m), u_password_changed_at := Some now\<rparr>) (users d)\<rparr>"
  let ?k = "\<lambda>h. (ph_created_at h, ph_id h)"
  from assms pm obtain d2 where ins: "insert_history ?e ?d1 = Inr d2"
    and d': "d' = (let d3 = (if historyLimit \<ge> 0 then trim_history ?k i (nat historyLimit) d2 else d2)
             in d3\<lparr>email_otps := consume_rows (\<lambda>r. o_id r = o_id row) now (email_otps d3)\<rparr>)"
    by (auto simp: apply_password_reset_def Let_def split: option.splits sum.splits if_splits)
  from ins have "insert_history ?e d = Inr (d\<lparr>password_histories := password_histories d @ [?e]\<rparr>)"
    and d2: "d2 = ?d1\<lparr>password_histories := password_histories d @ [?e]\<rparr>"
    by (auto simp: insert_history_def split: if_splits)
  moreover have "d' = ?d1\<lparr>password_histories := password_histories (if historyLimit \<ge> 0
        then trim_history ?k i (nat historyLimit) (d\<lparr>password_histories := password_histories d @ [?e]\<rparr>)
        else d\<lparr>password_histories := password_histories d @ [?e]\<rparr>),
      email_otps := consume_rows (\<lambda>r. o_id r = o_id row) now (email_otps d)\<rparr>"
    unfolding d' Let_def d2 by (simp add: trim_history_def Let_def)
  ultimately show thesis using pm by (intro that [of prep m]) simp_all
qed

text \<open>The four outcomes of a completion, on a store with at most one usable code per user.\<close>

definition burn_attempt :: "int \<Rightarrow> instant \<Rightarrow> email_otp \<Rightarrow> email_otp list \<Rightarrow> email_otp list" where
  "burn_attempt maxAttempts now row rows =
     update_rows (\<lambda>r. o_id r = o_id row \<and> o_consumed_at r = None)
       (\<lambda>r. r\<lparr>o_attempts := o_attempts row + 1,
             o_consumed_at := (if o_attempts row + 1 \<ge> maxAttempts then Some now else o_consumed_at r)\<rparr>) rows"

lemma newest_live:
  assumes "otps_ok d" "row \<in> set (email_otps d)" "live_reset i row"
  shows "newest otp_key (filter (live_reset i) (email_otps d)) = Some row"
proof (cases "newest otp_key (filter (live_reset i) (email_otps d))")
  case None
  with assms show ?thesis by (auto simp: newest_None_iff filter_empty_conv)
next
  case (Some x)
  with newest_SomeD(1) [OF Some] otps_ok_one [of "email_otps d" x row i] assms
  show ?thesis by (auto simp: otps_ok_def)
qed

lemma complete_no_live:
  assumes "lockOTPUser i d" "\<forall>r\<in>set (email_otps d). \<not> live_reset i r"
  shows "CompletePasswordResetOTP hid i h now m n prep d = Inr (False, d)"
proof -
  have "filter (live_reset i) (email_otps d) = []" using assms(2) by (simp add: filter_empty_conv)
  with assms(1) show ?thesis
    by (simp add: CompletePasswordResetOTP_def newest_def order_desc_def)
qed

lemma complete_cases:
  assumes "otps_ok d" "lockOTPUser i d" "row \<in> set (email_otps d)" "live_reset i row"
  shows "CompletePasswordResetOTP hid i h now m n prep d =
    (if o_expires_at row \<le> now \<or> max 1 m \<le> o_attempts row
     then Inr (False, d\<lparr>email_otps := consume_rows (\<lambda>r. o_id r = o_id row) now (email_otps d)\<rparr>)
     else if h = o_code_hash row then apply_password_reset prep hid i now n row d
     else Inr (False, d\<lparr>email_otps := burn_attempt (max 1 m) now row (email_otps d)\<rparr>))"
proof -
  have "(if m \<le> 0 then 1 else m) = max 1 m" by auto
  with newest_live [OF assms(1,3,4)] assms(2) show ?thesis
    by (simp add: CompletePasswordResetOTP_def Let_def burn_attempt_def not_less)
qed

lemma complete_live:
  assumes "CompletePasswordResetOTP hid i h now m n prep d = Inr (b, d')"
  obtains (none) "b = False" "d' = d" "\<forall>r\<in>set (email_otps d). \<not> live_reset i r" "lockOTPUser i d"
  | (live) row where "row \<in> set (email_otps d)" "live_reset i row" "lockOTPUser i d"
proof (cases "newest otp_key (filter (live_reset i) (email_otps d))")
  case None
  then have "filter (live_reset i) (email_otps d) = []" by (simp add: newest_None_iff)
  then have "\<forall>r\<in>set (email_otps d). \<not> live_reset i r" by (simp add: filter_empty_conv)
  with assms None show thesis
    by (intro none) (auto simp: CompletePasswordResetOTP_def Let_def split: if_splits)
next
  case (Some row)
  from newest_SomeD(1) [OF Some] have "row \<in> set (email_otps d)" "live_reset i row" by auto
  moreover from assms have "lockOTPUser i d"
    by (auto simp: CompletePasswordResetOTP_def Let_def split: if_splits)
  ultimately show thesis by (intro live)
qed

lemma consumed_dead:
  assumes "otps_ok_on rows" "row \<in> set rows" "live_reset i row" "r \<in> set (consume_rows (\<lambda>r. o_id r = o_id row) now rows)"
  shows "\<not> live_reset i r"
proof
  assume "live_reset i r"
  with assms(4) have r: "r \<in> set rows" "o_id r \<noteq> o_id row"
    by (auto simp: consume_rows_def table_simps otp_row_defs)
  with assms \<open>live_reset i r\<close> otps_ok_one [of rows r row i] show False by blast
qed

lemma burn_attempt_live:
  assumes "otps_ok_on rows" "row \<in> set rows" "live_reset i row" "r \<in> set (burn_attempt m now row rows)" "live_reset i r"
  shows "o_attempts r = o_attempts row + 1" "o_code_hash r = o_code_hash row" "o_attempts r < m"
proof -
  let ?f = "\<lambda>r. r\<lparr>o_attempts := o_attempts row + 1,
     o_consumed_at := (if o_attempts row + 1 \<ge> m then Some now else o_consumed_at r)\<rparr>"
  from assms(4) obtain x where x: "x \<in> set rows"
    and r: "r = (if o_id x = o_id row \<and> o_consumed_at x = None then ?f x else x)"
    by (auto simp: burn_attempt_def update_rows_def)
  have "o_id x = o_id row"
  proof (rule ccontr)
    assume "o_id x \<noteq> o_id row"
    with r x assms(5) otps_ok_one [OF assms(1) x assms(2) _ assms(3)] show False by simp
  qed
  with assms(1,2) x distinct_key_eq [of o_id rows x row] have "x = row" by (simp add: otps_ok_on_def)
  moreover have "o_consumed_at row = None" using assms(3) by (simp add: otp_row_defs)
  ultimately have "r = ?f row" using r by simp
  with assms(5) show "o_attempts r = o_attempts row + 1" "o_code_hash r = o_code_hash row" "o_attempts r < m"
    by (simp_all add: otp_row_defs split: if_splits)
qed

lemma burn_attempt_ok: "otps_ok_on rows \<Longrightarrow> otps_ok_on (burn_attempt m now row rows)"
  unfolding burn_attempt_def by (rule otps_ok_update) (auto simp: otp_row_defs split: if_splits)

lemma complete_keeps [preserves_intros]: "keeps otps_ok (CompletePasswordResetOTP hid i h now m n prep)"
proof (rule keepsI)
  fix d b d'
  assume ok: "otps_ok d" and eq: "CompletePasswordResetOTP hid i h now m n prep d = Inr (b, d')"
  from eq show "otps_ok d'"
  proof (cases rule: complete_live)
    case none
    with ok show ?thesis by simp
  next
    case (live row)
    have "otps_ok d'" if "apply_password_reset prep hid i now n row d = Inr (b, d')"
      by (rule apply_reset_InrD [OF that]) (use ok in \<open>simp add: otps_ok_def consume_rows_ok\<close>)
    with eq ok show ?thesis
      unfolding complete_cases [OF ok live(3,1,2)]
      by (auto simp: otps_ok_def consume_rows_ok burn_attempt_ok split: if_splits)
  qed
qed

section \<open>Guessing a reset code\<close>

text \<open>A sequence of completion attempts, each its own transaction; an attempt that errs leaves
  the store as it was.\<close>

fun reset_attempts ::
  "uuid \<Rightarrow> int \<Rightarrow> int \<Rightarrow> (password_history list \<Rightarrow> svc_error + reset_mutation) option
   \<Rightarrow> (uuid \<times> bytes \<times> instant) list \<Rightarrow> db \<Rightarrow> db" where
  "reset_attempts i m n prep [] d = d"
| "reset_attempts i m n prep ((hid, h, now) # guesses) d =
     reset_attempts i m n prep guesses
       (case CompletePasswordResetOTP hid i h now m n prep d of Inl _ \<Rightarrow> d | Inr (_, d') \<Rightarrow> d')"

definition all_wrong :: "uuid \<Rightarrow> (uuid \<times> bytes \<times> instant) list \<Rightarrow> db \<Rightarrow> bool" where
  "all_wrong i guesses d \<longleftrightarrow>
     (\<forall>(hid, h, now) \<in> set guesses. \<forall>r\<in>set (email_otps d). live_reset i r \<longrightarrow> h \<noteq> o_code_hash r)"

lemma wrong_guess_step:
  assumes ok: "otps_ok d" and u: "lockOTPUser i d"
    and wrong: "\<forall>r\<in>set (email_otps d). live_reset i r \<longrightarrow> h \<noteq> o_code_hash r"
  obtains d' where "CompletePasswordResetOTP hid i h now m n prep d = Inr (False, d')"
    "otps_ok d'" "users d' = users d"
    "\<And>r'. r' \<in> set (email_otps d') \<Longrightarrow> live_reset i r' \<Longrightarrow>
       \<exists>r\<in>set (email_otps d). live_reset i r \<and> o_code_hash r' = o_code_hash r
          \<and> o_attempts r' = o_attempts r + 1 \<and> o_attempts r' < max 1 m"
proof (cases "\<exists>r\<in>set (email_otps d). live_reset i r")
  case False
  with complete_no_live [OF u] ok show thesis by (intro that [of d]) blast+
next
  case True
  then obtain row where row: "row \<in> set (email_otps d)" "live_reset i row" by blast
  have okr: "otps_ok_on (email_otps d)" using ok by (simp add: otps_ok_def)
  note cases = complete_cases [OF ok u row, of hid h now m n prep]
  show thesis
  proof (cases "o_expires_at row \<le> now \<or> max 1 m \<le> o_attempts row")
    case True
    with cases have "CompletePasswordResetOTP hid i h now m n prep d
        = Inr (False, d\<lparr>email_otps := consume_rows (\<lambda>r. o_id r = o_id row) now (email_otps d)\<rparr>)" by simp
    then show thesis
      using consumed_dead [OF okr row]
      by (elim that) (simp_all add: otps_ok_def consume_rows_ok okr)
  next
    case False
    with cases wrong row have
      "CompletePasswordResetOTP hid i h now m n prep d
        = Inr (False, d\<lparr>email_otps := burn_attempt (max 1 m) now row (email_otps d)\<rparr>)" by auto
    moreover have "\<exists>r\<in>set (email_otps d). live_reset i r \<and> o_code_hash r' = o_code_hash r
          \<and> o_attempts r' = o_attempts r + 1 \<and> o_attempts r' < max 1 m"
      if "r' \<in> set (burn_attempt (max 1 m) now row (email_otps d))" "live_reset i r'" for r'
      using burn_attempt_live [OF okr row that] row by blast
    ultimately show thesis
      by (elim that) (simp_all add: otps_ok_def burn_attempt_ok okr)
  qed
qed

lemma wrong_guesses_kill:
  assumes "otps_ok d" "lockOTPUser i d" "all_wrong i guesses d"
    and "\<forall>r\<in>set (email_otps d). live_reset i r \<longrightarrow> max 1 (max 1 m - o_attempts r) \<le> int (length guesses)"
  shows "(\<forall>r\<in>set (email_otps (reset_attempts i m n prep guesses d)). \<not> live_reset i r)
     \<and> users (reset_attempts i m n prep guesses d) = users d"
  using assms
proof (induction guesses arbitrary: d)
  case Nil
  then show ?case by force
next
  case (Cons g guesses)
  obtain hid h now where g: "g = (hid, h, now)" by (cases g)
  have wrong: "\<forall>r\<in>set (email_otps d). live_reset i r \<longrightarrow> h \<noteq> o_code_hash r"
    using Cons.prems(3) by (simp add: all_wrong_def g)
  obtain d' where d': "CompletePasswordResetOTP hid i h now m n prep d = Inr (False, d')"
    "otps_ok d'" "users d' = users d"
    and live: "\<And>r'. r' \<in> set (email_otps d') \<Longrightarrow> live_reset i r' \<Longrightarrow>
       \<exists>r\<in>set (email_otps d). live_reset i r \<and> o_code_hash r' = o_code_hash r
          \<and> o_attempts r' = o_attempts r + 1 \<and> o_attempts r' < max 1 m"
    by (rule wrong_guess_step [OF Cons.prems(1,2) wrong, where hid = hid and now = now and m = m and n = n and prep = prep])
      (rule that)
  have "all_wrong i guesses d'"
    using Cons.prems(3) live unfolding all_wrong_def by (fastforce simp: g)
  moreover have "\<forall>r'\<in>set (email_otps d'). live_reset i r' \<longrightarrow>
      max 1 (max 1 m - o_attempts r') \<le> int (length guesses)"
  proof (intro ballI impI)
    fix r' assume "r' \<in> set (email_otps d')" "live_reset i r'"
    from live [OF this] obtain r where r: "r \<in> set (email_otps d)" "live_reset i r"
      "o_attempts r' = o_attempts r + 1" "o_attempts r' < max 1 m" by blast
    with Cons.prems(4) have "max 1 (max 1 m - o_attempts r) \<le> int (length guesses) + 1" by force
    with r(3,4) show "max 1 (max 1 m - o_attempts r') \<le> int (length guesses)" by linarith
  qed
  moreover have "lockOTPUser i d'" using Cons.prems(2) d'(3) by (simp add: lockOTPUser_def)
  ultimately show ?case using Cons.IH [OF d'(2)] d'(1,3) by (simp add: g)
qed

section \<open>Properties of reset codes\<close>

definition sample_otp :: "uuid \<Rightarrow> delivery_state \<Rightarrow> instant \<Rightarrow> email_otp" where
  "sample_otp oid st created =
     \<lparr>o_id = oid, o_user = 1, o_purpose = OTPPasswordReset, o_code_hash = ''right'',
      o_expires_at = 1000, o_consumed_at = None, o_delivery_state = st, o_attempts = 0,
      o_correlation = None, o_created_at = created\<rparr>"

definition sample_reset_db :: db where
  "sample_reset_db = empty_db\<lparr>users := [new_user 1 0 ''ann'' UserHuman],
     email_otps := [sample_otp 7 DeliveryActive 5]\<rparr>"

lemma sample_reset_ok: "otps_ok sample_reset_db" "lockOTPUser 1 sample_reset_db"
  by (auto simp: otps_ok_def otps_ok_on_def sample_reset_db_def sample_otp_def count_rows_Cons
      empty_db_def lockOTPUser_def new_user_def table_simps)

text \<open>
  C24. Guessing is bounded: after \<open>maxAttempts\<close> wrong codes in a row (at least one), at whatever
  times and whatever the new passwords, the account has no usable reset code left, no account
  was changed, and even the right code no longer completes a reset.
\<close>

theorem reset_guessing_bounded:
  assumes "otps_ok d" "lockOTPUser i d" "all_wrong i guesses d"
    and "\<forall>r\<in>set (email_otps d). live_reset i r \<longrightarrow> 0 \<le> o_attempts r"
    and "max 1 maxAttempts \<le> int (length guesses)"
    and "d' = reset_attempts i maxAttempts historyLimit prepare guesses d"
  shows "users d' = users d
    \<and> (\<forall>r\<in>set (email_otps d'). \<not> live_reset i r)
    \<and> CompletePasswordResetOTP hid i h now maxAttempts historyLimit prepare d' = Inr (False, d')"
proof -
  have "\<forall>r\<in>set (email_otps d). live_reset i r \<longrightarrow>
      max 1 (max 1 maxAttempts - o_attempts r) \<le> int (length guesses)"
    using assms(4,5) by force
  with wrong_guesses_kill [OF assms(1-3), of maxAttempts historyLimit prepare]
  have u: "users d' = users d" and dead: "\<forall>r\<in>set (email_otps d'). \<not> live_reset i r"
    by (simp_all add: assms(6))
  from u assms(2) have "lockOTPUser i d'" by (simp add: lockOTPUser_def)
  from u dead complete_no_live [OF this dead] show ?thesis by blast
qed

theorem reset_guessing_bounded_witness:
  "users (reset_attempts 1 2 5 None [(20, ''w1'', 10), (21, ''w2'', 11)] sample_reset_db) = users sample_reset_db
   \<and> CompletePasswordResetOTP 22 1 ''right'' 12 2 5 None
       (reset_attempts 1 2 5 None [(20, ''w1'', 10), (21, ''w2'', 11)] sample_reset_db)
     = Inr (False, reset_attempts 1 2 5 None [(20, ''w1'', 10), (21, ''w2'', 11)] sample_reset_db)"
proof -
  have w: "all_wrong 1 [(20, ''w1'', 10), (21, ''w2'', 11)] sample_reset_db"
    "\<forall>r\<in>set (email_otps sample_reset_db). live_reset 1 r \<longrightarrow> 0 \<le> o_attempts r"
    "max 1 2 \<le> int (length [(20::nat, ''w1'', 10::int), (21, ''w2'', 11)])"
    by (simp_all add: all_wrong_def sample_reset_db_def sample_otp_def)
  show ?thesis
    using reset_guessing_bounded [OF sample_reset_ok w refl, where hid = 22 and h = "''right''" and now = 12
        and historyLimit = 5 and prepare = None] by simp
qed

text \<open>
  C25. A reset completes only with the code of a delivered, unconsumed, unexpired challenge of
  that very account with attempts to spare. The preparer is given the newest \<open>historyLimit\<close> entries of the
  account's history, newest first (none when the limit is not positive). The account gets the password it computed, no
  other account changes, and no usable code is left. In the same transaction the new hash enters the
  history, of which the newest \<open>historyLimit\<close> entries stay (all of them under a negative limit), and the
  histories of the others are as they were.
\<close>

theorem reset_completion_sound:
  assumes "otps_ok d" "distinct (map ph_id (password_histories d))"
    and "CompletePasswordResetOTP hid i h now maxAttempts historyLimit prepare d = Inr (True, d')"
  shows "\<exists>row prep m.
       row \<in> set (email_otps d) \<and> live_reset i row \<and> h = o_code_hash row
     \<and> now < o_expires_at row \<and> o_attempts row < max 1 maxAttempts
     \<and> prepare = Some prep
     \<and> prep (take (nat historyLimit) (history_of i (password_histories d))) = Inr m
     \<and> users d' = map (\<lambda>u. if u_id u = i then u\<lparr>u_password_hash := Some (rm_hash m),
                                                 u_password_changed_at := Some now\<rparr> else u) (users d)
     \<and> history_of i (password_histories d') = limit_rows historyLimit (history_of i (password_histories d @
         [\<lparr>ph_id = hid, ph_user = i, ph_hash = rm_hash m, ph_ciphertext = rm_ciphertext m, ph_nonce = rm_nonce m,
           ph_created_at = now\<rparr>]))
     \<and> filter (\<lambda>e. ph_user e \<noteq> i) (password_histories d') = filter (\<lambda>e. ph_user e \<noteq> i) (password_histories d)
     \<and> (\<forall>r\<in>set (email_otps d'). \<not> live_reset i r)"
  using assms(3)
proof (cases rule: complete_live)
  case none
  then show ?thesis by simp
next
  case (live row)
  from assms(3) have cond: "now < o_expires_at row" "o_attempts row < max 1 maxAttempts" "h = o_code_hash row"
    and ap: "apply_password_reset prepare hid i now historyLimit row d = Inr (True, d')"
    unfolding complete_cases [OF assms(1) live(3,1,2)] by (auto split: if_splits)
  from ap show ?thesis
  proof (rule apply_reset_InrD)
    fix prep d2 and m :: reset_mutation
    let ?e = "\<lparr>ph_id = hid, ph_user = i, ph_hash = rm_hash m, ph_ciphertext = rm_ciphertext m, ph_nonce = rm_nonce m,
        ph_created_at = now\<rparr>"
    assume p: "prepare = Some prep" "prep (if historyLimit > 0 then limit_rows historyLimit
        (order_desc (\<lambda>h. (ph_created_at h, ph_id h)) (filter (\<lambda>h. ph_user h = i) (password_histories d))) else []) = Inr m"
      and ins: "insert_history ?e d = Inr d2"
      and d': "d' = d\<lparr>users := update_rows (\<lambda>u. u_id u = i)
            (\<lambda>u. u\<lparr>u_password_hash := Some (rm_hash m), u_password_changed_at := Some now\<rparr>) (users d),
          password_histories := password_histories (if historyLimit \<ge> 0
            then trim_history (\<lambda>h. (ph_created_at h, ph_id h)) i (nat historyLimit) d2 else d2),
          email_otps := consume_rows (\<lambda>r. o_id r = o_id row) now (email_otps d)\<rparr>"
    note kept = reset_history_kept [OF assms(2) ins password_history.select_convs(2) refl, of historyLimit]
    have "\<forall>r\<in>set (email_otps d'). \<not> live_reset i r"
      using consumed_dead [OF assms(1) [unfolded otps_ok_def] live(1,2)] by (simp add: d')
    moreover have "prep (take (nat historyLimit) (history_of i (password_histories d))) = Inr m"
      using p(2) by (auto simp: history_of_def limit_rows_def split: if_splits)
    ultimately show ?thesis using live cond p(1) kept
      by (intro exI [of _ row] exI [of _ prep] exI [of _ m]) (simp add: d' update_rows_def)
  qed
qed

definition sample_preparer :: "password_history list \<Rightarrow> svc_error + reset_mutation" where
  "sample_preparer h = Inr \<lparr>rm_hash = ''new'', rm_ciphertext = ''c'', rm_nonce = ''n''\<rparr>"

theorem reset_completion_sound_witness:
  "\<exists>d'. CompletePasswordResetOTP 22 1 ''right'' 12 2 5 (Some sample_preparer) sample_reset_db = Inr (True, d')
     \<and> (\<exists>row. row \<in> set (email_otps sample_reset_db) \<and> live_reset 1 row \<and> ''right'' = o_code_hash row)
     \<and> map ph_hash (history_of 1 (password_histories d')) = [''new'']"
proof -
  let ?run = "CompletePasswordResetOTP 22 1 ''right'' 12 2 5 (Some sample_preparer) sample_reset_db"
  have "\<exists>d'. ?run = Inr (True, d')"
    by (simp add: CompletePasswordResetOTP_def apply_password_reset_def sample_reset_db_def sample_otp_def
        lockOTPUser_def exists_row_def newest_def order_desc_def otp_row_defs sample_preparer_def
        count_rows_def insert_history_def trim_history_def update_rows_def new_user_def empty_db_def Let_def)
  then obtain d' where d': "?run = Inr (True, d')" ..
  have none: "password_histories sample_reset_db = []" by (simp add: sample_reset_db_def empty_db_def)
  then have "distinct (map ph_id (password_histories sample_reset_db))" by simp
  from reset_completion_sound [OF sample_reset_ok(1) this d'] show ?thesis
    using d' none by (auto simp: sample_preparer_def history_of_def limit_rows_def order_desc_def)
qed

text \<open>
  The cooldown counts every earlier reset challenge of the account, consumed or not: when a
  code is issued or reserved, each of them is at least \<open>minInterval\<close> old, and the new challenge
  is strictly newer than all of them.
\<close>

theorem reset_cooldown:
  assumes "issuePasswordResetOTP reserved oid i codeHash now expires minInterval d = Inr (Some x, d')"
    and "0 < minInterval" and "s \<in> set (email_otps d)" "reset_of i s"
  shows "minInterval \<le> now - o_created_at s
     \<and> (\<exists>r\<in>set (email_otps d'). o_id r = x \<and> reset_of i r \<and> o_code_hash r = codeHash
           \<and> o_created_at s < o_created_at r)"
proof (rule issue_InrD [OF assms(1)])
  fix r
  assume r: "x = oid" "o_id r = oid" "reset_of i r" "o_code_hash r = codeHash"
    and newer: "\<And>s. s \<in> set (email_otps d) \<Longrightarrow> reset_of i s \<Longrightarrow> o_created_at s < o_created_at r"
    and cool: "\<And>s. s \<in> set (email_otps d) \<Longrightarrow> reset_of i s \<Longrightarrow> 0 < minInterval \<Longrightarrow> minInterval \<le> now - o_created_at s"
    and ins: "insert_otp r (if reserved then email_otps d else consume_rows (reset_of i) (o_created_at r) (email_otps d))
       = Inr (email_otps d')"
  from insert_otp_InrD [OF ins] have "r \<in> set (email_otps d')" by simp
  with r newer [OF assms(3,4)] cool [OF assms(3,4,2)] show ?thesis by blast
qed

theorem reset_cooldown_witness:
  "\<exists>d'. issuePasswordResetOTP True 9 1 ''c2'' 100 1000 60 sample_reset_db = Inr (Some 9, d')
     \<and> 60 \<le> 100 - o_created_at (sample_otp 7 DeliveryActive 5)"
proof -
  have "\<exists>d'. issuePasswordResetOTP True 9 1 ''c2'' 100 1000 60 sample_reset_db = Inr (Some 9, d')"
    by (simp add: issuePasswordResetOTP_def sample_reset_db_def sample_otp_def lockOTPUser_def exists_row_def
        newest_def order_desc_def otp_row_defs insert_otp_def new_user_def empty_db_def Let_def)
  then obtain d' where d': "issuePasswordResetOTP True 9 1 ''c2'' 100 1000 60 sample_reset_db = Inr (Some 9, d')" ..
  have "sample_otp 7 DeliveryActive 5 \<in> set (email_otps sample_reset_db)"
    "reset_of 1 (sample_otp 7 DeliveryActive 5)"
    by (simp_all add: sample_reset_db_def sample_otp_def reset_of_def)
  with reset_cooldown [OF d', of "sample_otp 7 DeliveryActive 5"] d' show ?thesis by simp
qed

text \<open>
  Activation of a delivered reservation never fails on the store the code maintains: it
  answers \<open>activated\<close> or \<open>superseded\<close>, and when it answers \<open>activated\<close> the reserved
  challenge is the one usable code of the account.
\<close>

theorem reset_activation_total:
  assumes "otps_ok d" "lockOTPUser i d" "t \<in> set (email_otps d)" "reset_of i t"
  shows "\<exists>ans d'. ActivatePasswordResetOTP i (o_id t) now d = Inr (ans, d')
     \<and> (ans = PasswordResetActivated \<longrightarrow>
          (\<exists>r\<in>set (email_otps d'). o_id r = o_id t \<and> o_code_hash r = o_code_hash t \<and> live_reset i r)
          \<and> count_rows (live_reset i) (email_otps d') = 1)
     \<and> (ans = PasswordResetSuperseded \<longrightarrow>
          (\<forall>r\<in>set (email_otps d'). o_id r = o_id t \<longrightarrow> \<not> live_reset i r))"
proof -
  from assms(1) have ids: "distinct (map o_id (email_otps d))" by (simp add: otps_ok_def otps_ok_on_def)
  have only: "x = t" if "x \<in> set (email_otps d)" "o_id x = o_id t" for x
    using distinct_key_eq [OF ids that(1) assms(3) that(2)] .
  have t: "find_row (\<lambda>r. o_id r = o_id t \<and> reset_of i r) (email_otps d) = Some t"
    using assms(3,4) only by (cases "find_row (\<lambda>r. o_id r = o_id t \<and> reset_of i r) (email_otps d)")
      (auto simp: find_row_None_iff dest!: find_row_SomeD)
  note act = activate_cases [OF assms(1) t assms(2), of now]
  obtain ans d' where r: "ActivatePasswordResetOTP i (o_id t) now d = Inr (ans, d')"
    using act by (auto split: if_splits)
  have ok': "otps_ok d'" by (rule keepsD [OF activate_keeps r assms(1)])
  have one: "count_rows (live_reset i) (email_otps d') = 1" if "x \<in> set (email_otps d')" "live_reset i x" for x
  proof -
    have "count_rows (live_reset i) (email_otps d') > 0" using that by (auto simp: count_rows_pos_iff)
    moreover have "count_rows (live_reset i) (email_otps d') \<le> 1" using ok' by (simp add: otps_ok_def otps_ok_on_def)
    ultimately show ?thesis by linarith
  qed
  have "t \<in> set (consume_rows (\<lambda>r. reset_of i r \<and> o_id r \<noteq> o_id t \<and> otp_key r < otp_key t) now (email_otps d))"
    using assms(3) by (auto simp: consume_rows_def table_simps)
  then have new: "t\<lparr>o_delivery_state := DeliveryActive\<rparr> \<in> set (activated_rows i now t (email_otps d))"
    unfolding activated_rows_def set_update_rows by blast
  have yes: "\<exists>r\<in>set (email_otps d'). o_id r = o_id t \<and> o_code_hash r = o_code_hash t \<and> live_reset i r"
    if "ans = PasswordResetActivated"
  proof (cases "live_reset i t")
    case True
    with r assms(3) show ?thesis unfolding act by auto
  next
    case False
    with r that have "email_otps d' = activated_rows i now t (email_otps d)" "o_consumed_at t = None"
      unfolding act by (auto split: if_splits)
    with new assms(4) show ?thesis
      by (intro bexI [of _ "t\<lparr>o_delivery_state := DeliveryActive\<rparr>"]) (simp_all add: otp_row_defs)
  qed
  have no: "\<forall>r\<in>set (email_otps d'). o_id r = o_id t \<longrightarrow> \<not> live_reset i r" if "ans = PasswordResetSuperseded"
  proof -
    from r that have "\<not> live_reset i t"
      and "d' = d \<or> d' = d\<lparr>email_otps := consume_rows (\<lambda>r. o_id r = o_id t) now (email_otps d)\<rparr>"
      unfolding act by (simp_all split: if_splits)
    then show ?thesis using only by (auto simp: consume_rows_def table_simps otp_row_defs)
  qed
  show ?thesis using r yes no one by blast
qed

theorem reset_activation_total_witness:
  "\<exists>ans d'. ActivatePasswordResetOTP 1 (o_id (sample_otp 7 DeliveryActive 5)) 12 sample_reset_db = Inr (ans, d')"
  using reset_activation_total [OF sample_reset_ok, of "sample_otp 7 DeliveryActive 5" 12]
  by (auto simp: sample_reset_db_def sample_otp_def reset_of_def)

end
