(* ===== verification/Hierarchy.thy ===== *)
theory Hierarchy
  imports Prelude
begin

text \<open>
  Recursive queries. The role queries of \<open>internal/repository/roles.go\<close> are PostgreSQL
  \<open>WITH RECURSIVE\<close> expressions that carry a depth and the path walked so far, stop at a fixed
  depth and never revisit a node of the path. \<open>cte\<close> is their evaluation: a working table is
  extended level by level until it is empty. Its rows are shown to be exactly the bounded simple
  paths of the graph, hence bounded reachability.
\<close>

section \<open>Evaluation of a bounded recursive query\<close>

definition cte_step :: "('p \<Rightarrow> 'n \<Rightarrow> 'n list) \<Rightarrow> ('p \<times> 'n \<times> 'n list) list \<Rightarrow> ('p \<times> 'n \<times> 'n list) list" where
  "cte_step nxt front =
     concat (map (\<lambda>(p, x, path). map (\<lambda>y. (p, y, path @ [y])) (filter (\<lambda>y. y \<notin> set path) (nxt p x))) front)"

function cte :: "nat \<Rightarrow> ('p \<Rightarrow> 'n \<Rightarrow> 'n list) \<Rightarrow> nat \<Rightarrow> ('p \<times> 'n \<times> 'n list) list \<Rightarrow> ('p \<times> 'n \<times> nat) list" where
  "cte bound nxt depth front =
     (if front = [] then []
      else map (\<lambda>(p, x, path). (p, x, depth)) front
           @ (if depth < bound then cte bound nxt (Suc depth) (cte_step nxt front) else []))"
  by pat_completeness auto
termination
  by (relation "measure (\<lambda>(bound, nxt, depth, front). bound - depth)") auto

declare cte.simps [simp del]

section \<open>Walks\<close>

text \<open>\<open>walk R x zs\<close>: from \<open>x\<close> one can step through the nodes \<open>zs\<close> in order.\<close>

fun walk :: "('n \<Rightarrow> 'n \<Rightarrow> bool) \<Rightarrow> 'n \<Rightarrow> 'n list \<Rightarrow> bool" where
  "walk R x [] \<longleftrightarrow> True"
| "walk R x (z # zs) \<longleftrightarrow> R x z \<and> walk R z zs"

definition endpoint :: "'n \<Rightarrow> 'n list \<Rightarrow> 'n" where
  "endpoint x zs = (if zs = [] then x else last zs)"

lemma endpoint_simps [simp]:
  "endpoint x [] = x" "endpoint x (z # zs) = endpoint z zs" "endpoint x (zs @ [y]) = y"
  by (simp_all add: endpoint_def)

lemma walk_append: "walk R x (ys @ zs) \<longleftrightarrow> walk R x ys \<and> walk R (endpoint x ys) zs"
  by (induction ys arbitrary: x) auto

lemma endpoint_append: "endpoint x (ys @ zs) = endpoint (endpoint x ys) zs"
  by (induction ys arbitrary: x) auto

lemma walk_relpow: "(\<exists>zs. walk R x zs \<and> length zs = k \<and> endpoint x zs = y) \<longleftrightarrow> (x, y) \<in> {(a, b). R a b} ^^ k"
proof (induction k arbitrary: y)
  case 0
  then show ?case by auto
next
  case (Suc k)
  show ?case
  proof
    assume "\<exists>zs. walk R x zs \<and> length zs = Suc k \<and> endpoint x zs = y"
    then obtain zs where zs: "walk R x zs" "length zs = Suc k" "endpoint x zs = y" by blast
    then obtain ys z where "zs = ys @ [z]" by (metis Zero_not_Suc list.size(3) rev_exhaust)
    with zs Suc.IH [of "endpoint x ys"] show "(x, y) \<in> {(a, b). R a b} ^^ Suc k"
      by (auto simp: walk_append)
  next
    assume "(x, y) \<in> {(a, b). R a b} ^^ Suc k"
    then obtain w where "(x, w) \<in> {(a, b). R a b} ^^ k" "R w y" by auto
    with Suc.IH [of w] obtain zs where "walk R x zs" "length zs = k" "endpoint x zs = w" by blast
    with \<open>R w y\<close> show "\<exists>zs. walk R x zs \<and> length zs = Suc k \<and> endpoint x zs = y"
      by (intro exI [of _ "zs @ [y]"]) (simp add: walk_append)
  qed
qed

text \<open>A walk can be cut down to one that visits no node twice.\<close>

lemma walk_shorten:
  "walk R x zs \<Longrightarrow>
     \<exists>ys. walk R x ys \<and> endpoint x ys = endpoint x zs \<and> length ys \<le> length zs \<and> distinct (x # ys)"
proof (induction "length zs" arbitrary: zs rule: less_induct)
  case less
  show ?case
  proof (cases "distinct (x # zs)")
    case True
    with less.prems show ?thesis by blast
  next
    case False
    then obtain as bs cs v where split: "x # zs = as @ [v] @ bs @ [v] @ cs"
      using not_distinct_decomp by blast
    show ?thesis
    proof (cases as)
      case Nil
      with split have zs: "zs = bs @ [v] @ cs" "x = v" by auto
      with less.prems have "walk R x cs" by (simp add: walk_append)
      from less.hyps [OF _ this] zs show ?thesis by (fastforce simp: endpoint_append)
    next
      case (Cons a as')
      with split have zs: "zs = as' @ [v] @ bs @ [v] @ cs" by auto
      with less.prems have "walk R x (as' @ [v] @ cs)" by (auto simp: walk_append endpoint_append)
      from less.hyps [OF _ this] zs show ?thesis by (fastforce simp: endpoint_append)
    qed
  qed
qed

section \<open>The rows of a query are bounded simple paths\<close>

definition simple_from :: "'n list \<Rightarrow> 'n list \<Rightarrow> bool" where
  "simple_from path zs \<longleftrightarrow> distinct zs \<and> set zs \<inter> set path = {}"

lemma cte_step_iff:
  "(p, y, path') \<in> set (cte_step nxt front) \<longleftrightarrow>
     (\<exists>x path. (p, x, path) \<in> set front \<and> y \<in> set (nxt p x) \<and> y \<notin> set path \<and> path' = path @ [y])"
  by (induction front) (auto simp: cte_step_def)

lemma ex_list_cases: "(\<exists>zs. Q zs) \<longleftrightarrow> Q [] \<or> (\<exists>z zs. Q (z # zs))"
  by (metis list.exhaust)

lemma cte_iff:
  "depth \<le> bound \<Longrightarrow> (p, y, k) \<in> set (cte bound nxt depth front) \<longleftrightarrow>
     (\<exists>x path zs. (p, x, path) \<in> set front \<and> walk (\<lambda>a b. b \<in> set (nxt p a)) x zs \<and> endpoint x zs = y
        \<and> simple_from path zs \<and> k = depth + length zs \<and> k \<le> bound)"
proof (induction bound nxt depth front rule: cte.induct)
  case (1 bound nxt depth front)
  let ?R = "\<lambda>a b. b \<in> set (nxt p a)"
  let ?S = "\<lambda>depth front zs. \<exists>x path. (p, x, path) \<in> set front \<and> walk ?R x zs \<and> endpoint x zs = y
        \<and> simple_from path zs \<and> k = depth + length zs \<and> k \<le> bound"
  have nil: "?S depth front [] \<longleftrightarrow> (\<exists>path. (p, y, path) \<in> set front) \<and> k = depth"
    using "1.prems" by (auto simp: simple_from_def)
  have cons: "(\<exists>z zs. ?S depth front (z # zs)) \<longleftrightarrow> (\<exists>zs. ?S (Suc depth) (cte_step nxt front) zs)"
  proof
    assume "\<exists>z zs. ?S depth front (z # zs)"
    then obtain z zs x path where h: "(p, x, path) \<in> set front" "walk ?R x (z # zs)" "endpoint x (z # zs) = y"
      "simple_from path (z # zs)" "k = depth + length (z # zs)" "k \<le> bound" by blast
    then have "(p, z, path @ [z]) \<in> set (cte_step nxt front)"
      by (auto simp: cte_step_iff simple_from_def)
    moreover have "simple_from (path @ [z]) zs" using h(4) by (auto simp: simple_from_def)
    ultimately show "\<exists>zs. ?S (Suc depth) (cte_step nxt front) zs" using h by fastforce
  next
    assume "\<exists>zs. ?S (Suc depth) (cte_step nxt front) zs"
    then obtain zs z path' where h: "(p, z, path') \<in> set (cte_step nxt front)" "walk ?R z zs" "endpoint z zs = y"
      "simple_from path' zs" "k = Suc depth + length zs" "k \<le> bound" by blast
    then obtain x path where x: "(p, x, path) \<in> set front" "?R x z" "z \<notin> set path" "path' = path @ [z]"
      by (auto simp: cte_step_iff)
    with h(4) have "simple_from path (z # zs)" by (auto simp: simple_from_def)
    with x h show "\<exists>z zs. ?S depth front (z # zs)" by fastforce
  qed
  have split: "(\<exists>zs. ?S depth front zs) \<longleftrightarrow> ?S depth front [] \<or> (\<exists>z zs. ?S depth front (z # zs))"
    by (rule ex_list_cases)
  have rec: "(p, y, k) \<in> set (cte bound nxt depth front) \<longleftrightarrow>
      (\<exists>path. (p, y, path) \<in> set front) \<and> k = depth
      \<or> depth < bound \<and> (p, y, k) \<in> set (cte bound nxt (Suc depth) (cte_step nxt front))"
    by (subst cte.simps)
      (auto simp: cte_step_def cte.simps [of bound nxt "Suc depth" "[]"] image_iff Bex_def)
  have deeper: "depth < bound \<and> (p, y, k) \<in> set (cte bound nxt (Suc depth) (cte_step nxt front)) \<longleftrightarrow>
      (\<exists>zs. ?S (Suc depth) (cte_step nxt front) zs)"
  proof (cases "front \<noteq> [] \<and> depth < bound")
    case True
    then have "front \<noteq> []" "depth < bound" "Suc depth \<le> bound" by auto
    from "1.IH" [OF this] \<open>depth < bound\<close> show ?thesis by blast
  next
    case False
    then show ?thesis
      by (auto simp: cte_step_def cte.simps [of bound nxt "Suc depth" "[]"])
  qed
  have "(p, y, k) \<in> set (cte bound nxt depth front) \<longleftrightarrow> (\<exists>zs. ?S depth front zs)"
    unfolding rec deeper split nil cons ..
  then show ?case by blast
qed

section \<open>Bounded reachability\<close>

definition within :: "('n \<times> 'n) set \<Rightarrow> nat \<Rightarrow> 'n \<Rightarrow> 'n \<Rightarrow> bool" where
  "within E n x y \<longleftrightarrow> (\<exists>k\<le>n. (x, y) \<in> E ^^ k)"

lemma within_rtrancl: "within E n x y \<Longrightarrow> (x, y) \<in> E\<^sup>*"
  by (auto simp: within_def dest: relpow_imp_rtrancl)

lemma within_refl [simp]: "within E n x x"
  by (auto simp: within_def intro: exI [of _ 0])

lemma within_mono: "within E m x y \<Longrightarrow> m \<le> n \<Longrightarrow> within E n x y"
  by (auto simp: within_def intro: le_trans)

lemma relpow_conv: "(E\<inverse>) ^^ k = (E ^^ k)\<inverse>" for E :: "('n \<times> 'n) set"
proof (induction k)
  case (Suc k)
  have "(E ^^ Suc k)\<inverse> = (E O E ^^ k)\<inverse>" by (simp only: relpow.simps relpow_commute)
  also have "\<dots> = (E\<inverse>) ^^ Suc k" by (simp add: converse_relcomp Suc.IH)
  finally show ?case by simp
qed simp

lemma within_converse: "within (E\<inverse>) n x y \<longleftrightarrow> within E n y x"
  by (simp add: within_def relpow_conv)

lemma within_walk:
  "within {(a, b). R a b} n x y \<longleftrightarrow> (\<exists>zs. walk R x zs \<and> endpoint x zs = y \<and> length zs \<le> n)"
  using walk_relpow [of R x _ y] unfolding within_def by metis

lemma within_simple:
  "within {(a, b). R a b} n x y \<longleftrightarrow>
     (\<exists>zs. walk R x zs \<and> endpoint x zs = y \<and> length zs \<le> n \<and> simple_from [x] zs)"
proof
  assume "within {(a, b). R a b} n x y"
  then obtain zs where "walk R x zs" "endpoint x zs = y" "length zs \<le> n" by (auto simp: within_walk)
  with walk_shorten [of R x zs] show "\<exists>zs. walk R x zs \<and> endpoint x zs = y \<and> length zs \<le> n \<and> simple_from [x] zs"
    by (fastforce simp: simple_from_def)
qed (auto simp: within_walk)

text \<open>A query started at one node finds exactly what is reachable within the bound; depth 0 is
  the node itself and nothing else.\<close>

lemma cte_reach:
  "(\<exists>k. (p, y, k) \<in> set (cte bound nxt 0 [(p, x, [x])])) \<longleftrightarrow> within {(a, b). b \<in> set (nxt p a)} bound x y"
  unfolding within_simple by (simp add: cte_iff) blast

lemma cte_depth_0: "(p, y, 0) \<in> set (cte bound nxt 0 [(p, x, [x])]) \<longleftrightarrow> y = x"
  by (auto simp: cte_iff simple_from_def)

end
