(* ===== verification/Roles.thy ===== *)
theory Roles
  imports Schema Hierarchy "HOL-Library.List_Lexorder" "HOL-Library.Char_ord"
begin

text \<open>
  Roles, mounts, tags and memberships: \<open>internal/repository/roles.go\<close>. Role names are ordered
  byte-wise (the C collation). The advisory lock of \<open>lockRoleHierarchy\<close> serialises the
  hierarchy writers and has no effect on the data, so a transaction that takes it is one step of
  the model like every other.
\<close>

section \<open>Levels\<close>

text \<open>The PostgreSQL enum \<open>role_level\<close> is ordered as its values are listed.\<close>

fun level_rank :: "role_level \<Rightarrow> nat" where
  "level_rank RoleDirectMember = 0"
| "level_rank RoleMember = 1"
| "level_rank RoleRoleAdmin = 2"

instantiation role_level :: linorder
begin
definition less_eq_role_level :: "role_level \<Rightarrow> role_level \<Rightarrow> bool" where
  "less_eq_role_level a b \<longleftrightarrow> level_rank a \<le> level_rank b"
definition less_role_level :: "role_level \<Rightarrow> role_level \<Rightarrow> bool" where
  "less_role_level a b \<longleftrightarrow> level_rank a < level_rank b"
instance
proof
  fix a b :: role_level
  show "a \<le> b \<Longrightarrow> b \<le> a \<Longrightarrow> a = b"
    by (cases a; cases b) (simp_all add: less_eq_role_level_def)
qed (auto simp: less_eq_role_level_def less_role_level_def)
end

definition inherits :: "role_level \<Rightarrow> bool" where
  "inherits l \<longleftrightarrow> l \<in> {RoleMember, RoleRoleAdmin}"

section \<open>The mount graph\<close>

definition parents_of :: "db \<Rightarrow> uuid \<Rightarrow> uuid list" where
  "parents_of d x = map m_parent (filter (\<lambda>m. m_child m = x) (role_mounts d))"

definition children_of :: "db \<Rightarrow> uuid \<Rightarrow> uuid list" where
  "children_of d x = map m_child (filter (\<lambda>m. m_parent m = x) (role_mounts d))"

definition max_depth :: nat where "max_depth = 64"

text \<open>The common table expression \<open>anc\<close>: the role itself at depth 0, then parents.\<close>

definition anc_rows :: "uuid \<Rightarrow> db \<Rightarrow> (unit \<times> uuid \<times> nat) list" where
  "anc_rows x d = cte max_depth (\<lambda>_. parents_of d) 0
     (map (\<lambda>r. ((), r_id r, [r_id r])) (filter (\<lambda>r. r_id r = x) (roles d)))"

definition requireRole :: "uuid \<Rightarrow> db \<Rightarrow> bool" where
  "requireRole x d \<longleftrightarrow> count_rows (\<lambda>r. r_id r = x) (roles d) = 1"

definition roleHasAncestorTx :: "uuid \<Rightarrow> uuid \<Rightarrow> db \<Rightarrow> bool" where
  "roleHasAncestorTx x candidate d \<longleftrightarrow> exists_row (\<lambda>(_, y, _). y = candidate) (anc_rows x d)"

definition RoleHasAncestor :: "uuid \<Rightarrow> uuid \<Rightarrow> bool repo" where
  "RoleHasAncestor x candidate = reads (roleHasAncestorTx x candidate)"

definition RoleAncestors :: "uuid \<Rightarrow> uuid list repo" where
  "RoleAncestors x = reads (\<lambda>d. remdups (map (\<lambda>(_, y, _). y) (anc_rows x d)))"

section \<open>Writing the hierarchy\<close>

text \<open>The unique index and the check on role names: \<open>roles_name_ci_unique\<close> (which subsumes
  the plain unique index) and \<open>roles_name_not_blank\<close>.\<close>

definition insert_role :: "role \<Rightarrow> db \<Rightarrow> repo_error + db" where
  "insert_role r d =
     (if BTRIM (r_name r) = [] then Inl CheckViolation
      else if exists_row (\<lambda>x. r_id x = r_id r \<or> ToLower (BTRIM (r_name x)) = ToLower (BTRIM (r_name r))) (roles d)
      then Inl UniqueViolation
      else Inr (d\<lparr>roles := roles d @ [r]\<rparr>))"

definition insert_mount :: "uuid \<Rightarrow> uuid \<Rightarrow> db \<Rightarrow> repo_error + db" where
  "insert_mount child parent d =
     (if \<not> exists_row (\<lambda>r. r_id r = child) (roles d) \<or> \<not> exists_row (\<lambda>r. r_id r = parent) (roles d)
      then Inl ForeignKeyViolation
      else if exists_row (\<lambda>m. m_child m = child \<and> m_parent m = parent) (role_mounts d)
      then Inl UniqueViolation
      else Inr (d\<lparr>role_mounts := role_mounts d @ [\<lparr>m_child = child, m_parent = parent\<rparr>]\<rparr>))"

text \<open>The deduplication loop over the requested parents.\<close>

fun dedup_parents :: "uuid list \<Rightarrow> uuid list \<Rightarrow> uuid list \<Rightarrow> repo_error + uuid list" where
  "dedup_parents seen parents [] = Inr parents"
| "dedup_parents seen parents (p # ps) =
     (if p = uuid_Nil then Inl (RepoMessage ''parent role is required'')
      else if p \<in> set seen then dedup_parents seen parents ps
      else dedup_parents (p # seen) (parents @ [p]) ps)"

fun mount_all :: "uuid \<Rightarrow> uuid list \<Rightarrow> db \<Rightarrow> repo_error + db" where
  "mount_all x [] d = Inr d"
| "mount_all x (p # ps) d = (case insert_mount x p d of Inl e \<Rightarrow> Inl e | Inr d' \<Rightarrow> mount_all x ps d')"

definition CreateRoleWithParents :: "uuid \<Rightarrow> instant \<Rightarrow> string \<Rightarrow> string \<Rightarrow> uuid list \<Rightarrow> uuid repo" where
  "CreateRoleWithParents newID now name0 description parentIDs d =
     (let name = TrimSpace name0
      in if name = [] then Inl (RepoMessage ''role name is required'')
         else case dedup_parents [] [] parentIDs of
           Inl e \<Rightarrow> Inl e
         | Inr parents \<Rightarrow>
             if parents \<noteq> [] \<and> count_rows (\<lambda>r. r_id r \<in> set parents) (roles d) \<noteq> length parents
             then Inl (RepoMessage ''parent role not found'')
             else case insert_role \<lparr>r_id = newID, r_name = name, r_description = description, r_created_at = now\<rparr> d of
               Inl e \<Rightarrow> Inl e
             | Inr d1 \<Rightarrow>
                 (case mount_all newID parents d1 of Inl e \<Rightarrow> Inl e | Inr d2 \<Rightarrow> Inr (newID, d2)))"

definition CreateRole :: "uuid \<Rightarrow> instant \<Rightarrow> string \<Rightarrow> string \<Rightarrow> uuid option \<Rightarrow> uuid repo" where
  "CreateRole newID now name description parentID =
     CreateRoleWithParents newID now name description (case parentID of None \<Rightarrow> [] | Some p \<Rightarrow> [p])"

definition SetRoleParent :: "uuid \<Rightarrow> uuid option \<Rightarrow> unit repo" where
  "SetRoleParent x parentID d =
     (if \<not> requireRole x d then Inl ErrRecordNotFound
      else
        let cleared = d\<lparr>role_mounts := delete_rows (\<lambda>m. m_child m = x) (role_mounts d)\<rparr>
        in case parentID of
             None \<Rightarrow> Inr ((), cleared)
           | Some p \<Rightarrow>
               if \<not> requireRole p d then Inl ErrRecordNotFound
               else if roleHasAncestorTx p x d then Inl (RepoMessage ''parent would create a cycle'')
               else (case insert_mount x p cleared of Inl e \<Rightarrow> Inl e | Inr d' \<Rightarrow> Inr ((), d')))"

definition MountRole :: "uuid \<Rightarrow> uuid \<Rightarrow> unit repo" where
  "MountRole x p d =
     (if \<not> requireRole x d then Inl ErrRecordNotFound
      else if \<not> requireRole p d then Inl ErrRecordNotFound
      else if roleHasAncestorTx p x d then Inl (RepoMessage ''mount would create a cycle'')
      else if exists_row (\<lambda>m. m_child m = x \<and> m_parent m = p) (role_mounts d) then Inr ((), d)
      else (case insert_mount x p d of Inl e \<Rightarrow> Inl e | Inr d' \<Rightarrow> Inr ((), d')))"

definition UnmountRole :: "uuid \<Rightarrow> uuid \<Rightarrow> unit repo" where
  "UnmountRole x p =
     writes (\<lambda>d. d\<lparr>role_mounts := delete_rows (\<lambda>m. m_child m = x \<and> m_parent m = p) (role_mounts d)\<rparr>)"

text \<open>\<open>INSERT INTO role_mounts SELECT ... ON CONFLICT DO NOTHING\<close>: every child of the deleted
  role under every one of its parents.\<close>

definition bridge_mounts :: "uuid \<Rightarrow> role_mount list \<Rightarrow> role_mount list" where
  "bridge_mounts x ms =
     ms @ filter (\<lambda>m. m \<notin> set ms)
       (remdups (concat (map (\<lambda>c. map (\<lambda>p. \<lparr>m_child = m_child c, m_parent = m_parent p\<rparr>)
          (filter (\<lambda>p. m_child p = x) ms)) (filter (\<lambda>c. m_parent c = x) ms))))"

definition DeleteRole :: "uuid \<Rightarrow> unit repo" where
  "DeleteRole x d =
     (if \<not> exists_row (\<lambda>r. r_id r = x) (roles d) then Inr ((), d)
      else
        let held = map ur_id (filter (\<lambda>ur. ur_role ur = x) (user_roles d))
        in Inr ((), d\<lparr>
             role_mounts := delete_rows (\<lambda>m. m_child m = x \<or> m_parent m = x) (bridge_mounts x (role_mounts d)),
             user_role_tags := delete_rows (\<lambda>t. urt_user_role t \<in> set held) (user_role_tags d),
             user_roles := delete_rows (\<lambda>ur. ur_role ur = x) (user_roles d),
             role_requests := delete_rows (\<lambda>q. q_role q = x) (role_requests d),
             role_tags := delete_rows (\<lambda>t. rt_role t = x) (role_tags d),
             roles := delete_rows (\<lambda>r. r_id r = x) (roles d)\<rparr>))"

section \<open>Reading roles\<close>

record role_view =
  v_role :: role
  v_parents :: "uuid list"
  v_parent :: "uuid option"
  v_tags :: "string list"

definition loadRoleParents :: "db \<Rightarrow> uuid \<Rightarrow> uuid list" where
  "loadRoleParents d x =
     map m_parent (filter (\<lambda>m. m_child m = x) (order_asc m_parent (role_mounts d)))"

definition loadRoleDetails :: "db \<Rightarrow> role list \<Rightarrow> role_view list" where
  "loadRoleDetails d rs =
     map (\<lambda>r. let ps = loadRoleParents d (r_id r)
              in \<lparr>v_role = r, v_parents = ps,
                  v_parent = (case ps of [] \<Rightarrow> None | p # _ \<Rightarrow> Some p),
                  v_tags = map rt_tag (filter (\<lambda>t. rt_role t = r_id r) (order_asc rt_tag (role_tags d)))\<rparr>) rs"

definition GetRoleByName :: "string \<Rightarrow> role_view option repo" where
  "GetRoleByName name =
     reads (\<lambda>d. map_option (\<lambda>r. hd (loadRoleDetails d [r]))
       (find_row (\<lambda>r. ToLower (r_name r) = ToLower (TrimSpace name)) (roles d)))"

definition GetRoleByID :: "uuid \<Rightarrow> role_view option repo" where
  "GetRoleByID x =
     reads (\<lambda>d. map_option (\<lambda>r. hd (loadRoleDetails d [r])) (find_row (\<lambda>r. r_id r = x) (roles d)))"

definition ListRoles :: "role_view list repo" where
  "ListRoles = reads (\<lambda>d. loadRoleDetails d (order_asc r_name (roles d)))"

definition sub_rows :: "uuid \<Rightarrow> db \<Rightarrow> (unit \<times> uuid \<times> nat) list" where
  "sub_rows x d = cte max_depth (\<lambda>_. children_of d) 1
     (map (\<lambda>c. ((), c, [x, c])) (children_of d x))"

definition ListSubroles :: "uuid \<Rightarrow> bool \<Rightarrow> role_view list repo" where
  "ListSubroles x recursive =
     reads (\<lambda>d. loadRoleDetails d (order_asc r_name
       (if recursive
        then filter (\<lambda>r. exists_row (\<lambda>(_, y, _). y = r_id r) (sub_rows x d)) (roles d)
        else concat (map (\<lambda>r. map (\<lambda>_. r)
               (filter (\<lambda>m. m_child m = r_id r \<and> m_parent m = x) (role_mounts d))) (roles d)))))"

definition UpdateRoleDescription :: "uuid \<Rightarrow> string \<Rightarrow> unit repo" where
  "UpdateRoleDescription x description =
     writes (\<lambda>d. d\<lparr>roles := update_rows (\<lambda>r. r_id r = x) (\<lambda>r. r\<lparr>r_description := description\<rparr>) (roles d)\<rparr>)"

section \<open>Tags of a role\<close>

text \<open>The tag columns hold at most 64 characters.\<close>

definition tag_fits :: "string \<Rightarrow> bool" where
  "tag_fits tag \<longleftrightarrow> length tag \<le> 64"

definition insert_role_tag :: "uuid \<Rightarrow> string \<Rightarrow> db \<Rightarrow> repo_error + db" where
  "insert_role_tag x tag d =
     (if \<not> tag_fits tag then Inl (RepoMessage ''value too long'')
      else if exists_row (\<lambda>t. rt_role t = x \<and> rt_tag t = tag) (role_tags d) then Inr d
      else if \<not> exists_row (\<lambda>r. r_id r = x) (roles d) then Inl ForeignKeyViolation
      else Inr (d\<lparr>role_tags := role_tags d @ [\<lparr>rt_role = x, rt_tag = tag\<rparr>]\<rparr>))"

definition AddRoleTag :: "uuid \<Rightarrow> string \<Rightarrow> unit repo" where
  "AddRoleTag x tag d = (case insert_role_tag x tag d of Inl e \<Rightarrow> Inl e | Inr d' \<Rightarrow> Inr ((), d'))"

definition DeleteRoleTag :: "uuid \<Rightarrow> string \<Rightarrow> unit repo" where
  "DeleteRoleTag x tag =
     writes (\<lambda>d. d\<lparr>role_tags := delete_rows (\<lambda>t. rt_role t = x \<and> rt_tag t = tag) (role_tags d)\<rparr>)"

definition member_rows :: "uuid \<Rightarrow> db \<Rightarrow> uuid set" where
  "member_rows x d = ur_id ` set (filter (\<lambda>ur. ur_role ur = x) (user_roles d))"

definition RenameRoleTag :: "uuid \<Rightarrow> string \<Rightarrow> string \<Rightarrow> unit repo" where
  "RenameRoleTag x oldTag newTag d =
     (if oldTag = newTag then Inr ((), d)
      else if count_rows (\<lambda>t. rt_role t = x \<and> rt_tag t = oldTag) (role_tags d) = 0 then Inl ErrRecordNotFound
      else case insert_role_tag x newTag d of
        Inl e \<Rightarrow> Inl e
      | Inr d1 \<Rightarrow>
          let old = (\<lambda>t. urt_user_role t \<in> member_rows x d \<and> urt_tag t = oldTag);
              grants = filter (\<lambda>t. t \<notin> set (user_role_tags d1))
                (remdups (map (\<lambda>t. t\<lparr>urt_tag := newTag\<rparr>) (filter old (user_role_tags d1))))
          in Inr ((), d1\<lparr>user_role_tags := delete_rows old (user_role_tags d1 @ grants),
                         role_tags := delete_rows (\<lambda>t. rt_role t = x \<and> rt_tag t = oldTag) (role_tags d1)\<rparr>))"

section \<open>Memberships\<close>

definition active_at :: "instant \<Rightarrow> user_role \<Rightarrow> bool" where
  "active_at now ur \<longleftrightarrow> ur_valid_from ur \<le> now \<and> (case ur_valid_until ur of None \<Rightarrow> True | Some t \<Rightarrow> t > now)"

definition membership_of :: "uuid \<Rightarrow> uuid \<Rightarrow> user_role \<Rightarrow> bool" where
  "membership_of i x ur \<longleftrightarrow> ur_user ur = i \<and> ur_role ur = x"

text \<open>\<open>INSERT ... ON CONFLICT (user_id, role_id) DO UPDATE\<close>.\<close>

definition upsert_membership :: "user_role \<Rightarrow> user_role list \<Rightarrow> repo_error + user_role list" where
  "upsert_membership ur urs =
     (if exists_row (membership_of (ur_user ur) (ur_role ur)) urs
      then Inr (update_rows (membership_of (ur_user ur) (ur_role ur))
             (\<lambda>m. m\<lparr>ur_level := ur_level ur, ur_valid_from := ur_valid_from ur,
                   ur_valid_until := ur_valid_until ur, ur_granted_by := ur_granted_by ur\<rparr>) urs)
      else if exists_row (\<lambda>m. ur_id m = ur_id ur) urs then Inl UniqueViolation
      else Inr (urs @ [ur]))"

definition grant_tag :: "uuid \<Rightarrow> string \<Rightarrow> user_role_tag list \<Rightarrow> user_role_tag list" where
  "grant_tag mid tag ts =
     (if \<lparr>urt_user_role = mid, urt_tag = tag\<rparr> \<in> set ts then ts
      else ts @ [\<lparr>urt_user_role = mid, urt_tag = tag\<rparr>])"

text \<open>
  The row is created with the generated id \<open>newID\<close> still set on the Go struct, and the struct
  is then the destination of \<open>Take\<close>; GORM adds the primary key of a destination that has one
  to the query's conditions, so the lookup before the tag grants asks for the generated id too.
\<close>

definition assignUserRoleTx ::
  "uuid \<Rightarrow> uuid \<Rightarrow> uuid \<Rightarrow> role_level \<Rightarrow> uuid option \<Rightarrow> instant \<Rightarrow> instant option \<Rightarrow> string list
   \<Rightarrow> unit repo" where
  "assignUserRoleTx newID i x level grantedBy validFrom validUntil tags d =
     (if count_rows (\<lambda>u. u_id u = i) (users d) \<noteq> 1 then Inl (RepoMessage ''user not found'')
      else if \<not> requireRole x d then Inl (RepoMessage ''role not found'')
      else case upsert_membership \<lparr>ur_id = newID, ur_user = i, ur_role = x, ur_level = level,
              ur_valid_from = validFrom, ur_valid_until = validUntil, ur_granted_by = grantedBy\<rparr> (user_roles d) of
        Inl e \<Rightarrow> Inl e
      | Inr urs \<Rightarrow>
          let d1 = d\<lparr>user_roles := urs\<rparr>
          in if tags = [] then Inr ((), d1)
             else case find_row (\<lambda>m. ur_id m = newID \<and> membership_of i x m) urs of
               None \<Rightarrow> Inl ErrRecordNotFound
             | Some m \<Rightarrow>
                 if count_rows (\<lambda>t. rt_role t = x \<and> rt_tag t \<in> set tags) (role_tags d1) \<noteq> length tags
                 then Inl (RepoMessage ''one or more tags are not configured for role'')
                 else Inr ((), d1\<lparr>user_role_tags := fold (grant_tag (ur_id m)) tags (user_role_tags d1)\<rparr>))"

definition AssignUserRole ::
  "uuid \<Rightarrow> uuid \<Rightarrow> uuid \<Rightarrow> role_level \<Rightarrow> uuid option \<Rightarrow> instant \<Rightarrow> instant option \<Rightarrow> unit repo" where
  "AssignUserRole newID i x level grantedBy validFrom validUntil =
     assignUserRoleTx newID i x level grantedBy validFrom validUntil []"

definition AssignUserRoleWithTagGrants ::
  "uuid \<Rightarrow> uuid \<Rightarrow> uuid \<Rightarrow> role_level \<Rightarrow> uuid option \<Rightarrow> instant \<Rightarrow> instant option \<Rightarrow> string list \<Rightarrow> unit repo" where
  "AssignUserRoleWithTagGrants = assignUserRoleTx"

definition AddUserRoleTag :: "uuid \<Rightarrow> uuid \<Rightarrow> string \<Rightarrow> unit repo" where
  "AddUserRoleTag i x tag d =
     (case find_row (membership_of i x) (user_roles d) of
        None \<Rightarrow> Inl ErrRecordNotFound
      | Some m \<Rightarrow>
          if \<not> tag_fits tag then Inl (RepoMessage ''value too long'')
          else Inr ((), d\<lparr>user_role_tags := grant_tag (ur_id m) tag (user_role_tags d)\<rparr>))"

definition DeleteUserRoleTag :: "uuid \<Rightarrow> uuid \<Rightarrow> string \<Rightarrow> unit repo" where
  "DeleteUserRoleTag i x tag =
     writes (\<lambda>d. d\<lparr>user_role_tags := delete_rows
       (\<lambda>t. urt_tag t = tag \<and> exists_row (\<lambda>m. ur_id m = urt_user_role t \<and> membership_of i x m) (user_roles d))
       (user_role_tags d)\<rparr>)"

definition RemoveUserRole :: "uuid \<Rightarrow> uuid \<Rightarrow> unit repo" where
  "RemoveUserRole i x d =
     (case find_row (membership_of i x) (user_roles d) of
        None \<Rightarrow> Inr ((), d)
      | Some m \<Rightarrow>
          Inr ((), d\<lparr>user_role_tags := delete_rows (\<lambda>t. urt_user_role t = ur_id m) (user_role_tags d),
                     user_roles := delete_rows (\<lambda>ur. ur_id ur = ur_id m) (user_roles d)\<rparr>))"

definition ListUserRoles :: "uuid \<Rightarrow> instant \<Rightarrow> user_role list repo" where
  "ListUserRoles i now = reads (\<lambda>d. filter (\<lambda>ur. ur_user ur = i \<and> active_at now ur) (user_roles d))"

record role_member =
  rm_user :: uuid
  rm_login :: string
  rm_email :: "string option"
  rm_level :: role_level
  rm_valid_until :: "instant option"
  rm_tags :: "string list"

definition member_row :: "db \<Rightarrow> user_role \<Rightarrow> user \<Rightarrow> role_member" where
  "member_row d ur u =
     \<lparr>rm_user = ur_user ur, rm_login = u_login u, rm_email = u_email u, rm_level = ur_level ur,
      rm_valid_until = ur_valid_until ur,
      rm_tags = order_asc id (map urt_tag (filter (\<lambda>t. urt_user_role t = ur_id ur) (user_role_tags d)))\<rparr>"

definition ListRoleMembers :: "uuid \<Rightarrow> instant \<Rightarrow> role_member list repo" where
  "ListRoleMembers x now =
     reads (\<lambda>d. order_asc (\<lambda>r. (2 - level_rank (rm_level r), rm_login r))
       (concat (map (\<lambda>ur. map (member_row d ur) (filter (\<lambda>u. u_id u = ur_user ur) (users d)))
          (filter (\<lambda>ur. ur_role ur = x \<and> active_at now ur) (user_roles d)))))"

definition GetUserRoleLevel :: "uuid \<Rightarrow> uuid \<Rightarrow> instant \<Rightarrow> role_level option repo" where
  "GetUserRoleLevel i x now =
     reads (\<lambda>d. map_option ur_level (find_row (\<lambda>ur. membership_of i x ur \<and> active_at now ur) (user_roles d)))"

section \<open>Effective authority\<close>

definition UserHasEffectiveRole :: "uuid \<Rightarrow> uuid \<Rightarrow> instant \<Rightarrow> bool repo" where
  "UserHasEffectiveRole i x now =
     reads (\<lambda>d. exists_row (\<lambda>(_, y, depth). exists_row (\<lambda>ur. membership_of i y ur \<and> active_at now ur
       \<and> (depth = 0 \<or> inherits (ur_level ur))) (user_roles d)) (anc_rows x d))"

definition UserIsEffectiveRoleAdmin :: "uuid \<Rightarrow> uuid \<Rightarrow> instant \<Rightarrow> bool repo" where
  "UserIsEffectiveRoleAdmin i x now =
     reads (\<lambda>d. exists_row (\<lambda>(_, y, depth). exists_row (\<lambda>ur. membership_of i y ur
       \<and> ur_level ur = RoleRoleAdmin \<and> active_at now ur) (user_roles d)) (anc_rows x d))"

definition UserHasEffectiveRoleTag :: "uuid \<Rightarrow> uuid \<Rightarrow> string \<Rightarrow> instant \<Rightarrow> bool repo" where
  "UserHasEffectiveRoleTag i x tag0 now =
     (let tag = ToLower tag0
      in reads (\<lambda>d. exists_row (\<lambda>(_, y, depth). exists_row (\<lambda>ur. membership_of i y ur \<and> active_at now ur
           \<and> (depth = 0 \<or> inherits (ur_level ur))
           \<and> exists_row (\<lambda>t. urt_user_role t = ur_id ur \<and> urt_tag t = tag) (user_role_tags d)
           \<and> exists_row (\<lambda>t. rt_role t = y \<and> rt_tag t = tag) (role_tags d)) (user_roles d)) (anc_rows x d)))"

record effective_access =
  ea_role :: uuid
  ea_can_manage :: bool

definition access_rows :: "uuid \<Rightarrow> instant \<Rightarrow> db \<Rightarrow> ((bool \<times> bool) \<times> uuid \<times> nat) list" where
  "access_rows i now d =
     cte max_depth (\<lambda>(_, inh) y. if inh then children_of d y else []) 0
       (map (\<lambda>ur. ((ur_level ur = RoleRoleAdmin, inherits (ur_level ur)), ur_role ur, [ur_role ur]))
         (filter (\<lambda>ur. ur_user ur = i \<and> active_at now ur) (user_roles d)))"

text \<open>\<open>SELECT role_id, BOOL_OR(can_manage) ... GROUP BY role_id ORDER BY role_id\<close>.\<close>

definition ListEffectiveRoleAccess :: "uuid \<Rightarrow> instant \<Rightarrow> effective_access list repo" where
  "ListEffectiveRoleAccess i now =
     reads (\<lambda>d. let rows = access_rows i now d
       in map (\<lambda>y. \<lparr>ea_role = y, ea_can_manage = exists_row (\<lambda>((manage, _), z, _). z = y \<and> manage) rows\<rparr>)
            (order_asc id (remdups (map (\<lambda>(_, y, _). y) rows))))"

definition UserHasRoleName :: "uuid \<Rightarrow> string \<Rightarrow> instant \<Rightarrow> bool repo" where
  "UserHasRoleName i name now =
     reads (\<lambda>d. exists_row (\<lambda>ur. ur_user ur = i \<and> active_at now ur
       \<and> exists_row (\<lambda>r. r_id r = ur_role ur \<and> r_name r = name) (roles d)) (user_roles d))"

end
