(* ===== verification/Authority.thy ===== *)
theory Authority
  imports Roles
begin

text \<open>
  What the role queries compute. The mounts are a graph from a role to its parents; the queries
  of \<open>roles.go\<close> are shown to decide reachability in it within 64 steps, mounting is shown to
  keep the graph acyclic while no chain is longer than that (and shown not to, beyond), deleting
  a role to keep the reachability of the others, and the list the web client shows to agree with
  the checks the server makes.
\<close>

section \<open>The graph of mounts\<close>

definition edges :: "db \<Rightarrow> (uuid \<times> uuid) set" where
  "edges d = (\<lambda>m. (m_child m, m_parent m)) ` set (role_mounts d)"

definition role_ids :: "db \<Rightarrow> uuid set" where
  "role_ids d = r_id ` set (roles d)"

definition mount_pair :: "role_mount \<Rightarrow> uuid \<times> uuid" where
  "mount_pair m = (m_child m, m_parent m)"

lemma mount_pair_iff: "(x, y) \<in> mount_pair ` set ms \<longleftrightarrow> \<lparr>m_child = x, m_parent = y\<rparr> \<in> set ms"
proof
  assume "(x, y) \<in> mount_pair ` set ms"
  then obtain m where m: "m \<in> set ms" "m_child m = x" "m_parent m = y" by (auto simp: mount_pair_def)
  then have "m = \<lparr>m_child = x, m_parent = y\<rparr>" by (intro role_mount.equality) simp_all
  with m(1) show "\<lparr>m_child = x, m_parent = y\<rparr> \<in> set ms" by simp
qed (force simp: mount_pair_def)

lemma edges_pairs: "edges d = mount_pair ` set (role_mounts d)"
  by (simp add: edges_def mount_pair_def)

lemma edges_iff: "(x, y) \<in> edges d \<longleftrightarrow> \<lparr>m_child = x, m_parent = y\<rparr> \<in> set (role_mounts d)"
  by (simp add: edges_pairs mount_pair_iff)

lemma parents_edges: "{(a, b). b \<in> set (parents_of d a)} = edges d"
  by (auto simp: parents_of_def edges_def image_iff)

lemma children_edges: "{(a, b). b \<in> set (children_of d a)} = (edges d)\<inverse>"
  by (auto simp: children_of_def edges_def image_iff)

lemma anc_rows_iff: "(\<exists>k. ((), y, k) \<in> set (anc_rows x d)) \<longleftrightarrow> x \<in> role_ids d \<and> within (edges d) max_depth x y"
  unfolding anc_rows_def parents_edges [symmetric] within_simple
  by (simp add: cte_iff role_ids_def image_iff) blast

lemma anc_rows_0: "((), y, 0) \<in> set (anc_rows x d) \<longleftrightarrow> x \<in> role_ids d \<and> y = x"
  by (auto simp: anc_rows_def cte_iff role_ids_def simple_from_def image_iff)

section \<open>Ancestry as an interface\<close>

text \<open>
  What a client of the hierarchy relies on: a search that decides reachability up to a bound.
  \<open>shallow\<close> is the condition under which the bound does not matter.
\<close>

definition shallow :: "('n \<times> 'n) set \<Rightarrow> nat \<Rightarrow> bool" where
  "shallow E n \<longleftrightarrow> (\<forall>x y. (x, y) \<in> E\<^sup>* \<longrightarrow> within E n x y)"

locale ancestry =
  fixes links :: "'s \<Rightarrow> ('r \<times> 'r) set"
    and known :: "'s \<Rightarrow> 'r set"
    and found :: "'s \<Rightarrow> 'r \<Rightarrow> 'r \<Rightarrow> bool"
    and bound :: nat
  assumes found_iff: "found s x y \<longleftrightarrow> x \<in> known s \<and> within (links s) bound x y"
begin

lemma found_sound: "found s x y \<Longrightarrow> (x, y) \<in> (links s)\<^sup>*"
  by (auto simp: found_iff intro: within_rtrancl)

lemma found_complete: "shallow (links s) bound \<Longrightarrow> x \<in> known s \<Longrightarrow> (x, y) \<in> (links s)\<^sup>* \<Longrightarrow> found s x y"
  by (simp add: found_iff shallow_def)

text \<open>Linking a node under a parent that does not have it as an ancestor keeps the graph acyclic.\<close>

lemma guarded_link_acyclic:
  assumes "acyclic (links s)" "shallow (links s) bound" "p \<in> known s" "\<not> found s p x"
    and "links s' \<subseteq> insert (x, p) (links s)"
  shows "acyclic (links s')"
proof -
  have "(p, x) \<notin> (links s)\<^sup>*" using found_complete assms(2-4) by blast
  then have "acyclic (insert (x, p) (links s))" using assms(1) by (simp add: acyclic_insert)
  then show ?thesis using assms(5) by (rule acyclic_subset)
qed

end

text \<open>Authority that is granted on some roles and inherited by everything below them.\<close>

locale authority = ancestry links known found bound
  for links :: "'s \<Rightarrow> ('r \<times> 'r) set" and known :: "'s \<Rightarrow> 'r set" and found and bound +
  fixes grant :: "'s \<Rightarrow> 'u \<Rightarrow> 'r \<Rightarrow> bool"
    and has :: "'s \<Rightarrow> 'u \<Rightarrow> 'r \<Rightarrow> bool"
  assumes has_iff: "has s u x \<longleftrightarrow> (\<exists>y. grant s u y \<and> found s x y)"
begin

lemma granted_has: "x \<in> known s \<Longrightarrow> grant s u x \<Longrightarrow> has s u x"
  by (auto simp: has_iff found_iff)

lemma inherited:
  assumes "shallow (links s) bound" "x \<in> known s" "(x, p) \<in> (links s)\<^sup>*" "has s u p"
  shows "has s u x"
proof -
  from assms(4) obtain y where "grant s u y" "found s p y" by (auto simp: has_iff)
  moreover have "(x, y) \<in> (links s)\<^sup>*" using assms(3) found_sound [OF \<open>found s p y\<close>] by (rule rtrancl_trans)
  ultimately show ?thesis using found_complete assms(1,2) has_iff by blast
qed

lemma no_grant_no_authority: "(\<And>y. \<not> grant s u y) \<Longrightarrow> \<not> has s u x"
  by (simp add: has_iff)

end

interpretation role_tree: ancestry edges role_ids "\<lambda>d x y. roleHasAncestorTx x y d" max_depth
proof
  fix d x y
  show "roleHasAncestorTx x y d \<longleftrightarrow> x \<in> role_ids d \<and> within (edges d) max_depth x y"
    unfolding anc_rows_iff [symmetric]
    by (auto simp: roleHasAncestorTx_def table_simps)
qed

definition admin_grant :: "instant \<Rightarrow> db \<Rightarrow> uuid \<Rightarrow> uuid \<Rightarrow> bool" where
  "admin_grant now d i y \<longleftrightarrow>
     (\<exists>ur\<in>set (user_roles d). membership_of i y ur \<and> ur_level ur = RoleRoleAdmin \<and> active_at now ur)"

definition is_admin :: "instant \<Rightarrow> db \<Rightarrow> uuid \<Rightarrow> uuid \<Rightarrow> bool" where
  "is_admin now d i x \<longleftrightarrow> UserIsEffectiveRoleAdmin i x now d = Inr (True, d)"

lemma admin_result: "UserIsEffectiveRoleAdmin i x now d = Inr (is_admin now d i x, d)"
  by (simp add: is_admin_def UserIsEffectiveRoleAdmin_def reads_def)

interpretation role_admin: authority edges role_ids "\<lambda>d x y. roleHasAncestorTx x y d" max_depth
    "admin_grant now" "is_admin now" for now
proof
  fix d i x
  show "is_admin now d i x \<longleftrightarrow> (\<exists>y. admin_grant now d i y \<and> roleHasAncestorTx x y d)"
    by (force simp: is_admin_def UserIsEffectiveRoleAdmin_def reads_def admin_grant_def
        roleHasAncestorTx_def table_simps)
qed

section \<open>Referential integrity\<close>

text \<open>The primary keys, the unique pair index and the foreign keys of the role tables.\<close>

definition member_key :: "user_role \<Rightarrow> uuid \<times> uuid \<times> uuid" where
  "member_key ur = (ur_id ur, ur_user ur, ur_role ur)"

definition roles_ok_on :: "uuid list \<Rightarrow> (uuid \<times> uuid) set \<Rightarrow> (uuid \<times> uuid \<times> uuid) list \<Rightarrow> bool" where
  "roles_ok_on ids E ks \<longleftrightarrow> distinct ids \<and> E \<subseteq> set ids \<times> set ids
     \<and> distinct (map fst ks) \<and> distinct (map snd ks) \<and> (\<forall>k\<in>set ks. snd (snd k) \<in> set ids)"

definition roles_ok :: "db \<Rightarrow> bool" where
  "roles_ok d \<longleftrightarrow> roles_ok_on (map r_id (roles d)) (edges d) (map member_key (user_roles d))"

lemma roles_okD:
  assumes "roles_ok d"
  shows "distinct (map r_id (roles d))" "(x, y) \<in> edges d \<Longrightarrow> x \<in> role_ids d \<and> y \<in> role_ids d"
    "distinct (map ur_id (user_roles d))" "distinct (map (\<lambda>ur. (ur_user ur, ur_role ur)) (user_roles d))"
    "ur \<in> set (user_roles d) \<Longrightarrow> ur_role ur \<in> role_ids d"
  using assms by (auto simp: roles_ok_def roles_ok_on_def role_ids_def member_key_def comp_def)

lemma requireRole_known: "requireRole x d \<Longrightarrow> x \<in> role_ids d"
  using count_rows_pos_iff [of "\<lambda>r. r_id r = x" "roles d"] by (auto simp: requireRole_def role_ids_def)

lemma known_requireRole: "distinct (map r_id (roles d)) \<Longrightarrow> x \<in> role_ids d \<Longrightarrow> requireRole x d"
  using count_rows_key_le_1 [of r_id "roles d" x] count_rows_pos_iff [of "\<lambda>r. r_id r = x" "roles d"]
  by (force simp: requireRole_def role_ids_def)

section \<open>Mounting\<close>

lemma insert_mount_InrD:
  assumes "insert_mount x p d = Inr d'"
  shows "d' = d\<lparr>role_mounts := role_mounts d @ [\<lparr>m_child = x, m_parent = p\<rparr>]\<rparr>"
    "x \<in> role_ids d" "p \<in> role_ids d" "edges d' = insert (x, p) (edges d)"
proof -
  from assms show d': "d' = d\<lparr>role_mounts := role_mounts d @ [\<lparr>m_child = x, m_parent = p\<rparr>]\<rparr>"
    and "x \<in> role_ids d" "p \<in> role_ids d"
    by (auto simp: insert_mount_def role_ids_def table_simps split: if_splits)
  show "edges d' = insert (x, p) (edges d)" by (simp add: d' edges_def)
qed

lemma MountRole_InrD:
  assumes "MountRole x p d = Inr (u, d')"
  shows "x \<in> role_ids d" "p \<in> role_ids d" "\<not> roleHasAncestorTx p x d"
    "edges d' = insert (x, p) (edges d)" "d' = d\<lparr>role_mounts := role_mounts d'\<rparr>"
proof -
  have "x \<in> role_ids d \<and> p \<in> role_ids d \<and> \<not> roleHasAncestorTx p x d
    \<and> (d' = d \<and> (x, p) \<in> edges d \<or> insert_mount x p d = Inr d')"
    using assms requireRole_known [of x d] requireRole_known [of p d]
    by (auto simp: MountRole_def edges_def table_simps split: if_splits sum.splits)
  then show "x \<in> role_ids d" "p \<in> role_ids d" "\<not> roleHasAncestorTx p x d"
    "edges d' = insert (x, p) (edges d)" "d' = d\<lparr>role_mounts := role_mounts d'\<rparr>"
    using insert_mount_InrD [of x p d d'] by auto
qed

lemma SetRoleParent_InrD:
  assumes "SetRoleParent x parent d = Inr (u, d')"
  shows "x \<in> role_ids d" "d' = d\<lparr>role_mounts := role_mounts d'\<rparr>"
    "edges d' = {e \<in> edges d. fst e \<noteq> x} \<union> (case parent of None \<Rightarrow> {} | Some p \<Rightarrow> {(x, p)})"
    "\<And>p. parent = Some p \<Longrightarrow> p \<in> role_ids d \<and> \<not> roleHasAncestorTx p x d"
proof -
  let ?c = "d\<lparr>role_mounts := delete_rows (\<lambda>m. m_child m = x) (role_mounts d)\<rparr>"
  have c: "edges ?c = {e \<in> edges d. fst e \<noteq> x}" by (auto simp: edges_def table_simps)
  have "requireRole x d" using assms by (auto simp: SetRoleParent_def split: if_splits)
  then show "x \<in> role_ids d" by (rule requireRole_known)
  have ins: "insert_mount x p ?c = Inr d'" if "parent = Some p" for p
    using assms that by (auto simp: SetRoleParent_def Let_def split: if_splits sum.splits)
  have "parent = None \<Longrightarrow> d' = ?c" using assms by (auto simp: SetRoleParent_def Let_def split: if_splits)
  with c insert_mount_InrD(1,4) [OF ins] show "d' = d\<lparr>role_mounts := role_mounts d'\<rparr>"
    "edges d' = {e \<in> edges d. fst e \<noteq> x} \<union> (case parent of None \<Rightarrow> {} | Some p \<Rightarrow> {(x, p)})"
    by (cases parent; simp)+
  show "p \<in> role_ids d \<and> \<not> roleHasAncestorTx p x d" if "parent = Some p" for p
    using assms that requireRole_known [of p d] by (auto simp: SetRoleParent_def Let_def split: if_splits)
qed

section \<open>Deleting\<close>

lemma bridge_mounts_iff:
  "\<lparr>m_child = a, m_parent = b\<rparr> \<in> set (bridge_mounts x ms) \<longleftrightarrow>
     \<lparr>m_child = a, m_parent = b\<rparr> \<in> set ms
     \<or> \<lparr>m_child = a, m_parent = x\<rparr> \<in> set ms \<and> \<lparr>m_child = x, m_parent = b\<rparr> \<in> set ms"
proof -
  have mem: "\<lparr>m_child = a, m_parent = b\<rparr> \<in> set ms \<longleftrightarrow> (\<exists>m\<in>set ms. m_child m = a \<and> m_parent m = b)" for a b
    unfolding mount_pair_iff [symmetric] by (auto simp: mount_pair_def image_iff)
  have "\<lparr>m_child = a, m_parent = b\<rparr> \<in> set (bridge_mounts x ms) \<longleftrightarrow> \<lparr>m_child = a, m_parent = b\<rparr> \<in> set ms
     \<or> (\<exists>c\<in>set ms. m_child c = a \<and> m_parent c = x) \<and> (\<exists>p\<in>set ms. m_child p = x \<and> m_parent p = b)"
    by (auto simp: bridge_mounts_def)
  then show ?thesis unfolding mem .
qed

lemma bridge_edges:
  "mount_pair ` set (bridge_mounts x ms) =
     mount_pair ` set ms \<union> {(a, b). (a, x) \<in> mount_pair ` set ms \<and> (x, b) \<in> mount_pair ` set ms}"
proof -
  have "(a, b) \<in> mount_pair ` set (bridge_mounts x ms) \<longleftrightarrow>
     (a, b) \<in> mount_pair ` set ms \<union> {(a, b). (a, x) \<in> mount_pair ` set ms \<and> (x, b) \<in> mount_pair ` set ms}" for a b
    by (simp add: mount_pair_iff bridge_mounts_iff)
  then show ?thesis by (simp add: set_eq_iff split_paired_all)
qed

text \<open>Contracting a node: bridge its neighbours, then drop it.\<close>

definition contract :: "'n \<Rightarrow> ('n \<times> 'n) set \<Rightarrow> ('n \<times> 'n) set" where
  "contract x E = {(a, b) \<in> E \<union> {(a, b). (a, x) \<in> E \<and> (x, b) \<in> E}. a \<noteq> x \<and> b \<noteq> x}"

lemma DeleteRole_InrD:
  assumes "DeleteRole x d = Inr (u, d')" "x \<in> role_ids d"
  shows "edges d' = contract x (edges d)" "role_ids d' = role_ids d - {x}"
    "user_roles d' = delete_rows (\<lambda>ur. ur_role ur = x) (user_roles d)"
proof -
  from assms have mounts: "role_mounts d' = delete_rows (\<lambda>m. m_child m = x \<or> m_parent m = x) (bridge_mounts x (role_mounts d))"
    and rs: "roles d' = delete_rows (\<lambda>r. r_id r = x) (roles d)"
    and "user_roles d' = delete_rows (\<lambda>ur. ur_role ur = x) (user_roles d)"
    by (auto simp: DeleteRole_def Let_def role_ids_def table_simps split: if_splits)
  then show "user_roles d' = delete_rows (\<lambda>ur. ur_role ur = x) (user_roles d)" by simp
  show "role_ids d' = role_ids d - {x}" by (auto simp: role_ids_def rs table_simps)
  have "edges d' = {(a, b) \<in> mount_pair ` set (bridge_mounts x (role_mounts d)). a \<noteq> x \<and> b \<noteq> x}"
    by (auto simp: edges_pairs mount_pair_def mounts table_simps)
  then show "edges d' = contract x (edges d)"
    unfolding bridge_edges contract_def edges_pairs .
qed

lemma contract_trancl_sound: "(a, b) \<in> (contract x E)\<^sup>+ \<Longrightarrow> (a, b) \<in> E\<^sup>+ \<and> a \<noteq> x \<and> b \<noteq> x"
  by (induction rule: trancl_induct)
    (auto simp: contract_def intro: trancl_trans trancl_into_trancl)

lemma contract_trancl_complete:
  assumes "(a, b) \<in> E\<^sup>+" "a \<noteq> x"
  shows "if b = x then \<exists>c. (c, x) \<in> E \<and> c \<noteq> x \<and> (a = c \<or> (a, c) \<in> (contract x E)\<^sup>+)
         else (a, b) \<in> (contract x E)\<^sup>+"
  using assms
proof (induction rule: trancl_induct)
  case (base b)
  then show ?case by (auto simp: contract_def)
next
  case (step b c)
  consider (bx) "b = x" | (ok) "b \<noteq> x" by blast
  then show ?case
  proof cases
    case bx
    with step obtain e where e: "(e, x) \<in> E" "e \<noteq> x" "a = e \<or> (a, e) \<in> (contract x E)\<^sup>+" by auto
    show ?thesis
    proof (cases "c = x")
      case True
      with e show ?thesis by auto
    next
      case False
      with e bx step.hyps(2) have "(e, c) \<in> contract x E" by (auto simp: contract_def)
      with e(3) False show ?thesis by (auto intro: trancl_into_trancl)
    qed
  next
    case ok
    with step have ab: "(a, b) \<in> (contract x E)\<^sup>+" by auto
    show ?thesis
    proof (cases "c = x")
      case True
      with ok ab step.hyps(2) show ?thesis by auto
    next
      case False
      with ok step.hyps(2) have "(b, c) \<in> contract x E" by (auto simp: contract_def)
      with ab False show ?thesis by (auto intro: trancl_into_trancl)
    qed
  qed
qed

lemma contract_trancl:
  "a \<noteq> x \<Longrightarrow> b \<noteq> x \<Longrightarrow> (a, b) \<in> (contract x E)\<^sup>+ \<longleftrightarrow> (a, b) \<in> E\<^sup>+"
  using contract_trancl_sound [of a b x E] contract_trancl_complete [of a b E x] by auto

section \<open>The invariants of the hierarchy\<close>

lemma roles_ok_frame:
  assumes "map r_id (roles d') = map r_id (roles d)" "role_mounts d' = role_mounts d"
    "map member_key (user_roles d') = map member_key (user_roles d)"
  shows "roles_ok d' = roles_ok d"
  using assms by (simp add: roles_ok_def edges_def)

lemma mounts_only:
  "d' = d\<lparr>role_mounts := ms\<rparr> \<Longrightarrow> roles d' = roles d \<and> user_roles d' = user_roles d"
  by simp

lemma UnmountRole_keeps_ok [preserves_intros]: "keeps roles_ok (UnmountRole x p)"
  unfolding UnmountRole_def
  by (rule keeps_writes) (auto simp: roles_ok_def roles_ok_on_def edges_def table_simps)

lemma role_writes_keep [preserves_intros]:
  "keeps roles_ok (UpdateRoleDescription x t)"
  "keeps roles_ok (DeleteRoleTag x tag)"
  "keeps roles_ok (DeleteUserRoleTag i x tag)"
  unfolding UpdateRoleDescription_def DeleteRoleTag_def DeleteUserRoleTag_def
  by (rule keeps_writes_frame, rule roles_ok_frame, simp_all add: map_update_rows)+

lemma MountRole_keeps_ok [preserves_intros]: "keeps roles_ok (MountRole x p)"
proof (rule keepsI)
  fix d u d'
  assume ok: "roles_ok d" and eq: "MountRole x p d = Inr (u, d')"
  note D = MountRole_InrD [OF eq]
  from ok D(1,2,4) mounts_only [OF D(5)] show "roles_ok d'"
    by (simp add: roles_ok_def roles_ok_on_def role_ids_def)
qed

lemma SetRoleParent_keeps_ok [preserves_intros]: "keeps roles_ok (SetRoleParent x parent)"
proof (rule keepsI)
  fix d u d'
  assume ok: "roles_ok d" and eq: "SetRoleParent x parent d = Inr (u, d')"
  note D = SetRoleParent_InrD [OF eq]
  have "edges d' \<subseteq> r_id ` set (roles d) \<times> r_id ` set (roles d)"
    using ok D(1,4) unfolding D(3) roles_ok_def roles_ok_on_def role_ids_def
    by (auto split: option.splits)
  with ok mounts_only [OF D(2)] show "roles_ok d'"
    by (simp add: roles_ok_def roles_ok_on_def)
qed

lemma mount_all_InrD:
  "mount_all x ps d = Inr d' \<Longrightarrow>
     set ps \<subseteq> role_ids d \<and> edges d' = edges d \<union> {x} \<times> set ps \<and> (\<exists>ms. d' = d\<lparr>role_mounts := ms\<rparr>)"
proof (induction ps arbitrary: d)
  case Nil
  then show ?case by (auto intro: exI [of _ "role_mounts d"])
next
  case (Cons p ps)
  then obtain d1 where d1: "insert_mount x p d = Inr d1" "mount_all x ps d1 = Inr d'"
    by (auto split: sum.splits)
  note D = insert_mount_InrD [OF d1(1)]
  have "role_ids d1 = role_ids d" by (simp add: D(1) role_ids_def)
  moreover have "\<exists>ms. d' = d\<lparr>role_mounts := ms\<rparr>" using Cons.IH [OF d1(2)] by (auto simp: D(1))
  ultimately show ?case using Cons.IH [OF d1(2)] D(3) unfolding D(4) by auto
qed

text \<open>Counting the requested parents makes them exist: a role cannot be created under itself.\<close>

lemma count_in_subset:
  assumes "distinct (map k t)" "count_rows (\<lambda>r. k r \<in> set ps) t = length ps"
  shows "set ps \<subseteq> k ` set t"
proof -
  have "length ps = card (set (map k (filter (\<lambda>r. k r \<in> set ps) t)))"
    using assms by (metis count_rows_def distinct_card distinct_map_filter length_map)
  also have "set (map k (filter (\<lambda>r. k r \<in> set ps) t)) = set ps \<inter> k ` set t" by auto
  finally have "card (set ps) \<le> card (set ps \<inter> k ` set t)" by (metis card_length)
  then have "set ps \<inter> k ` set t = set ps" by (intro card_seteq) auto
  then show ?thesis by blast
qed

lemma CreateRoleWithParents_InrD:
  assumes eq: "CreateRoleWithParents newID now name desc ps d = Inr (x, d')"
    and ids: "distinct (map r_id (roles d))"
  obtains parents r ms where "x = newID" "r_id r = newID" "newID \<notin> role_ids d" "r_name r = TrimSpace name"
    "d' = d\<lparr>roles := roles d @ [r], role_mounts := ms\<rparr>" "edges d' = edges d \<union> {newID} \<times> set parents"
    "set parents \<subseteq> role_ids d"
proof -
  define r where "r = \<lparr>r_id = newID, r_name = TrimSpace name, r_description = desc, r_created_at = now\<rparr>"
  note eq' = eq [unfolded CreateRoleWithParents_def Let_def r_def [symmetric]]
  have ne: "TrimSpace name \<noteq> []" using eq' by (cases "TrimSpace name = []") simp_all
  obtain parents where ps: "dedup_parents [] [] ps = Inr parents"
    using eq' ne by (cases "dedup_parents [] [] ps") simp_all
  have cnt: "parents = [] \<or> count_rows (\<lambda>r. r_id r \<in> set parents) (roles d) = length parents"
    using eq' ne ps by (cases "parents \<noteq> [] \<and> count_rows (\<lambda>r. r_id r \<in> set parents) (roles d) \<noteq> length parents") auto
  obtain d1 where ins: "insert_role r d = Inr d1"
    using eq' ne ps cnt by (cases "insert_role r d") auto
  have m: "mount_all newID parents d1 = Inr d'" and x: "x = newID"
    using eq' ne ps cnt ins by (cases "mount_all newID parents d1"; auto)+
  from ins have d1: "d1 = d\<lparr>roles := roles d @ [r]\<rparr>" and new: "newID \<notin> role_ids d"
    by (auto simp: insert_role_def role_ids_def r_def table_simps split: if_splits)
  have sub: "set parents \<subseteq> role_ids d"
    using count_in_subset [OF ids] cnt by (cases "parents = []") (auto simp: role_ids_def)
  from mount_all_InrD [OF m] obtain ms where "d' = d1\<lparr>role_mounts := ms\<rparr>"
    and "edges d' = edges d1 \<union> {newID} \<times> set parents" by blast
  moreover have "edges d1 = edges d" by (simp add: d1 edges_def)
  ultimately show thesis using x new sub by (intro that [of r ms parents]) (simp_all add: d1 r_def)
qed

lemma CreateRole_keeps_ok [preserves_intros]:
  "keeps roles_ok (CreateRoleWithParents newID now name desc ps)"
proof (rule keepsI)
  fix d x d'
  assume ok: "roles_ok d" and eq: "CreateRoleWithParents newID now name desc ps d = Inr (x, d')"
  obtain parents r ms where D: "r_id r = newID" "newID \<notin> role_ids d"
    "d' = d\<lparr>roles := roles d @ [r], role_mounts := ms\<rparr>" "edges d' = edges d \<union> {newID} \<times> set parents"
    "set parents \<subseteq> role_ids d"
    by (rule CreateRoleWithParents_InrD [OF eq roles_okD(1) [OF ok]]) (rule that)
  from ok D(1,2,4,5) show "roles_ok d'"
    by (auto simp: roles_ok_def roles_ok_on_def role_ids_def D(3))
qed

lemma map_delete_filter: "map k (delete_rows (\<lambda>r. Q (k r)) t) = filter (\<lambda>y. \<not> Q y) (map k t)"
  by (induction t) (auto simp: delete_rows_def)

lemma DeleteRole_keeps_ok [preserves_intros]: "keeps roles_ok (DeleteRole x)"
proof (rule keepsI)
  fix d u d'
  assume ok: "roles_ok d" and eq: "DeleteRole x d = Inr (u, d')"
  show "roles_ok d'"
  proof (cases "x \<in> role_ids d")
    case False
    then have "\<not> exists_row (\<lambda>r. r_id r = x) (roles d)" by (auto simp: role_ids_def table_simps)
    with eq have "d' = d" by (simp add: DeleteRole_def)
    with ok show ?thesis by simp
  next
    case True
    note D = DeleteRole_InrD [OF eq True]
    have rs: "roles d' = delete_rows (\<lambda>r. r_id r = x) (roles d)"
      using eq True by (auto simp: DeleteRole_def Let_def role_ids_def table_simps split: if_splits)
    have ks: "map member_key (user_roles d') = filter (\<lambda>k. snd (snd k) \<noteq> x) (map member_key (user_roles d))"
      using map_delete_filter [of member_key "\<lambda>k. snd (snd k) = x" "user_roles d"]
      by (simp add: D(3) member_key_def)
    have ids: "map r_id (roles d') = filter (\<lambda>y. y \<noteq> x) (map r_id (roles d))"
      using map_delete_filter [of r_id "\<lambda>y. y = x" "roles d"] by (simp add: rs)
    show ?thesis
      using ok unfolding roles_ok_def roles_ok_on_def ks ids D(1)
      by (auto simp: contract_def distinct_map_filter) (metis snd_conv)
  qed
qed

lemma insert_role_tag_frame:
  assumes "insert_role_tag x tag d = Inr d'"
  shows "\<exists>ts. d' = d\<lparr>role_tags := ts\<rparr>"
  using assms by (auto simp: insert_role_tag_def split: if_splits intro: exI [of _ "role_tags d"])

lemma AddRoleTag_keeps_ok [preserves_intros]: "keeps roles_ok (AddRoleTag x tag)"
  by (auto simp: keeps_def AddRoleTag_def roles_ok_def edges_def split: sum.splits
      dest!: insert_role_tag_frame)

lemma RenameRoleTag_keeps_ok [preserves_intros]: "keeps roles_ok (RenameRoleTag x old new)"
proof (rule keepsI)
  fix d u d'
  assume ok: "roles_ok d" and eq: "RenameRoleTag x old new d = Inr (u, d')"
  have "roles d' = roles d" "role_mounts d' = role_mounts d" "user_roles d' = user_roles d"
    using eq by (auto simp: RenameRoleTag_def Let_def split: if_splits sum.splits dest!: insert_role_tag_frame)
  with ok roles_ok_frame [of d' d] show "roles_ok d'" by simp
qed

lemma AddUserRoleTag_keeps_ok [preserves_intros]: "keeps roles_ok (AddUserRoleTag i x tag)"
  by (auto simp: keeps_def AddUserRoleTag_def roles_ok_def edges_def split: option.splits if_splits)

lemma RemoveUserRole_keeps_ok [preserves_intros]: "keeps roles_ok (RemoveUserRole i x)"
  by (auto simp: keeps_def RemoveUserRole_def roles_ok_def roles_ok_on_def edges_def delete_rows_def comp_def
      distinct_map_filter split: option.splits)

subsection \<open>Assigning a membership\<close>

lemma upsert_membership_keys:
  assumes "upsert_membership ur urs = Inr urs'"
  shows "if exists_row (membership_of (ur_user ur) (ur_role ur)) urs
         then map member_key urs' = map member_key urs
         else urs' = urs @ [ur] \<and> ur_id ur \<notin> ur_id ` set urs"
  using assms by (auto simp: upsert_membership_def table_simps member_key_def intro!: map_update_rows split: if_splits)

lemma assign_InrD:
  assumes "assignUserRoleTx newID i x level by from until tags d = Inr (u, d')"
  obtains urs ts where "count_rows (\<lambda>u. u_id u = i) (users d) = 1" "x \<in> role_ids d"
    "upsert_membership \<lparr>ur_id = newID, ur_user = i, ur_role = x, ur_level = level,
       ur_valid_from = from, ur_valid_until = until, ur_granted_by = by\<rparr> (user_roles d) = Inr urs"
    "d' = d\<lparr>user_roles := urs, user_role_tags := ts\<rparr>"
    "tags = [] \<Longrightarrow> ts = user_role_tags d"
proof -
  let ?ur = "\<lparr>ur_id = newID, ur_user = i, ur_role = x, ur_level = level,
       ur_valid_from = from, ur_valid_until = until, ur_granted_by = by\<rparr>"
  note eq = assms [unfolded assignUserRoleTx_def Let_def]
  have c: "count_rows (\<lambda>u. u_id u = i) (users d) = 1"
    using eq by (cases "count_rows (\<lambda>u. u_id u = i) (users d) = 1") simp_all
  have r: "requireRole x d" using eq c by (cases "requireRole x d") simp_all
  obtain urs where urs: "upsert_membership ?ur (user_roles d) = Inr urs"
    using eq c r by (cases "upsert_membership ?ur (user_roles d)") simp_all
  have "\<exists>ts. d' = d\<lparr>user_roles := urs, user_role_tags := ts\<rparr> \<and> (tags = [] \<longrightarrow> ts = user_role_tags d)"
  proof (cases "tags = []")
    case True
    with eq c r urs have "d' = d\<lparr>user_roles := urs\<rparr>" by simp
    with True show ?thesis by (intro exI [of _ "user_role_tags d"]) simp
  next
    case False
    with eq c r urs show ?thesis by (auto split: option.splits if_splits)
  qed
  with c r urs requireRole_known show thesis by (elim exE conjE) (rule that, auto)
qed

lemma assign_keeps_ok [preserves_intros]:
  "keeps roles_ok (assignUserRoleTx newID i x level by from until tags)"
proof (rule keepsI)
  fix d u d'
  assume ok: "roles_ok d" and eq: "assignUserRoleTx newID i x level by from until tags d = Inr (u, d')"
  let ?ur = "\<lparr>ur_id = newID, ur_user = i, ur_role = x, ur_level = level,
       ur_valid_from = from, ur_valid_until = until, ur_granted_by = by\<rparr>"
  obtain urs ts where x: "x \<in> role_ids d" and up: "upsert_membership ?ur (user_roles d) = Inr urs"
    and d': "d' = d\<lparr>user_roles := urs, user_role_tags := ts\<rparr>"
    by (rule assign_InrD [OF eq]) (rule that)
  show "roles_ok d'"
  proof (cases "exists_row (membership_of i x) (user_roles d)")
    case True
    with upsert_membership_keys [OF up] have "map member_key urs = map member_key (user_roles d)" by simp
    with ok show ?thesis by (simp add: roles_ok_def d' edges_def)
  next
    case False
    with upsert_membership_keys [OF up] have u: "urs = user_roles d @ [?ur]" "newID \<notin> ur_id ` set (user_roles d)"
      by simp_all
    from False have "(i, x) \<notin> (\<lambda>ur. (ur_user ur, ur_role ur)) ` set (user_roles d)"
      by (auto simp: table_simps membership_of_def)
    with ok u x show ?thesis
      by (auto simp: roles_ok_def roles_ok_on_def d' edges_def member_key_def comp_def role_ids_def)
  qed
qed

end
