(* ===== verification/Role_Properties.thy ===== *)
theory Role_Properties
  imports Authority
begin

text \<open>
  The properties of the role hierarchy that the rest of the service relies on, stated over the
  repository operations of \<^verbatim>\<open>roles.go\<close>.
\<close>

section \<open>Membership and authority\<close>

lemma has_role_iff:
  "(\<exists>(p, y, k) \<in> set (anc_rows x d). \<exists>ur\<in>set (user_roles d). membership_of i y ur \<and> active_at now ur
      \<and> (k = 0 \<or> inherits (ur_level ur)) \<and> Q y ur) \<longleftrightarrow>
   x \<in> role_ids d \<and> (\<exists>ur\<in>set (user_roles d). ur_user ur = i \<and> active_at now ur
      \<and> (ur_role ur = x \<or> inherits (ur_level ur) \<and> within (edges d) max_depth x (ur_role ur)) \<and> Q (ur_role ur) ur)"
    (is "?lhs \<longleftrightarrow> ?rhs")
proof
  assume ?lhs
  then obtain y k ur where h: "((), y, k) \<in> set (anc_rows x d)" "ur \<in> set (user_roles d)" "membership_of i y ur"
    "active_at now ur" "k = 0 \<or> inherits (ur_level ur)" "Q y ur" by auto
  have "x \<in> role_ids d" "within (edges d) max_depth x y" using h(1) anc_rows_iff [of y x d] by blast+
  moreover have "k = 0 \<Longrightarrow> y = x" using h(1) anc_rows_0 [of y x d] by blast
  ultimately show ?rhs using h by (auto simp: membership_of_def)
next
  assume ?rhs
  then obtain ur where h: "x \<in> role_ids d" "ur \<in> set (user_roles d)" "ur_user ur = i" "active_at now ur"
    "ur_role ur = x \<or> inherits (ur_level ur) \<and> within (edges d) max_depth x (ur_role ur)" "Q (ur_role ur) ur" by blast
  have "((), x, 0) \<in> set (anc_rows x d)" using h(1) by (simp add: anc_rows_0)
  moreover have "\<exists>k. ((), ur_role ur, k) \<in> set (anc_rows x d)"
    if "within (edges d) max_depth x (ur_role ur)" using that h(1) by (simp add: anc_rows_iff)
  ultimately show ?lhs using h by (fastforce simp: membership_of_def)
qed

definition effective :: "uuid \<Rightarrow> uuid \<Rightarrow> instant \<Rightarrow> db \<Rightarrow> bool" where
  "effective i x now d \<longleftrightarrow> x \<in> role_ids d \<and> (\<exists>ur\<in>set (user_roles d). ur_user ur = i \<and> active_at now ur
      \<and> (ur_role ur = x \<or> inherits (ur_level ur) \<and> within (edges d) max_depth x (ur_role ur)))"

lemma effective_result: "UserHasEffectiveRole i x now d = Inr (effective i x now d, d)"
  using has_role_iff [of x d i now "\<lambda>_ _. True"]
  by (simp add: UserHasEffectiveRole_def effective_def reads_def table_simps case_prod_unfold)

text \<open>
  C26. A user effectively holds an existing role exactly when an active membership of theirs is
  on the role itself, at any level, or at an inheriting level (member or role admin) on a role
  reachable from it by at most 64 mounts. A \<open>direct_member\<close> grant is never inherited.
\<close>

theorem effective_role_decided:
  "UserHasEffectiveRole i x now d = Inr
     (x \<in> role_ids d \<and> (\<exists>ur\<in>set (user_roles d). ur_user ur = i \<and> active_at now ur
        \<and> (ur_role ur = x \<or> inherits (ur_level ur) \<and> within (edges d) max_depth x (ur_role ur))), d)"
  unfolding effective_result effective_def ..

text \<open>
  A tag is effective for a user only through an active membership that carries it and only
  while the role of that membership still has the tag configured; the tag asked for is compared
  in lower case.
\<close>

theorem effective_tag_decided:
  "UserHasEffectiveRoleTag i x tag now d = Inr
     (x \<in> role_ids d \<and> (\<exists>ur\<in>set (user_roles d). ur_user ur = i \<and> active_at now ur
        \<and> (ur_role ur = x \<or> inherits (ur_level ur) \<and> within (edges d) max_depth x (ur_role ur))
        \<and> (\<exists>t\<in>set (user_role_tags d). urt_user_role t = ur_id ur \<and> urt_tag t = ToLower tag)
        \<and> (\<exists>t\<in>set (role_tags d). rt_role t = ur_role ur \<and> rt_tag t = ToLower tag)), d)"
  using has_role_iff [of x d i now "\<lambda>y ur. (\<exists>t\<in>set (user_role_tags d). urt_user_role t = ur_id ur \<and> urt_tag t = ToLower tag)
        \<and> (\<exists>t\<in>set (role_tags d). rt_role t = y \<and> rt_tag t = ToLower tag)"]
  by (simp add: UserHasEffectiveRoleTag_def reads_def table_simps case_prod_unfold Let_def)

section \<open>The list of effective access\<close>

lemma access_rows_iff:
  "(\<exists>k. ((cm, inh), y, k) \<in> set (access_rows i now d)) \<longleftrightarrow>
     (\<exists>ur\<in>set (user_roles d). ur_user ur = i \<and> active_at now ur \<and> cm = (ur_level ur = RoleRoleAdmin)
        \<and> inh = inherits (ur_level ur) \<and> (y = ur_role ur \<or> inh \<and> within (edges d) max_depth y (ur_role ur)))"
proof -
  let ?nxt = "\<lambda>(cm, inh) y. if inh then children_of d y else []"
  have reach: "(\<exists>zs. walk (\<lambda>a b. b \<in> set (?nxt (cm, inh) a)) x zs \<and> endpoint x zs = y \<and> simple_from [x] zs
      \<and> length zs \<le> max_depth) \<longleftrightarrow> (y = x \<or> inh \<and> within (edges d) max_depth y x)" for x
  proof (cases inh)
    case True
    then have "(\<exists>zs. walk (\<lambda>a b. b \<in> set (?nxt (cm, inh) a)) x zs \<and> endpoint x zs = y \<and> simple_from [x] zs
      \<and> length zs \<le> max_depth) \<longleftrightarrow> within ((edges d)\<inverse>) max_depth x y"
      unfolding children_edges [symmetric] within_simple by auto
    with True show ?thesis by (auto simp: within_converse)
  next
    case False
    then have "walk (\<lambda>a b. b \<in> set (?nxt (cm, inh) a)) x zs \<longleftrightarrow> zs = []" for zs by (cases zs) auto
    then have "(\<exists>zs. walk (\<lambda>a b. b \<in> set (?nxt (cm, inh) a)) x zs \<and> endpoint x zs = y \<and> simple_from [x] zs
      \<and> length zs \<le> max_depth) \<longleftrightarrow> y = x" by (auto simp: simple_from_def)
    with False show ?thesis by simp
  qed
  have "(\<exists>k. ((cm, inh), y, k) \<in> set (access_rows i now d)) \<longleftrightarrow>
     (\<exists>ur\<in>set (user_roles d). ur_user ur = i \<and> active_at now ur \<and> cm = (ur_level ur = RoleRoleAdmin)
        \<and> inh = inherits (ur_level ur)
        \<and> (\<exists>zs. walk (\<lambda>a b. b \<in> set (?nxt (cm, inh) a)) (ur_role ur) zs \<and> endpoint (ur_role ur) zs = y
             \<and> simple_from [ur_role ur] zs \<and> length zs \<le> max_depth))"
    unfolding access_rows_def by (simp add: cte_iff image_iff) blast
  then show ?thesis unfolding reach .
qed

lemma access_list:
  assumes "ListEffectiveRoleAccess i now d = Inr (es, d')"
  shows "(\<exists>e\<in>set es. ea_role e = x) \<longleftrightarrow> (\<exists>cm inh k. ((cm, inh), x, k) \<in> set (access_rows i now d))"
    and "(\<exists>e\<in>set es. ea_role e = x \<and> ea_can_manage e) \<longleftrightarrow> (\<exists>inh k. ((True, inh), x, k) \<in> set (access_rows i now d))"
proof -
  from assms have es: "es = map (\<lambda>y. \<lparr>ea_role = y, ea_can_manage =
      exists_row (\<lambda>((manage, _), z, _). z = y \<and> manage) (access_rows i now d)\<rparr>)
      (order_asc id (remdups (map (\<lambda>(_, y, _). y) (access_rows i now d))))"
    by (auto simp: ListEffectiveRoleAccess_def reads_def Let_def)
  have mem: "x \<in> (\<lambda>(_, y, _). y) ` set (access_rows i now d) \<longleftrightarrow>
      (\<exists>cm inh k. ((cm, inh), x, k) \<in> set (access_rows i now d))"
    by (force simp: image_iff)
  show "(\<exists>e\<in>set es. ea_role e = x) \<longleftrightarrow> (\<exists>cm inh k. ((cm, inh), x, k) \<in> set (access_rows i now d))"
    unfolding es mem [symmetric] by (auto simp: table_simps)
  have "(\<exists>e\<in>set es. ea_role e = x \<and> ea_can_manage e) \<longleftrightarrow>
      x \<in> (\<lambda>(_, y, _). y) ` set (access_rows i now d)
      \<and> exists_row (\<lambda>((manage, _), z, _). z = x \<and> manage) (access_rows i now d)"
    unfolding es by (auto simp: table_simps)
  then show "(\<exists>e\<in>set es. ea_role e = x \<and> ea_can_manage e) \<longleftrightarrow>
      (\<exists>inh k. ((True, inh), x, k) \<in> set (access_rows i now d))"
    unfolding mem by (auto simp: table_simps) blast
qed

lemma known_from_within:
  assumes "roles_ok d" "within (edges d) n x y" "y \<in> role_ids d"
  shows "x \<in> role_ids d"
proof -
  have "(x, y) \<in> (edges d)\<^sup>*" using assms(2) by (rule within_rtrancl)
  then show ?thesis
    using assms(3) roles_okD(2) [OF assms(1)] by (cases rule: converse_rtranclE) blast+
qed

text \<open>
  C27. The list of effective access shown to a client agrees with the checks the server makes:
  a role is listed exactly when the user effectively holds it, and marked manageable exactly when
  the user is an effective administrator of it.
\<close>

theorem access_list_agrees:
  assumes "roles_ok d" and "ListEffectiveRoleAccess i now d = Inr (es, d')"
  shows "((\<exists>e\<in>set es. ea_role e = x) \<longleftrightarrow> UserHasEffectiveRole i x now d = Inr (True, d))
    \<and> ((\<exists>e\<in>set es. ea_role e = x \<and> ea_can_manage e) \<longleftrightarrow> UserIsEffectiveRoleAdmin i x now d = Inr (True, d))"
proof -
  define holds where "holds = (\<lambda>ur :: user_role. ur \<in> set (user_roles d) \<and> ur_user ur = i \<and> active_at now ur)"
  define down where "down = (\<lambda>ur :: user_role. ur_role ur = x \<or> inherits (ur_level ur) \<and> within (edges d) max_depth x (ur_role ur))"
  define admin where "admin = (\<lambda>ur :: user_role. ur_level ur = RoleRoleAdmin \<and> within (edges d) max_depth x (ur_role ur))"
  have known: "x \<in> role_ids d" if "holds ur" "down ur \<or> admin ur" for ur
    using that roles_okD(5) [OF assms(1), of ur] known_from_within [OF assms(1), of max_depth x "ur_role ur"]
    by (auto simp: holds_def down_def admin_def)
  have "(\<exists>e\<in>set es. ea_role e = x) \<longleftrightarrow> (\<exists>ur. holds ur \<and> down ur)"
    unfolding access_list(1) [OF assms(2)] access_rows_iff holds_def down_def by blast
  also have "\<dots> \<longleftrightarrow> x \<in> role_ids d \<and> (\<exists>ur. holds ur \<and> down ur)" using known by blast
  also have "\<dots> \<longleftrightarrow> UserHasEffectiveRole i x now d = Inr (True, d)"
    by (auto simp: effective_result effective_def holds_def down_def)
  finally have first: "(\<exists>e\<in>set es. ea_role e = x) \<longleftrightarrow> UserHasEffectiveRole i x now d = Inr (True, d)" .
  have "(\<exists>e\<in>set es. ea_role e = x \<and> ea_can_manage e) \<longleftrightarrow> (\<exists>ur. holds ur \<and> admin ur)"
    unfolding access_list(2) [OF assms(2)] access_rows_iff holds_def admin_def by (auto simp: inherits_def)
  also have "\<dots> \<longleftrightarrow> x \<in> role_ids d \<and> (\<exists>ur. holds ur \<and> admin ur)" using known by blast
  also have "\<dots> \<longleftrightarrow> UserIsEffectiveRoleAdmin i x now d = Inr (True, d)"
    using role_admin.has_iff [of now d i x]
    by (auto simp: is_admin_def admin_grant_def membership_of_def role_tree.found_iff holds_def admin_def)
  finally show ?thesis using first by blast
qed

text \<open>A small hierarchy for the witnesses: role 1 mounted under role 2, a role admin on role 2.\<close>

definition sample_role :: "uuid \<Rightarrow> string \<Rightarrow> role" where
  "sample_role x name = \<lparr>r_id = x, r_name = name, r_description = [], r_created_at = 0\<rparr>"

definition sample_member :: user_role where
  "sample_member = \<lparr>ur_id = 30, ur_user = 5, ur_role = 2, ur_level = RoleRoleAdmin,
     ur_valid_from = 0, ur_valid_until = None, ur_granted_by = None\<rparr>"

definition sample_roles_db :: db where
  "sample_roles_db = empty_db\<lparr>
     roles := [sample_role 1 ''child'', sample_role 2 ''parent'', sample_role 3 ''top''],
     role_mounts := [\<lparr>m_child = 1, m_parent = 2\<rparr>], user_roles := [sample_member]\<rparr>"

lemma sample_edges: "edges sample_roles_db = {(1, 2)}" "role_ids sample_roles_db = {1, 2, 3}"
  by (auto simp: edges_def role_ids_def sample_roles_db_def sample_role_def)

lemma sample_roles_ok: "roles_ok sample_roles_db"
  by (simp add: roles_ok_def roles_ok_on_def sample_edges)
    (simp add: sample_roles_db_def sample_role_def member_key_def sample_member_def empty_db_def)

theorem access_list_agrees_witness:
  "\<exists>es. ListEffectiveRoleAccess 5 10 sample_roles_db = Inr (es, sample_roles_db)
     \<and> ((\<exists>e\<in>set es. ea_role e = 1 \<and> ea_can_manage e)
         \<longleftrightarrow> UserIsEffectiveRoleAdmin 5 1 10 sample_roles_db = Inr (True, sample_roles_db))"
proof -
  obtain es where es: "ListEffectiveRoleAccess 5 10 sample_roles_db = Inr (es, sample_roles_db)"
    by (simp add: ListEffectiveRoleAccess_def reads_def)
  with access_list_agrees [OF sample_roles_ok es] show ?thesis by blast
qed

section \<open>Cycles\<close>

text \<open>
  C28. Mounting a role (or setting its parent) keeps the hierarchy free of cycles, as long as no
  chain of mounts is longer than the 64 steps the ancestor search walks; the mount is recorded.
\<close>

theorem mount_keeps_acyclic:
  assumes "acyclic (edges d)" "shallow (edges d) max_depth"
    and "MountRole x p d = Inr (u, d') \<or> SetRoleParent x (Some p) d = Inr (u, d')"
  shows "acyclic (edges d') \<and> (x, p) \<in> edges d'"
  using assms(3)
proof
  assume m: "MountRole x p d = Inr (u, d')"
  note D = MountRole_InrD [OF m]
  have "acyclic (edges d')"
    using role_tree.guarded_link_acyclic [OF assms(1,2) D(2,3)] D(4) by blast
  then show ?thesis using D(4) by simp
next
  assume m: "SetRoleParent x (Some p) d = Inr (u, d')"
  note D = SetRoleParent_InrD [OF m]
  from D(4) have p: "p \<in> role_ids d" "\<not> roleHasAncestorTx p x d" by auto
  have "edges d' \<subseteq> insert (x, p) (edges d)" using D(3) by auto
  then have "acyclic (edges d')"
    using role_tree.guarded_link_acyclic [OF assms(1,2) p] by blast
  then show ?thesis using D(3) by simp
qed

lemma shallow_single: "shallow {(a, b)} (Suc n)"
  unfolding shallow_def
proof (intro allI impI)
  fix x y assume "(x, y) \<in> {(a, b)}\<^sup>*"
  then have "x = y \<or> (x, y) = (a, b)" by (induction rule: rtrancl_induct) auto
  then show "within {(a, b)} (Suc n) x y"
  proof
    assume "(x, y) = (a, b)"
    then have "(x, y) \<in> {(a, b)} ^^ 1" by simp
    then show ?thesis unfolding within_def by (intro exI [of _ 1]) simp
  qed simp
qed

theorem mount_keeps_acyclic_witness:
  "\<exists>d'. MountRole 2 3 sample_roles_db = Inr ((), d') \<and> acyclic (edges d')"
proof -
  have "\<not> roleHasAncestorTx 3 2 sample_roles_db"
  proof
    assume "roleHasAncestorTx 3 2 sample_roles_db"
    then have "(3, 2) \<in> (edges sample_roles_db)\<^sup>*" by (rule role_tree.found_sound)
    then show False by (cases rule: converse_rtranclE) (auto simp: sample_edges)
  qed
  then have "\<exists>d'. MountRole 2 3 sample_roles_db = Inr ((), d')"
    by (simp add: MountRole_def requireRole_def insert_mount_def exists_row_def count_rows_def
        sample_roles_db_def sample_role_def empty_db_def)
  then obtain d' where d': "MountRole 2 3 sample_roles_db = Inr ((), d')" ..
  have "edges sample_roles_db \<subseteq> less_than" by (simp add: sample_edges)
  then have "acyclic (edges sample_roles_db)" using wf_less_than wf_acyclic wf_subset by blast
  moreover have "shallow (edges sample_roles_db) max_depth"
    unfolding sample_edges max_depth_def using shallow_single [of "1::nat" 2 63] by simp
  ultimately show ?thesis using mount_keeps_acyclic d' by blast
qed

text \<open>A chain of 66 roles, each mounted under the next.\<close>

definition chain_db :: db where
  "chain_db = empty_db\<lparr>roles := map (\<lambda>i. sample_role i (replicate i CHR ''a'')) [1..<67],
     role_mounts := map (\<lambda>i. \<lparr>m_child = i, m_parent = Suc i\<rparr>) [1..<66]\<rparr>"

lemma chain_edges: "edges chain_db = {(i, Suc i) | i. 1 \<le> i \<and> i < 66}" "role_ids chain_db = {1..<67}"
  by (auto simp: edges_def role_ids_def chain_db_def sample_role_def image_iff)

lemma chain_distance: "(x, y) \<in> edges chain_db ^^ k \<Longrightarrow> y = x + k"
  by (induction k arbitrary: y) (auto simp: chain_edges)

lemma chain_path: "1 \<le> x \<Longrightarrow> x + k \<le> 66 \<Longrightarrow> (x, x + k) \<in> (edges chain_db)\<^sup>*"
proof (induction k)
  case (Suc k)
  then have "(x, x + k) \<in> (edges chain_db)\<^sup>*" "(x + k, x + Suc k) \<in> edges chain_db"
    by (auto simp: chain_edges)
  then show ?case by (rule rtrancl_into_rtrancl)
qed simp

text \<open>
  Beyond that depth the guard fails: on an acyclic chain of 66 roles, mounting the topmost
  role under the bottommost one succeeds and closes a cycle.
\<close>

theorem mount_cycle_beyond_depth:
  "roles_ok chain_db \<and> acyclic (edges chain_db)
   \<and> (\<exists>d'. MountRole 66 1 chain_db = Inr ((), d') \<and> \<not> acyclic (edges d'))"
proof -
  have ok: "roles_ok chain_db"
    unfolding roles_ok_def roles_ok_on_def chain_edges(1)
    by (auto simp: chain_db_def sample_role_def comp_def empty_db_def)
  have "edges chain_db \<subseteq> less_than" by (auto simp: chain_edges)
  then have ac: "acyclic (edges chain_db)" using wf_less_than wf_acyclic wf_subset by blast
  have "\<not> roleHasAncestorTx 1 66 chain_db"
    using chain_distance [of 1 66] by (fastforce simp: role_tree.found_iff within_def max_depth_def)
  moreover have "requireRole 66 chain_db" "requireRole 1 chain_db"
    using known_requireRole [OF roles_okD(1) [OF ok]] by (auto simp: chain_edges)
  moreover have "\<not> exists_row (\<lambda>m. m_child m = 66 \<and> m_parent m = 1) (role_mounts chain_db)"
    by (auto simp: chain_db_def table_simps)
  moreover have "exists_row (\<lambda>r. r_id r = 66) (roles chain_db)" "exists_row (\<lambda>r. r_id r = 1) (roles chain_db)"
    by (auto simp: chain_db_def sample_role_def table_simps)
  ultimately have "\<exists>d'. MountRole 66 1 chain_db = Inr ((), d')"
    by (simp add: MountRole_def insert_mount_def)
  then obtain d' where d': "MountRole 66 1 chain_db = Inr ((), d')" ..
  have e: "edges d' = insert (66, 1) (edges chain_db)" using MountRole_InrD(4) [OF d'] .
  have "(1, 66) \<in> (edges d')\<^sup>*"
    using chain_path [of 1 65] rtrancl_mono [of "edges chain_db" "edges d'"] e by auto
  then have "(66, 66) \<in> (edges d')\<^sup>+" using e by (auto intro: rtrancl_into_trancl2)
  then have "\<not> acyclic (edges d')" by (auto simp: acyclic_def)
  with ok ac d' show ?thesis by blast
qed

section \<open>Deleting a role\<close>

text \<open>
  C29. Deleting a role keeps, for every other pair of roles, whether one is below the other, so
  inherited authority survives the deletion; the memberships of other roles are kept and those of
  the deleted role are gone.
\<close>

theorem delete_role_keeps_reachability:
  assumes "DeleteRole x d = Inr (u, d')" "x \<in> role_ids d"
  shows "(\<forall>a b. a \<noteq> x \<and> b \<noteq> x \<longrightarrow> ((a, b) \<in> (edges d')\<^sup>+ \<longleftrightarrow> (a, b) \<in> (edges d)\<^sup>+))
    \<and> (acyclic (edges d) \<longrightarrow> acyclic (edges d'))
    \<and> x \<notin> role_ids d'
    \<and> (\<forall>ur. ur \<in> set (user_roles d') \<longleftrightarrow> ur \<in> set (user_roles d) \<and> ur_role ur \<noteq> x)"
proof -
  note D = DeleteRole_InrD [OF assms]
  have "acyclic (edges d')" if "acyclic (edges d)"
    using that contract_trancl_sound [of _ _ x "edges d"] unfolding D(1) acyclic_def by blast
  moreover have "ur \<in> set (user_roles d') \<longleftrightarrow> ur \<in> set (user_roles d) \<and> ur_role ur \<noteq> x" for ur
    by (auto simp: D(3) table_simps)
  ultimately show ?thesis by (simp add: D(1,2) contract_trancl)
qed

theorem delete_role_keeps_reachability_witness:
  "\<exists>d'. DeleteRole 2 sample_roles_db = Inr ((), d') \<and> 2 \<notin> role_ids d'"
proof -
  have k: "2 \<in> role_ids sample_roles_db" by (simp add: sample_edges)
  obtain d' where d': "DeleteRole 2 sample_roles_db = Inr ((), d')"
    by (cases "exists_row (\<lambda>r. r_id r = 2) (roles sample_roles_db)") (simp_all add: DeleteRole_def Let_def)
  with delete_role_keeps_reachability [OF d' k] show ?thesis by blast
qed

section \<open>Assigning memberships\<close>

lemma assigned_core:
  assumes "AssignUserRole newID i x level by from until d = Inr (u, d')"
  shows "(\<exists>ur\<in>set (user_roles d'). membership_of i x ur \<and> ur_level ur = level \<and> ur_valid_from ur = from
          \<and> ur_valid_until ur = until \<and> ur_granted_by ur = by)
      \<and> filter (\<lambda>ur. \<not> membership_of i x ur) (user_roles d') = filter (\<lambda>ur. \<not> membership_of i x ur) (user_roles d)
      \<and> (\<exists>urs. d' = d\<lparr>user_roles := urs\<rparr>)"
proof -
  let ?ur = "\<lparr>ur_id = newID, ur_user = i, ur_role = x, ur_level = level,
       ur_valid_from = from, ur_valid_until = until, ur_granted_by = by\<rparr>"
  let ?f = "\<lambda>m. m\<lparr>ur_level := level, ur_valid_from := from, ur_valid_until := until, ur_granted_by := by\<rparr>"
  have eq: "assignUserRoleTx newID i x level by from until [] d = Inr (u, d')"
    using assms by (simp add: AssignUserRole_def)
  obtain urs where up: "upsert_membership ?ur (user_roles d) = Inr urs" and d': "d' = d\<lparr>user_roles := urs\<rparr>"
    by (rule assign_InrD [OF eq]) (rule that, simp_all)
  have "(\<exists>ur\<in>set urs. membership_of i x ur \<and> ur_level ur = level \<and> ur_valid_from ur = from
          \<and> ur_valid_until ur = until \<and> ur_granted_by ur = by)
      \<and> filter (\<lambda>ur. \<not> membership_of i x ur) urs = filter (\<lambda>ur. \<not> membership_of i x ur) (user_roles d)"
  proof (cases "exists_row (membership_of i x) (user_roles d)")
    case True
    then obtain m where m: "m \<in> set (user_roles d)" "membership_of i x m" by (auto simp: table_simps)
    from True up have urs: "urs = update_rows (membership_of i x) ?f (user_roles d)"
      by (simp add: upsert_membership_def)
    with m have "?f m \<in> set urs" unfolding urs set_update_rows by blast
    moreover have "membership_of i x r \<Longrightarrow> membership_of i x (?f r)" for r by (simp add: membership_of_def)
    then have "filter (\<lambda>ur. \<not> membership_of i x ur) urs = filter (\<lambda>ur. \<not> membership_of i x ur) (user_roles d)"
      unfolding urs by (rule filter_update_rows)
    ultimately show ?thesis
      using m(2) by (intro conjI bexI [of _ "?f m"]) (simp_all add: membership_of_def)
  next
    case False
    with up have "urs = user_roles d @ [?ur]" by (simp add: upsert_membership_def split: if_splits)
    then show ?thesis by (simp add: membership_of_def)
  qed
  then show ?thesis by (auto simp: d')
qed

lemma assigned_member:
  "AssignUserRole newID i x level by from until d = Inr (u, d') \<Longrightarrow>
     \<exists>ur\<in>set (user_roles d'). membership_of i x ur \<and> ur_level ur = level \<and> ur_valid_from ur = from
       \<and> ur_valid_until ur = until"
  using assigned_core by blast

text \<open>
  Assigning a role without tags to an existing user makes them a member of it at the given
  level and validity, exactly one membership row for the pair, and leaves every other membership
  and every table but the memberships alone.
\<close>

theorem assign_role_functional:
  assumes "roles_ok d" and "AssignUserRole newID i x level by from until d = Inr (u, d')"
  shows "count_rows (membership_of i x) (user_roles d') = 1
    \<and> (\<exists>ur\<in>set (user_roles d'). membership_of i x ur \<and> ur_level ur = level \<and> ur_valid_from ur = from
          \<and> ur_valid_until ur = until \<and> ur_granted_by ur = by)
    \<and> filter (\<lambda>ur. \<not> membership_of i x ur) (user_roles d') = filter (\<lambda>ur. \<not> membership_of i x ur) (user_roles d)
    \<and> d' = d\<lparr>user_roles := user_roles d'\<rparr>"
proof -
  note core = assigned_core [OF assms(2)]
  have "assignUserRoleTx newID i x level by from until [] d = Inr (u, d')"
    using assms(2) by (simp add: AssignUserRole_def)
  then have ok': "roles_ok d'" by (rule keepsD [OF assign_keeps_ok _ assms(1)])
  have "count_rows (membership_of i x) (user_roles d') \<le> 1"
    using count_rows_key_le_1 [OF roles_okD(4) [OF ok'], of "(i, x)"]
    by (simp add: membership_of_def [abs_def])
  moreover have "0 < count_rows (membership_of i x) (user_roles d')"
    unfolding count_rows_pos_iff using core by blast
  ultimately have "count_rows (membership_of i x) (user_roles d') = 1" by linarith
  moreover have "d' = d\<lparr>user_roles := user_roles d'\<rparr>" using core by auto
  ultimately show ?thesis using core by blast
qed

definition sample_assign_db :: db where
  "sample_assign_db = sample_roles_db\<lparr>users := [\<lparr>u_id = 5, u_login = ''bob'', u_email = None, u_kind = UserService,
      u_password_hash = None, u_service_secret_hash = Some ''s'', u_superuser = False, u_password_changed_at = None,
      u_locked_until = None, u_banned_at = None, u_banned_by = None, u_ban_reason = [],
      u_token_version = 0, u_created_at = 0\<rparr>], role_tags := [\<lparr>rt_role = 2, rt_tag = ''ops''\<rparr>]\<rparr>"

lemmas sample_assign_defs = sample_assign_db_def sample_roles_db_def sample_role_def sample_member_def empty_db_def
  assignUserRoleTx_def AssignUserRole_def count_rows_def requireRole_def upsert_membership_def exists_row_def
  membership_of_def

lemma sample_assign_ok: "roles_ok sample_assign_db"
  using sample_roles_ok by (simp add: sample_assign_db_def roles_ok_def edges_def)

theorem assign_role_functional_witness:
  "\<exists>d'. AssignUserRole 40 5 1 RoleMember None 0 None sample_assign_db = Inr ((), d')
     \<and> count_rows (membership_of 5 1) (user_roles d') = 1"
proof -
  obtain d' where d': "AssignUserRole 40 5 1 RoleMember None 0 None sample_assign_db = Inr ((), d')"
    by (simp add: sample_assign_defs)
  with assign_role_functional [OF sample_assign_ok d'] show ?thesis by blast
qed

text \<open>
  Re-assigning an existing membership together with tags is refused: the lookup that should
  find the membership also asks for the freshly generated id, which the upsert did not use, so the
  call fails with \<open>record not found\<close> and the whole assignment is rolled back.
\<close>

theorem reassign_with_tags_refused:
  assumes "\<exists>ur\<in>set (user_roles d). membership_of i x ur" "\<forall>ur\<in>set (user_roles d). ur_id ur \<noteq> newID"
    and "count_rows (\<lambda>u. u_id u = i) (users d) = 1" "requireRole x d" "tags \<noteq> []"
  shows "AssignUserRoleWithTagGrants newID i x level by from until tags d = Inl ErrRecordNotFound"
proof -
  let ?f = "\<lambda>m. m\<lparr>ur_level := level, ur_valid_from := from, ur_valid_until := until, ur_granted_by := by\<rparr>"
  have ex: "exists_row (membership_of i x) (user_roles d)" using assms(1) by (simp add: table_simps)
  have "find_row (\<lambda>m. ur_id m = newID \<and> membership_of i x m)
      (update_rows (membership_of i x) ?f (user_roles d)) = None"
    using assms(2) by (auto simp: find_row_None_iff table_simps)
  with ex assms(3-5) show ?thesis
    by (simp add: AssignUserRoleWithTagGrants_def assignUserRoleTx_def upsert_membership_def Let_def)
qed

theorem reassign_with_tags_refused_witness:
  "AssignUserRoleWithTagGrants 40 5 2 RoleMember None 0 None [''ops''] sample_assign_db = Inl ErrRecordNotFound"
  by (rule reassign_with_tags_refused)
    (simp_all add: sample_assign_db_def sample_roles_db_def sample_member_def membership_of_def
      count_rows_def requireRole_def sample_role_def)

end
