(* ===== verification/Requests.thy ===== *)
theory Requests
  imports Role_Properties
begin

text \<open>
  Requests for a role: \<open>internal/repository/role_requests.go\<close>, with the foreign keys and the
  partial unique index \<open>role_requests_one_pending\<close> of the schema.
\<close>

section \<open>Operations\<close>

definition pending_for :: "uuid \<Rightarrow> uuid \<Rightarrow> role_request \<Rightarrow> bool" where
  "pending_for i x q \<longleftrightarrow> q_target q = i \<and> q_role q = x \<and> q_status q = RoleRequestPending"

definition CreateRoleRequest :: "uuid \<Rightarrow> uuid \<Rightarrow> uuid \<Rightarrow> uuid \<Rightarrow> uuid repo" where
  "CreateRoleRequest newID requester target x d =
     (if exists_row (\<lambda>q. q_id q = newID) (role_requests d) then Inl UniqueViolation
      else if exists_row (pending_for target x) (role_requests d) then Inl UniqueViolation
      else if \<not> exists_row (\<lambda>u. u_id u = requester) (users d) \<or> \<not> exists_row (\<lambda>u. u_id u = target) (users d)
              \<or> \<not> exists_row (\<lambda>r. r_id r = x) (roles d) then Inl ForeignKeyViolation
      else Inr (newID, d\<lparr>role_requests := role_requests d @
             [\<lparr>q_id = newID, q_requester = requester, q_target = target, q_role = x,
               q_status = RoleRequestPending, q_decided_by = None, q_decided_at = None\<rparr>]\<rparr>))"

definition ListPendingRoleRequests :: "uuid \<Rightarrow> role_request list repo" where
  "ListPendingRoleRequests x =
     reads (\<lambda>d. filter (\<lambda>q. q_role q = x \<and> q_status q = RoleRequestPending) (role_requests d))"

definition GetRoleRequest :: "uuid \<Rightarrow> role_request option repo" where
  "GetRoleRequest rid = reads (\<lambda>d. find_row (\<lambda>q. q_id q = rid) (role_requests d))"

definition DecideRoleRequestWithMembership :: "uuid \<Rightarrow> uuid \<Rightarrow> bool \<Rightarrow> uuid \<Rightarrow> instant \<Rightarrow> unit repo" where
  "DecideRoleRequestWithMembership newID rid approved decidedBy now d =
     (let st = (if approved then RoleRequestApproved else RoleRequestRejected)
      in case find_row (\<lambda>q. q_id q = rid) (role_requests d) of
        None \<Rightarrow> Inl ErrRecordNotFound
      | Some q \<Rightarrow>
          if q_status q \<noteq> RoleRequestPending then Inl ErrRoleRequestNotPending
          else case (if approved
                then assignUserRoleTx newID (q_target q) (q_role q) RoleMember (Some decidedBy) now None [] d
                else Inr ((), d)) of
            Inl e \<Rightarrow> Inl e
          | Inr (_, d1) \<Rightarrow>
              let P = (\<lambda>q. q_id q = rid \<and> q_status q = RoleRequestPending)
              in if count_rows P (role_requests d1) \<noteq> 1 then Inl ErrRoleRequestNotPending
                 else Inr ((), d1\<lparr>role_requests := update_rows P
                        (\<lambda>q. q\<lparr>q_status := st, q_decided_by := Some decidedBy, q_decided_at := Some now\<rparr>)
                        (role_requests d1)\<rparr>))"

definition DecideRoleRequest :: "uuid \<Rightarrow> instant \<Rightarrow> uuid \<Rightarrow> bool \<Rightarrow> uuid \<Rightarrow> unit repo" where
  "DecideRoleRequest newID now rid approved decidedBy =
     DecideRoleRequestWithMembership newID rid approved decidedBy now"

section \<open>Invariant\<close>

definition requests_ok :: "db \<Rightarrow> bool" where
  "requests_ok d \<longleftrightarrow> distinct (map q_id (role_requests d))
     \<and> (\<forall>i x. count_rows (pending_for i x) (role_requests d) \<le> 1)"

lemma requests_ok_frame: "role_requests d' = role_requests d \<Longrightarrow> requests_ok d' = requests_ok d"
  by (simp add: requests_ok_def)

lemma CreateRoleRequest_keeps [preserves_intros]: "keeps requests_ok (CreateRoleRequest newID r i x)"
proof (rule keepsI)
  fix d y d'
  assume ok: "requests_ok d" and eq: "CreateRoleRequest newID r i x d = Inr (y, d')"
  let ?q = "\<lparr>q_id = newID, q_requester = r, q_target = i, q_role = x,
     q_status = RoleRequestPending, q_decided_by = None, q_decided_at = None\<rparr>"
  from eq have d': "role_requests d' = role_requests d @ [?q]"
    and new: "newID \<notin> q_id ` set (role_requests d)"
    and free: "count_rows (pending_for i x) (role_requests d) = 0"
    by (auto simp: CreateRoleRequest_def table_simps split: if_splits)
  have "count_rows (pending_for j y) (role_requests d') \<le> 1" for j y
    using ok free by (auto simp: d' count_rows_Cons pending_for_def requests_ok_def)
  with ok new show "requests_ok d'" by (auto simp: requests_ok_def d')
qed

lemma decide_InrD:
  assumes "DecideRoleRequestWithMembership newID rid approved by now d = Inr (u, d')"
  obtains q d1 where "find_row (\<lambda>q. q_id q = rid) (role_requests d) = Some q" "q_status q = RoleRequestPending"
    "(if approved then assignUserRoleTx newID (q_target q) (q_role q) RoleMember (Some by) now None [] d
      else Inr ((), d)) = Inr ((), d1)"
    "role_requests d1 = role_requests d"
    "d' = d1\<lparr>role_requests := update_rows (\<lambda>q. q_id q = rid \<and> q_status q = RoleRequestPending)
        (\<lambda>q. q\<lparr>q_status := (if approved then RoleRequestApproved else RoleRequestRejected),
              q_decided_by := Some by, q_decided_at := Some now\<rparr>) (role_requests d)\<rparr>"
proof -
  note eq = assms [unfolded DecideRoleRequestWithMembership_def Let_def]
  obtain q where q: "find_row (\<lambda>q. q_id q = rid) (role_requests d) = Some q"
    using eq by (cases "find_row (\<lambda>q. q_id q = rid) (role_requests d)") simp_all
  have st: "q_status q = RoleRequestPending" using eq q by (cases "q_status q = RoleRequestPending") simp_all
  let ?a = "if approved then assignUserRoleTx newID (q_target q) (q_role q) RoleMember (Some by) now None [] d
      else Inr ((), d)"
  obtain d1 where a: "?a = Inr ((), d1)"
    using eq q st by (cases ?a) auto
  have rq: "role_requests d1 = role_requests d"
  proof (cases approved)
    case True
    with a have "assignUserRoleTx newID (q_target q) (q_role q) RoleMember (Some by) now None [] d = Inr ((), d1)"
      by simp
    then show ?thesis by (rule assign_InrD) simp
  next
    case False
    with a show ?thesis by simp
  qed
  from eq q st a rq show thesis by (intro that [of q d1]) (simp_all split: if_splits)
qed

lemma decide_keeps [preserves_intros]:
  "keeps requests_ok (DecideRoleRequestWithMembership newID rid approved by now)"
proof (rule keepsI)
  fix d u d'
  assume ok: "requests_ok d" and eq: "DecideRoleRequestWithMembership newID rid approved by now d = Inr (u, d')"
  let ?P = "\<lambda>q. q_id q = rid \<and> q_status q = RoleRequestPending"
  let ?f = "\<lambda>q. q\<lparr>q_status := (if approved then RoleRequestApproved else RoleRequestRejected),
              q_decided_by := Some by, q_decided_at := Some now\<rparr>"
  have d': "role_requests d' = update_rows ?P ?f (role_requests d)"
    by (rule decide_InrD [OF eq]) simp
  have "count_rows (pending_for i x) (role_requests d') \<le> 1" for i x
  proof -
    have "count_rows (pending_for i x) (role_requests d') \<le> count_rows (pending_for i x) (role_requests d)"
      unfolding d' by (rule count_rows_update_le) (auto simp: pending_for_def split: if_splits)
    also have "\<dots> \<le> 1" using ok by (simp add: requests_ok_def)
    finally show ?thesis .
  qed
  moreover have "distinct (map q_id (role_requests d'))"
    using ok by (simp add: requests_ok_def d' map_update_rows)
  ultimately show "requests_ok d'" by (simp add: requests_ok_def)
qed

lemma decide_keeps_roles_ok [preserves_intros]:
  "keeps roles_ok (DecideRoleRequestWithMembership newID rid approved by now)"
proof (rule keepsI)
  fix d u d'
  assume ok: "roles_ok d" and eq: "DecideRoleRequestWithMembership newID rid approved by now d = Inr (u, d')"
  obtain q :: role_request and d1 rs where a: "(if approved then assignUserRoleTx newID (q_target q) (q_role q) RoleMember (Some by) now None [] d
      else Inr ((), d)) = Inr ((), d1)"
    and d': "d' = d1\<lparr>role_requests := rs\<rparr>"
    by (rule decide_InrD [OF eq]) (rule that)
  have "roles_ok d1" using a ok assign_keeps_ok
    by (cases approved) (auto simp: keeps_def)
  moreover have "roles_ok d' = roles_ok d1" by (rule roles_ok_frame) (simp_all add: d')
  ultimately show "roles_ok d'" by simp
qed

section \<open>A request is decided once\<close>

text \<open>
  C30. A decision that succeeds settles the request for good: it was pending before, it is approved
  or rejected afterwards with the decider recorded, an approval makes the target an active member
  of the role in the same transaction, a rejection changes no membership, and any second decision
  is refused as not pending.
\<close>

theorem request_decided_once:
  assumes "requests_ok d" "roles_ok d"
    and "DecideRoleRequestWithMembership newID rid approved by now d = Inr (u, d')"
  shows "\<exists>q\<in>set (role_requests d). q_id q = rid \<and> q_status q = RoleRequestPending
    \<and> \<lparr>q_id = rid, q_requester = q_requester q, q_target = q_target q, q_role = q_role q,
        q_status = (if approved then RoleRequestApproved else RoleRequestRejected),
        q_decided_by = Some by, q_decided_at = Some now\<rparr> \<in> set (role_requests d')
    \<and> (approved \<longrightarrow> (\<exists>ur\<in>set (user_roles d'). membership_of (q_target q) (q_role q) ur
          \<and> ur_level ur = RoleMember \<and> active_at now ur))
    \<and> (\<not> approved \<longrightarrow> user_roles d' = user_roles d)
    \<and> DecideRoleRequestWithMembership newID' rid approved' by' now' d' = Inl ErrRoleRequestNotPending"
proof -
  obtain q d1 where f: "find_row (\<lambda>q. q_id q = rid) (role_requests d) = Some q"
    and st: "q_status q = RoleRequestPending"
    and a: "(if approved then assignUserRoleTx newID (q_target q) (q_role q) RoleMember (Some by) now None [] d
      else Inr ((), d)) = Inr ((), d1)"
    and d': "d' = d1\<lparr>role_requests := update_rows (\<lambda>q. q_id q = rid \<and> q_status q = RoleRequestPending)
        (\<lambda>q. q\<lparr>q_status := (if approved then RoleRequestApproved else RoleRequestRejected),
              q_decided_by := Some by, q_decided_at := Some now\<rparr>) (role_requests d)\<rparr>"
    by (rule decide_InrD [OF assms(3)]) (rule that)
  let ?q' = "q\<lparr>q_status := (if approved then RoleRequestApproved else RoleRequestRejected),
              q_decided_by := Some by, q_decided_at := Some now\<rparr>"
  from f have q: "q \<in> set (role_requests d)" "q_id q = rid" by (auto dest: find_row_SomeD)
  have q': "?q' \<in> set (role_requests d')" using q st by (auto simp: d' table_simps)
  have mem: "\<exists>ur\<in>set (user_roles d1). membership_of (q_target q) (q_role q) ur \<and> ur_level ur = RoleMember
      \<and> active_at now ur" if approved
  proof -
    from a that have "AssignUserRole newID (q_target q) (q_role q) RoleMember (Some by) now None d = Inr ((), d1)"
      by (simp add: AssignUserRole_def)
    from assigned_member [OF this] show ?thesis by (auto simp: active_at_def)
  qed
  have "distinct (map q_id (role_requests d'))"
    using keepsD [OF decide_keeps assms(3,1)] by (simp add: requests_ok_def)
  from find_row_key [OF this q'] q(2) have "find_row (\<lambda>q. q_id q = rid) (role_requests d') = Some ?q'" by simp
  then have again: "DecideRoleRequestWithMembership newID' rid approved' by' now' d' = Inl ErrRoleRequestNotPending"
    by (simp add: DecideRoleRequestWithMembership_def)
  have row: "?q' = \<lparr>q_id = rid, q_requester = q_requester q, q_target = q_target q, q_role = q_role q,
        q_status = (if approved then RoleRequestApproved else RoleRequestRejected),
        q_decided_by = Some by, q_decided_at = Some now\<rparr>"
    using q(2) by (intro role_request.equality) simp_all
  show ?thesis
  proof (intro bexI [of _ q] conjI impI)
    show "\<exists>ur\<in>set (user_roles d'). membership_of (q_target q) (q_role q) ur \<and> ur_level ur = RoleMember
      \<and> active_at now ur" if approved using mem [OF that] by (simp add: d')
    show "user_roles d' = user_roles d" if "\<not> approved" using a that by (simp add: d')
  qed (use q st q' row again in auto)
qed

definition sample_request_db :: db where
  "sample_request_db = sample_assign_db\<lparr>role_requests :=
     [\<lparr>q_id = 70, q_requester = 5, q_target = 5, q_role = 1, q_status = RoleRequestPending,
       q_decided_by = None, q_decided_at = None\<rparr>]\<rparr>"

theorem request_decided_once_witness:
  "\<exists>d'. DecideRoleRequestWithMembership 41 70 True 9 20 sample_request_db = Inr ((), d')
     \<and> DecideRoleRequestWithMembership 42 70 False 9 21 d' = Inl ErrRoleRequestNotPending"
proof -
  have "requests_ok sample_request_db"
    by (auto simp: requests_ok_def sample_request_db_def count_rows_def)
  moreover have "roles_ok sample_request_db"
    using sample_assign_ok by (simp add: sample_request_db_def roles_ok_def edges_def)
  moreover obtain d' where "DecideRoleRequestWithMembership 41 70 True 9 20 sample_request_db = Inr ((), d')"
    by (simp add: DecideRoleRequestWithMembership_def sample_request_db_def find_row_def Let_def sample_assign_defs)
  ultimately show ?thesis using request_decided_once by blast
qed

end
