(* ===== verification/Signing_Keys.thy ===== *)
theory Signing_Keys
  imports Schema
begin

text \<open>
  The signing-key table: \<open>internal/repository/signing.go\<close>, with the partial unique index
  \<open>signing_keys_one_current\<close>.
\<close>

definition GetSigningKeyMaterial :: "string \<Rightarrow> signing_key option repo" where
  "GetSigningKeyMaterial kid = reads (\<lambda>d. find_row (\<lambda>k. k_kid k = kid) (signing_keys d))"

definition GetCurrentSigningKeyMaterial :: "signing_key option repo" where
  "GetCurrentSigningKeyMaterial = reads (\<lambda>d. find_row k_is_current (signing_keys d))"

definition insert_key :: "string \<Rightarrow> bytes \<Rightarrow> bytes \<Rightarrow> signing_key list \<Rightarrow> repo_error + signing_key list" where
  "insert_key kid cipher nonce ks =
     (if exists_row (\<lambda>k. k_kid k = kid \<or> k_is_current k) ks then Inl UniqueViolation
      else Inr (ks @ [\<lparr>k_kid = kid, k_secret_cipher = cipher, k_nonce = nonce, k_deprecated_at = None,
                       k_is_current = True\<rparr>]))"

definition InsertSigningKey :: "instant \<Rightarrow> string \<Rightarrow> bytes \<Rightarrow> bytes \<Rightarrow> bool \<Rightarrow> unit repo" where
  "InsertSigningKey now kid cipher nonce deprecateOthers d =
     (let ks = (if deprecateOthers
                then update_rows k_is_current
                  (\<lambda>k. k\<lparr>k_is_current := False,
                        k_deprecated_at := (case k_deprecated_at k of None \<Rightarrow> Some now | Some t \<Rightarrow> Some t)\<rparr>) (signing_keys d)
                else signing_keys d)
      in case insert_key kid cipher nonce ks of Inl e \<Rightarrow> Inl e | Inr ks' \<Rightarrow> Inr ((), d\<lparr>signing_keys := ks'\<rparr>))"

definition DeprecateCurrentAndSet :: "instant \<Rightarrow> string \<Rightarrow> bytes \<Rightarrow> bytes \<Rightarrow> unit repo" where
  "DeprecateCurrentAndSet now kid cipher nonce d =
     (let ks = update_rows k_is_current (\<lambda>k. k\<lparr>k_is_current := False, k_deprecated_at := Some now\<rparr>) (signing_keys d)
      in case insert_key kid cipher nonce ks of Inl e \<Rightarrow> Inl e | Inr ks' \<Rightarrow> Inr ((), d\<lparr>signing_keys := ks'\<rparr>))"

definition CountSigningKeys :: "nat repo" where
  "CountSigningKeys = reads (\<lambda>d. length (signing_keys d))"

section \<open>Invariant\<close>

text \<open>Key ids are distinct; once a key exists exactly one is current; and the current key is not
  deprecated while every other one is.\<close>

definition keys_ok_on :: "signing_key list \<Rightarrow> bool" where
  "keys_ok_on ks \<longleftrightarrow> distinct (map k_kid ks) \<and> (ks \<noteq> [] \<longrightarrow> count_rows k_is_current ks = 1)
     \<and> (\<forall>k\<in>set ks. k_is_current k \<longleftrightarrow> k_deprecated_at k = None)"

definition keys_ok :: "db \<Rightarrow> bool" where
  "keys_ok d \<longleftrightarrow> keys_ok_on (signing_keys d)"

lemma keys_ok_frame: "signing_keys d' = signing_keys d \<Longrightarrow> keys_ok d' = keys_ok d"
  by (simp add: keys_ok_def)

lemma insert_key_InrD:
  assumes "insert_key kid cipher nonce ks = Inr ks'"
  shows "ks' = ks @ [\<lparr>k_kid = kid, k_secret_cipher = cipher, k_nonce = nonce, k_deprecated_at = None,
      k_is_current = True\<rparr>]" "kid \<notin> k_kid ` set ks" "count_rows k_is_current ks = 0"
  using assms by (auto simp: insert_key_def table_simps split: if_splits)

lemma insert_key_ok:
  assumes "insert_key kid cipher nonce ks = Inr ks'" "distinct (map k_kid ks)"
    and "\<forall>k\<in>set ks. \<not> k_is_current k \<longrightarrow> k_deprecated_at k \<noteq> None"
  shows "keys_ok_on ks'"
proof -
  note D = insert_key_InrD [OF assms(1)]
  from D(3) have "\<forall>k\<in>set ks. \<not> k_is_current k" by (simp add: table_simps)
  with D assms(2,3) show ?thesis by (auto simp: keys_ok_on_def count_rows_Cons)
qed

lemma signing_writes_frame:
  "DeprecateCurrentAndSet now kid cipher nonce d = Inr (u, d') \<Longrightarrow> \<exists>ks. d' = d\<lparr>signing_keys := ks\<rparr>"
  "InsertSigningKey now kid cipher nonce dep d = Inr (u, d') \<Longrightarrow> \<exists>ks. d' = d\<lparr>signing_keys := ks\<rparr>"
  by (auto simp: DeprecateCurrentAndSet_def InsertSigningKey_def Let_def split: sum.splits)

lemma rotation_keeps [preserves_intros]: "keeps keys_ok (DeprecateCurrentAndSet now kid cipher nonce)"
proof (rule keepsI)
  fix d u d'
  assume ok: "keys_ok d" and eq: "DeprecateCurrentAndSet now kid cipher nonce d = Inr (u, d')"
  let ?ks = "update_rows k_is_current (\<lambda>k. k\<lparr>k_is_current := False, k_deprecated_at := Some now\<rparr>) (signing_keys d)"
  from eq have "insert_key kid cipher nonce ?ks = Inr (signing_keys d')"
    by (auto simp: DeprecateCurrentAndSet_def Let_def split: sum.splits)
  then show "keys_ok d'"
    unfolding keys_ok_def using ok
    by (elim insert_key_ok) (auto simp: keys_ok_def keys_ok_on_def map_update_rows table_simps)
qed

lemma insert_signing_keeps [preserves_intros]: "keeps keys_ok (InsertSigningKey now kid cipher nonce dep)"
proof (rule keepsI)
  fix d u d'
  assume ok: "keys_ok d" and eq: "InsertSigningKey now kid cipher nonce dep d = Inr (u, d')"
  let ?ks = "if dep then update_rows k_is_current
      (\<lambda>k. k\<lparr>k_is_current := False,
            k_deprecated_at := (case k_deprecated_at k of None \<Rightarrow> Some now | Some t \<Rightarrow> Some t)\<rparr>) (signing_keys d)
      else signing_keys d"
  from eq have "insert_key kid cipher nonce ?ks = Inr (signing_keys d')"
    unfolding InsertSigningKey_def Let_def by (auto split: sum.splits)
  then show "keys_ok d'"
    unfolding keys_ok_def using ok
    by (elim insert_key_ok)
      (auto simp: keys_ok_def keys_ok_on_def map_update_rows table_simps split: option.splits)
qed

section \<open>Rotation\<close>

text \<open>
  Rotating the signing key succeeds for an unused key id, makes the new key the one current
  key, marks the previous one deprecated at the time of the rotation, and keeps the material of
  every earlier key, so tokens signed before the rotation can still be checked.
\<close>

lemma rotation_functional:
  assumes "keys_ok d" "\<forall>k\<in>set (signing_keys d). k_kid k \<noteq> kid"
  shows "\<exists>d'. DeprecateCurrentAndSet now kid cipher nonce d = Inr ((), d')
    \<and> GetCurrentSigningKeyMaterial d' = Inr (Some \<lparr>k_kid = kid, k_secret_cipher = cipher, k_nonce = nonce,
         k_deprecated_at = None, k_is_current = True\<rparr>, d')
    \<and> count_rows k_is_current (signing_keys d') = 1
    \<and> (\<forall>k\<in>set (signing_keys d). \<exists>k'\<in>set (signing_keys d'). k_kid k' = k_kid k
         \<and> k_secret_cipher k' = k_secret_cipher k \<and> k_nonce k' = k_nonce k
         \<and> k_deprecated_at k' = (if k_is_current k then Some now else k_deprecated_at k))"
proof -
  let ?f = "\<lambda>k. k\<lparr>k_is_current := False, k_deprecated_at := Some now\<rparr>"
  let ?ks = "update_rows k_is_current ?f (signing_keys d)"
  let ?n = "\<lparr>k_kid = kid, k_secret_cipher = cipher, k_nonce = nonce, k_deprecated_at = None, k_is_current = True\<rparr>"
  have none: "\<forall>k\<in>set ?ks. \<not> k_is_current k" by (auto simp: table_simps)
  have "\<forall>k\<in>set ?ks. k_kid k \<noteq> kid" using assms(2) by (auto simp: table_simps)
  with none have "\<not> exists_row (\<lambda>k. k_kid k = kid \<or> k_is_current k) ?ks"
    unfolding exists_row_iff by blast
  then have "insert_key kid cipher nonce ?ks = Inr (?ks @ [?n])" by (simp add: insert_key_def)
  then have run: "DeprecateCurrentAndSet now kid cipher nonce d = Inr ((), d\<lparr>signing_keys := ?ks @ [?n]\<rparr>)"
    by (simp add: DeprecateCurrentAndSet_def)
  have "find_row k_is_current ?ks = None" using none by (simp add: find_row_None_iff)
  then have cur: "find_row k_is_current (?ks @ [?n]) = Some ?n" by (simp add: find_row_append) (simp add: find_row_def)
  have "count_rows k_is_current ?ks = 0" using none by (simp only: count_rows_0_iff)
  then have cnt: "count_rows k_is_current (?ks @ [?n]) = 1" by (simp add: count_rows_Cons)
  have "\<exists>k'\<in>set (?ks @ [?n]). k_kid k' = k_kid k \<and> k_secret_cipher k' = k_secret_cipher k \<and> k_nonce k' = k_nonce k
         \<and> k_deprecated_at k' = (if k_is_current k then Some now else k_deprecated_at k)"
    if "k \<in> set (signing_keys d)" for k
    using update_rows_mem [OF that, of k_is_current ?f]
    by (intro bexI [of _ "if k_is_current k then ?f k else k"]) simp_all
  with run cur cnt show ?thesis by (simp add: GetCurrentSigningKeyMaterial_def reads_def)
qed

definition sample_key :: signing_key where
  "sample_key = \<lparr>k_kid = ''k1'', k_secret_cipher = ''c1'', k_nonce = ''n1'', k_deprecated_at = None, k_is_current = True\<rparr>"

lemma sample_keys_ok: "keys_ok (empty_db\<lparr>signing_keys := [sample_key]\<rparr>)"
  by (simp add: keys_ok_def keys_ok_on_def sample_key_def count_rows_def)

theorem rotation_functional_witness:
  "\<exists>d'. DeprecateCurrentAndSet 50 ''k2'' ''c2'' ''n2'' (empty_db\<lparr>signing_keys := [sample_key]\<rparr>) = Inr ((), d')
     \<and> count_rows k_is_current (signing_keys d') = 1"
  using rotation_functional [OF sample_keys_ok, of "''k2''" 50 "''c2''" "''n2''"]
  by (auto simp: sample_key_def)

end
