(* ===== verification/Registration.thy ===== *)
theory Registration
  imports Sessions
begin

text \<open>
  Registration invites: \<open>internal/repository/invites.go\<close>. The clock is read once per
  transaction. Registration creates the account, its first history entry and, for an invite, the
  use of the invite in one transaction.
\<close>

section \<open>Operations\<close>

definition invite_valid :: "instant \<Rightarrow> bytes \<Rightarrow> registration_invite \<Rightarrow> bool" where
  "invite_valid now h v \<longleftrightarrow> i_token_hash v = h \<and> i_used_at v = None \<and> now < i_expires_at v"

definition InsertRegistrationInvite ::
  "uuid \<Rightarrow> bytes \<Rightarrow> string option \<Rightarrow> bool \<Rightarrow> instant \<Rightarrow> uuid \<Rightarrow> uuid repo" where
  "InsertRegistrationInvite newID tokenHash email superuser expires createdBy d =
     (if exists_row (\<lambda>v. i_id v = newID \<or> i_token_hash v = tokenHash) (invites d) then Inl UniqueViolation
      else Inr (newID, d\<lparr>invites := invites d @ [\<lparr>i_id = newID, i_token_hash = tokenHash, i_email = email,
             i_superuser = superuser, i_expires_at = expires, i_used_at = None, i_created_by = createdBy\<rparr>]\<rparr>))"

definition GetValidRegistrationInviteByTokenHash :: "instant \<Rightarrow> bytes \<Rightarrow> registration_invite option repo" where
  "GetValidRegistrationInviteByTokenHash now h = reads (\<lambda>d. find_row (invite_valid now h) (invites d))"

definition use_invite :: "instant \<Rightarrow> uuid \<Rightarrow> registration_invite list \<Rightarrow> registration_invite list" where
  "use_invite now vid vs =
     update_rows (\<lambda>v. i_id v = vid \<and> i_used_at v = None) (\<lambda>v. v\<lparr>i_used_at := Some now\<rparr>) vs"

definition MarkRegistrationInviteUsed :: "instant \<Rightarrow> uuid \<Rightarrow> unit repo" where
  "MarkRegistrationInviteUsed now vid d =
     (if count_rows (\<lambda>v. i_id v = vid \<and> i_used_at v = None) (invites d) = 0
      then Inl (RepoMessage ''invite already used or missing'')
      else Inr ((), d\<lparr>invites := use_invite now vid (invites d)\<rparr>))"

definition createRegisteredHuman ::
  "uuid \<Rightarrow> uuid \<Rightarrow> instant \<Rightarrow> string \<Rightarrow> string \<Rightarrow> string \<Rightarrow> bytes \<Rightarrow> bytes \<Rightarrow> int \<Rightarrow> bool \<Rightarrow> uuid repo" where
  "createRegisteredHuman uid hid now lg em passwordHash historyCipher historyNonce historyKeep superuser d =
     (let u = (new_user uid now (ToLower (TrimSpace lg)) UserHuman)
              \<lparr>u_email := Some (ToLower (TrimSpace em)), u_password_hash := Some passwordHash,
               u_password_changed_at := Some now, u_superuser := superuser\<rparr>
      in case insert_user u d of
           Inl e \<Rightarrow> Inl e
         | Inr d1 \<Rightarrow>
             (case insert_history \<lparr>ph_id = hid, ph_user = uid, ph_hash = passwordHash, ph_ciphertext = historyCipher,
                     ph_nonce = historyNonce, ph_created_at = now\<rparr> d1 of
                Inl e \<Rightarrow> Inl e
              | Inr d2 \<Rightarrow>
                  Inr (uid, if historyKeep > 0 then trim_history ph_created_at uid (nat historyKeep) d2 else d2)))"

definition RegisterHumanOpen ::
  "uuid \<Rightarrow> uuid \<Rightarrow> instant \<Rightarrow> string \<Rightarrow> string \<Rightarrow> string \<Rightarrow> bytes \<Rightarrow> bytes \<Rightarrow> int \<Rightarrow> uuid repo" where
  "RegisterHumanOpen uid hid now lg em passwordHash historyCipher historyNonce historyKeep =
     createRegisteredHuman uid hid now lg em passwordHash historyCipher historyNonce historyKeep False"

text \<open>\<open>None\<close> is the answer \<open>registered = false\<close>.\<close>

definition RegisterHumanWithInvite ::
  "uuid \<Rightarrow> uuid \<Rightarrow> instant \<Rightarrow> bytes \<Rightarrow> string \<Rightarrow> string \<Rightarrow> string \<Rightarrow> bytes \<Rightarrow> bytes \<Rightarrow> int \<Rightarrow> uuid option repo" where
  "RegisterHumanWithInvite uid hid now tokenHash lg0 em0 passwordHash historyCipher historyNonce historyKeep d =
     (case find_row (invite_valid now tokenHash) (invites d) of
        None \<Rightarrow> Inr (None, d)
      | Some v \<Rightarrow>
          let lg = ToLower (TrimSpace lg0); em = ToLower (TrimSpace em0)
          in if (case i_email v of None \<Rightarrow> False | Some e \<Rightarrow> TrimSpace e \<noteq> [] \<and> \<not> EqualFold em (TrimSpace e))
             then Inr (None, d)
             else case createRegisteredHuman uid hid now lg em passwordHash historyCipher historyNonce historyKeep
                         (i_superuser v) d of
               Inl e \<Rightarrow> Inl e
             | Inr (x, d1) \<Rightarrow>
                 if count_rows (\<lambda>x. i_id x = i_id v \<and> i_used_at x = None) (invites d1) \<noteq> 1
                 then Inl (RepoMessage ''invite already used'')
                 else Inr (Some x, d1\<lparr>invites := use_invite now (i_id v) (invites d1)\<rparr>))"

section \<open>Invariants\<close>

definition invites_ok :: "db \<Rightarrow> bool" where
  "invites_ok d \<longleftrightarrow> distinct (map i_id (invites d)) \<and> distinct (map i_token_hash (invites d))"

lemma invites_ok_frame: "invites d' = invites d \<Longrightarrow> invites_ok d' = invites_ok d"
  by (simp add: invites_ok_def)

lemma InsertRegistrationInvite_keeps [preserves_intros]:
  "keeps invites_ok (InsertRegistrationInvite newID h em su ex by)"
  by (rule keepsI) (auto simp: InsertRegistrationInvite_def invites_ok_def table_simps split: if_splits)

lemma MarkRegistrationInviteUsed_keeps [preserves_intros]:
  "keeps invites_ok (MarkRegistrationInviteUsed now vid)"
  by (rule keepsI)
    (auto simp: MarkRegistrationInviteUsed_def invites_ok_def use_invite_def map_update_rows split: if_splits)

lemma register_InrD:
  assumes "createRegisteredHuman uid hid now lg em ph c n k su d = Inr (x, d')"
  obtains u ks hs where "x = uid" "u_id u = uid" "u_superuser u = su" "u_kind u = UserHuman" "u_banned_at u = None"
    "u_password_hash u = Some ph"
    "insert_user ((new_user uid now (ToLower (TrimSpace lg)) UserHuman)
        \<lparr>u_email := Some (ToLower (TrimSpace em)), u_password_hash := Some ph,
         u_password_changed_at := Some now, u_superuser := su\<rparr>) d
      = Inr (d\<lparr>users := users d @ [u], identity_keys := ks\<rparr>)"
    "d' = d\<lparr>users := users d @ [u], identity_keys := ks, password_histories := hs\<rparr>"
proof -
  let ?u = "(new_user uid now (ToLower (TrimSpace lg)) UserHuman)
        \<lparr>u_email := Some (ToLower (TrimSpace em)), u_password_hash := Some ph,
         u_password_changed_at := Some now, u_superuser := su\<rparr>"
  note eq = assms [unfolded createRegisteredHuman_def Let_def]
  obtain d1 where d1: "insert_user ?u d = Inr d1" using eq by (cases "insert_user ?u d") simp_all
  then obtain u ks where u: "canonicalize_user_identity ?u = Inr u"
    and d1': "d1 = d\<lparr>users := users d @ [u], identity_keys := ks\<rparr>"
    by (auto simp: insert_user_def split: sum.splits if_splits)
  have "u_id u = uid" "u_superuser u = su" "u_kind u = UserHuman" "u_banned_at u = None" "u_password_hash u = Some ph"
    using u by (auto simp: canonicalize_user_identity_def Let_def new_user_def split: if_splits)
  moreover have "x = uid \<and> (\<exists>hs. d' = d1\<lparr>password_histories := hs\<rparr>)"
    using eq d1 by (auto simp: insert_history_def trim_history_def Let_def split: if_splits)
  ultimately show thesis using d1 by (auto simp: d1' intro: that)
qed

lemma register_keeps_identity: "keeps identity_ok (createRegisteredHuman uid hid now lg em ph c n k su)"
proof (rule keepsI)
  fix d x d'
  assume ok: "identity_ok d" and eq: "createRegisteredHuman uid hid now lg em ph c n k su d = Inr (x, d')"
  show "identity_ok d'"
  proof (rule register_InrD [OF eq])
    fix u ks hs
    assume "insert_user ((new_user uid now (ToLower (TrimSpace lg)) UserHuman)
        \<lparr>u_email := Some (ToLower (TrimSpace em)), u_password_hash := Some ph,
         u_password_changed_at := Some now, u_superuser := su\<rparr>) d
      = Inr (d\<lparr>users := users d @ [u], identity_keys := ks\<rparr>)"
      and d': "d' = d\<lparr>users := users d @ [u], identity_keys := ks, password_histories := hs\<rparr>"
    from insert_user_ok [OF this(1) ok] show ?thesis by (simp add: identity_ok_def d')
  qed
qed

lemma register_keeps_account_inv: "keeps account_inv (createRegisteredHuman uid hid now lg em ph c n k su)"
proof (rule keepsI)
  fix d x d'
  assume inv: "account_inv d" and eq: "createRegisteredHuman uid hid now lg em ph c n k su d = Inr (x, d')"
  from inv have id: "identity_ok d" by (simp add: account_inv_def)
  have "identity_ok d'" by (rule keepsD [OF register_keeps_identity eq id])
  moreover have "refresh_sessions d' = refresh_sessions d" "banned_ids (users d') = banned_ids (users d)"
    by (rule register_InrD [OF eq], simp add: banned_ids_def)+
  ultimately show "account_inv d'"
    using inv sessions_ok_frame [of d' d] ban_ok_frame [of d' d] by (simp add: account_inv_def)
qed

lemma invite_register_cases:
  assumes "RegisterHumanWithInvite uid hid now h lg em ph c n k d = Inr (r, d')"
  obtains (refused) "r = None" "d' = d"
  | (registered) v d1 where "r = Some uid" "find_row (invite_valid now h) (invites d) = Some v"
      "createRegisteredHuman uid hid now (ToLower (TrimSpace lg)) (ToLower (TrimSpace em)) ph c n k (i_superuser v) d
         = Inr (uid, d1)"
      "\<And>e. i_email v = Some e \<Longrightarrow> TrimSpace e \<noteq> [] \<Longrightarrow> EqualFold (ToLower (TrimSpace em)) (TrimSpace e)"
      "invites d1 = invites d" "d' = d1\<lparr>invites := use_invite now (i_id v) (invites d)\<rparr>"
proof (cases "find_row (invite_valid now h) (invites d)")
  case None
  with assms show thesis by (intro refused) (simp_all add: RegisterHumanWithInvite_def)
next
  case (Some v)
  let ?clash = "case i_email v of None \<Rightarrow> False
     | Some e \<Rightarrow> TrimSpace e \<noteq> [] \<and> \<not> EqualFold (ToLower (TrimSpace em)) (TrimSpace e)"
  let ?run = "createRegisteredHuman uid hid now (ToLower (TrimSpace lg)) (ToLower (TrimSpace em)) ph c n k (i_superuser v) d"
  note eq = assms [unfolded RegisterHumanWithInvite_def Let_def Some option.case]
  show thesis
  proof (cases ?clash)
    case True
    with eq show thesis by (intro refused) simp_all
  next
    case False
    then obtain x d1 where run: "?run = Inr (x, d1)" using eq by (cases ?run) auto
    have x: "x = uid" and inv: "invites d1 = invites d" by (rule register_InrD [OF run], simp)+
    from eq False run x inv have "r = Some uid" "d' = d1\<lparr>invites := use_invite now (i_id v) (invites d)\<rparr>"
      by (simp_all split: if_splits)
    with False run x inv Some show thesis by (intro registered) (auto split: option.splits)
  qed
qed

lemma invite_register_keeps [preserves_intros]:
  "keeps account_inv (RegisterHumanWithInvite uid hid now h lg em ph c n k)"
  "keeps invites_ok (RegisterHumanWithInvite uid hid now h lg em ph c n k)"
proof -
  show "keeps account_inv (RegisterHumanWithInvite uid hid now h lg em ph c n k)"
  proof (rule keepsI)
    fix d r d'
    assume inv: "account_inv d" and eq: "RegisterHumanWithInvite uid hid now h lg em ph c n k d = Inr (r, d')"
    from eq show "account_inv d'"
    proof (cases rule: invite_register_cases)
      case (registered v d1)
      have "account_inv d1" by (rule keepsD [OF register_keeps_account_inv registered(3) inv])
      then show ?thesis
        by (simp add: registered(6) account_inv_def identity_ok_def sessions_ok_def ban_ok_def)
    qed (use inv in simp)
  qed
  show "keeps invites_ok (RegisterHumanWithInvite uid hid now h lg em ph c n k)"
  proof (rule keepsI)
    fix d r d'
    assume ok: "invites_ok d" and eq: "RegisterHumanWithInvite uid hid now h lg em ph c n k d = Inr (r, d')"
    from eq ok show "invites_ok d'"
      by (cases rule: invite_register_cases) (auto simp: invites_ok_def use_invite_def map_update_rows)
  qed
qed

lemma open_register_keeps [preserves_intros]:
  "keeps account_inv (RegisterHumanOpen uid hid now lg em ph c n k)"
  unfolding RegisterHumanOpen_def by (rule register_keeps_account_inv)

section \<open>One account per invite\<close>

text \<open>
  C31. A registration with an invite creates exactly one human account, a superuser exactly when
  the invite says so and only for the address the invite is locked to; the invite is used up by
  it, so every later registration with the same token is refused without touching the store.
\<close>

theorem invite_single_use:
  assumes "invites_ok d"
    and "RegisterHumanWithInvite uid hid now h lg em ph c n k d = Inr (Some x, d')"
  shows "(\<exists>v\<in>set (invites d). \<exists>u. i_token_hash v = h \<and> i_used_at v = None \<and> now < i_expires_at v
        \<and> users d' = users d @ [u] \<and> u_id u = x \<and> u_kind u = UserHuman
        \<and> u_superuser u = i_superuser v \<and> u_password_hash u = Some ph
        \<and> (\<forall>e. i_email v = Some e \<longrightarrow> TrimSpace e \<noteq> [] \<longrightarrow> EqualFold (ToLower (TrimSpace em)) (TrimSpace e)))
    \<and> RegisterHumanWithInvite uid' hid' now' h lg' em' ph' c' n' k' d' = Inr (None, d')"
  using assms(2)
proof (cases rule: invite_register_cases)
  case refused
  then show ?thesis by simp
next
  case (registered v d1)
  from registered(2) have v: "v \<in> set (invites d)" "invite_valid now h v" by (auto dest: find_row_SomeD)
  obtain u where u: "users d1 = users d @ [u]" "u_id u = uid" "u_superuser u = i_superuser v"
    "u_kind u = UserHuman" "u_password_hash u = Some ph"
    by (rule register_InrD [OF registered(3)]) (rule that, simp_all)
  have only: "w = v" if "w \<in> set (invites d)" "i_token_hash w = h" for w
    using assms(1) v that distinct_key_eq [of i_token_hash "invites d" w v]
    by (auto simp: invites_ok_def invite_valid_def)
  have "\<not> invite_valid now' h w" if "w \<in> set (invites d')" for w
  proof
    assume ok: "invite_valid now' h w"
    from that obtain w0 where w0: "w0 \<in> set (invites d)"
      "w = (if i_id w0 = i_id v \<and> i_used_at w0 = None then w0\<lparr>i_used_at := Some now\<rparr> else w0)"
      by (auto simp: registered(6) use_invite_def update_rows_def)
    with ok have "i_token_hash w0 = h" by (auto simp: invite_valid_def split: if_splits)
    with w0 only v ok show False by (auto simp: invite_valid_def split: if_splits)
  qed
  then have "find_row (invite_valid now' h) (invites d') = None" by (simp add: find_row_None_iff)
  then have "RegisterHumanWithInvite uid' hid' now' h lg' em' ph' c' n' k' d' = Inr (None, d')"
    by (simp add: RegisterHumanWithInvite_def)
  moreover have "users d' = users d @ [u]" "uid = x" using u registered(1) by (simp_all add: registered(6))
  ultimately show ?thesis using v u registered(4) by (auto simp: invite_valid_def)
qed

definition sample_invite_db :: db where
  "sample_invite_db = empty_db\<lparr>invites := [\<lparr>i_id = 80, i_token_hash = ''th'', i_email = Some ''Ann@x.org'',
     i_superuser = True, i_expires_at = 100, i_used_at = None, i_created_by = 1\<rparr>]\<rparr>"

theorem invite_single_use_witness:
  "\<exists>d'. RegisterHumanWithInvite 2 90 10 ''th'' ''ann'' ''ann@X.org'' ''ph'' ''c'' ''n'' 5 sample_invite_db = Inr (Some 2, d')
     \<and> RegisterHumanWithInvite 3 91 11 ''th'' ''bob'' ''ann@x.org'' ''ph'' ''c'' ''n'' 5 d' = Inr (None, d')"
proof -
  have ok: "invites_ok sample_invite_db" by (simp add: invites_ok_def sample_invite_db_def)
  have "returns (RegisterHumanWithInvite 2 90 10 ''th'' ''ann'' ''ann@X.org'' ''ph'' ''c'' ''n'' 5 sample_invite_db) (Some 2)"
    by code_simp
  then obtain d' where "RegisterHumanWithInvite 2 90 10 ''th'' ''ann'' ''ann@X.org'' ''ph'' ''c'' ''n'' 5 sample_invite_db
      = Inr (Some 2, d')" by (auto simp: returns_iff)
  with invite_single_use [OF ok this] show ?thesis by blast
qed

text \<open>
  Open registration adds one ordinary human account and can never create a superuser.
\<close>

lemma open_registration_never_superuser:
  assumes "RegisterHumanOpen uid hid now lg em ph c n k d = Inr (x, d')"
  shows "\<exists>u. users d' = users d @ [u] \<and> u_id u = x \<and> u_kind u = UserHuman \<and> \<not> u_superuser u
     \<and> u_banned_at u = None"
  by (rule register_InrD [OF assms [unfolded RegisterHumanOpen_def]]) auto

theorem open_registration_never_superuser_witness:
  "\<exists>d' u. RegisterHumanOpen 2 90 10 ''bob'' ''bob@x.org'' ''ph'' ''c'' ''n'' 5 empty_db = Inr (2, d')
     \<and> users d' = [u] \<and> \<not> u_superuser u"
proof -
  have "returns (RegisterHumanOpen 2 90 10 ''bob'' ''bob@x.org'' ''ph'' ''c'' ''n'' 5 empty_db) 2" by code_simp
  then obtain d' where d': "RegisterHumanOpen 2 90 10 ''bob'' ''bob@x.org'' ''ph'' ''c'' ''n'' 5 empty_db = Inr (2, d')"
    by (auto simp: returns_iff)
  from open_registration_never_superuser [OF this] d' show ?thesis by (auto simp: empty_db_def)
qed

end
