(* ===== verification/Links.thy ===== *)
theory Links
  imports Schema
begin

text \<open>
  One-time login links (\<open>internal/repository/magic_link.go\<close>), step-up sessions
  (\<open>internal/repository/step_up_2fa.go\<close>) and the record of failed logins
  (\<open>internal/repository/security.go\<close>).
\<close>

section \<open>Magic links\<close>

definition InsertMagicLink :: "uuid \<Rightarrow> bytes \<Rightarrow> uuid \<Rightarrow> instant \<Rightarrow> uuid repo" where
  "InsertMagicLink newID tokenHash i expires d =
     (if exists_row (\<lambda>l. l_id l = newID \<or> l_token_hash l = tokenHash) (magic_links d) then Inl UniqueViolation
      else Inr (newID, d\<lparr>magic_links := magic_links d @
             [\<lparr>l_id = newID, l_token_hash = tokenHash, l_user = i, l_expires_at = expires, l_used_at = None\<rparr>]\<rparr>))"

definition use_link :: "instant \<Rightarrow> uuid \<Rightarrow> magic_link list \<Rightarrow> magic_link list" where
  "use_link now lid ls = update_rows (\<lambda>l. l_id l = lid \<and> l_used_at l = None) (\<lambda>l. l\<lparr>l_used_at := Some now\<rparr>) ls"

definition InvalidateMagicLink :: "instant \<Rightarrow> uuid \<Rightarrow> unit repo" where
  "InvalidateMagicLink now lid = writes (\<lambda>d. d\<lparr>magic_links := use_link now lid (magic_links d)\<rparr>)"

definition link_valid :: "instant \<Rightarrow> bytes \<Rightarrow> magic_link \<Rightarrow> bool" where
  "link_valid now h l \<longleftrightarrow> l_token_hash l = h \<and> l_used_at l = None \<and> now < l_expires_at l"

text \<open>The answer \<open>uuid.Nil\<close> says that no valid link matched.\<close>

definition ConsumeMagicLink :: "instant \<Rightarrow> bytes \<Rightarrow> uuid repo" where
  "ConsumeMagicLink now tokenHash d =
     (case find_row (link_valid now tokenHash) (magic_links d) of
        None \<Rightarrow> Inr (uuid_Nil, d)
      | Some m \<Rightarrow>
          if count_rows (\<lambda>l. l_id l = l_id m \<and> l_used_at l = None) (magic_links d) = 0 then Inr (uuid_Nil, d)
          else Inr (l_user m, d\<lparr>magic_links := use_link now (l_id m) (magic_links d)\<rparr>))"

definition links_ok :: "db \<Rightarrow> bool" where
  "links_ok d \<longleftrightarrow> distinct (map l_id (magic_links d)) \<and> distinct (map l_token_hash (magic_links d))"

lemma links_ok_frame: "magic_links d' = magic_links d \<Longrightarrow> links_ok d' = links_ok d"
  by (simp add: links_ok_def)

lemma InsertMagicLink_keeps [preserves_intros]: "keeps links_ok (InsertMagicLink newID h i ex)"
  by (rule keepsI) (auto simp: InsertMagicLink_def links_ok_def table_simps split: if_splits)

lemma InvalidateMagicLink_keeps [preserves_intros]: "keeps links_ok (InvalidateMagicLink now lid)"
  unfolding InvalidateMagicLink_def
  by (rule keeps_writes_frame) (simp add: links_ok_def use_link_def map_update_rows)

lemma consume_link_InrD:
  assumes "ConsumeMagicLink now h d = Inr (i, d')"
  obtains (no_link) "i = uuid_Nil" "d' = d"
  | (link) m where "find_row (link_valid now h) (magic_links d) = Some m" "i = l_user m"
      "d' = d\<lparr>magic_links := use_link now (l_id m) (magic_links d)\<rparr>"
  using assms by (auto simp: ConsumeMagicLink_def split: option.splits if_splits)

lemma ConsumeMagicLink_keeps [preserves_intros]: "keeps links_ok (ConsumeMagicLink now h)"
proof (rule keepsI)
  fix d i d'
  assume ok: "links_ok d" and eq: "ConsumeMagicLink now h d = Inr (i, d')"
  from eq ok show "links_ok d'"
    by (cases rule: consume_link_InrD) (simp_all add: links_ok_def use_link_def map_update_rows)
qed

lemma used_link_dead:
  assumes "distinct (map l_token_hash ls)" "m \<in> set ls" "l_token_hash m = h" "l \<in> set (use_link now (l_id m) ls)"
    "l_used_at m = None"
  shows "\<not> link_valid now' h l"
proof
  assume ok: "link_valid now' h l"
  from assms(4) obtain l0 where l0: "l0 \<in> set ls"
    "l = (if l_id l0 = l_id m \<and> l_used_at l0 = None then l0\<lparr>l_used_at := Some now\<rparr> else l0)"
    by (auto simp: use_link_def update_rows_def)
  with ok have "l_token_hash l0 = h" by (auto simp: link_valid_def split: if_splits)
  with assms l0(1) have "l0 = m" using distinct_key_eq [of l_token_hash ls l0 m] by simp
  with l0 ok assms(5) show False by (auto simp: link_valid_def split: if_splits)
qed

text \<open>
  A magic link logs in once: consuming it yields the user it was issued to, only while it is
  unexpired and unused, and any later attempt with the same token yields no user and changes
  nothing.
\<close>

theorem magic_link_single_use:
  assumes "links_ok d" and "ConsumeMagicLink now h d = Inr (i, d')" and "i \<noteq> uuid_Nil"
  shows "(\<exists>m\<in>set (magic_links d). l_token_hash m = h \<and> l_user m = i \<and> l_used_at m = None \<and> now < l_expires_at m)
    \<and> ConsumeMagicLink now' h d' = Inr (uuid_Nil, d')"
  using assms(2)
proof (cases rule: consume_link_InrD)
  case no_link
  with assms(3) show ?thesis by simp
next
  case (link m)
  then have m: "m \<in> set (magic_links d)" "link_valid now h m" by (auto dest: find_row_SomeD)
  have "\<forall>l\<in>set (magic_links d'). \<not> link_valid now' h l"
    using used_link_dead [OF _ m(1)] m(2) assms(1) by (auto simp: link(3) links_ok_def link_valid_def)
  then have "ConsumeMagicLink now' h d' = Inr (uuid_Nil, d')"
    by (simp add: ConsumeMagicLink_def find_row_None_iff [symmetric])
  with m link show ?thesis by (auto simp: link_valid_def)
qed

definition sample_link_db :: db where
  "sample_link_db = empty_db\<lparr>magic_links :=
     [\<lparr>l_id = 60, l_token_hash = ''lh'', l_user = 4, l_expires_at = 100, l_used_at = None\<rparr>]\<rparr>"

theorem magic_link_single_use_witness:
  "\<exists>d'. ConsumeMagicLink 10 ''lh'' sample_link_db = Inr (4, d') \<and> ConsumeMagicLink 11 ''lh'' d' = Inr (uuid_Nil, d')"
proof -
  have ok: "links_ok sample_link_db" by (simp add: links_ok_def sample_link_db_def)
  have "returns (ConsumeMagicLink 10 ''lh'' sample_link_db) 4" by code_simp
  then obtain d' where "ConsumeMagicLink 10 ''lh'' sample_link_db = Inr (4, d')" by (auto simp: returns_iff)
  with magic_link_single_use [OF ok this] show ?thesis by auto
qed

section \<open>Step-up sessions\<close>

definition CreateStepUp2FASession :: "uuid \<Rightarrow> string \<Rightarrow> uuid \<Rightarrow> instant \<Rightarrow> unit repo" where
  "CreateStepUp2FASession newID correlation i expires d =
     (if exists_row (\<lambda>s. su_id s = newID \<or> su_correlation s = correlation) (step_ups d) then Inl UniqueViolation
      else Inr ((), d\<lparr>step_ups := step_ups d @ [\<lparr>su_id = newID, su_correlation = correlation, su_user = i,
             su_status = StepUpPending, su_expires_at = expires, su_resolved_at = None\<rparr>]\<rparr>))"

definition GetStepUp2FA :: "string \<Rightarrow> step_up_session option repo" where
  "GetStepUp2FA correlation = reads (\<lambda>d. find_row (\<lambda>s. su_correlation s = correlation) (step_ups d))"

definition resolve_step_ups ::
  "(step_up_session \<Rightarrow> bool) \<Rightarrow> step_up_status \<Rightarrow> instant \<Rightarrow> step_up_session list \<Rightarrow> step_up_session list" where
  "resolve_step_ups P st now ss =
     update_rows (\<lambda>s. P s \<and> su_status s = StepUpPending) (\<lambda>s. s\<lparr>su_status := st, su_resolved_at := Some now\<rparr>) ss"

definition ApproveStepUp2FA :: "instant \<Rightarrow> string \<Rightarrow> unit repo" where
  "ApproveStepUp2FA now correlation d =
     (if count_rows (\<lambda>s. su_correlation s = correlation \<and> su_status s = StepUpPending) (step_ups d) = 0
      then Inl (RepoMessage ''no pending session'')
      else Inr ((), d\<lparr>step_ups := resolve_step_ups (\<lambda>s. su_correlation s = correlation) StepUpApproved now (step_ups d)\<rparr>))"

definition ExpireStepUp2FA :: "instant \<Rightarrow> string \<Rightarrow> unit repo" where
  "ExpireStepUp2FA now correlation =
     writes (\<lambda>d. d\<lparr>step_ups := resolve_step_ups (\<lambda>s. su_correlation s = correlation) StepUpExpired now (step_ups d)\<rparr>)"

definition MarkExpiredStepUp2FAByTime :: "instant \<Rightarrow> instant \<Rightarrow> unit repo" where
  "MarkExpiredStepUp2FAByTime wall now =
     writes (\<lambda>d. d\<lparr>step_ups := resolve_step_ups (\<lambda>s. su_expires_at s < now) StepUpExpired wall (step_ups d)\<rparr>)"

subsection \<open>The state machine of a session\<close>

text \<open>A pending session is approved or expired once; a resolved session never changes again.\<close>

inductive step_up_step :: "db \<Rightarrow> db \<Rightarrow> bool" where
  step_create: "CreateStepUp2FASession newID c i ex d = Inr (u, d') \<Longrightarrow> step_up_step d d'"
| step_approve: "ApproveStepUp2FA now c d = Inr (u, d') \<Longrightarrow> step_up_step d d'"
| step_expire: "ExpireStepUp2FA now c d = Inr (u, d') \<Longrightarrow> step_up_step d d'"
| step_sweep: "MarkExpiredStepUp2FAByTime wall now d = Inr (u, d') \<Longrightarrow> step_up_step d d'"

inductive_cases step_up_stepE: "step_up_step d d'"

lemma resolve_keeps_resolved:
  assumes "s \<in> set ss" "su_status s \<noteq> StepUpPending"
  shows "s \<in> set (resolve_step_ups P st now ss)"
  using update_rows_mem [OF assms(1), of "\<lambda>s. P s \<and> su_status s = StepUpPending"] assms(2)
  by (auto simp: resolve_step_ups_def)

lemma step_up_step_resolved:
  assumes "step_up_step d d'" "s \<in> set (step_ups d)" "su_status s \<noteq> StepUpPending"
  shows "s \<in> set (step_ups d')"
  using assms
  by (elim step_up_stepE)
    (auto simp: CreateStepUp2FASession_def ApproveStepUp2FA_def ExpireStepUp2FA_def MarkExpiredStepUp2FAByTime_def
      writes_def resolve_keeps_resolved split: if_splits)

text \<open>
  A resolved step-up session is final: in every sequence of step-up operations a session that
  is approved or expired stays in the table as it is, so an expired one is never approved.
\<close>

theorem step_up_resolution_final:
  assumes "step_up_step\<^sup>*\<^sup>* d d'" "s \<in> set (step_ups d)" "su_status s \<noteq> StepUpPending"
  shows "s \<in> set (step_ups d')"
  using assms by (induction rule: rtranclp_induct) (auto intro: step_up_step_resolved)

definition sample_step_up :: step_up_session where
  "sample_step_up = \<lparr>su_id = 1, su_correlation = ''c'', su_user = 4, su_status = StepUpExpired,
     su_expires_at = 10, su_resolved_at = Some 11\<rparr>"

theorem step_up_resolution_final_witness:
  "\<exists>d'. step_up_step\<^sup>*\<^sup>* (empty_db\<lparr>step_ups := [sample_step_up]\<rparr>) d' \<and> sample_step_up \<in> set (step_ups d')"
proof -
  let ?d = "empty_db\<lparr>step_ups := [sample_step_up]\<rparr>"
  obtain d' where "ExpireStepUp2FA 20 ''c'' ?d = Inr ((), d')" by (simp add: ExpireStepUp2FA_def writes_def)
  then have "step_up_step\<^sup>*\<^sup>* ?d d'" by (intro r_into_rtranclp) (rule step_expire)
  with step_up_resolution_final [OF this, of sample_step_up] show ?thesis by (auto simp: sample_step_up_def)
qed

definition step_ups_ok :: "db \<Rightarrow> bool" where
  "step_ups_ok d \<longleftrightarrow> distinct (map su_id (step_ups d)) \<and> distinct (map su_correlation (step_ups d))"

lemma step_ups_ok_frame: "step_ups d' = step_ups d \<Longrightarrow> step_ups_ok d' = step_ups_ok d"
  by (simp add: step_ups_ok_def)

lemma step_up_keeps [preserves_intros]:
  "keeps step_ups_ok (CreateStepUp2FASession newID c i ex)"
  "keeps step_ups_ok (ApproveStepUp2FA now c)"
  "keeps step_ups_ok (ExpireStepUp2FA now c)"
  "keeps step_ups_ok (MarkExpiredStepUp2FAByTime wall now)"
  by (auto simp: keeps_def CreateStepUp2FASession_def ApproveStepUp2FA_def ExpireStepUp2FA_def writes_def
      MarkExpiredStepUp2FAByTime_def step_ups_ok_def resolve_step_ups_def map_update_rows table_simps
      split: if_splits)

section \<open>Failed logins\<close>

definition CountFailedLogins :: "string \<Rightarrow> instant \<Rightarrow> nat repo" where
  "CountFailedLogins loginNorm since =
     reads (\<lambda>d. count_rows (\<lambda>f. f_login f = loginNorm \<and> since \<le> f_created_at f) (failed_logins d))"

definition InsertFailedLogin :: "instant \<Rightarrow> string \<Rightarrow> string option \<Rightarrow> unit repo" where
  "InsertFailedLogin now loginNorm ip =
     writes (\<lambda>d. d\<lparr>failed_logins := failed_logins d @ [\<lparr>f_login = loginNorm, f_ip = ip, f_created_at = now\<rparr>]\<rparr>)"

definition DeleteOldFailedLogins :: "instant \<Rightarrow> unit repo" where
  "DeleteOldFailedLogins before =
     writes (\<lambda>d. d\<lparr>failed_logins := delete_rows (\<lambda>f. f_created_at f < before) (failed_logins d)\<rparr>)"

end
