(* ===== verification/Edit_Distance.thy ===== *)
theory Edit_Distance
  imports Prelude
begin

text \<open>
  The edit distance of \<open>internal/crypto/levenshtein.go\<close>, the two-row table with its in-place
  updates, and its equivalence with a reference: the least number of single-character
  insertions, deletions and replacements that turn one byte string into the other.
\<close>

section \<open>The table\<close>

definition min3 :: "nat \<Rightarrow> nat \<Rightarrow> nat \<Rightarrow> nat" where
  "min3 a b c = (if a \<le> b \<and> a \<le> c then a else if b \<le> c then b else c)"

text \<open>The inner loop: one row of the table, column by column.\<close>

definition lev_cell :: "string \<Rightarrow> string \<Rightarrow> nat \<Rightarrow> nat list \<Rightarrow> nat \<Rightarrow> nat list \<Rightarrow> nat list" where
  "lev_cell a b i prev j cur =
     (let cost = (if a ! (i - 1) = b ! (j - 1) then 0 else 1);
          del = prev ! j + 1;
          ins = cur ! (j - 1) + 1;
          sub = prev ! (j - 1) + cost
      in cur[j := min3 del ins sub])"

definition lev_row :: "string \<Rightarrow> string \<Rightarrow> nat \<Rightarrow> nat list \<Rightarrow> nat list \<Rightarrow> nat list" where
  "lev_row a b i prev cur = fold (lev_cell a b i prev) [1..<length b + 1] (cur[0 := i])"

text \<open>The outer loop, with the swap of the two rows at its end.\<close>

definition lev_rows :: "string \<Rightarrow> string \<Rightarrow> nat list \<times> nat list" where
  "lev_rows a b = fold (\<lambda>i (prev, cur). (lev_row a b i prev cur, prev)) [1..<length a + 1]
     ([0..<length b + 1], replicate (length b + 1) 0)"

definition Levenshtein :: "string \<Rightarrow> string \<Rightarrow> nat" where
  "Levenshtein a b =
     (if length a = 0 then length b
      else if length b = 0 then length a
      else fst (lev_rows a b) ! length b)"

section \<open>The recursion behind the table\<close>

fun dist :: "'a list \<Rightarrow> 'a list \<Rightarrow> nat" where
  "dist [] ys = length ys"
| "dist xs [] = length xs"
| "dist (x # xs) (y # ys) = min3 (dist xs (y # ys) + 1) (dist (x # xs) ys + 1)
     (dist xs ys + (if x = y then 0 else 1))"

lemma min3_le_iff: "min3 a b c \<le> n \<longleftrightarrow> a \<le> n \<or> b \<le> n \<or> c \<le> n"
  by (auto simp: min3_def)

lemma le_min3_iff: "n \<le> min3 a b c \<longleftrightarrow> n \<le> a \<and> n \<le> b \<and> n \<le> c"
  by (auto simp: min3_def)

lemma dist_Nil2 [simp]: "dist xs [] = length xs"
  by (cases xs) simp_all

text \<open>The table entry for the prefixes of length \<open>i\<close> and \<open>j\<close>; a prefix grows at its end, the
  recursion works at the front, so the prefixes are reversed.\<close>

definition entry :: "string \<Rightarrow> string \<Rightarrow> nat \<Rightarrow> nat \<Rightarrow> nat" where
  "entry a b i j = dist (rev (take i a)) (rev (take j b))"

lemma entry_0 [simp]: "j \<le> length b \<Longrightarrow> entry a b 0 j = j" "i \<le> length a \<Longrightarrow> entry a b i 0 = i"
  by (simp_all add: entry_def)

lemma entry_Suc:
  assumes "i < length a" "j < length b"
  shows "entry a b (Suc i) (Suc j) = min3 (entry a b i (Suc j) + 1) (entry a b (Suc i) j + 1)
     (entry a b i j + (if a ! i = b ! j then 0 else 1))"
  using assms by (simp add: entry_def take_Suc_conv_app_nth)

lemma length_lev_cell [simp]: "length (lev_cell a b i prev j cur) = length cur"
  by (simp add: lev_cell_def Let_def)

lemma lev_row_prefix:
  assumes "i < length a" "length prev = length b + 1" "length cur = length b + 1"
    and "\<And>j. j \<le> length b \<Longrightarrow> prev ! j = entry a b i j" and "n \<le> length b"
  shows "length (fold (lev_cell a b (Suc i) prev) [1..<n + 1] (cur[0 := Suc i])) = length b + 1
    \<and> (\<forall>j\<le>n. fold (lev_cell a b (Suc i) prev) [1..<n + 1] (cur[0 := Suc i]) ! j = entry a b (Suc i) j)"
  using assms(5)
proof (induction n)
  case 0
  have "cur \<noteq> []" using assms(3) by auto
  then show ?case using assms(1,3) by simp
next
  case (Suc n)
  let ?r = "fold (lev_cell a b (Suc i) prev) [1..<n + 1] (cur[0 := Suc i])"
  have r: "length ?r = length b + 1" "\<forall>j\<le>n. ?r ! j = entry a b (Suc i) j"
    using Suc by simp_all
  have step: "fold (lev_cell a b (Suc i) prev) [1..<Suc n + 1] (cur[0 := Suc i])
    = lev_cell a b (Suc i) prev (Suc n) ?r" by simp
  have "lev_cell a b (Suc i) prev (Suc n) ?r = ?r[Suc n := entry a b (Suc i) (Suc n)]"
    using entry_Suc [OF assms(1), of n b] Suc.prems r(2) assms(4) by (simp add: lev_cell_def Let_def)
  with r Suc.prems show ?case unfolding step by (auto simp: nth_list_update le_Suc_eq)
qed

lemma lev_rows_prefix:
  assumes "n \<le> length a"
  shows "let (prev, cur) = fold (\<lambda>i (prev, cur). (lev_row a b i prev cur, prev)) [1..<n + 1]
       ([0..<length b + 1], replicate (length b + 1) 0)
     in length prev = length b + 1 \<and> length cur = length b + 1 \<and> (\<forall>j\<le>length b. prev ! j = entry a b n j)"
  using assms
proof (induction n)
  case 0
  then show ?case by (auto simp: nth_append le_Suc_eq)
next
  case (Suc n)
  obtain prev cur where pc: "fold (\<lambda>i (prev, cur). (lev_row a b i prev cur, prev)) [1..<n + 1]
       ([0..<length b + 1], replicate (length b + 1) 0) = (prev, cur)" by fastforce
  with Suc have ih: "length prev = length b + 1" "length cur = length b + 1"
    "\<forall>j\<le>length b. prev ! j = entry a b n j" by simp_all
  have "[1..<Suc n + 1] = [1..<n + 1] @ [Suc n]" by simp
  then have "fold (\<lambda>i (prev, cur). (lev_row a b i prev cur, prev)) [1..<Suc n + 1]
       ([0..<length b + 1], replicate (length b + 1) 0) = (lev_row a b (Suc n) prev cur, prev)"
    using pc by simp
  moreover have "length (lev_row a b (Suc n) prev cur) = length b + 1
      \<and> (\<forall>j\<le>length b. lev_row a b (Suc n) prev cur ! j = entry a b (Suc n) j)"
    unfolding lev_row_def using lev_row_prefix [of n a prev b cur "length b"] ih Suc.prems by simp
  ultimately show ?case using ih(1) by simp
qed

lemma Levenshtein_dist: "Levenshtein a b = dist (rev a) (rev b)"
proof -
  have "fst (lev_rows a b) ! length b = entry a b (length a) (length b)"
    using lev_rows_prefix [OF order_refl, of a b] by (simp add: lev_rows_def case_prod_beta)
  then show ?thesis by (auto simp: Levenshtein_def entry_def)
qed

section \<open>Edits\<close>

text \<open>One edit inserts, removes or replaces one character, anywhere in the string.\<close>

inductive one_edit :: "'a list \<Rightarrow> 'a list \<Rightarrow> bool" where
  edit_insert: "one_edit xs (c # xs)"
| edit_delete: "one_edit (c # xs) xs"
| edit_replace: "one_edit (c # xs) (c' # xs)"
| edit_later: "one_edit xs ys \<Longrightarrow> one_edit (x # xs) (x # ys)"

lemma edits_later: "(one_edit ^^ n) xs ys \<Longrightarrow> (one_edit ^^ n) (x # xs) (x # ys)"
  by (induction n arbitrary: ys) (auto intro: edit_later)

lemma one_edit_sym: "one_edit xs ys \<Longrightarrow> one_edit ys xs"
  by (induction rule: one_edit.induct) (auto intro: one_edit.intros)

lemma one_edit_snoc: "one_edit xs ys \<Longrightarrow> one_edit (xs @ zs) (ys @ zs)"
  by (induction rule: one_edit.induct) (auto intro: one_edit.intros)

lemma one_edit_append: "one_edit xs ys \<Longrightarrow> one_edit (zs @ xs) (zs @ ys)"
  by (induction zs) (auto intro: edit_later)

lemma one_edit_rev: "one_edit xs ys \<Longrightarrow> one_edit (rev xs) (rev ys)"
proof (induction rule: one_edit.induct)
  case (edit_insert xs c)
  have "one_edit (rev xs @ []) (rev xs @ [c])" by (rule one_edit_append) (rule one_edit.edit_insert)
  then show ?case by simp
next
  case (edit_delete c xs)
  have "one_edit (rev xs @ [c]) (rev xs @ [])" by (rule one_edit_append) (rule one_edit.edit_delete)
  then show ?case by simp
next
  case (edit_replace c xs c')
  show ?case unfolding rev.simps by (rule one_edit_append) (rule one_edit.edit_replace)
next
  case (edit_later xs ys x)
  then show ?case unfolding rev.simps by (auto intro: one_edit_snoc)
qed

lemma edits_rev: "(one_edit ^^ n) xs ys \<Longrightarrow> (one_edit ^^ n) (rev xs) (rev ys)"
  by (induction n arbitrary: ys) (auto intro: one_edit_rev)

text \<open>The recursion is attained by a sequence of edits, and no sequence is shorter.\<close>

lemma edits_length: "(one_edit ^^ length ys) [] ys" "(one_edit ^^ length xs) xs []"
proof -
  show "(one_edit ^^ length ys) [] ys"
    by (induction ys) (auto intro: relcomppI edit_insert)
  show "(one_edit ^^ length xs) xs []"
  proof (induction xs)
    case (Cons x xs)
    then show ?case using relpowp_Suc_I2 [of one_edit "x # xs" xs] by (simp add: edit_delete del: relpowp.simps)
  qed simp
qed

lemma dist_attained: "(one_edit ^^ dist xs ys) xs ys"
proof (induction xs ys rule: dist.induct)
  case (3 x xs y ys)
  have del: "(one_edit ^^ Suc (dist xs (y # ys))) (x # xs) (y # ys)"
    using relpowp_Suc_I2 [of one_edit "x # xs" xs] 3(1) by (simp add: edit_delete del: relpowp.simps)
  have ins: "(one_edit ^^ Suc (dist (x # xs) ys)) (x # xs) (y # ys)"
    using 3(2) edit_insert by (rule relpowp_Suc_I)
  have sub: "(one_edit ^^ (dist xs ys + (if x = y then 0 else 1))) (x # xs) (y # ys)"
  proof (cases "x = y")
    case True
    with edits_later [OF 3(3)] show ?thesis by simp
  next
    case False
    have "(one_edit ^^ Suc (dist xs ys)) (x # xs) (y # ys)"
      using edits_later [OF 3(3)] edit_replace by (rule relpowp_Suc_I)
    with False show ?thesis by simp
  qed
  from del ins sub show ?case by (simp add: min3_def del: relpowp.simps)
qed (simp_all only: dist.simps edits_length)

lemma dist_drop_right: "dist xs (y # ys) \<le> dist xs ys + 1"
  by (cases xs) (simp_all add: min3_le_iff)

lemma dist_drop_left: "dist (x # xs) ys \<le> dist xs ys + 1"
  by (cases ys) (simp_all add: min3_le_iff)

lemma dist_grow_left: "dist xs ys \<le> dist (x # xs) ys + 1"
proof (induction ys)
  case (Cons y ys)
  have "dist xs (y # ys) \<le> dist xs ys + 1" by (rule dist_drop_right)
  with Cons show ?case by (auto simp: min3_def)
qed simp

lemma dist_replace: "dist (c # xs) ys \<le> dist (c' # xs) ys + 1"
proof (induction ys)
  case (Cons y ys)
  then show ?case by (auto simp: min3_le_iff min3_def)
qed simp

lemma dist_edit: "one_edit xs xs' \<Longrightarrow> dist xs ys \<le> dist xs' ys + 1"
proof (induction arbitrary: ys rule: one_edit.induct)
  case (edit_later xs xs' x)
  show ?case
  proof (induction ys)
    case Nil
    from edit_later.IH [of "[]"] show ?case by simp
  next
    case (Cons y ys)
    from edit_later.IH [of "y # ys"] edit_later.IH [of ys] Cons show ?case
      by (auto simp: min3_le_iff min3_def)
  qed
qed (use dist_grow_left dist_drop_left dist_replace in auto)

lemma dist_self [simp]: "dist xs xs = 0"
  by (induction xs) (simp_all add: min3_def)

lemma dist_minimal: "(one_edit ^^ n) xs ys \<Longrightarrow> dist xs ys \<le> n"
proof (induction n arbitrary: xs)
  case (Suc n)
  then obtain zs where "one_edit xs zs" "(one_edit ^^ n) zs ys" by (blast elim: relpowp_Suc_E2)
  with Suc.IH [of zs] dist_edit [of xs zs ys] show ?case by simp
qed simp

text \<open>
  C35. The computed distance is the edit distance: it is at most \<open>n\<close> exactly when some sequence of
  at most \<open>n\<close> single-character insertions, deletions and replacements leads from the one string
  to the other.
\<close>

theorem levenshtein_is_edit_distance:
  "Levenshtein a b \<le> n \<longleftrightarrow> (\<exists>k\<le>n. (one_edit ^^ k) a b)"
proof -
  have "dist (rev a) (rev b) \<le> n \<longleftrightarrow> (\<exists>k\<le>n. (one_edit ^^ k) a b)"
  proof
    assume "dist (rev a) (rev b) \<le> n"
    then show "\<exists>k\<le>n. (one_edit ^^ k) a b"
      using edits_rev [OF dist_attained [of "rev a" "rev b"]] by auto
  next
    assume "\<exists>k\<le>n. (one_edit ^^ k) a b"
    then obtain k where k: "k \<le> n" "(one_edit ^^ k) a b" by blast
    have "dist (rev a) (rev b) \<le> k" using edits_rev [OF k(2)] by (rule dist_minimal)
    with k(1) show "dist (rev a) (rev b) \<le> n" by simp
  qed
  then show ?thesis by (simp only: Levenshtein_dist)
qed

lemma Levenshtein_self [simp]: "Levenshtein a a = 0"
  by (simp add: Levenshtein_dist)

text \<open>\<open>PasswordsTooClose\<close> of \<open>internal/service/password_similarity.go\<close>, its loop with the
  early return.\<close>

fun PasswordsTooClose :: "string \<Rightarrow> string list \<Rightarrow> int \<Rightarrow> bool" where
  "PasswordsTooClose newPwd [] maxEditDistance = False"
| "PasswordsTooClose newPwd (p # ps) maxEditDistance =
     (if int (Levenshtein newPwd p) \<le> maxEditDistance then True
      else PasswordsTooClose newPwd ps maxEditDistance)"

lemma PasswordsTooClose_iff:
  "PasswordsTooClose newPwd ps m \<longleftrightarrow> (\<exists>p\<in>set ps. int (Levenshtein newPwd p) \<le> m)"
  by (induction ps) auto

end
