(* ===== verification/Encoding.thy ===== *)
theory Encoding
  imports Schema
begin

text \<open>
  The textual encodings of the Go standard library that the sources use (hexadecimal,
  base 64 with and without padding, \<open>strings.Split\<close>, \<open>strconv.Atoi\<close>), and the key parser of
  \<open>internal/crypto/keys.go\<close>.
\<close>

section \<open>Bytes as numbers\<close>

lemma code_less: "code c < 256"
  by (simp add: code_def of_char_def)

lemma char_of_code [simp]: "char_of (code c) = c"
  by (simp add: code_def)

lemma code_inject: "code c = code d \<longleftrightarrow> c = d"
  by (metis char_of_code)

section \<open>Splitting\<close>

fun split_on :: "char \<Rightarrow> string \<Rightarrow> string list" where
  "split_on sep [] = [[]]"
| "split_on sep (c # s) =
     (if c = sep then [] # split_on sep s
      else case split_on sep s of p # ps \<Rightarrow> (c # p) # ps | [] \<Rightarrow> [[c]])"

text \<open>\<open>strings.SplitN(s, sep, 2)\<close>, as the pair it is used as; \<open>None\<close> when there is no separator.\<close>

definition cut :: "char \<Rightarrow> string \<Rightarrow> (string \<times> string) option" where
  "cut sep s = (if sep \<in> set s then Some (takeWhile (\<lambda>c. c \<noteq> sep) s, tl (dropWhile (\<lambda>c. c \<noteq> sep) s)) else None)"

lemma split_on_no_sep: "sep \<notin> set s \<Longrightarrow> split_on sep s = [s]"
  by (induction s) auto

lemma split_on_append: "sep \<notin> set s \<Longrightarrow> split_on sep (s @ sep # t) = s # split_on sep t"
  by (induction s) auto

section \<open>Decimal numbers\<close>

definition digit_val :: "char \<Rightarrow> nat option" where
  "digit_val c = (if 48 \<le> code c \<and> code c \<le> 57 then Some (code c - 48) else None)"

definition decimal :: "string \<Rightarrow> int option" where
  "decimal s = (if s = [] then None
     else map_option (foldl (\<lambda>n d. 10 * n + int d) 0) (those (map digit_val s)))"

text \<open>\<open>strconv.Atoi\<close> with its error dropped: 0 for a malformed number, the nearest 64-bit
  integer for one out of range.\<close>

definition Atoi :: "string \<Rightarrow> int" where
  "Atoi s =
     (let (neg, ds) = (case s of c # cs \<Rightarrow> if c = CHR ''-'' then (True, cs) else if c = CHR ''+'' then (False, cs) else (False, s)
                       | [] \<Rightarrow> (False, s))
      in case decimal ds of
           None \<Rightarrow> 0
         | Some n \<Rightarrow> if neg then max (- (2 ^ 63)) (- n) else min (2 ^ 63 - 1) n)"

section \<open>Hexadecimal\<close>

definition hex_val :: "char \<Rightarrow> nat option" where
  "hex_val c =
     (if 48 \<le> code c \<and> code c \<le> 57 then Some (code c - 48)
      else if 97 \<le> code c \<and> code c \<le> 102 then Some (code c - 87)
      else if 65 \<le> code c \<and> code c \<le> 70 then Some (code c - 55)
      else None)"

definition hex_digit :: "nat \<Rightarrow> char" where
  "hex_digit n = (if n < 10 then char_of (48 + n) else char_of (87 + n))"

fun hex_EncodeToString :: "bytes \<Rightarrow> string" where
  "hex_EncodeToString [] = []"
| "hex_EncodeToString (b # bs) = hex_digit (code b div 16) # hex_digit (code b mod 16) # hex_EncodeToString bs"

fun hex_DecodeString :: "string \<Rightarrow> bytes option" where
  "hex_DecodeString [] = Some []"
| "hex_DecodeString [c] = None"
| "hex_DecodeString (c # d # s) =
     (case (hex_val c, hex_val d) of
        (Some h, Some l) \<Rightarrow> map_option ((#) (char_of (16 * h + l))) (hex_DecodeString s)
      | _ \<Rightarrow> None)"

lemma hex_val_digit: "n < 16 \<Longrightarrow> hex_val (hex_digit n) = Some n"
  by (auto simp: hex_val_def hex_digit_def)

lemma hex_roundtrip [simp]: "hex_DecodeString (hex_EncodeToString bs) = Some bs"
proof (induction bs)
  case (Cons b bs)
  have "code b div 16 < 16" "code b mod 16 < 16" using code_less [of b] by auto
  with Cons show ?case by (simp add: hex_val_digit)
qed simp

lemma length_hex [simp]: "length (hex_EncodeToString bs) = 2 * length bs"
  by (induction bs) simp_all

lemma hex_chars: "c \<in> set (hex_EncodeToString bs) \<Longrightarrow> \<exists>n<16. c = hex_digit n"
proof (induction bs)
  case (Cons b bs)
  have "code b div 16 < 16" "code b mod 16 < 16" using code_less [of b] by simp_all
  with Cons show ?case by (metis hex_EncodeToString.simps(2) set_ConsD)
qed simp

section \<open>Base 64\<close>

definition b64_char :: "nat \<Rightarrow> char" where
  "b64_char n = (if n < 26 then char_of (65 + n) else if n < 52 then char_of (71 + n)
     else if n < 62 then char_of (n - 4) else if n = 62 then CHR ''+'' else CHR ''/'')"

definition b64_val :: "char \<Rightarrow> nat option" where
  "b64_val c =
     (if 65 \<le> code c \<and> code c \<le> 90 then Some (code c - 65)
      else if 97 \<le> code c \<and> code c \<le> 122 then Some (code c - 71)
      else if 48 \<le> code c \<and> code c \<le> 57 then Some (code c + 4)
      else if code c = 43 then Some 62 else if code c = 47 then Some 63 else None)"

fun sextets :: "nat list \<Rightarrow> nat list" where
  "sextets [] = []"
| "sextets [a] = [a div 4, a mod 4 * 16]"
| "sextets [a, b] = [a div 4, a mod 4 * 16 + b div 16, b mod 16 * 4]"
| "sextets (a # b # c # bs) =
     a div 4 # (a mod 4 * 16 + b div 16) # (b mod 16 * 4 + c div 64) # c mod 64 # sextets bs"

fun octets :: "nat list \<Rightarrow> nat list option" where
  "octets [] = Some []"
| "octets [w] = None"
| "octets [w, x] = Some [w * 4 + x div 16]"
| "octets [w, x, y] = Some [w * 4 + x div 16, x mod 16 * 16 + y div 4]"
| "octets (w # x # y # z # vs) =
     map_option (\<lambda>r. (w * 4 + x div 16) # (x mod 16 * 16 + y div 4) # (y mod 4 * 64 + z) # r) (octets vs)"

definition raw_EncodeToString :: "bytes \<Rightarrow> string" where
  "raw_EncodeToString bs = map b64_char (sextets (map code bs))"

text \<open>Decoding skips line breaks; the unpadded form admits no padding character.\<close>

definition no_breaks :: "string \<Rightarrow> string" where
  "no_breaks s = filter (\<lambda>c. code c \<noteq> 10 \<and> code c \<noteq> 13) s"

definition raw_DecodeString :: "string \<Rightarrow> bytes option" where
  "raw_DecodeString s =
     (case those (map b64_val (no_breaks s)) of
        None \<Rightarrow> None
      | Some vs \<Rightarrow> map_option (map char_of) (octets vs))"

definition std_padding :: "nat \<Rightarrow> string" where
  "std_padding n = (if n mod 4 = 2 then ''=='' else if n mod 4 = 3 then ''='' else [])"

definition std_EncodeToString :: "bytes \<Rightarrow> string" where
  "std_EncodeToString bs = (let s = raw_EncodeToString bs in s @ std_padding (length s))"

definition std_DecodeString :: "string \<Rightarrow> bytes option" where
  "std_DecodeString s =
     (let t = no_breaks s; body = takeWhile (\<lambda>c. c \<noteq> CHR ''='') t; pad = dropWhile (\<lambda>c. c \<noteq> CHR ''='') t
      in if length t mod 4 = 0 \<and> pad = std_padding (length body) then raw_DecodeString body else None)"

lemma b64_val_char: "n < 64 \<Longrightarrow> b64_val (b64_char n) = Some n"
  by (auto simp: b64_val_def b64_char_def code_def)

lemma b64_char_code: "n < 64 \<Longrightarrow> code (b64_char n) \<noteq> 10 \<and> code (b64_char n) \<noteq> 13
    \<and> code (b64_char n) \<noteq> 36 \<and> code (b64_char n) \<noteq> 61"
  by (auto simp: b64_char_def code_def)

lemma sextets_less: "\<forall>a\<in>set as. a < 256 \<Longrightarrow> n \<in> set (sextets as) \<Longrightarrow> n < 64"
  by (induction as rule: sextets.induct) auto

lemma octets_sextets: "\<forall>a\<in>set as. a < 256 \<Longrightarrow> octets (sextets as) = Some as"
  by (induction as rule: sextets.induct) auto

lemma codes_less: "\<forall>a\<in>set (map code bs). a < 256"
  by (simp add: code_less)

lemma raw_chars:
  assumes "c \<in> set (raw_EncodeToString bs)"
  shows "code c \<noteq> 10 \<and> code c \<noteq> 13 \<and> code c \<noteq> 36 \<and> code c \<noteq> 61"
proof -
  from assms obtain n where "n \<in> set (sextets (map code bs))" "c = b64_char n"
    by (auto simp: raw_EncodeToString_def)
  with sextets_less [OF codes_less] b64_char_code show ?thesis by blast
qed

lemma those_map_Some: "(\<And>x. x \<in> set xs \<Longrightarrow> f (g x) = Some x) \<Longrightarrow> those (map f (map g xs)) = Some xs"
  by (induction xs) auto

lemma no_breaks_raw: "no_breaks (raw_EncodeToString bs) = raw_EncodeToString bs"
  unfolding no_breaks_def filter_id_conv by (simp add: raw_chars)

lemma raw_roundtrip [simp]: "raw_DecodeString (raw_EncodeToString bs) = Some bs"
proof -
  have "those (map b64_val (raw_EncodeToString bs)) = Some (sextets (map code bs))"
    unfolding raw_EncodeToString_def
    by (rule those_map_Some) (rule b64_val_char, rule sextets_less [OF codes_less])
  then show ?thesis
    by (simp add: raw_DecodeString_def no_breaks_raw octets_sextets [OF codes_less] comp_def)
qed

lemma length_sextets_mod: "length (sextets as) mod 4 \<noteq> 1"
  by (induction as rule: sextets.induct) auto

lemma padded_length: "n mod 4 \<noteq> 1 \<Longrightarrow> (n + length (std_padding n)) mod 4 = 0"
  unfolding std_padding_def by (simp; presburger)

lemma std_roundtrip [simp]: "std_DecodeString (std_EncodeToString bs) = Some bs"
proof -
  let ?s = "raw_EncodeToString bs" and ?p = "std_padding (length (raw_EncodeToString bs))"
  have eq: "CHR ''='' \<notin> set ?s" using raw_chars [of "CHR ''=''" bs] by (auto simp: code_def)
  have "no_breaks (std_padding n) = std_padding n" for n by (simp add: no_breaks_def std_padding_def code_def)
  then have "no_breaks (?s @ ?p) = ?s @ ?p" using no_breaks_raw [of bs] by (simp add: no_breaks_def)
  moreover have "takeWhile (\<lambda>c. c \<noteq> CHR ''='') (?s @ ?p) = ?s @ takeWhile (\<lambda>c. c \<noteq> CHR ''='') ?p"
    by (rule takeWhile_append2) (use eq in metis)
  moreover have "dropWhile (\<lambda>c. c \<noteq> CHR ''='') (?s @ ?p) = dropWhile (\<lambda>c. c \<noteq> CHR ''='') ?p"
    by (rule dropWhile_append2) (use eq in metis)
  moreover have "takeWhile (\<lambda>c. c \<noteq> CHR ''='') (std_padding n) = []"
    "dropWhile (\<lambda>c. c \<noteq> CHR ''='') (std_padding n) = std_padding n" for n by (simp_all add: std_padding_def)
  moreover have "length ?s mod 4 \<noteq> 1" unfolding raw_EncodeToString_def length_map by (rule length_sextets_mod)
  then have "length (?s @ ?p) mod 4 = 0" by (simp add: padded_length)
  ultimately show ?thesis by (simp add: std_DecodeString_def std_EncodeToString_def Let_def)
qed

section \<open>Keys\<close>

definition hexDecodable :: "string \<Rightarrow> bool" where
  "hexDecodable s \<longleftrightarrow> list_all (\<lambda>c. (48 \<le> code c \<and> code c \<le> 57) \<or> (97 \<le> code c \<and> code c \<le> 102)
     \<or> (65 \<le> code c \<and> code c \<le> 70)) s"

definition DecodeKey32 :: "string \<Rightarrow> svc_error + bytes" where
  "DecodeKey32 s0 =
     (let s = TrimSpace s0
      in if s = [] then Inl (ErrOther ''empty key'')
         else if hexDecodable s \<and> length s mod 2 = 0 then
           (case hex_DecodeString s of
              None \<Rightarrow> Inl (ErrOther ''key: invalid hex'')
            | Some b \<Rightarrow> if length b \<noteq> 32 then Inl (ErrOther ''key: hex must decode to 32 bytes'') else Inr b)
         else
           (case (case std_DecodeString s of Some b \<Rightarrow> Some b | None \<Rightarrow> raw_DecodeString s) of
              None \<Rightarrow> Inl (ErrOther ''key: expected 64-char hex or base64-32-bytes'')
            | Some b \<Rightarrow> if length b \<noteq> 32 then Inl (ErrOther ''decoded key must be 32 bytes'') else Inr b))"

lemma DecodeKey32_length: "DecodeKey32 s = Inr k \<Longrightarrow> length k = 32"
  by (auto simp: DecodeKey32_def Let_def split: if_splits option.splits)

lemma hexDecodable_hex [simp]: "hexDecodable (hex_EncodeToString bs)"
  unfolding hexDecodable_def list_all_iff
proof
  fix c assume "c \<in> set (hex_EncodeToString bs)"
  then obtain n where "n < 16" "c = hex_digit n" by (auto dest: hex_chars)
  then show "(48 \<le> code c \<and> code c \<le> 57) \<or> (97 \<le> code c \<and> code c \<le> 102) \<or> (65 \<le> code c \<and> code c \<le> 70)"
    by (auto simp: hex_digit_def)
qed

lemma TrimSpace_id: "(\<And>c. c \<in> set s \<Longrightarrow> \<not> isSpace c) \<Longrightarrow> TrimSpace s = s"
  unfolding TrimSpace_def
  by (rule trim_with_fixed [where p = isSpace]) (auto simp: trimmed_def)

lemma TrimSpace_surround:
  assumes "\<And>c. c \<in> set p \<Longrightarrow> isSpace c" "\<And>c. c \<in> set q \<Longrightarrow> isSpace c" "\<And>c. c \<in> set s \<Longrightarrow> \<not> isSpace c"
  shows "TrimSpace (p @ s @ q) = s"
proof (cases "s = []")
  case True
  have "\<forall>c\<in>set (p @ q). isSpace c" using assms(1,2) by auto
  then have "dropWhile isSpace (p @ q) = []" by (simp only: dropWhile_eq_Nil_conv)
  then show ?thesis unfolding TrimSpace_def trim_with_def True append_Nil by (simp only: rev.simps dropWhile.simps)
next
  case False
  then have *: "dropWhile isSpace (s @ q) = s @ q" "dropWhile isSpace (rev s @ rev p) = rev s @ rev p"
    "dropWhile isSpace (rev s) = rev s"
    using assms(3) by (cases s; auto simp: neq_Nil_conv dropWhile_eq_self_iff hd_append hd_rev)+
  have "dropWhile isSpace (p @ s @ q) = s @ q" using assms(1) *(1) by simp
  moreover have "dropWhile isSpace (rev q @ rev s) = rev s"
    using dropWhile_append2 [of "rev q" isSpace "rev s"] assms(2) *(3) by simp
  ultimately show ?thesis by (simp add: TrimSpace_def trim_with_def)
qed

end
