(* ===== verification/Primitives.thy ===== *)
theory Primitives
  imports Encoding
begin

text \<open>
  What the service takes from outside the repository, as one record of parameters: the
  cryptographic primitives, the JWT library, the UUID library, the Unicode character classes and
  the URL parser. No definition is made up for them; a theorem that needs one of their documented
  laws names it as a hypothesis (\<open>gcm_ok\<close>, \<open>jwt_ok\<close>, \<open>uuid_ok\<close>).
\<close>

section \<open>Data the libraries exchange\<close>

text \<open>The claims of a token, \<open>internal/jwtutil/jwt.go\<close>; a numeric date is a number of seconds.\<close>

record claims =
  c_login :: string
  c_typ :: string
  c_kid :: string
  c_token_version :: int
  c_subject :: string
  c_issued_at :: int
  c_expires_at :: int

record url =
  url_scheme :: string
  url_host :: string
  url_raw_query :: string
  url_fragment :: string
  url_rest :: string

type_synonym url_values = "(string \<times> string list) list"

record lib =
  argon2_IDKey :: "bytes \<Rightarrow> bytes \<Rightarrow> nat \<Rightarrow> nat \<Rightarrow> nat \<Rightarrow> nat \<Rightarrow> bytes"
  sha256_Sum256 :: "bytes \<Rightarrow> bytes"
  hmac_SHA256 :: "bytes \<Rightarrow> bytes \<Rightarrow> bytes"
  gcm_Seal :: "bytes \<Rightarrow> bytes \<Rightarrow> bytes \<Rightarrow> bytes \<Rightarrow> bytes"
  gcm_Open :: "bytes \<Rightarrow> bytes \<Rightarrow> bytes \<Rightarrow> bytes \<Rightarrow> bytes option"
  unicode_IsLower :: "nat \<Rightarrow> bool"
  unicode_IsUpper :: "nat \<Rightarrow> bool"
  unicode_IsDigit :: "nat \<Rightarrow> bool"
  unicode_IsSpace :: "nat \<Rightarrow> bool"
  uuid_String :: "uuid \<Rightarrow> string"
  uuid_Parse :: "string \<Rightarrow> uuid option"
  jwt_Sign :: "bytes \<Rightarrow> claims \<Rightarrow> string"
  jwt_ParseUnverified :: "string \<Rightarrow> claims option"
  jwt_ParseWithClaims :: "bytes \<Rightarrow> instant \<Rightarrow> string \<Rightarrow> claims option"
  url_Parse :: "string \<Rightarrow> url option"
  url_String :: "url \<Rightarrow> string"
  url_Query :: "string \<Rightarrow> url_values"
  url_ParseQuery :: "string \<Rightarrow> url_values option"
  values_Encode :: "url_values \<Rightarrow> string"
  duration_String :: "duration \<Rightarrow> string"

section \<open>The documented laws\<close>

text \<open>Authenticated decryption under the key, nonce and additional data of the encryption
  returns the plaintext.\<close>

definition gcm_ok :: "lib \<Rightarrow> bool" where
  "gcm_ok L \<longleftrightarrow> (\<forall>key nonce p ad. gcm_Open L key nonce (gcm_Seal L key nonce p ad) ad = Some p)"

definition uuid_ok :: "lib \<Rightarrow> bool" where
  "uuid_ok L \<longleftrightarrow> (\<forall>x. uuid_Parse L (uuid_String L x) = Some x)"

definition Second :: duration where "Second = 1000000000"

text \<open>
  A signed token parses to the claims it was signed with, and verifies under the same secret
  exactly until the second it expires in.
\<close>

definition jwt_ok :: "lib \<Rightarrow> bool" where
  "jwt_ok L \<longleftrightarrow> (\<forall>secret c now. jwt_ParseUnverified L (jwt_Sign L secret c) = Some c
     \<and> jwt_ParseWithClaims L secret now (jwt_Sign L secret c)
       = (if now < c_expires_at c * Second then Some c else None))"

text \<open>
  A concrete instance on which the laws hold and everything computes, for the examples: a token
  is the dotted list of its fields, text in hexadecimal and numbers in unary; sealing and hashing
  prepend a letter.
\<close>

definition unary :: "int \<Rightarrow> string" where
  "unary n = (if 0 \<le> n then replicate (nat n) (CHR ''p'') else replicate (nat (- n)) (CHR ''n''))"

definition of_unary :: "string \<Rightarrow> int" where
  "of_unary s = (case s of [] \<Rightarrow> 0 | c # _ \<Rightarrow> if c = CHR ''n'' then - int (length s) else int (length s))"

lemma of_unary_unary [simp]: "of_unary (unary n) = n"
  by (cases "nat n"; cases "nat (- n)") (auto simp: of_unary_def unary_def)

lemma unary_no_dot: "CHR ''.'' \<notin> set (unary n)"
  by (auto simp: unary_def)

lemma hex_no_dot: "CHR ''.'' \<notin> set (hex_EncodeToString s)"
proof
  assume "CHR ''.'' \<in> set (hex_EncodeToString s)"
  then obtain n where "n < 16" "CHR ''.'' = hex_digit n" by (auto dest: hex_chars)
  moreover have "code (CHR ''.'') = 46" by (simp add: code_def)
  ultimately have "code (hex_digit n) = 46" by simp
  with \<open>n < 16\<close> show False by (auto simp: hex_digit_def split: if_splits)
qed

definition sample_sign :: "bytes \<Rightarrow> claims \<Rightarrow> string" where
  "sample_sign k c = hex_EncodeToString k @ ''.'' @ hex_EncodeToString (c_login c) @ ''.'' @ hex_EncodeToString (c_typ c)
     @ ''.'' @ hex_EncodeToString (c_kid c) @ ''.'' @ unary (c_token_version c) @ ''.'' @ hex_EncodeToString (c_subject c)
     @ ''.'' @ unary (c_issued_at c) @ ''.'' @ unary (c_expires_at c)"

definition sample_parse :: "string \<Rightarrow> (bytes \<times> claims) option" where
  "sample_parse t =
     (case split_on (CHR ''.'') t of
        [k, l, ty, kid, tv, sub, iat, exp] \<Rightarrow>
          (case map hex_DecodeString [k, l, ty, kid, sub] of
             [Some k', Some l', Some ty', Some kid', Some sub'] \<Rightarrow>
               Some (k', \<lparr>c_login = l', c_typ = ty', c_kid = kid', c_token_version = of_unary tv, c_subject = sub',
                 c_issued_at = of_unary iat, c_expires_at = of_unary exp\<rparr>)
           | _ \<Rightarrow> None)
      | _ \<Rightarrow> None)"

lemma sample_parse_sign: "sample_parse (sample_sign k c) = Some (k, c)"
proof -
  have dots: "split_on (CHR ''.'') (hex_EncodeToString s @ CHR ''.'' # t) = hex_EncodeToString s # split_on (CHR ''.'') t"
    "split_on (CHR ''.'') (unary n @ CHR ''.'' # t) = unary n # split_on (CHR ''.'') t"
    "split_on (CHR ''.'') (unary n) = [unary n]" for s t n
    by (simp_all add: split_on_append split_on_no_sep hex_no_dot unary_no_dot)
  show ?thesis by (simp add: sample_parse_def sample_sign_def dots)
qed

definition sample_lib :: lib where
  "sample_lib = \<lparr>
     argon2_IDKey = (\<lambda>p s t m th n. s @ p),
     sha256_Sum256 = (\<lambda>b. CHR ''h'' # b),
     hmac_SHA256 = (\<lambda>k b. CHR ''m'' # b),
     gcm_Seal = (\<lambda>k n p ad. CHR ''s'' # p),
     gcm_Open = (\<lambda>k n c ad. case c of [] \<Rightarrow> None | _ # p \<Rightarrow> Some p),
     unicode_IsLower = (\<lambda>r. 97 \<le> r \<and> r \<le> 122),
     unicode_IsUpper = (\<lambda>r. 65 \<le> r \<and> r \<le> 90),
     unicode_IsDigit = (\<lambda>r. 48 \<le> r \<and> r \<le> 57),
     unicode_IsSpace = (\<lambda>r. r \<in> {9, 10, 11, 12, 13, 32}),
     uuid_String = (\<lambda>x. replicate x CHR ''u''),
     uuid_Parse = (\<lambda>s. Some (length s)),
     jwt_Sign = sample_sign,
     jwt_ParseUnverified = (\<lambda>t. map_option snd (sample_parse t)),
     jwt_ParseWithClaims = (\<lambda>k now t. case sample_parse t of None \<Rightarrow> None
       | Some (k', c) \<Rightarrow> if k' = k \<and> now < c_expires_at c * Second then Some c else None),
     url_Parse = (\<lambda>s. None),
     url_String = (\<lambda>u. url_host u),
     url_Query = (\<lambda>s. []),
     url_ParseQuery = (\<lambda>s. Some []),
     values_Encode = (\<lambda>v. []),
     duration_String = (\<lambda>d. [])\<rparr>"

lemma sample_lib_ok: "gcm_ok sample_lib" "uuid_ok sample_lib" "jwt_ok sample_lib"
  by (simp_all add: sample_lib_def gcm_ok_def uuid_ok_def jwt_ok_def sample_parse_sign)

end
