(* ===== verification/Crypto_Util.thy ===== *)
theory Crypto_Util
  imports Primitives
begin

text \<open>
  Password hashing and authenticated encryption: \<open>internal/crypto/password.go\<close> and
  \<open>internal/crypto/aesgcm.go\<close>. A random draw is an argument, \<open>None\<close> when the source of
  randomness fails.
\<close>

section \<open>Passwords\<close>

abbreviation (input) "argonTime \<equiv> 2 :: nat"
abbreviation (input) "argonMemory \<equiv> 65536 :: nat"
abbreviation (input) "argonThreads \<equiv> 4 :: nat"
abbreviation (input) "argonKeyLen \<equiv> 32 :: nat"
abbreviation (input) "argonSaltLen \<equiv> 16 :: nat"

definition randFailure :: svc_error where
  "randFailure = ErrOther ''crypto/rand: read failed''"

definition IDKey :: "lib \<Rightarrow> string \<Rightarrow> bytes \<Rightarrow> bytes" where
  "IDKey L password salt = argon2_IDKey L password salt argonTime argonMemory argonThreads argonKeyLen"

definition HashPassword :: "lib \<Rightarrow> bytes option \<Rightarrow> string \<Rightarrow> svc_error + string" where
  "HashPassword L rand password =
     (case rand of
        None \<Rightarrow> Inl randFailure
      | Some salt \<Rightarrow>
          Inr (''argon2id$v=19$m=65536,t=2,p=4$'' @ raw_EncodeToString salt @ ''$''
               @ raw_EncodeToString (IDKey L password salt)))"

text \<open>The loop over the parameter segments; the last value of a repeated parameter counts.\<close>

definition argon_segment :: "string \<Rightarrow> int \<times> int \<times> int \<Rightarrow> int \<times> int \<times> int" where
  "argon_segment seg mtp =
     (case (cut (CHR ''='') seg, mtp) of
        (None, _) \<Rightarrow> mtp
      | (Some (k, v), (m, t, p)) \<Rightarrow>
          if k = ''m'' then (Atoi v, t, p) else if k = ''t'' then (m, Atoi v, p)
          else if k = ''p'' then (m, t, Atoi v) else (m, t, p))"

definition parseArgon2ID :: "string \<Rightarrow> svc_error + (bytes \<times> bytes)" where
  "parseArgon2ID encoded =
     (case split_on (CHR ''$'') encoded of
        [scheme, version, params, salt, hash] \<Rightarrow>
          if scheme \<noteq> ''argon2id'' then Inl (ErrOther ''invalid argon2id encoding'')
          else if fold argon_segment (split_on (CHR '','') params) (0, 0, 0)
            \<noteq> (int argonMemory, int argonTime, int argonThreads)
          then Inl (ErrOther ''unsupported argon2 parameters'')
          else (case raw_DecodeString salt of
                  None \<Rightarrow> Inl (ErrOther ''illegal base64 data'')
                | Some s \<Rightarrow>
                    (case raw_DecodeString hash of
                       None \<Rightarrow> Inl (ErrOther ''illegal base64 data'')
                     | Some h \<Rightarrow> Inr (s, h)))
      | _ \<Rightarrow> Inl (ErrOther ''invalid argon2id encoding''))"

definition VerifyPassword :: "lib \<Rightarrow> string \<Rightarrow> string \<Rightarrow> svc_error + bool" where
  "VerifyPassword L password encoded =
     (case parseArgon2ID encoded of
        Inl e \<Rightarrow> Inl e
      | Inr (salt, hash) \<Rightarrow> Inr (hash = IDKey L password salt))"

definition HashSecret :: "lib \<Rightarrow> bytes option \<Rightarrow> string \<Rightarrow> svc_error + string" where
  "HashSecret L rand secret = HashPassword L rand secret"

definition VerifySecret :: "lib \<Rightarrow> string \<Rightarrow> string \<Rightarrow> svc_error + bool" where
  "VerifySecret L secret encoded = VerifyPassword L secret encoded"

text \<open>The encoding has five parts because base 64 has no dollar sign.\<close>

lemma raw_no_dollar: "CHR ''$'' \<notin> set (raw_EncodeToString bs)"
  using raw_chars [of "CHR ''$''" bs] by (auto simp: code_def)

lemma hash_parts:
  "split_on (CHR ''$'') (''argon2id$v=19$m=65536,t=2,p=4$'' @ raw_EncodeToString s @ ''$'' @ raw_EncodeToString h)
     = [''argon2id'', ''v=19'', ''m=65536,t=2,p=4'', raw_EncodeToString s, raw_EncodeToString h]"
  using split_on_append [OF raw_no_dollar [of s], of "raw_EncodeToString h"]
  by (simp add: split_on_no_sep [OF raw_no_dollar])

lemma hash_params: "argon_segment ''p=4'' (argon_segment ''t=2'' (argon_segment ''m=65536'' (0, 0, 0))) = (65536, 2, 4)"
  by code_simp

lemma parse_hash:
  "parseArgon2ID (''argon2id$v=19$m=65536,t=2,p=4$'' @ raw_EncodeToString s @ ''$'' @ raw_EncodeToString h) = Inr (s, h)"
  unfolding parseArgon2ID_def hash_parts by (simp add: hash_params)

lemma verify_hashed:
  assumes "HashPassword L rand p = Inr enc"
  shows "\<exists>salt. rand = Some salt \<and> VerifyPassword L q enc = Inr (IDKey L p salt = IDKey L q salt)"
  using assms parse_hash by (auto simp: HashPassword_def VerifyPassword_def split: option.splits)

text \<open>
  C36. What \<open>HashPassword\<close> writes, \<open>VerifyPassword\<close> reads back: the stored string always parses,
  the hashed password is accepted, and another password is accepted only when the key derivation
  maps it to the same bytes under the stored salt.
\<close>

theorem password_roundtrip:
  assumes "HashPassword L rand p = Inr enc"
  shows "VerifyPassword L p enc = Inr True
    \<and> (\<exists>salt. rand = Some salt \<and> VerifyPassword L q enc = Inr (IDKey L p salt = IDKey L q salt))"
  using verify_hashed [OF assms, of p] verify_hashed [OF assms, of q] by auto

theorem password_roundtrip_witness:
  "\<exists>enc. HashPassword sample_lib (Some ''salt'') ''Secret-1'' = Inr enc
     \<and> VerifyPassword sample_lib ''Secret-1'' enc = Inr True
     \<and> VerifyPassword sample_lib ''Secret-2'' enc = Inr False"
proof -
  obtain enc where e: "HashPassword sample_lib (Some ''salt'') ''Secret-1'' = Inr enc"
    by (simp add: HashPassword_def)
  with password_roundtrip [OF e, of "''Secret-2''"] show ?thesis by (auto simp: IDKey_def sample_lib_def)
qed

section \<open>Keys\<close>

lemma hex_not_space: "c \<in> set (hex_EncodeToString k) \<Longrightarrow> \<not> isSpace c"
  by (auto simp: isSpace_def hex_digit_def dest!: hex_chars split: if_splits)

lemma raw_not_space: "c \<in> set (raw_EncodeToString k) \<Longrightarrow> \<not> isSpace c"
proof -
  assume "c \<in> set (raw_EncodeToString k)"
  then obtain n where "n < 64" "c = b64_char n"
    using sextets_less [OF codes_less] by (auto simp: raw_EncodeToString_def)
  then show ?thesis by (auto simp: isSpace_def b64_char_def code_def)
qed

lemma length_sextets_32: "length bs = 32 \<Longrightarrow> length (raw_EncodeToString bs) = 43"
proof -
  have "3 * length (sextets as) = 4 * length as + (if length as mod 3 = 0 then 0 else if length as mod 3 = 1 then 2 else 1)" for as
    by (induction as rule: sextets.induct) auto
  from this [of "map code bs"] show "length bs = 32 \<Longrightarrow> ?thesis" by (simp add: raw_EncodeToString_def)
qed

lemma DecodeKey32_trimmed: "DecodeKey32 (TrimSpace s) = DecodeKey32 s"
  by (simp add: DecodeKey32_def)

text \<open>
  A 32-byte key is read back from each of its three spellings, hexadecimal, padded and
  unpadded base 64, with white space around it, and whatever is read has 32 bytes.
\<close>

lemma key32_roundtrip:
  assumes "length k = 32" "\<forall>c\<in>set (p @ q). isSpace c"
    and "s \<in> {hex_EncodeToString k, std_EncodeToString k, raw_EncodeToString k}"
  shows "DecodeKey32 (p @ s @ q) = Inr k \<and> (\<forall>t k'. DecodeKey32 t = Inr k' \<longrightarrow> length k' = 32)"
proof -
  have l: "length (raw_EncodeToString k) = 43" using assms(1) by (rule length_sextets_32)
  have std: "std_EncodeToString k = raw_EncodeToString k @ ''=''"
    using l by (simp add: std_EncodeToString_def std_padding_def)
  have "\<not> isSpace c" if "c \<in> set s" for c
    using that assms(3) hex_not_space raw_not_space by (auto simp: std isSpace_def code_def)
  with assms(2) have t: "TrimSpace (p @ s @ q) = s" by (intro TrimSpace_surround) auto
  have nohex: "\<not> hexDecodable (raw_EncodeToString k @ ''='')" by (simp add: hexDecodable_def code_def)
  have h: "hex_EncodeToString k \<noteq> []" using assms(1) by (cases k) simp_all
  have r: "raw_EncodeToString k \<noteq> []" using l by auto
  have nb: "length (no_breaks (raw_EncodeToString k)) = 43" using l by (simp add: no_breaks_raw)
  have "DecodeKey32 s = Inr k"
    using assms(3)
  proof (elim insertE emptyE)
    assume "s = hex_EncodeToString k"
    then show ?thesis using assms(1) h hex_not_space by (simp add: DecodeKey32_def TrimSpace_id)
  next
    assume s: "s = std_EncodeToString k"
    have "TrimSpace s = s" using t by (metis TrimSpace_idem)
    then show ?thesis using assms(1) nohex std_roundtrip [of k] unfolding s std by (simp add: DecodeKey32_def)
  next
    assume s: "s = raw_EncodeToString k"
    then show ?thesis using assms(1) l r nb raw_not_space
      by (simp add: DecodeKey32_def TrimSpace_id std_DecodeString_def Let_def)
  qed
  then have "DecodeKey32 (p @ s @ q) = Inr k" using DecodeKey32_trimmed [of "p @ s @ q"] t by simp
  with DecodeKey32_length show ?thesis by blast
qed

theorem key32_roundtrip_witness:
  "DecodeKey32 ('' '' @ hex_EncodeToString (replicate 32 CHR ''k'') @ '' '') = Inr (replicate 32 CHR ''k'')"
  using key32_roundtrip [of "replicate 32 CHR ''k''" "'' ''" "'' ''" "hex_EncodeToString (replicate 32 CHR ''k'')"]
  by simp

section \<open>Authenticated encryption\<close>

definition EncryptAESGCM :: "lib \<Rightarrow> bytes option \<Rightarrow> bytes \<Rightarrow> bytes \<Rightarrow> bytes \<Rightarrow> svc_error + (bytes \<times> bytes)" where
  "EncryptAESGCM L rand key plaintext additionalData =
     (if length key \<noteq> 32 then Inl (ErrOther ''key must be 32 bytes'')
      else case rand of
        None \<Rightarrow> Inl randFailure
      | Some nonce \<Rightarrow> Inr (nonce, gcm_Seal L key nonce plaintext additionalData))"

definition DecryptAESGCM :: "lib \<Rightarrow> bytes \<Rightarrow> bytes \<Rightarrow> bytes \<Rightarrow> bytes \<Rightarrow> svc_error + bytes" where
  "DecryptAESGCM L key nonce ciphertext additionalData =
     (if length key \<noteq> 32 then Inl (ErrOther ''key must be 32 bytes'')
      else case gcm_Open L key nonce ciphertext additionalData of
        None \<Rightarrow> Inl (ErrOther ''cipher: message authentication failed'')
      | Some p \<Rightarrow> Inr p)"

lemma decrypt_encrypted:
  "gcm_ok L \<Longrightarrow> EncryptAESGCM L rand key p ad = Inr (nonce, c) \<Longrightarrow> DecryptAESGCM L key nonce c ad = Inr p"
  by (auto simp: EncryptAESGCM_def DecryptAESGCM_def gcm_ok_def split: if_splits option.splits)

end
