(* ===== verification/World.thy ===== *)
theory World
  imports Crypto_Util Config "HOL-Library.State_Monad"
begin

text \<open>
  The world a service method runs in: the database, the clock, the mail that left the process,
  the source of randomness, and the schedule of what happens around the method's effects. A
  method is a program of the state monad that returns Go's pair of value and error as a sum.

  Before every effect of a method one entry of the schedule is consumed. It says how much time
  has passed, what the transactions of other requests did to the database meanwhile (any function
  on databases), and how the effect itself ends: served, refused without effect (a lost
  connection, a cancelled context, a rejected message), or lost, when the effect took place but
  its answer did not arrive. An exhausted schedule is a quiet world. Theorems that do not restrict
  the schedule therefore hold under every interleaving and every failure.
\<close>

section \<open>State\<close>

datatype outcome = Served | Refused | Lost

record env =
  e_elapsed :: nat
  e_other :: "db \<Rightarrow> db"
  e_outcome :: outcome

record message =
  msg_to :: "string list"
  msg_subject :: string
  msg_body :: string

record world =
  w_db :: db
  w_clock :: instant
  w_outbox :: "message list"
  w_rand :: "nat \<Rightarrow> nat \<Rightarrow> bytes option"
  w_digits :: "nat \<Rightarrow> nat option"
  w_uuids :: "nat \<Rightarrow> uuid"
  w_draws :: nat
  w_schedule :: "env list"

definition quiet :: env where
  "quiet = \<lparr>e_elapsed = 0, e_other = (\<lambda>d. d), e_outcome = Served\<rparr>"

definition pop :: "world \<Rightarrow> env \<times> world" where
  "pop w = (case w_schedule w of [] \<Rightarrow> (quiet, w) | e # es \<Rightarrow> (e, w\<lparr>w_schedule := es\<rparr>))"

text \<open>The world as the effect finds it: time has passed and the others have run.\<close>

definition settle :: "env \<Rightarrow> world \<Rightarrow> world" where
  "settle e w = w\<lparr>w_clock := w_clock w + int (e_elapsed e), w_db := e_other e (w_db w)\<rparr>"

definition arrive :: "world \<Rightarrow> outcome \<times> world" where
  "arrive w = (case pop w of (e, w1) \<Rightarrow> (e_outcome e, settle e w1))"

section \<open>Effects\<close>

type_synonym 'a prog = "(world, 'a) state"
type_synonym 'a svc = "(world, svc_error + 'a) state"

abbreviation (input) ret :: "'a \<Rightarrow> 'a svc" where "ret x \<equiv> State_Monad.return (Inr x)"
abbreviation (input) fail :: "svc_error \<Rightarrow> 'a svc" where "fail e \<equiv> State_Monad.return (Inl e)"

text \<open>The error of a store call as the service sees it; the error of the service's own callback
  comes back as it was.\<close>

definition from_repo :: "repo_error \<Rightarrow> svc_error" where
  "from_repo e = (case e of PreparerError s \<Rightarrow> s | _ \<Rightarrow> RepoError e)"

text \<open>One transaction; it sees the clock of the moment it runs.\<close>

definition transact :: "'a repo \<Rightarrow> db \<Rightarrow> (svc_error + 'a) \<times> db" where
  "transact f d = (case f d of Inl e \<Rightarrow> (Inl (from_repo e), d) | Inr (x, d') \<Rightarrow> (Inr x, d'))"

definition repo_now :: "(instant \<Rightarrow> 'a repo) \<Rightarrow> 'a svc" where
  "repo_now f = State (\<lambda>w. case arrive w of (out, w1) \<Rightarrow>
     (case out of
        Refused \<Rightarrow> (Inl (RepoError DatabaseFailure), w1)
      | Served \<Rightarrow> (case transact (f (w_clock w1)) (w_db w1) of (r, d) \<Rightarrow> (r, w1\<lparr>w_db := d\<rparr>))
      | Lost \<Rightarrow> (case transact (f (w_clock w1)) (w_db w1) of (r, d) \<Rightarrow>
          (Inl (RepoError DatabaseFailure), w1\<lparr>w_db := d\<rparr>))))"

definition repo :: "'a repo \<Rightarrow> 'a svc" where
  "repo f = repo_now (\<lambda>_. f)"

text \<open>\<open>mail.Send\<close>.\<close>

definition send_mail :: "message \<Rightarrow> unit svc" where
  "send_mail m = State (\<lambda>w. case arrive w of (out, w1) \<Rightarrow>
     (case out of
        Refused \<Rightarrow> (Inl (ErrOther ''mail''), w1)
      | Served \<Rightarrow> (Inr (), w1\<lparr>w_outbox := w_outbox w1 @ [m]\<rparr>)
      | Lost \<Rightarrow> (Inl (ErrOther ''mail''), w1\<lparr>w_outbox := w_outbox w1 @ [m]\<rparr>)))"

text \<open>\<open>time.Now()\<close>.\<close>

definition time_Now :: "instant prog" where
  "time_Now = State (\<lambda>w. case arrive w of (out, w1) \<Rightarrow> (w_clock w1, w1))"

text \<open>Randomness: \<open>rand.Read\<close> into a buffer of \<open>n\<close> bytes, one \<open>rand.Int\<close> below ten, \<open>uuid.New\<close>.\<close>

definition draw :: "(world \<Rightarrow> nat \<Rightarrow> 'a) \<Rightarrow> 'a prog" where
  "draw f = State (\<lambda>w. (f w (w_draws w), w\<lparr>w_draws := w_draws w + 1\<rparr>))"

definition rand_Read :: "nat \<Rightarrow> bytes option prog" where
  "rand_Read n = draw (\<lambda>w k. w_rand w k n)"

definition rand_digit :: "nat option prog" where
  "rand_digit = draw (\<lambda>w k. w_digits w k)"

definition uuid_New :: "uuid prog" where
  "uuid_New = draw (\<lambda>w k. w_uuids w k)"

text \<open>\<open>if err != nil { return err }\<close>, a value computed without effects, and a dropped result.\<close>

definition checked :: "'a svc \<Rightarrow> ('a \<Rightarrow> 'b svc) \<Rightarrow> 'b svc" where
  "checked m k = State_Monad.bind m (\<lambda>r. case r of Inl e \<Rightarrow> fail e | Inr x \<Rightarrow> k x)"

abbreviation (input) pure :: "svc_error + 'a \<Rightarrow> 'a svc" where "pure r \<equiv> State_Monad.return r"

abbreviation (input) ensure :: "svc_error option \<Rightarrow> unit svc" where
  "ensure e \<equiv> State_Monad.return (case e of None \<Rightarrow> Inr () | Some x \<Rightarrow> Inl x)"

section \<open>How programs run\<close>

named_theorems run_simps \<open>the result of running a program\<close>

lemma run_checked [run_simps]:
  "run_state (checked m k) w =
     (case run_state m w of (Inl e, w') \<Rightarrow> (Inl e, w') | (Inr x, w') \<Rightarrow> run_state (k x) w')"
  by (auto simp: checked_def split: prod.splits sum.splits)

lemma run_draw [run_simps]:
  "run_state (rand_Read n) w = (w_rand w (w_draws w) n, w\<lparr>w_draws := w_draws w + 1\<rparr>)"
  "run_state rand_digit w = (w_digits w (w_draws w), w\<lparr>w_draws := w_draws w + 1\<rparr>)"
  "run_state uuid_New w = (w_uuids w (w_draws w), w\<lparr>w_draws := w_draws w + 1\<rparr>)"
  by (simp_all add: rand_Read_def rand_digit_def uuid_New_def draw_def)

lemma arrive_quiet [simp]: "w_schedule w = [] \<Longrightarrow> arrive w = (Served, w)"
  by (simp add: arrive_def pop_def quiet_def settle_def)

text \<open>In a quiet world an effect is just its effect.\<close>

lemma run_quiet [run_simps]:
  assumes "w_schedule w = []"
  shows "run_state (repo_now f) w = (case transact (f (w_clock w)) (w_db w) of (r, d) \<Rightarrow> (r, w\<lparr>w_db := d\<rparr>))"
    and "run_state (repo g) w = (case transact g (w_db w) of (r, d) \<Rightarrow> (r, w\<lparr>w_db := d\<rparr>))"
    and "run_state (send_mail m) w = (Inr (), w\<lparr>w_outbox := w_outbox w @ [m]\<rparr>)"
    and "run_state time_Now w = (w_clock w, w)"
  using assms by (simp_all add: repo_now_def repo_def send_mail_def time_Now_def)

lemma checked_InrE:
  assumes "run_state (checked m k) w = (Inr y, w')"
  obtains x w1 where "run_state m w = (Inr x, w1)" "run_state (k x) w1 = (Inr y, w')"
  using assms that by (auto simp: run_checked split: prod.splits sum.splits)

lemma bindE:
  assumes "run_state (State_Monad.bind m k) w = (y, w')"
  obtains x w1 where "run_state m w = (x, w1)" "run_state (k x) w1 = (y, w')"
  using assms that by (auto split: prod.splits)

text \<open>A served store call: what it answered, the database it ran on and the one it left.\<close>

lemma transact_InrD: "transact f d = (Inr x, d') \<Longrightarrow> f d = Inr (x, d')"
  by (auto simp: transact_def split: sum.splits)

lemma repo_now_InrE:
  assumes "run_state (repo_now f) w = (Inr x, w')"
  obtains w1 d where "arrive w = (Served, w1)" "f (w_clock w1) (w_db w1) = Inr (x, d)" "w' = w1\<lparr>w_db := d\<rparr>"
  using assms that by (auto simp: repo_now_def split: prod.splits outcome.splits dest: transact_InrD)

lemma repo_InrE:
  assumes "run_state (repo f) w = (Inr x, w')"
  obtains w1 d where "arrive w = (Served, w1)" "f (w_db w1) = Inr (x, d)" "w' = w1\<lparr>w_db := d\<rparr>"
  using repo_now_InrE [OF assms [unfolded repo_def]] that .

section \<open>Reliance on the others\<close>

text \<open>
  \<open>moves R m\<close>: whatever a program does to the database, together with what the others do during
  it, is a move of the reflexive and transitive relation \<open>R\<close>, provided the others move by \<open>R\<close>.
\<close>

definition others :: "(db \<Rightarrow> db \<Rightarrow> bool) \<Rightarrow> world \<Rightarrow> bool" where
  "others R w \<longleftrightarrow> (\<forall>e\<in>set (w_schedule w). \<forall>d. R d (e_other e d))"

definition moves :: "(db \<Rightarrow> db \<Rightarrow> bool) \<Rightarrow> 'a prog \<Rightarrow> bool" where
  "moves R m \<longleftrightarrow> (\<forall>w. others R w \<longrightarrow> R (w_db w) (w_db (snd (run_state m w))) \<and> others R (snd (run_state m w)))"

lemma movesD:
  assumes "moves R m" "run_state m w = (x, w')" "others R w"
  shows "R (w_db w) (w_db w')" "others R w'"
proof -
  have "R (w_db w) (w_db (snd (run_state m w))) \<and> others R (snd (run_state m w))"
    using assms(1,3) unfolding moves_def by blast
  then show "R (w_db w) (w_db w')" "others R w'" using assms(2) by simp_all
qed

lemma movesI:
  assumes "\<And>w x w'. run_state m w = (x, w') \<Longrightarrow> others R w \<Longrightarrow> R (w_db w) (w_db w') \<and> others R w'"
  shows "moves R m"
  unfolding moves_def using assms by (metis prod.collapse)

locale database_moves =
  fixes R :: "db \<Rightarrow> db \<Rightarrow> bool"
  assumes refl: "R d d"
    and trans: "R d d1 \<Longrightarrow> R d1 d2 \<Longrightarrow> R d d2"
begin

lemma moves_return [preserves_intros]: "moves R (State_Monad.return x)"
  by (rule movesI) (simp add: refl)

lemma moves_bind [preserves_intros]:
  assumes "moves R m" "\<And>x. moves R (k x)"
  shows "moves R (State_Monad.bind m k)"
proof (rule movesI)
  fix w y w' assume r: "run_state (State_Monad.bind m k) w = (y, w')" and o: "others R w"
  obtain x w1 where 1: "run_state m w = (x, w1)" "run_state (k x) w1 = (y, w')" using r by (rule bindE)
  note m = movesD [OF assms(1) 1(1) o]
  note k = movesD [OF assms(2) 1(2) m(2)]
  show "R (w_db w) (w_db w') \<and> others R w'" using trans [OF m(1) k(1)] k(2) by blast
qed

lemma moves_checked [preserves_intros]:
  "moves R m \<Longrightarrow> (\<And>x. moves R (k x)) \<Longrightarrow> moves R (checked m k)"
  unfolding checked_def by (intro moves_bind) (auto intro: moves_return split: sum.split)

lemma moves_draw [preserves_intros]: "moves R (rand_Read n)" "moves R rand_digit" "moves R uuid_New"
  by (rule movesI; auto simp: run_draw refl others_def)+

lemma arrive_moves:
  assumes "others R w" "arrive w = (out, w1)"
  shows "R (w_db w) (w_db w1)" "others R w1"
  using assms by (auto simp: arrive_def pop_def settle_def quiet_def others_def refl split: list.splits)

lemma moves_time_Now [preserves_intros]: "moves R time_Now"
  by (rule movesI) (auto simp: time_Now_def split: prod.splits dest: arrive_moves)

lemma moves_send_mail [preserves_intros]: "moves R (send_mail m)"
proof (rule movesI)
  fix w r w' assume run: "run_state (send_mail m) w = (r, w')" and o: "others R w"
  obtain out w1 where a: "arrive w = (out, w1)" by fastforce
  have "w_db w' = w_db w1" "w_schedule w' = w_schedule w1"
    using run a by (auto simp: send_mail_def split: outcome.splits)
  then show "R (w_db w) (w_db w') \<and> others R w'" using arrive_moves [OF o a] by (simp add: others_def)
qed

lemma moves_repo_now:
  assumes "\<And>now d x d'. f now d = Inr (x, d') \<Longrightarrow> R d d'"
  shows "moves R (repo_now f)"
proof (rule movesI)
  fix w r w' assume run: "run_state (repo_now f) w = (r, w')" and o: "others R w"
  obtain out w1 where a: "arrive w = (out, w1)" by fastforce
  have t: "R (w_db w1) (snd (transact (f now) (w_db w1)))" for now
    using assms [of now "w_db w1"] by (auto simp: transact_def refl split: sum.splits)
  have "w_db w' = w_db w1 \<or> w_db w' = snd (transact (f (w_clock w1)) (w_db w1))" "w_schedule w' = w_schedule w1"
    using run a by (auto simp: repo_now_def split: outcome.splits prod.splits)
  then show "R (w_db w) (w_db w') \<and> others R w'"
    using arrive_moves [OF o a] t trans by (auto simp: others_def)
qed

lemma moves_repo: "(\<And>d x d'. f d = Inr (x, d') \<Longrightarrow> R d d') \<Longrightarrow> moves R (repo f)"
  unfolding repo_def by (rule moves_repo_now)

lemma moves_if [preserves_intros]: "(b \<Longrightarrow> moves R m) \<Longrightarrow> (\<not> b \<Longrightarrow> moves R n) \<Longrightarrow> moves R (if b then m else n)"
  by simp

lemma moves_case_option [preserves_intros]:
  "(x = None \<Longrightarrow> moves R m) \<Longrightarrow> (\<And>y. x = Some y \<Longrightarrow> moves R (k y)) \<Longrightarrow> moves R (case x of None \<Rightarrow> m | Some y \<Rightarrow> k y)"
  by (cases x) auto

lemma moves_case_sum [preserves_intros]:
  "(\<And>e. x = Inl e \<Longrightarrow> moves R (l e)) \<Longrightarrow> (\<And>y. x = Inr y \<Longrightarrow> moves R (k y)) \<Longrightarrow> moves R (case x of Inl e \<Rightarrow> l e | Inr y \<Rightarrow> k y)"
  by (cases x) auto

lemma moves_case_prod [preserves_intros]:
  "(\<And>a b. x = (a, b) \<Longrightarrow> moves R (k a b)) \<Longrightarrow> moves R (case x of (a, b) \<Rightarrow> k a b)"
  by (cases x) auto

end

text \<open>Keeping an invariant is one such relation, whatever the invariant.\<close>

definition keeping :: "(db \<Rightarrow> bool) \<Rightarrow> db \<Rightarrow> db \<Rightarrow> bool" where
  "keeping I d d' \<longleftrightarrow> (I d \<longrightarrow> I d')"

interpretation keeping: database_moves "keeping I" for I
  by unfold_locales (auto simp: keeping_def)

lemma moves_keeping_repo:
  assumes "keeps I f"
  shows "moves (keeping I) (repo f)"
  by (rule keeping.moves_repo) (auto simp: keeping_def dest: keepsD [OF assms])

section \<open>Answers under an invariant\<close>

text \<open>
  \<open>stays J m Q\<close>: as long as the database satisfies \<open>J\<close> and the others keep it so, the program keeps
  it too and its answer satisfies \<open>Q\<close>. A query answers from some database that satisfies \<open>J\<close>.
\<close>

definition under :: "(db \<Rightarrow> bool) \<Rightarrow> world \<Rightarrow> bool" where
  "under J w \<longleftrightarrow> J (w_db w) \<and> others (keeping J) w"

definition stays :: "(db \<Rightarrow> bool) \<Rightarrow> 'a prog \<Rightarrow> ('a \<Rightarrow> bool) \<Rightarrow> bool" where
  "stays J m Q \<longleftrightarrow> (\<forall>w. under J w \<longrightarrow> under J (snd (run_state m w)) \<and> Q (fst (run_state m w)))"

lemma staysD: "stays J m Q \<Longrightarrow> run_state m w = (r, w') \<Longrightarrow> under J w \<Longrightarrow> under J w' \<and> Q r"
  unfolding stays_def by (metis fst_conv snd_conv)

lemma staysI:
  "(\<And>w r w'. run_state m w = (r, w') \<Longrightarrow> under J w \<Longrightarrow> under J w' \<and> Q r) \<Longrightarrow> stays J m Q"
  unfolding stays_def by (metis prod.collapse)

lemma stays_weaken: "stays J m Q \<Longrightarrow> (\<And>r. Q r \<Longrightarrow> Q' r) \<Longrightarrow> stays J m Q'"
  by (auto simp: stays_def)

lemma stays_return: "Q x \<Longrightarrow> stays J (State_Monad.return x) Q"
  by (auto intro: staysI)

lemma stays_bind:
  assumes "stays J m P" "\<And>x. P x \<Longrightarrow> stays J (k x) Q"
  shows "stays J (State_Monad.bind m k) Q"
proof (rule staysI)
  fix w r w' assume run: "run_state (State_Monad.bind m k) w = (r, w')" and u: "under J w"
  obtain x w1 where 1: "run_state m w = (x, w1)" "run_state (k x) w1 = (r, w')" using run by (rule bindE)
  from staysD [OF assms(1) 1(1) u] have "under J w1" "P x" by simp_all
  with staysD [OF assms(2) 1(2)] show "under J w' \<and> Q r" by blast
qed

lemma stays_checked:
  assumes "stays J m P" "\<And>x. P (Inr x) \<Longrightarrow> stays J (k x) Q" "\<And>e. P (Inl e) \<Longrightarrow> Q (Inl e)"
  shows "stays J (checked m k) Q"
  unfolding checked_def
  by (rule stays_bind [OF assms(1)]) (auto intro: stays_return assms(2,3) split: sum.split)

lemma stays_of_moves: "moves (keeping J) m \<Longrightarrow> (\<And>w. Q (fst (run_state m w))) \<Longrightarrow> stays J m Q"
  by (auto simp: stays_def under_def moves_def keeping_def)

lemma stays_time_Now: "stays J time_Now (\<lambda>_. True)"
  by (rule stays_of_moves [OF keeping.moves_time_Now]) simp

lemma stays_uuid_New: "stays J uuid_New (\<lambda>_. True)"
  by (rule stays_of_moves [OF keeping.moves_draw(3)]) simp

lemma under_arrive: "under J w \<Longrightarrow> arrive w = (out, w1) \<Longrightarrow> under J w1"
  using keeping.arrive_moves [of J w out w1] by (auto simp: under_def keeping_def)

lemma stays_query:
  assumes "\<And>d. f d = Inr (g d, d)"
  shows "stays J (repo f) (\<lambda>r. \<forall>x. r = Inr x \<longrightarrow> (\<exists>d. J d \<and> x = g d))"
proof (rule staysI)
  fix w r w' assume run: "run_state (repo f) w = (r, w')" and u: "under J w"
  obtain out w1 where a: "arrive w = (out, w1)" by fastforce
  have "w' = w1" and r: "r = Inr x \<Longrightarrow> x = g (w_db w1)" for x
    using run a by (auto simp: repo_def repo_now_def transact_def assms split: outcome.splits)
  moreover have "under J w1" using u a by (rule under_arrive)
  ultimately show "under J w' \<and> (\<forall>x. r = Inr x \<longrightarrow> (\<exists>d. J d \<and> x = g d))" by (auto simp: under_def)
qed

lemma stays_reads:
  "stays J (repo (reads g)) (\<lambda>r. \<forall>x. r = Inr x \<longrightarrow> (\<exists>d. J d \<and> x = g d))"
  by (rule stays_query) (simp add: reads_def)

end
