(* ===== verification/Access.thy ===== *)
theory Access
  imports World Requests Sessions
begin

text \<open>
  Who may do what: \<open>internal/service/rbac.go\<close> and \<open>internal/service/user_status.go\<close>, on top of
  the store's hierarchy queries. A method of the service whose name is also the name of a store
  operation carries the prefix \<open>Auth_\<close>.
\<close>

section \<open>Decisions\<close>

definition IsSuperuser :: "uuid \<Rightarrow> bool svc" where
  "IsSuperuser userID =
     checked (repo (GetUserByID userID)) (\<lambda>u.
       case u of
         None \<Rightarrow> ret False
       | Some u \<Rightarrow> if u_banned_at u \<noteq> None then fail ErrBanned else ret (u_superuser u))"

definition IsBanned :: "uuid \<Rightarrow> bool svc" where
  "IsBanned userID =
     checked (repo (GetUserByID userID)) (\<lambda>u.
       case u of None \<Rightarrow> ret False | Some u \<Rightarrow> ret (u_banned_at u \<noteq> None))"

definition Auth_UserHasRoleName :: "uuid \<Rightarrow> string \<Rightarrow> bool svc" where
  "Auth_UserHasRoleName userID roleName =
     checked (IsBanned userID) (\<lambda>banned.
       if banned then fail ErrBanned
       else checked (repo (GetRoleByName roleName)) (\<lambda>role.
         case role of
           None \<Rightarrow> ret False
         | Some v \<Rightarrow> do { now \<leftarrow> time_Now; repo (UserHasEffectiveRole userID (r_id (v_role v)) now) }))"

definition UserHasRoleWithTag :: "uuid \<Rightarrow> string \<Rightarrow> string \<Rightarrow> bool svc" where
  "UserHasRoleWithTag userID roleName tag =
     checked (IsBanned userID) (\<lambda>banned.
       if banned then fail ErrBanned
       else checked (repo (GetRoleByName roleName)) (\<lambda>role.
         case role of
           None \<Rightarrow> ret False
         | Some v \<Rightarrow> do {
             now \<leftarrow> time_Now;
             repo (UserHasEffectiveRoleTag userID (r_id (v_role v)) (ToLower (TrimSpace tag)) now) }))"

definition IsRoleAdmin :: "uuid \<Rightarrow> uuid \<Rightarrow> bool svc" where
  "IsRoleAdmin userID roleID =
     checked (IsBanned userID) (\<lambda>banned.
       if banned then fail ErrBanned
       else do { now \<leftarrow> time_Now; repo (UserIsEffectiveRoleAdmin userID roleID now) })"

definition CanMountRole :: "uuid \<Rightarrow> uuid \<Rightarrow> uuid \<Rightarrow> bool svc" where
  "CanMountRole actorID childID parentID =
     checked (IsSuperuser actorID) (\<lambda>su.
       if su then ret True
       else checked (IsRoleAdmin actorID childID) (\<lambda>child.
         if \<not> child then ret False else IsRoleAdmin actorID parentID))"

definition CanAssignRole :: "uuid \<Rightarrow> uuid \<Rightarrow> bool svc" where
  "CanAssignRole actorID roleID =
     checked (IsSuperuser actorID) (\<lambda>su. if su then ret True else IsRoleAdmin actorID roleID)"

definition CanViewUserRoles :: "uuid \<Rightarrow> uuid \<Rightarrow> bool svc" where
  "CanViewUserRoles actorID targetID =
     (if actorID = targetID then ret True
      else checked (IsSuperuser actorID) (\<lambda>su. if su then ret True else ret False))"

text \<open>\<open>ok, err := guard; if err != nil return err; if !ok return ErrForbidden; ...\<close>\<close>

definition guarded :: "bool svc \<Rightarrow> 'a svc \<Rightarrow> 'a svc" where
  "guarded guard body = checked guard (\<lambda>ok. if \<not> ok then fail ErrForbidden else body)"

definition RequestRoleMembership :: "uuid \<Rightarrow> uuid \<Rightarrow> uuid \<Rightarrow> (bool \<times> uuid) svc" where
  "RequestRoleMembership actor target roleID =
     checked (CanAssignRole actor roleID) (\<lambda>canManage.
       if canManage then do {
         now \<leftarrow> time_Now;
         newID \<leftarrow> uuid_New;
         checked (repo (AssignUserRole newID target roleID RoleMember (Some actor) now None))
           (\<lambda>_. ret (True, uuid_Nil)) }
       else if actor \<noteq> target then fail ErrForbidden
       else do {
         newID \<leftarrow> uuid_New;
         checked (repo (CreateRoleRequest newID actor target roleID)) (\<lambda>rid. ret (False, rid)) })"

section \<open>Bans\<close>

definition requireActiveUser :: "user option \<Rightarrow> svc_error option" where
  "requireActiveUser user =
     (case user of None \<Rightarrow> Some ErrInvalidCredentials
      | Some u \<Rightarrow> if u_banned_at u \<noteq> None then Some ErrBanned else None)"

definition validateBanTarget :: "uuid \<Rightarrow> user option \<Rightarrow> svc_error option" where
  "validateBanTarget actorID target =
     (case target of None \<Rightarrow> Some ErrNotFound
      | Some t \<Rightarrow> if actorID = u_id t then Some ErrCannotBanSelf
                  else if u_superuser t then Some ErrCannotBanSuperuser else None)"

definition BanUser :: "uuid \<Rightarrow> uuid \<Rightarrow> string \<Rightarrow> unit svc" where
  "BanUser actorID targetID reason =
     guarded (IsSuperuser actorID)
       (checked (repo (GetUserByID targetID)) (\<lambda>target.
          checked (ensure (validateBanTarget actorID target)) (\<lambda>_.
            repo_now (\<lambda>now. SetUserBan now targetID (Some actorID) reason))))"

definition UnbanUser :: "uuid \<Rightarrow> uuid \<Rightarrow> unit svc" where
  "UnbanUser actorID targetID =
     guarded (IsSuperuser actorID)
       (checked (repo (GetUserByID targetID)) (\<lambda>target.
          if target = None then fail ErrNotFound
          else repo_now (\<lambda>now. SetUserBan now targetID None [])))"

end
