(* ===== verification/Password_Policy.thy ===== *)
theory Password_Policy
  imports Crypto_Util Edit_Distance OTP
begin

text \<open>
  The password policy: \<open>internal/service/password_policy.go\<close> as far as it is a function of its
  arguments (its two methods that call the store are in the theory of the password service).
\<close>

section \<open>Runes\<close>

text \<open>The \<open>range\<close> loop over a string decodes UTF-8; a byte that starts no valid sequence is the
  replacement character and has width one. \<open>decode_rune\<close> gives the rune and how many bytes follow
  its first.\<close>

definition cont :: "nat \<Rightarrow> nat \<Rightarrow> nat \<Rightarrow> bool" where
  "cont lo hi b \<longleftrightarrow> lo \<le> b \<and> b \<le> hi"

definition rune_error :: "nat \<times> nat" where "rune_error = (65533, 0)"

definition decode_rune :: "nat \<Rightarrow> nat list \<Rightarrow> nat \<times> nat" where
  "decode_rune b bs =
     (if b < 128 then (b, 0)
      else if 194 \<le> b \<and> b \<le> 223 then
        (case bs of c # _ \<Rightarrow> if cont 128 191 c then ((b - 192) * 64 + (c - 128), 1) else rune_error
         | [] \<Rightarrow> rune_error)
      else if 224 \<le> b \<and> b \<le> 239 then
        (case bs of c # d # _ \<Rightarrow>
             if cont (if b = 224 then 160 else 128) (if b = 237 then 159 else 191) c \<and> cont 128 191 d
             then ((b - 224) * 4096 + (c - 128) * 64 + (d - 128), 2) else rune_error
         | _ \<Rightarrow> rune_error)
      else if 240 \<le> b \<and> b \<le> 244 then
        (case bs of c # d # e # _ \<Rightarrow>
             if cont (if b = 240 then 144 else 128) (if b = 244 then 143 else 191) c \<and> cont 128 191 d \<and> cont 128 191 e
             then ((b - 240) * 262144 + (c - 128) * 4096 + (d - 128) * 64 + (e - 128), 3) else rune_error
         | _ \<Rightarrow> rune_error)
      else rune_error)"

function decode_runes :: "nat list \<Rightarrow> nat list" where
  "decode_runes [] = []"
| "decode_runes (b # bs) = (let (r, w) = decode_rune b bs in r # decode_runes (drop w bs))"
  by pat_completeness auto
termination by (relation "measure length") auto

definition runes :: "string \<Rightarrow> nat list" where
  "runes s = decode_runes (map code s)"

lemma decode_ascii: "list_all (\<lambda>b. b < 128) bs \<Longrightarrow> decode_runes bs = bs"
  by (induction bs) (auto simp: decode_rune_def)

section \<open>Complexity\<close>

definition see_rune :: "lib \<Rightarrow> nat \<Rightarrow> bool \<times> bool \<times> bool \<times> bool \<Rightarrow> bool \<times> bool \<times> bool \<times> bool" where
  "see_rune L r flags =
     (case flags of (hasLower, hasUpper, hasDigit, hasSpecial) \<Rightarrow>
        if unicode_IsLower L r then (True, hasUpper, hasDigit, hasSpecial)
        else if unicode_IsUpper L r then (hasLower, True, hasDigit, hasSpecial)
        else if unicode_IsDigit L r then (hasLower, hasUpper, True, hasSpecial)
        else if unicode_IsSpace L r then (hasLower, hasUpper, hasDigit, hasSpecial)
        else (hasLower, hasUpper, hasDigit, True))"

fun join :: "string \<Rightarrow> string list \<Rightarrow> string" where
  "join sep [] = []"
| "join sep [s] = s"
| "join sep (s # t # ts) = s @ sep @ join sep (t # ts)"

definition checkPasswordComplexity :: "lib \<Rightarrow> string \<Rightarrow> svc_error option" where
  "checkPasswordComplexity L pw =
     (if length pw < 8 then Some (ErrPasswordPolicy ''password too short (min 8 characters)'')
      else
        let (hasLower, hasUpper, hasDigit, hasSpecial) = fold (see_rune L) (runes pw) (False, False, False, False);
            missing = (if \<not> hasLower then [''lowercase letter''] else [])
              @ (if \<not> hasUpper then [''uppercase letter''] else [])
              @ (if \<not> hasDigit then [''digit''] else [])
              @ (if \<not> hasSpecial then [''special character''] else [])
        in if missing \<noteq> []
           then Some (ErrPasswordPolicy (''password must contain at least one '' @ join '', '' missing))
           else None)"

text \<open>The classes of a rune, in the order of the switch.\<close>

definition upper_rune :: "lib \<Rightarrow> nat \<Rightarrow> bool" where
  "upper_rune L r \<longleftrightarrow> \<not> unicode_IsLower L r \<and> unicode_IsUpper L r"

definition digit_rune :: "lib \<Rightarrow> nat \<Rightarrow> bool" where
  "digit_rune L r \<longleftrightarrow> \<not> unicode_IsLower L r \<and> \<not> unicode_IsUpper L r \<and> unicode_IsDigit L r"

definition special_rune :: "lib \<Rightarrow> nat \<Rightarrow> bool" where
  "special_rune L r \<longleftrightarrow> \<not> unicode_IsLower L r \<and> \<not> unicode_IsUpper L r \<and> \<not> unicode_IsDigit L r
     \<and> \<not> unicode_IsSpace L r"

lemmas rune_classes = upper_rune_def digit_rune_def special_rune_def

lemma see_runes:
  "fold (see_rune L) rs (lo, up, di, sp) =
     (lo \<or> (\<exists>r\<in>set rs. unicode_IsLower L r), up \<or> (\<exists>r\<in>set rs. upper_rune L r),
      di \<or> (\<exists>r\<in>set rs. digit_rune L r), sp \<or> (\<exists>r\<in>set rs. special_rune L r))"
  by (induction rs arbitrary: lo up di sp) (auto simp: see_rune_def rune_classes)

text \<open>
  A password passes the complexity check exactly when it has at least eight bytes and contains
  a lowercase letter, an uppercase letter, a digit, and a character that is none of these and no
  white space; a failing check is always a policy error.
\<close>

lemma complexity_decided:
  "(checkPasswordComplexity L pw = None \<longleftrightarrow>
      8 \<le> length pw \<and> (\<exists>r\<in>set (runes pw). unicode_IsLower L r) \<and> (\<exists>r\<in>set (runes pw). upper_rune L r)
      \<and> (\<exists>r\<in>set (runes pw). digit_rune L r) \<and> (\<exists>r\<in>set (runes pw). special_rune L r))
   \<and> (case checkPasswordComplexity L pw of None \<Rightarrow> True | Some e \<Rightarrow> \<exists>m. e = ErrPasswordPolicy m)"
  by (auto simp: checkPasswordComplexity_def see_runes Let_def)

section \<open>History\<close>

fun history_reused :: "lib \<Rightarrow> string \<Rightarrow> password_history list \<Rightarrow> bool" where
  "history_reused L pw [] = False"
| "history_reused L pw (e # es) =
     (case VerifyPassword L pw (ph_hash e) of
        Inl _ \<Rightarrow> history_reused L pw es
      | Inr ok \<Rightarrow> if ok then True else history_reused L pw es)"

fun history_similar :: "lib \<Rightarrow> bytes \<Rightarrow> string \<Rightarrow> password_history list \<Rightarrow> bool" where
  "history_similar L key pw [] = False"
| "history_similar L key pw (e # es) =
     (case DecryptAESGCM L key (ph_nonce e) (ph_ciphertext e) [] of
        Inl _ \<Rightarrow> history_similar L key pw es
      | Inr prev \<Rightarrow> if Levenshtein pw prev \<le> 2 then True else history_similar L key pw es)"

definition validatePasswordHistory :: "lib \<Rightarrow> string \<Rightarrow> password_history list \<Rightarrow> string \<Rightarrow> svc_error option" where
  "validatePasswordHistory L newPassword entries encryptionKey =
     (if history_reused L newPassword entries then Some (ErrPasswordPolicy ''password reused'')
      else case DecodeKey32 encryptionKey of
        Inl e \<Rightarrow> Some e
      | Inr plainKey \<Rightarrow>
          if history_similar L plainKey newPassword entries
          then Some (ErrPasswordPolicy ''too similar to previous password'') else None)"

definition preparePasswordResetMutation ::
  "lib \<Rightarrow> bytes option \<Rightarrow> bytes option \<Rightarrow> string \<Rightarrow> password_history list \<Rightarrow> string \<Rightarrow> svc_error + reset_mutation" where
  "preparePasswordResetMutation L randSalt randNonce newPassword entries encryptionKey =
     (case checkPasswordComplexity L newPassword of
        Some e \<Rightarrow> Inl e
      | None \<Rightarrow>
     (case validatePasswordHistory L newPassword entries encryptionKey of
        Some e \<Rightarrow> Inl e
      | None \<Rightarrow>
     (case HashPassword L randSalt newPassword of
        Inl e \<Rightarrow> Inl e
      | Inr hash \<Rightarrow>
     (case DecodeKey32 encryptionKey of
        Inl e \<Rightarrow> Inl e
      | Inr plainKey \<Rightarrow>
     (case EncryptAESGCM L randNonce plainKey newPassword [] of
        Inl e \<Rightarrow> Inl e
      | Inr (nonce, cipher) \<Rightarrow> Inr \<lparr>rm_hash = hash, rm_ciphertext = cipher, rm_nonce = nonce\<rparr>)))))"

definition passwordResetCompletionError :: "svc_error + bool \<Rightarrow> svc_error option" where
  "passwordResetCompletionError r =
     (case r of Inl e \<Rightarrow> Some e | Inr completed \<Rightarrow> if \<not> completed then Some ErrOTPInvalid else None)"

definition normalizeLogin :: "string \<Rightarrow> string" where
  "normalizeLogin s = ToLower (TrimSpace s)"

lemma history_reused_iff:
  "history_reused L pw es \<longleftrightarrow> (\<exists>e\<in>set es. VerifyPassword L pw (ph_hash e) = Inr True)"
  by (induction es) (auto split: sum.splits)

lemma history_similar_iff:
  "history_similar L key pw es \<longleftrightarrow>
     (\<exists>e\<in>set es. \<exists>prev. DecryptAESGCM L key (ph_nonce e) (ph_ciphertext e) [] = Inr prev \<and> Levenshtein pw prev \<le> 2)"
  by (induction es) (auto split: sum.splits)

text \<open>The history entry that records a password: what \<open>preparePasswordResetMutation\<close> and
  \<open>appendPasswordHistory\<close> store.\<close>

definition records_password :: "lib \<Rightarrow> bytes \<Rightarrow> string \<Rightarrow> string \<Rightarrow> bytes \<Rightarrow> bytes \<Rightarrow> bool" where
  "records_password L key pw hash cipher nonce \<longleftrightarrow>
     VerifyPassword L pw hash = Inr True \<and> DecryptAESGCM L key nonce cipher [] = Inr pw"

lemma prepare_InrD:
  assumes "preparePasswordResetMutation L rs rn pw entries ek = Inr m"
  obtains key where "checkPasswordComplexity L pw = None" "validatePasswordHistory L pw entries ek = None"
    "HashPassword L rs pw = Inr (rm_hash m)" "DecodeKey32 ek = Inr key"
    "EncryptAESGCM L rn key pw [] = Inr (rm_nonce m, rm_ciphertext m)"
  using assms that
  by (cases "checkPasswordComplexity L pw"; cases "validatePasswordHistory L pw entries ek";
      cases "HashPassword L rs pw"; cases "DecodeKey32 ek")
    (auto simp: preparePasswordResetMutation_def split: sum.splits)

lemma validate_NoneD:
  assumes "validatePasswordHistory L pw entries ek = None"
  obtains key where "DecodeKey32 ek = Inr key" "\<not> history_reused L pw entries" "\<not> history_similar L key pw entries"
  using assms that by (auto simp: validatePasswordHistory_def split: if_splits sum.splits)

lemma validate_stored:
  assumes "gcm_ok L" "validatePasswordHistory L pw entries ek = None" "e \<in> set entries"
    and "DecodeKey32 ek = Inr key" "records_password L key old (ph_hash e) (ph_ciphertext e) (ph_nonce e)"
  shows "\<not> (\<exists>k\<le>2. (one_edit ^^ k) pw old)"
proof -
  obtain key' where k: "DecodeKey32 ek = Inr key'" "\<not> history_similar L key' pw entries"
    using assms(2) by (rule validate_NoneD)
  with assms(4) have "key' = key" by simp
  with k(2) assms(3,5) have "\<not> Levenshtein pw old \<le> 2"
    unfolding history_similar_iff records_password_def by blast
  then show ?thesis unfolding Levenshtein_dist
    by (metis edits_rev dist_minimal order_trans)
qed

text \<open>
  C37. A prepared reset respects the history it was shown: the new password is no stored password,
  and at least three edits away from every password stored under the same key; and what it stores
  in turn records the new password, so that later checks see it.
\<close>

theorem prepared_reset_respects_history:
  assumes "gcm_ok L" "preparePasswordResetMutation L rs rn pw entries ek = Inr m" "DecodeKey32 ek = Inr key"
  shows "checkPasswordComplexity L pw = None
    \<and> records_password L key pw (rm_hash m) (rm_ciphertext m) (rm_nonce m)
    \<and> (\<forall>e\<in>set entries. VerifyPassword L pw (ph_hash e) \<noteq> Inr True
         \<and> (\<forall>old. records_password L key old (ph_hash e) (ph_ciphertext e) (ph_nonce e) \<longrightarrow>
              \<not> (\<exists>k\<le>2. (one_edit ^^ k) pw old)))"
proof (rule prepare_InrD [OF assms(2)])
  fix key'
  assume p: "checkPasswordComplexity L pw = None" "validatePasswordHistory L pw entries ek = None"
    "HashPassword L rs pw = Inr (rm_hash m)" "DecodeKey32 ek = Inr key'"
    "EncryptAESGCM L rn key' pw [] = Inr (rm_nonce m, rm_ciphertext m)"
  from p(4) assms(3) have key: "key' = key" by simp
  have "\<not> history_reused L pw entries" using p(2) by (rule validate_NoneD)
  then have "\<forall>e\<in>set entries. VerifyPassword L pw (ph_hash e) \<noteq> Inr True" by (simp add: history_reused_iff)
  moreover have "records_password L key pw (rm_hash m) (rm_ciphertext m) (rm_nonce m)"
    using verify_hashed [OF p(3), of pw] decrypt_encrypted [OF assms(1) p(5)] key
    by (auto simp: records_password_def)
  ultimately show ?thesis using p(1) validate_stored [OF assms(1) p(2) _ assms(3)] by blast
qed

definition sample_key32 :: string where
  "sample_key32 = replicate 64 CHR ''0''"

lemma sample_key32_decodes: "DecodeKey32 sample_key32 = Inr (replicate 32 (char_of (0::nat)))"
  by code_simp

theorem prepared_reset_respects_history_witness:
  "\<exists>m. preparePasswordResetMutation sample_lib (Some ''s'') (Some ''n'') ''Secret-1'' [] sample_key32 = Inr m
     \<and> VerifyPassword sample_lib ''Secret-1'' (rm_hash m) = Inr True"
proof -
  have "checkPasswordComplexity sample_lib ''Secret-1'' = None" by code_simp
  then have "\<exists>m. preparePasswordResetMutation sample_lib (Some ''s'') (Some ''n'') ''Secret-1'' [] sample_key32 = Inr m"
    by (simp add: preparePasswordResetMutation_def validatePasswordHistory_def sample_key32_decodes HashPassword_def
        EncryptAESGCM_def)
  then obtain m where m: "preparePasswordResetMutation sample_lib (Some ''s'') (Some ''n'') ''Secret-1'' [] sample_key32 = Inr m" ..
  with prepared_reset_respects_history [OF sample_lib_ok(1) m sample_key32_decodes] show ?thesis
    by (auto simp: records_password_def)
qed

end
