(* ===== verification/Tokens.thy ===== *)
theory Tokens
  imports Access Password_Policy Signing_Keys
begin

text \<open>
  Access tokens and the keys that sign them: \<open>internal/jwtutil/jwt.go\<close>,
  \<open>internal/service/helpers.go\<close>, \<open>internal/service/signing.go\<close> and the token checks of
  \<open>internal/service/auth.go\<close>.
\<close>

section \<open>The service object\<close>

text \<open>The fields of \<open>Auth\<close> that are values; the store, the mailer, the logger and the random source are
  effects of the world.\<close>

record auth =
  cfg :: config
  alib :: lib
  signingMaster :: bytes
  otpPepper :: bytes

section \<open>Helpers\<close>

definition hashRefreshToken :: "auth \<Rightarrow> string \<Rightarrow> bytes" where
  "hashRefreshToken a raw = sha256_Sum256 (alib a) raw"

definition hashOTP :: "auth \<Rightarrow> bytes \<Rightarrow> string \<Rightarrow> bytes" where
  "hashOTP a pepper otp = hmac_SHA256 (alib a) pepper otp"

definition otpCodesEqual :: "auth \<Rightarrow> bytes \<Rightarrow> string \<Rightarrow> bytes \<Rightarrow> bool" where
  "otpCodesEqual a pepper otp storedHash \<longleftrightarrow> hashOTP a pepper otp = storedHash"

definition randomRefreshToken :: "string svc" where
  "randomRefreshToken = do {
     b \<leftarrow> rand_Read 32;
     (case b of None \<Rightarrow> fail randFailure | Some bs \<Rightarrow> ret (hex_EncodeToString bs)) }"

text \<open>The loop over the positions of the code; \<open>make\<close> panics on a negative length.\<close>

fun random_digits :: "nat \<Rightarrow> string svc" where
  "random_digits 0 = ret []"
| "random_digits (Suc n) = do {
     r \<leftarrow> rand_digit;
     (case r of
        None \<Rightarrow> fail randFailure
      | Some k \<Rightarrow> checked (random_digits n) (\<lambda>ds. ret (char_of (48 + k) # ds))) }"

definition randomNumericCode :: "int \<Rightarrow> string svc" where
  "randomNumericCode len = (if len < 0 then fail (ErrOther ''panic: makeslice'') else random_digits (nat len))"

section \<open>Tokens\<close>

abbreviation (input) "TypeAccess \<equiv> ''access''"
abbreviation (input) "TypeService \<equiv> ''service''"

text \<open>A numeric date is cut to whole seconds.\<close>

definition NewNumericDate :: "instant \<Rightarrow> int" where
  "NewNumericDate t = t div Second"

definition SignAccess :: "lib \<Rightarrow> bytes \<Rightarrow> string \<Rightarrow> string \<Rightarrow> string \<Rightarrow> string \<Rightarrow> int \<Rightarrow> duration \<Rightarrow> string svc" where
  "SignAccess L secret kid userID login typ tokenVersion ttl =
     (if typ \<noteq> TypeAccess \<and> typ \<noteq> TypeService then fail (ErrOther ''invalid typ for access jwt'')
      else do {
        now \<leftarrow> time_Now;
        ret (jwt_Sign L secret \<lparr>c_login = login, c_typ = typ, c_kid = kid, c_token_version = tokenVersion,
          c_subject = userID, c_issued_at = NewNumericDate now, c_expires_at = NewNumericDate (now + ttl)\<rparr>) })"

definition ParseUnverifiedClaims :: "lib \<Rightarrow> string \<Rightarrow> svc_error + claims" where
  "ParseUnverifiedClaims L token =
     (case jwt_ParseUnverified L token of None \<Rightarrow> Inl (ErrOther ''token is malformed'') | Some c \<Rightarrow> Inr c)"

text \<open>The library reads the clock itself when it checks the expiry.\<close>

definition ParseAndVerify :: "lib \<Rightarrow> string \<Rightarrow> bytes \<Rightarrow> claims svc" where
  "ParseAndVerify L token secret = do {
     now \<leftarrow> time_Now;
     (case jwt_ParseWithClaims L secret now token of
        None \<Rightarrow> fail (ErrOther ''token is invalid'') | Some c \<Rightarrow> ret c) }"

section \<open>Signing keys\<close>

definition new_signing_material :: "auth \<Rightarrow> string \<Rightarrow> (bytes \<times> bytes) svc" where
  "new_signing_material a kid = do {
     secret \<leftarrow> rand_Read 32;
     (case secret of
        None \<Rightarrow> fail randFailure
      | Some s \<Rightarrow> do { nonce \<leftarrow> rand_Read 12; pure (EncryptAESGCM (alib a) nonce (signingMaster a) s kid) }) }"

definition ensureSigningBootstrap :: "auth \<Rightarrow> unit svc" where
  "ensureSigningBootstrap a =
     checked (repo CountSigningKeys) (\<lambda>n.
       if n > 0 then ret ()
       else do {
         x \<leftarrow> uuid_New;
         let kid = uuid_String (alib a) x;
         checked (new_signing_material a kid) (\<lambda>(nonce, cipher).
           repo_now (\<lambda>now. InsertSigningKey now kid cipher nonce False)) })"

definition EnsureBootstrap :: "auth \<Rightarrow> unit svc" where
  "EnsureBootstrap a = ensureSigningBootstrap a"

definition decryptSigningMaterial :: "auth \<Rightarrow> signing_key \<Rightarrow> svc_error + bytes" where
  "decryptSigningMaterial a m =
     DecryptAESGCM (alib a) (signingMaster a) (k_nonce m) (k_secret_cipher m) (k_kid m)"

definition currentSigningSecret :: "auth \<Rightarrow> (string \<times> bytes) svc" where
  "currentSigningSecret a =
     checked (repo GetCurrentSigningKeyMaterial) (\<lambda>m.
       case m of
         None \<Rightarrow> fail (ErrOther ''no current signing key'')
       | Some m \<Rightarrow> checked (pure (decryptSigningMaterial a m)) (\<lambda>sec. ret (k_kid m, sec)))"

text \<open>The secret, the time of its deprecation, and whether the grace period is over.\<close>

definition secretForKID :: "auth \<Rightarrow> string \<Rightarrow> instant \<Rightarrow> (bytes \<times> instant option \<times> bool) svc" where
  "secretForKID a kid now =
     checked (repo (GetSigningKeyMaterial kid)) (\<lambda>m.
       case m of
         None \<Rightarrow> fail (ErrOther ''unknown signing key'')
       | Some m \<Rightarrow> checked (pure (decryptSigningMaterial a m)) (\<lambda>sec.
           ret (sec, k_deprecated_at m,
             (case k_deprecated_at m of None \<Rightarrow> False | Some t \<Rightarrow> now > t + SigningGracePeriod (cfg a)))))"

definition RotateSigningKey :: "auth \<Rightarrow> unit svc" where
  "RotateSigningKey a = do {
     x \<leftarrow> uuid_New;
     let kid = uuid_String (alib a) x;
     checked (new_signing_material a kid) (\<lambda>(nonce, cipher).
       repo_now (\<lambda>now. DeprecateCurrentAndSet now kid cipher nonce)) }"

definition RotateSigningKeyForActor :: "auth \<Rightarrow> uuid \<Rightarrow> unit svc" where
  "RotateSigningKeyForActor a actor = guarded (IsSuperuser actor) (RotateSigningKey a)"

section \<open>Verification\<close>

definition tokenSubject :: "auth \<Rightarrow> string \<Rightarrow> int \<Rightarrow> user svc" where
  "tokenSubject a subject tokenVersion =
     (case uuid_Parse (alib a) subject of
        None \<Rightarrow> fail ErrInvalidCredentials
      | Some userID \<Rightarrow>
          checked (repo (GetUserByID userID)) (\<lambda>u.
            case u of
              None \<Rightarrow> fail ErrInvalidCredentials
            | Some u \<Rightarrow>
                checked (ensure (requireActiveUser (Some u))) (\<lambda>_.
                  if u_token_version u \<noteq> tokenVersion then fail ErrInvalidCredentials else ret u)))"

definition VerifyAccessToken :: "auth \<Rightarrow> string \<Rightarrow> string \<Rightarrow> claims svc" where
  "VerifyAccessToken a token wantTyp =
     checked (pure (ParseUnverifiedClaims (alib a) token)) (\<lambda>c. do {
       now \<leftarrow> time_Now;
       checked (secretForKID a (c_kid c) now) (\<lambda>(sec, _, stale).
         if stale then fail ErrStaleSigningKey
         else checked (ParseAndVerify (alib a) token sec) (\<lambda>v.
           if c_typ v \<noteq> wantTyp then fail ErrWrongTokenType
           else checked (tokenSubject a (c_subject v) (c_token_version v)) (\<lambda>_. ret v))) })"

definition VerifyAccessOrServiceToken :: "auth \<Rightarrow> string \<Rightarrow> claims svc" where
  "VerifyAccessOrServiceToken a token =
     checked (pure (ParseUnverifiedClaims (alib a) token)) (\<lambda>uv.
       if c_typ uv \<noteq> TypeAccess \<and> c_typ uv \<noteq> TypeService then fail ErrWrongTokenType
       else do {
         now \<leftarrow> time_Now;
         checked (secretForKID a (c_kid uv) now) (\<lambda>(sec, _, stale).
           if stale then fail ErrStaleSigningKey
           else checked (ParseAndVerify (alib a) token sec) (\<lambda>v.
             if c_typ v \<noteq> TypeAccess \<and> c_typ v \<noteq> TypeService then fail ErrWrongTokenType
             else checked (tokenSubject a (c_subject v) (c_token_version v)) (\<lambda>_. ret v))) })"

end
