(* ===== verification/Login.thy ===== *)
theory Login
  imports Tokens Links
begin

text \<open>
  Signing in and out: the login, refresh, logout, service-token and session methods of
  \<open>internal/service/auth.go\<close>.
\<close>

section \<open>The password step\<close>

record login_password_result =
  OTPRequired :: bool
  PasswordExpired :: bool
  LoginChallenge :: string

definition mail_to :: "string \<Rightarrow> string \<Rightarrow> string \<Rightarrow> unit svc" where
  "mail_to addr subject body = send_mail \<lparr>msg_to = [addr], msg_subject = subject, msg_body = body\<rparr>"

definition passwordExpired :: "auth \<Rightarrow> user \<Rightarrow> bool prog" where
  "passwordExpired a u =
     (case u_password_changed_at u of
        None \<Rightarrow> State_Monad.return False
      | Some changed \<Rightarrow>
          if PasswordMaxAge (cfg a) \<le> 0 then State_Monad.return False
          else do { now \<leftarrow> time_Now; State_Monad.return (now - changed > PasswordMaxAge (cfg a)) })"

text \<open>Every error is dropped; a failed count leaves \<open>n\<close> at zero.\<close>

definition recordFailedLogin :: "auth \<Rightarrow> string \<Rightarrow> user option \<Rightarrow> string option \<Rightarrow> unit prog" where
  "recordFailedLogin a failureKey0 known ip = do {
     let failureKey = normalizeLogin failureKey0;
     _ \<leftarrow> repo_now (\<lambda>now. InsertFailedLogin now failureKey ip);
     now \<leftarrow> time_Now;
     r \<leftarrow> repo (CountFailedLogins failureKey (now - LoginFailWindow (cfg a)));
     let n = (case r of Inl _ \<Rightarrow> 0 | Inr k \<Rightarrow> int k);
     _ \<leftarrow> (if n \<ge> LoginFailMax (cfg a) then do {
            now2 \<leftarrow> time_Now;
            (case known of
               None \<Rightarrow> ret ()
             | Some u \<Rightarrow> repo (SetLockedUntil (u_id u) (Some (now2 + LoginLockDuration (cfg a))))) }
          else ret ());
     _ \<leftarrow> (if n = NotifyOnFailThreshold (cfg a) \<and> NotifyOnFailThreshold (cfg a) > 0
          then (case known of
                  None \<Rightarrow> ret ()
                | Some u \<Rightarrow> (case u_email u of
                    None \<Rightarrow> ret ()
                  | Some em \<Rightarrow> mail_to em ''Security alert''
                      ''Multiple failed sign-in attempts were detected for your account.''))
          else ret ());
     State_Monad.return () }"

definition reject_login :: "auth \<Rightarrow> string \<Rightarrow> user option \<Rightarrow> string option \<Rightarrow> login_password_result svc" where
  "reject_login a failureKey known ip = do {
     recordFailedLogin a failureKey known ip;
     fail ErrInvalidCredentials }"

text \<open>The part after the password has been accepted: the challenge and its code.\<close>

definition issue_login_challenge :: "auth \<Rightarrow> user \<Rightarrow> login_password_result svc" where
  "issue_login_challenge a u =
     checked (if \<not> SkipLoginOTP (cfg a) then randomNumericCode (OTPCodeLength (cfg a)) else ret []) (\<lambda>otp. do {
       x \<leftarrow> uuid_New;
       let challenge = uuid_String (alib a) x;
       let chash = hashOTP a (otpPepper a) otp;
       now \<leftarrow> time_Now;
       newID \<leftarrow> uuid_New;
       checked (repo_now (\<lambda>at. CreateEmailOTP newID at (u_id u) OTPLogin chash (now + OTPCodeTTL (cfg a)) (Some challenge))) (\<lambda>_. do {
         _ \<leftarrow> (case u_email u of
                None \<Rightarrow> ret ()
              | Some em \<Rightarrow> if SkipLoginOTP (cfg a) then ret ()
                  else mail_to em ''Your login code''
                    (''Code: '' @ otp @ '' (expires in '' @ duration_String (alib a) (OTPCodeTTL (cfg a)) @ '')''));
         ret \<lparr>OTPRequired = \<not> SkipLoginOTP (cfg a), PasswordExpired = False, LoginChallenge = challenge\<rparr> }) })"

definition LoginPassword :: "auth \<Rightarrow> string \<Rightarrow> string \<Rightarrow> string option \<Rightarrow> login_password_result svc" where
  "LoginPassword a login0 password ip =
     (let login = normalizeLogin login0
      in checked (repo (GetHumanUserByLoginOrEmail login)) (\<lambda>found.
        case found of
          None \<Rightarrow> reject_login a login None ip
        | Some u \<Rightarrow>
            if u_kind u \<noteq> UserHuman then reject_login a login None ip
            else if u_banned_at u \<noteq> None then fail ErrBanned
            else do {
              locked \<leftarrow> (case u_locked_until u of
                  None \<Rightarrow> State_Monad.return False
                | Some t \<Rightarrow> do { now \<leftarrow> time_Now; State_Monad.return (now < t) });
              (if locked then fail ErrLocked
               else case u_password_hash u of
                 None \<Rightarrow> reject_login a (u_login u) (Some u) ip
               | Some h \<Rightarrow>
                   if VerifyPassword (alib a) password h \<noteq> Inr True then reject_login a (u_login u) (Some u) ip
                   else do {
                     expired \<leftarrow> passwordExpired a u;
                     (if expired then ret \<lparr>OTPRequired = False, PasswordExpired = True, LoginChallenge = []\<rparr>
                      else issue_login_challenge a u) }) }))"

section \<open>The code step\<close>

record token_pair =
  AccessToken :: string
  RefreshToken :: string
  ExpiresAt :: instant

definition issueTokenPair :: "auth \<Rightarrow> user \<Rightarrow> string \<Rightarrow> string \<Rightarrow> (token_pair \<times> user) svc" where
  "issueTokenPair a u0 deviceID deviceLabel =
     (if u_banned_at u0 \<noteq> None then fail ErrBanned
      else checked (ensureSigningBootstrap a) (\<lambda>_.
        checked randomRefreshToken (\<lambda>rawRefresh. do {
          let th = hashRefreshToken a rawRefresh;
          now \<leftarrow> time_Now;
          newID \<leftarrow> uuid_New;
          r \<leftarrow> repo_now (\<lambda>at. UpsertRefreshSessionForActiveVersion newID at (u_id u0) (u_token_version u0)
                 deviceID deviceLabel th (now + RefreshTokenTTL (cfg a)) (MaxSessionsPerUser (cfg a)));
          (case r of
             Inl e \<Rightarrow>
               if e = RepoError ErrUserInactive then fail ErrBanned
               else if e = RepoError ErrTokenVersionMismatch then fail ErrInvalidCredentials
               else if e = RepoError ErrInvalidMaxSessions then fail (ErrInvalidArgument [])
               else fail e
           | Inr (u, _) \<Rightarrow>
               checked (currentSigningSecret a) (\<lambda>(kid, sec).
                 checked (SignAccess (alib a) sec kid (uuid_String (alib a) (u_id u)) (u_login u) TypeAccess
                     (u_token_version u) (AccessTokenTTL (cfg a))) (\<lambda>access. do {
                   _ \<leftarrow> (case u_email u of
                          None \<Rightarrow> ret ()
                        | Some em \<Rightarrow>
                            let device = (if TrimSpace deviceLabel = [] then deviceID else TrimSpace deviceLabel)
                            in mail_to em ''New sign-in'' (''Account '' @ u_login u @ '' signed in from '' @ device));
                   now2 \<leftarrow> time_Now;
                   ret (\<lparr>AccessToken = access, RefreshToken = rawRefresh,
                         ExpiresAt = now2 + AccessTokenTTL (cfg a)\<rparr>, u) }))) })))"

definition LoginVerifyOTP :: "auth \<Rightarrow> string \<Rightarrow> string \<Rightarrow> string \<Rightarrow> string \<Rightarrow> (token_pair \<times> user) svc" where
  "LoginVerifyOTP a challenge0 otp deviceID deviceLabel =
     (let challenge = TrimSpace challenge0
      in if challenge = [] then fail ErrOTPInvalid
         else do {
           found \<leftarrow> repo (GetOTPByCorrelation challenge);
           (case found of
              Inr (Some row) \<Rightarrow>
                if o_purpose row \<noteq> OTPLogin then fail ErrOTPInvalid
                else do {
                  now \<leftarrow> time_Now;
                  (if now > o_expires_at row then fail ErrOTPInvalid
                   else if \<not> otpCodesEqual a (otpPepper a) otp (o_code_hash row) then do {
                     _ \<leftarrow> repo (IncrementOTPAttempt (o_id row));
                     _ \<leftarrow> repo_now (\<lambda>at. ConsumeOTP at (o_id row));
                     fail ErrOTPInvalid }
                   else do {
                     consumed \<leftarrow> repo_now (\<lambda>at. ConsumeOTP at (o_id row));
                     (case consumed of
                        Inl _ \<Rightarrow> fail ErrOTPInvalid
                      | Inr _ \<Rightarrow> do {
                          user \<leftarrow> repo (GetUserByID (o_user row));
                          (case user of
                             Inr (Some u) \<Rightarrow> if u_banned_at u \<noteq> None then fail ErrBanned
                                 else issueTokenPair a u deviceID deviceLabel
                           | _ \<Rightarrow> fail ErrOTPInvalid) }) }) }
            | _ \<Rightarrow> fail ErrOTPInvalid) })"

section \<open>Sessions\<close>

definition Refresh :: "auth \<Rightarrow> string \<Rightarrow> string \<Rightarrow> string \<Rightarrow> token_pair svc" where
  "Refresh a refreshToken deviceID deviceLabel = do {
     let th = hashRefreshToken a refreshToken;
     found \<leftarrow> repo_now (\<lambda>at. FindRefreshByTokenHash at th);
     (case found of
        Inr (Some row) \<Rightarrow> do {
          now \<leftarrow> time_Now;
          (if s_revoked_at row \<noteq> None \<or> now > s_expires_at row then fail ErrInvalidCredentials
           else do {
             user \<leftarrow> repo (GetUserByID (s_user row));
             (case user of
                Inr (Some u0) \<Rightarrow>
                  if u_banned_at u0 \<noteq> None then fail ErrBanned
                  else checked (ensureSigningBootstrap a) (\<lambda>_.
                    checked randomRefreshToken (\<lambda>newRaw. do {
                      let newHash = hashRefreshToken a newRaw;
                      now2 \<leftarrow> time_Now;
                      r \<leftarrow> repo_now (\<lambda>at. RotateRefreshSessionForActiveVersion at (s_user row) (s_id row)
                             (u_token_version u0) th newHash (now2 + RefreshTokenTTL (cfg a)));
                      (case r of
                         Inl e \<Rightarrow>
                           if e = RepoError ErrUserInactive then fail ErrBanned
                           else if e = RepoError ErrTokenVersionMismatch \<or> e = RepoError ErrRefreshInvalid
                           then fail ErrInvalidCredentials
                           else fail e
                       | Inr u \<Rightarrow>
                           checked (currentSigningSecret a) (\<lambda>(kid, sec).
                             checked (SignAccess (alib a) sec kid (uuid_String (alib a) (u_id u)) (u_login u) TypeAccess
                                 (u_token_version u) (AccessTokenTTL (cfg a))) (\<lambda>access. do {
                               now3 \<leftarrow> time_Now;
                               ret \<lparr>AccessToken = access, RefreshToken = newRaw,
                                    ExpiresAt = now3 + AccessTokenTTL (cfg a)\<rparr> }))) }))
              | _ \<Rightarrow> fail ErrInvalidCredentials) }) }
      | _ \<Rightarrow> fail ErrInvalidCredentials) }"

definition Logout :: "auth \<Rightarrow> string \<Rightarrow> unit svc" where
  "Logout a refreshToken = do {
     let th = hashRefreshToken a refreshToken;
     found \<leftarrow> repo_now (\<lambda>at. FindRefreshByTokenHash at th);
     (case found of
        Inr (Some row) \<Rightarrow> repo_now (\<lambda>at. RevokeRefreshSession at (s_id row))
      | _ \<Rightarrow> ret ()) }"

definition IssueServiceToken :: "auth \<Rightarrow> string \<Rightarrow> string \<Rightarrow> (string \<times> instant) svc" where
  "IssueServiceToken a login secret = do {
     found \<leftarrow> repo (GetUserByLogin (normalizeLogin login));
     (case found of
        Inr (Some u) \<Rightarrow>
          (case u_service_secret_hash u of
             None \<Rightarrow> fail ErrInvalidCredentials
           | Some h \<Rightarrow>
               if u_kind u \<noteq> UserService then fail ErrInvalidCredentials
               else if u_banned_at u \<noteq> None then fail ErrBanned
               else if VerifySecret (alib a) secret h \<noteq> Inr True then fail ErrInvalidCredentials
               else checked (ensureSigningBootstrap a) (\<lambda>_.
                 checked (currentSigningSecret a) (\<lambda>(kid, sec). do {
                   now \<leftarrow> time_Now;
                   checked (SignAccess (alib a) sec kid (uuid_String (alib a) (u_id u)) (u_login u) TypeService
                       (u_token_version u) (AccessTokenTTL (cfg a)))
                     (\<lambda>tok. ret (tok, now + AccessTokenTTL (cfg a))) })))
      | _ \<Rightarrow> fail ErrInvalidCredentials) }"

text \<open>The shared head of the methods that mail a code to the signed-in user: the account, its
  address, a code, its challenge.\<close>

definition start_code_mail ::
  "auth \<Rightarrow> uuid \<Rightarrow> otp_purpose \<Rightarrow> string \<Rightarrow> unit svc" where
  "start_code_mail a userID purpose subject = do {
     found \<leftarrow> repo (GetUserByID userID);
     (case found of
        Inr (Some u) \<Rightarrow>
          (case u_email u of
             None \<Rightarrow> fail ErrNotFound
           | Some em \<Rightarrow>
               checked (randomNumericCode (OTPCodeLength (cfg a))) (\<lambda>otp. do {
                 now \<leftarrow> time_Now;
                 newID \<leftarrow> uuid_New;
                 checked (repo_now (\<lambda>at. CreateEmailOTP newID at userID purpose (hashOTP a (otpPepper a) otp)
                     (now + OTPCodeTTL (cfg a)) None))
                   (\<lambda>_. mail_to em subject (''Code: '' @ otp)) }))
      | _ \<Rightarrow> fail ErrNotFound) }"

definition StartSessionRevokeOTP :: "auth \<Rightarrow> uuid \<Rightarrow> unit svc" where
  "StartSessionRevokeOTP a userID = start_code_mail a userID OTPSessionRevoke ''Confirm session revoke''"

text \<open>The shared check of a mailed code: the newest open challenge, its expiry, its hash; a wrong
  code counts an attempt, a right one is consumed.\<close>

definition check_mailed_code :: "auth \<Rightarrow> email_otp option svc \<Rightarrow> string \<Rightarrow> unit svc" where
  "check_mailed_code a lookup otp = do {
     found \<leftarrow> lookup;
     (case found of
        Inr (Some row) \<Rightarrow> do {
          now \<leftarrow> time_Now;
          (if now > o_expires_at row then fail ErrOTPInvalid
           else if \<not> otpCodesEqual a (otpPepper a) otp (o_code_hash row) then do {
             _ \<leftarrow> repo (IncrementOTPAttempt (o_id row));
             fail ErrOTPInvalid }
           else do {
             consumed \<leftarrow> repo_now (\<lambda>at. ConsumeOTP at (o_id row));
             (case consumed of Inl _ \<Rightarrow> fail ErrOTPInvalid | Inr _ \<Rightarrow> ret ()) }) }
      | _ \<Rightarrow> fail ErrOTPInvalid) }"

definition RevokeSessionWithOTP :: "auth \<Rightarrow> uuid \<Rightarrow> uuid \<Rightarrow> string \<Rightarrow> unit svc" where
  "RevokeSessionWithOTP a userID sessionID otp =
     checked (check_mailed_code a (repo (GetLatestOTP userID OTPSessionRevoke)) otp) (\<lambda>_. do {
       found \<leftarrow> repo (GetRefreshByID sessionID);
       (case found of
          Inr (Some sess) \<Rightarrow> if s_user sess \<noteq> userID then fail ErrNotFound
              else repo_now (\<lambda>at. RevokeRefreshSession at sessionID)
        | _ \<Rightarrow> fail ErrNotFound) })"

definition RevokeOwnSession :: "uuid \<Rightarrow> uuid \<Rightarrow> unit svc" where
  "RevokeOwnSession userID sessionID =
     checked (repo (GetRefreshByID sessionID)) (\<lambda>found.
       case found of
         None \<Rightarrow> fail ErrNotFound
       | Some sess \<Rightarrow> if s_user sess \<noteq> userID then fail ErrNotFound
           else repo_now (\<lambda>at. RevokeRefreshSession at sessionID))"

end
