(* ===== verification/Passwords.thy ===== *)
theory Passwords
  imports Login
begin

text \<open>
  Changing and resetting passwords: the password methods of \<open>internal/service/auth.go\<close> and the
  stateful part of \<open>internal/service/password_policy.go\<close>. Log lines are not part of the model.
\<close>

section \<open>Changing\<close>

definition StartPasswordChange2FA :: "auth \<Rightarrow> uuid \<Rightarrow> unit svc" where
  "StartPasswordChange2FA a userID = start_code_mail a userID OTPPasswordChange ''Confirm password change''"

definition validateNewPassword :: "auth \<Rightarrow> uuid \<Rightarrow> string \<Rightarrow> unit svc" where
  "validateNewPassword a userID newPassword =
     checked (ensure (checkPasswordComplexity (alib a) newPassword)) (\<lambda>_. do {
       found \<leftarrow> repo (GetUserByID userID);
       (case found of
          Inr (Some u) \<Rightarrow>
            checked (repo (ListPasswordHistory userID (PasswordHistoryN (cfg a)))) (\<lambda>entries.
              ensure (validatePasswordHistory (alib a) newPassword entries (PasswordHistoryEncryptionKey (cfg a))))
        | _ \<Rightarrow> fail ErrNotFound) })"

definition appendPasswordHistory :: "auth \<Rightarrow> uuid \<Rightarrow> string \<Rightarrow> string \<Rightarrow> unit svc" where
  "appendPasswordHistory a userID newPassword newHash =
     checked (pure (DecodeKey32 (PasswordHistoryEncryptionKey (cfg a)))) (\<lambda>plainKey. do {
       rn \<leftarrow> rand_Read 12;
       checked (pure (EncryptAESGCM (alib a) rn plainKey newPassword [])) (\<lambda>(nonce, cipher). do {
         newID \<leftarrow> uuid_New;
         checked (repo_now (\<lambda>at. InsertPasswordHistory newID at userID newHash cipher nonce)) (\<lambda>_.
           repo (TrimPasswordHistory userID (PasswordHistoryN (cfg a)))) }) })"

definition ChangePassword :: "auth \<Rightarrow> uuid \<Rightarrow> string \<Rightarrow> string \<Rightarrow> string \<Rightarrow> unit svc" where
  "ChangePassword a userID oldPassword newPassword otp = do {
     found \<leftarrow> repo (GetUserByID userID);
     (case found of
        Inr (Some u) \<Rightarrow>
          (case u_password_hash u of
             None \<Rightarrow> fail ErrInvalidCredentials
           | Some h \<Rightarrow>
               if VerifyPassword (alib a) oldPassword h \<noteq> Inr True then fail ErrInvalidCredentials
               else checked (check_mailed_code a (repo (GetLatestOTP userID OTPPasswordChange)) otp) (\<lambda>_.
                 checked (validateNewPassword a userID newPassword) (\<lambda>_. do {
                   salt \<leftarrow> rand_Read argonSaltLen;
                   checked (pure (HashPassword (alib a) salt newPassword)) (\<lambda>nhash.
                     checked (repo_now (\<lambda>at. UpdatePassword at userID nhash)) (\<lambda>_.
                       checked (appendPasswordHistory a userID newPassword nhash) (\<lambda>_. do {
                         _ \<leftarrow> (case u_email u of
                                None \<Rightarrow> ret ()
                              | Some em \<Rightarrow> mail_to em ''Password changed'' ''Your password was changed.'');
                         ret () }))) })))
      | _ \<Rightarrow> fail ErrNotFound) }"

section \<open>Compensating writes\<close>

text \<open>
  The loop of at most three attempts under a context of its own: it ends with the first success, and
  after a failure when the context has expired, which happens when the clock reaches its deadline.
\<close>

fun retry :: "nat \<Rightarrow> instant \<Rightarrow> 'a svc \<Rightarrow> 'a option prog" where
  "retry 0 deadline m = State_Monad.return None"
| "retry (Suc n) deadline m = do {
     r \<leftarrow> m;
     (case r of
        Inr x \<Rightarrow> State_Monad.return (Some x)
      | Inl _ \<Rightarrow> do {
          now \<leftarrow> time_Now;
          (if now \<ge> deadline then State_Monad.return None else retry n deadline m) }) }"

section \<open>Resetting\<close>

text \<open>The part of the reset job after the reservation and the delivery.\<close>

definition activate_reset :: "uuid \<Rightarrow> uuid \<Rightarrow> reset_activation option prog" where
  "activate_reset userID otpID = do {
     start \<leftarrow> time_Now;
     retry 3 (start + 2 * Second)
       (do { now \<leftarrow> time_Now; repo (ActivatePasswordResetOTP userID otpID now) }) }"

definition reset_eligible :: "svc_error + user option \<Rightarrow> user option" where
  "reset_eligible r =
     (case r of
        Inr (Some u) \<Rightarrow>
          if u_email u = None \<or> u_kind u \<noteq> UserHuman \<or> u_banned_at u \<noteq> None then None else Some u
      | _ \<Rightarrow> None)"

definition processPasswordReset :: "auth \<Rightarrow> string \<Rightarrow> unit prog" where
  "processPasswordReset a login = do {
     found \<leftarrow> repo (GetHumanUserByLoginOrEmail login);
     (case reset_eligible found of
        None \<Rightarrow> State_Monad.return ()
      | Some u \<Rightarrow> do {
          otp \<leftarrow> randomNumericCode (OTPCodeLength (cfg a));
          (case otp of
             Inl _ \<Rightarrow> State_Monad.return ()
           | Inr otp \<Rightarrow> do {
               let chash = hashOTP a (otpPepper a) otp;
               now \<leftarrow> time_Now;
               now2 \<leftarrow> time_Now;
               newID \<leftarrow> uuid_New;
               issued \<leftarrow> repo (ReservePasswordResetOTP newID (u_id u) chash now2
                          (now + OTPCodeTTL (cfg a)) (OTPResetMinInterval (cfg a)));
               (case issued of
                  Inr (Some otpID) \<Rightarrow> do {
                    sent \<leftarrow> mail_to (the (u_email u)) ''Reset your password'' (''Code: '' @ otp);
                    (case sent of
                       Inl _ \<Rightarrow> State_Monad.return ()
                     | Inr _ \<Rightarrow> do {
                         _ \<leftarrow> activate_reset (u_id u) otpID;
                         State_Monad.return () }) }
                | _ \<Rightarrow> State_Monad.return ()) }) }) }"

text \<open>The callback draws its salt and its nonce inside the transaction; drawing them before it
  gives it the same values.\<close>

definition ResetPasswordWithOTP :: "auth \<Rightarrow> string \<Rightarrow> string \<Rightarrow> string \<Rightarrow> unit svc" where
  "ResetPasswordWithOTP a login0 otp newPassword = do {
     let login = normalizeLogin login0;
     found \<leftarrow> repo (GetHumanUserByLoginOrEmail login);
     (case found of
        Inr (Some u) \<Rightarrow>
          if u_kind u \<noteq> UserHuman \<or> u_banned_at u \<noteq> None then fail ErrOTPInvalid
          else do {
            let maxAttempts = (if OTPMaxAttempts (cfg a) \<le> 0 then 5 else OTPMaxAttempts (cfg a));
            now \<leftarrow> time_Now;
            salt \<leftarrow> rand_Read argonSaltLen;
            rn \<leftarrow> rand_Read 12;
            newID \<leftarrow> uuid_New;
            completed \<leftarrow> repo (CompletePasswordResetOTP newID (u_id u) (hashOTP a (otpPepper a) otp) now
              maxAttempts (PasswordHistoryN (cfg a))
              (Some (\<lambda>history. preparePasswordResetMutation (alib a) salt rn newPassword history
                 (PasswordHistoryEncryptionKey (cfg a)))));
            (case passwordResetCompletionError completed of
               Some e \<Rightarrow> fail e
             | None \<Rightarrow> do {
                 _ \<leftarrow> (case u_email u of
                        None \<Rightarrow> ret ()
                      | Some em \<Rightarrow> mail_to em ''Password changed'' ''Your password was reset.'');
                 ret () }) }
      | _ \<Rightarrow> fail ErrOTPInvalid) }"

end
