(* ===== verification/Validation.thy ===== *)
theory Validation
  imports Password_Policy "HOL-Library.Word" "HOL-Library.Signed_Division"
begin

text \<open>
  Validation of what arrives on the wire: \<open>internal/service/validation.go\<close>, the credential
  checks at the head of \<open>internal/service/operations.go\<close>, and
  \<open>internal/service/callback_url.go\<close>. Seconds and nanoseconds are machine integers here, since
  overflow is what the code guards against.
\<close>

section \<open>Durations\<close>

type_synonym int64 = "64 word"
type_synonym int32 = "32 word"

definition MaxInt64 :: int where "MaxInt64 = 2 ^ 63 - 1"
definition MinInt64 :: int where "MinInt64 = - (2 ^ 63)"

abbreviation (input) sgt :: "'a::len word \<Rightarrow> 'a word \<Rightarrow> bool" where "sgt a b \<equiv> b <s a"

definition DurationFromParts :: "int64 \<Rightarrow> int32 \<Rightarrow> svc_error + int64" where
  "DurationFromParts seconds nanos =
     (if nanos <s - 999999999 \<or> sgt nanos 999999999 \<or> (sgt seconds 0 \<and> nanos <s 0) \<or> (seconds <s 0 \<and> sgt nanos 0)
      then Inl (ErrInvalidArgument ''invalid duration'')
      else
        let nanosPerSecond = 1000000000 :: int64;
            maxSeconds = word_of_int (MaxInt64 sdiv 1000000000);
            minSeconds = word_of_int (MinInt64 sdiv 1000000000)
        in if sgt seconds maxSeconds \<or> seconds <s minSeconds
           then Inl (ErrInvalidArgument ''duration overflows time.Duration'')
           else
             let duration = seconds * nanosPerSecond;
                 nanoDuration = scast nanos :: int64
             in if sgt nanoDuration 0 \<and> sgt duration (word_of_int MaxInt64 - nanoDuration)
                then Inl (ErrInvalidArgument ''duration overflows time.Duration'')
                else if nanoDuration <s 0 \<and> duration <s word_of_int MinInt64 - nanoDuration
                then Inl (ErrInvalidArgument ''duration overflows time.Duration'')
                else Inr (duration + nanoDuration))"

definition DurationFromSeconds :: "int64 \<Rightarrow> svc_error + int64" where
  "DurationFromSeconds seconds = DurationFromParts seconds 0"

lemma sint_arith:
  fixes a b :: int64
  shows "MinInt64 \<le> sint a + sint b \<Longrightarrow> sint a + sint b \<le> MaxInt64 \<Longrightarrow> sint (a + b) = sint a + sint b"
    and "MinInt64 \<le> sint a - sint b \<Longrightarrow> sint a - sint b \<le> MaxInt64 \<Longrightarrow> sint (a - b) = sint a - sint b"
    and "MinInt64 \<le> sint a * sint b \<Longrightarrow> sint a * sint b \<le> MaxInt64 \<Longrightarrow> sint (a * b) = sint a * sint b"
  by (simp_all add: sint_word_ariths MinInt64_def MaxInt64_def signed_take_bit_int_eq_self)

lemma sint_of_int64: "MinInt64 \<le> k \<Longrightarrow> k \<le> MaxInt64 \<Longrightarrow> sint (word_of_int k :: int64) = k"
  by (simp add: MinInt64_def MaxInt64_def sint_sbintrunc' signed_take_bit_int_eq_self)

lemma sint_scast32: "sint (scast (n :: int32) :: int64) = sint n"
proof -
  have "- (2 ^ 31) \<le> sint n" "sint n < 2 ^ 31" using sint_ge [of n] sint_lt [of n] by simp_all
  then show ?thesis by (simp add: signed_scast_eq signed_take_bit_int_eq_self)
qed

lemma sint64_range: "MinInt64 \<le> sint (a :: int64)" "sint (a :: int64) \<le> MaxInt64"
  using sint_ge [of a] sint_lt [of a] by (simp_all add: MinInt64_def MaxInt64_def)

lemma second_bounds: "MaxInt64 sdiv 1000000000 = 9223372036" "MinInt64 sdiv 1000000000 = - 9223372036"
  by (simp_all add: MaxInt64_def MinInt64_def signed_divide_int_def sgn_if)

lemma sint_consts:
  "sint (1000000000 :: int64) = 1000000000" "sint (999999999 :: int32) = 999999999"
  "sint (- 999999999 :: int32) = - 999999999"
  "sint (word_of_int 9223372036 :: int64) = 9223372036" "sint (word_of_int (- 9223372036) :: int64) = - 9223372036"
  "sint (word_of_int MaxInt64 :: int64) = MaxInt64" "sint (word_of_int MinInt64 :: int64) = MinInt64"
  by (simp, simp, simp, simp, simp, rule sint_of_int64, simp_all add: MaxInt64_def MinInt64_def sint_of_int64)

text \<open>What the wire fields denote, and when they denote a duration at all.\<close>

definition parts_value :: "int64 \<Rightarrow> int32 \<Rightarrow> int" where
  "parts_value seconds nanos = sint seconds * 1000000000 + sint nanos"

definition parts_valid :: "int64 \<Rightarrow> int32 \<Rightarrow> bool" where
  "parts_valid seconds nanos \<longleftrightarrow> \<bar>sint nanos\<bar> \<le> 999999999 \<and> \<not> (sint seconds > 0 \<and> sint nanos < 0)
     \<and> \<not> (sint seconds < 0 \<and> sint nanos > 0)
     \<and> MinInt64 \<le> parts_value seconds nanos \<and> parts_value seconds nanos \<le> MaxInt64"

lemma DurationFromParts_bad:
  assumes "\<bar>sint nanos\<bar> > 999999999 \<or> (sint seconds > 0 \<and> sint nanos < 0) \<or> (sint seconds < 0 \<and> sint nanos > 0)"
  shows "DurationFromParts seconds nanos = Inl (ErrInvalidArgument ''invalid duration'')"
  using assms by (auto simp: DurationFromParts_def word_sless_alt sint_consts)

lemma DurationFromParts_far:
  assumes "\<not> (\<bar>sint nanos\<bar> > 999999999 \<or> (sint seconds > 0 \<and> sint nanos < 0) \<or> (sint seconds < 0 \<and> sint nanos > 0))"
    and "\<bar>sint seconds\<bar> > 9223372036"
  shows "DurationFromParts seconds nanos = Inl (ErrInvalidArgument ''duration overflows time.Duration'')"
  using assms by (auto simp: DurationFromParts_def word_sless_alt sint_consts second_bounds)

lemma DurationFromParts_near:
  assumes "\<not> (\<bar>sint nanos\<bar> > 999999999 \<or> (sint seconds > 0 \<and> sint nanos < 0) \<or> (sint seconds < 0 \<and> sint nanos > 0))"
    and "\<bar>sint seconds\<bar> \<le> 9223372036"
  shows "DurationFromParts seconds nanos =
    (if MinInt64 \<le> parts_value seconds nanos \<and> parts_value seconds nanos \<le> MaxInt64
     then Inr (seconds * 1000000000 + scast nanos)
     else Inl (ErrInvalidArgument ''duration overflows time.Duration''))"
proof -
  have dur: "sint (seconds * 1000000000) = sint seconds * 1000000000"
    using assms(2) by (subst sint_arith(3)) (auto simp: sint_consts MinInt64_def MaxInt64_def)
  have up: "sint (word_of_int MaxInt64 - scast nanos :: int64) = MaxInt64 - sint nanos" if "sint nanos > 0"
    using assms(1) that by (subst sint_arith(2)) (auto simp: sint_consts sint_scast32 MinInt64_def MaxInt64_def)
  have down: "sint (word_of_int MinInt64 - scast nanos :: int64) = MinInt64 - sint nanos" if "sint nanos < 0"
    using assms(1) that by (subst sint_arith(2)) (auto simp: sint_consts sint_scast32 MinInt64_def MaxInt64_def)
  have range: "MinInt64 \<le> sint seconds * 1000000000" "sint seconds * 1000000000 \<le> MaxInt64"
    using assms(2) by (auto simp: MinInt64_def MaxInt64_def)
  show ?thesis
    using assms range unfolding DurationFromParts_def Let_def word_sless_alt sint_consts second_bounds parts_value_def
    by (cases "sint nanos > 0"; cases "sint nanos < 0") (auto simp: dur up down sint_scast32)
qed

text \<open>
  C38. A wire duration is accepted exactly when its fields are well formed and it fits 64 bits of
  nanoseconds; the accepted value is the exact number of nanoseconds, so no step of the
  computation wraps around, and every other input is refused as an invalid argument.
\<close>

theorem duration_exact:
  "(parts_valid seconds nanos \<longrightarrow>
      (\<exists>d. DurationFromParts seconds nanos = Inr d \<and> sint d = parts_value seconds nanos))
   \<and> (\<not> parts_valid seconds nanos \<longrightarrow> (\<exists>m. DurationFromParts seconds nanos = Inl (ErrInvalidArgument m)))"
proof (cases "\<bar>sint nanos\<bar> > 999999999 \<or> (sint seconds > 0 \<and> sint nanos < 0) \<or> (sint seconds < 0 \<and> sint nanos > 0)")
  case True
  with DurationFromParts_bad [OF True] show ?thesis by (auto simp: parts_valid_def)
next
  case signs: False
  show ?thesis
  proof (cases "\<bar>sint seconds\<bar> > 9223372036")
    case True
    then have "\<not> parts_valid seconds nanos"
      using signs by (auto simp: parts_valid_def parts_value_def MinInt64_def MaxInt64_def)
    with DurationFromParts_far [OF signs True] show ?thesis by simp
  next
    case False
    have dur: "sint (seconds * 1000000000) = sint seconds * 1000000000"
      using False by (subst sint_arith(3)) (auto simp: sint_consts MinInt64_def MaxInt64_def)
    have "sint (seconds * 1000000000 + scast nanos) = parts_value seconds nanos"
      if "MinInt64 \<le> parts_value seconds nanos" "parts_value seconds nanos \<le> MaxInt64"
      using that by (subst sint_arith(1)) (simp_all add: dur sint_scast32 parts_value_def)
    with DurationFromParts_near [OF signs] False signs show ?thesis by (auto simp: parts_valid_def)
  qed
qed

theorem duration_exact_witness:
  "parts_valid 5 7 \<and> (\<exists>d. DurationFromParts 5 7 = Inr d \<and> sint d = 5000000007)"
proof -
  have "sint (5 :: int64) = 5" "sint (7 :: int32) = 7" by simp_all
  then have "parts_valid 5 7" "parts_value 5 7 = 5000000007"
    by (simp_all add: parts_valid_def parts_value_def MinInt64_def MaxInt64_def)
  with duration_exact [of 5 7] show ?thesis by simp
qed

section \<open>Lifetimes\<close>

definition Minute :: duration where "Minute = 60 * Second"
definition Hour :: duration where "Hour = 60 * Minute"

definition normalizeStepUpTTL :: "duration \<Rightarrow> svc_error + duration" where
  "normalizeStepUpTTL ttl =
     (if ttl = 0 then Inr (5 * Minute)
      else if ttl < 0 \<or> ttl > 24 * Hour
      then Inl (ErrInvalidArgument ''step-up ttl must be greater than zero and at most 24h'')
      else Inr ttl)"

definition normalizeInviteTTL :: "duration \<Rightarrow> svc_error + duration" where
  "normalizeInviteTTL ttl =
     (if ttl = 0 then Inr (24 * Hour)
      else if ttl < 0 then Inl (ErrInvalidArgument ''invite ttl must not be negative'')
      else Inr ttl)"

lemma normalizeStepUpTTL_range: "normalizeStepUpTTL ttl = Inr t \<Longrightarrow> 0 < t \<and> t \<le> 24 * Hour"
  by (auto simp: normalizeStepUpTTL_def Hour_def Minute_def Second_def split: if_splits)

lemma normalizeInviteTTL_pos: "normalizeInviteTTL ttl = Inr t \<Longrightarrow> 0 < t"
  by (auto simp: normalizeInviteTTL_def Hour_def Minute_def Second_def split: if_splits)

section \<open>Identities and service credentials\<close>

definition normalizePublicIdentity :: "string \<Rightarrow> svc_error + string" where
  "normalizePublicIdentity identity0 =
     (let identity = normalizeLogin identity0
      in if identity = [] then Inl (ErrInvalidArgument ''login is required'')
         else if length identity > 255 then Inl (ErrInvalidArgument ''login is too long'')
         else Inr identity)"

fun replace_all :: "string \<Rightarrow> string \<Rightarrow> string \<Rightarrow> string" where
  "replace_all old new [] = []"
| "replace_all old new (c # s) =
     (if take (length old) (c # s) = old then new @ replace_all old new (drop (length old - 1) s)
      else c # replace_all old new s)"

definition validateServiceAccountCredentials :: "lib \<Rightarrow> string \<Rightarrow> string \<Rightarrow> svc_error + string" where
  "validateServiceAccountCredentials L login0 secret =
     (let login = normalizeLogin login0
      in if login = [] then Inl (ErrInvalidArgument ''service account login is required'')
         else if length login > 255 then Inl (ErrInvalidArgument ''service account login is too long'')
         else if length secret > 1024 then Inl (ErrInvalidArgument ''service secret is too long'')
         else case checkPasswordComplexity L secret of
           Some (ErrPasswordPolicy detail) \<Rightarrow>
             Inl (ErrPasswordPolicy (replace_all ''password'' ''service secret'' detail))
         | Some e \<Rightarrow> Inl e
         | None \<Rightarrow> Inr login)"

lemma service_credentials_InrD:
  assumes "validateServiceAccountCredentials L lg secret = Inr x"
  shows "x = normalizeLogin lg" "x \<noteq> []" "length x \<le> 255" "length secret \<le> 1024" "checkPasswordComplexity L secret = None"
  using assms by (auto simp: validateServiceAccountCredentials_def Let_def split: if_splits option.splits svc_error.splits)

section \<open>Callback addresses\<close>

definition values_set :: "string \<Rightarrow> string \<Rightarrow> url_values \<Rightarrow> url_values" where
  "values_set k v q = (k, [v]) # filter (\<lambda>(k', _). k' \<noteq> k) q"

text \<open>A URL without a scheme or host, or with another scheme, is refused; the token goes into the
  query, or into the query of the fragment when there is a fragment.\<close>

definition oneTimeCallbackURL :: "lib \<Rightarrow> string \<Rightarrow> string \<Rightarrow> string \<Rightarrow> svc_error + string" where
  "oneTimeCallbackURL L configured fallback token =
     (let raw = (let r = TrimSpace configured in if r = [] then fallback else r)
      in case url_Parse L raw of
           None \<Rightarrow> Inl (ErrOther ''invalid callback URL'')
         | Some callback \<Rightarrow>
             if url_host callback = [] \<or> (url_scheme callback \<noteq> ''http'' \<and> url_scheme callback \<noteq> ''https'')
             then Inl (ErrOther ''invalid callback URL'')
             else if url_fragment callback = [] then
               let query = values_set ''token'' token (url_Query L (url_raw_query callback))
               in Inr (url_String L (callback\<lparr>url_raw_query := values_Encode L query\<rparr>))
             else
               let (fragmentPath, fragmentQuery) =
                     (case cut (CHR ''?'') (url_fragment callback) of Some pq \<Rightarrow> pq | None \<Rightarrow> (url_fragment callback, []))
               in case url_ParseQuery L fragmentQuery of
                    None \<Rightarrow> Inl (ErrOther ''invalid callback fragment query'')
                  | Some query \<Rightarrow>
                      Inr (url_String L (callback\<lparr>url_fragment :=
                        fragmentPath @ ''?'' @ values_Encode L (values_set ''token'' token query)\<rparr>)))"

end
