(* ===== verification/Onboarding.thy ===== *)
theory Onboarding
  imports Passwords Registration Validation
begin

text \<open>
  How an account comes to exist and how its owner enters without a password:
  \<open>Register\<close> of \<open>internal/service/auth.go\<close>, \<open>internal/service/invites.go\<close>,
  \<open>internal/service/magic_link.go\<close> and \<open>internal/service/bootstrap.go\<close>.
\<close>

section \<open>Registration\<close>

definition Auth_RegistrationOpen :: "auth \<Rightarrow> bool" where
  "Auth_RegistrationOpen a = RegistrationOpen (cfg a)"

text \<open>The invite names an address and the registrant gave another one. The stored address is compared
  untrimmed.\<close>

definition invite_excludes :: "string \<Rightarrow> registration_invite option \<Rightarrow> bool" where
  "invite_excludes em invite =
     (case invite of
        None \<Rightarrow> False
      | Some v \<Rightarrow> (case i_email v of None \<Rightarrow> False | Some e \<Rightarrow> TrimSpace e \<noteq> [] \<and> \<not> EqualFold em e))"

definition Register :: "auth \<Rightarrow> string \<Rightarrow> string \<Rightarrow> string \<Rightarrow> string \<Rightarrow> uuid svc" where
  "Register a inviteToken0 login0 email0 password =
     (let inviteToken = TrimSpace inviteToken0;
          openRegistration = (inviteToken = [] \<and> RegistrationOpen (cfg a))
      in if inviteToken = [] \<and> \<not> openRegistration then fail ErrInvalidInvite
         else checked
           (if openRegistration then ret None
            else checked (repo_now (\<lambda>at. GetValidRegistrationInviteByTokenHash at (hashRefreshToken a inviteToken)))
              (\<lambda>invite. if invite = None then fail ErrInvalidInvite else ret invite)) (\<lambda>invite.
         let login = normalizeLogin login0;
             em = ToLower (TrimSpace email0)
         in if invite_excludes em invite then fail ErrInvalidInvite
            else checked (ensure (checkPasswordComplexity (alib a) password)) (\<lambda>_. do {
              salt \<leftarrow> rand_Read argonSaltLen;
              checked (pure (HashPassword (alib a) salt password)) (\<lambda>hash.
                checked (pure (DecodeKey32 (PasswordHistoryEncryptionKey (cfg a)))) (\<lambda>historyKey. do {
                  rn \<leftarrow> rand_Read 12;
                  checked (pure (EncryptAESGCM (alib a) rn historyKey password [])) (\<lambda>(nonce, cipher). do {
                    uid \<leftarrow> uuid_New;
                    hid \<leftarrow> uuid_New;
                    (if openRegistration
                     then repo_now (\<lambda>at. RegisterHumanOpen uid hid at login em hash cipher nonce
                            (PasswordHistoryN (cfg a)))
                     else checked (repo_now (\<lambda>at. RegisterHumanWithInvite uid hid at
                              (hashRefreshToken a inviteToken) login em hash cipher nonce (PasswordHistoryN (cfg a))))
                            (\<lambda>registered. case registered of
                               None \<Rightarrow> fail ErrInvalidInvite | Some i \<Rightarrow> ret i)) }) })) })))"

section \<open>Invites\<close>

text \<open>An invalid preview leaves the remaining fields at their zero values.\<close>

record registration_invite_preview =
  Valid :: bool
  Preview_RegistrationOpen :: bool
  Preview_Email :: "string option"
  Preview_Superuser :: bool
  Preview_ExpiresAt :: "instant option"

definition PreviewRegistrationInvite :: "auth \<Rightarrow> string \<Rightarrow> registration_invite_preview svc" where
  "PreviewRegistrationInvite a rawToken0 =
     (let rawToken = TrimSpace rawToken0;
          invalid = \<lparr>Valid = False, Preview_RegistrationOpen = RegistrationOpen (cfg a), Preview_Email = None,
                     Preview_Superuser = False, Preview_ExpiresAt = None\<rparr>
      in if rawToken = [] then ret invalid
         else checked (repo_now (\<lambda>at. GetValidRegistrationInviteByTokenHash at (hashRefreshToken a rawToken)))
           (\<lambda>invite. case invite of
              None \<Rightarrow> ret invalid
            | Some v \<Rightarrow> ret \<lparr>Valid = True, Preview_RegistrationOpen = RegistrationOpen (cfg a),
                Preview_Email = i_email v, Preview_Superuser = i_superuser v,
                Preview_ExpiresAt = Some (i_expires_at v)\<rparr>))"

definition is_slash :: "char \<Rightarrow> bool" where "is_slash c \<longleftrightarrow> c = CHR ''/''"

definition CreateRegistrationInvite ::
  "auth \<Rightarrow> uuid \<Rightarrow> string option \<Rightarrow> bool \<Rightarrow> duration \<Rightarrow> (string \<times> instant \<times> string) svc" where
  "CreateRegistrationInvite a adminID lockedEmail superuser ttl0 =
     checked (pure (normalizeInviteTTL ttl0)) (\<lambda>ttl.
       guarded (IsSuperuser adminID) (do {
         raw \<leftarrow> rand_Read 32;
         (case raw of
            None \<Rightarrow> fail randFailure
          | Some raw \<Rightarrow> do {
              let token = hex_EncodeToString raw;
              now \<leftarrow> time_Now;
              let expiresAt = now + ttl;
              newID \<leftarrow> uuid_New;
              checked (repo (InsertRegistrationInvite newID (hashRefreshToken a token) lockedEmail superuser
                  expiresAt adminID)) (\<lambda>_.
                checked (pure (oneTimeCallbackURL (alib a) (RegistrationInviteCallbackURL (cfg a))
                    (TrimRight (RegistrationInviteBaseURL (cfg a)) is_slash @ ''/#/register'') token))
                  (\<lambda>registrationURL. ret (token, expiresAt, registrationURL))) }) }))"

section \<open>Magic links\<close>

definition invalidateUndeliveredMagicLink :: "uuid \<Rightarrow> unit option prog" where
  "invalidateUndeliveredMagicLink i = do {
     start \<leftarrow> time_Now;
     retry 3 (start + 2 * Second) (repo_now (\<lambda>at. InvalidateMagicLink at i)) }"

definition processMagicLink :: "auth \<Rightarrow> string \<Rightarrow> unit prog" where
  "processMagicLink a login = do {
     found \<leftarrow> repo (GetHumanUserByLoginOrEmail login);
     (case reset_eligible found of
        None \<Rightarrow> State_Monad.return ()
      | Some u \<Rightarrow> do {
          raw \<leftarrow> rand_Read 32;
          (case raw of
             None \<Rightarrow> State_Monad.return ()
           | Some raw \<Rightarrow>
               let token = hex_EncodeToString raw
               in (case oneTimeCallbackURL (alib a) (MagicLinkCallbackURL (cfg a))
                     (TrimRight (RegistrationInviteBaseURL (cfg a)) is_slash @ ''/#/magic'') token of
                     Inl _ \<Rightarrow> State_Monad.return ()
                   | Inr link \<Rightarrow> do {
                       now \<leftarrow> time_Now;
                       newID \<leftarrow> uuid_New;
                       inserted \<leftarrow> repo (InsertMagicLink newID (hashRefreshToken a token) (u_id u)
                                    (now + MagicLinkTTL (cfg a)));
                       (case inserted of
                          Inl _ \<Rightarrow> State_Monad.return ()
                        | Inr linkID \<Rightarrow> do {
                            sent \<leftarrow> mail_to (the (u_email u)) ''Your login link''
                              (''Sign in with this one-time link (valid '' @ duration_String (alib a) (MagicLinkTTL (cfg a))
                               @ ''):'' @ [CHR 0x0A, CHR 0x0A] @ link);
                            (case sent of
                               Inr _ \<Rightarrow> State_Monad.return ()
                             | Inl _ \<Rightarrow> do {
                                 _ \<leftarrow> invalidateUndeliveredMagicLink linkID;
                                 State_Monad.return () }) }) })) }) }"

definition CompleteMagicLink :: "auth \<Rightarrow> string \<Rightarrow> string \<Rightarrow> string \<Rightarrow> (token_pair \<times> user) svc" where
  "CompleteMagicLink a token0 deviceID deviceLabel =
     (let token = TrimSpace token0
      in if token = [] then fail ErrOTPInvalid
         else checked (repo_now (\<lambda>at. ConsumeMagicLink at (hashRefreshToken a token))) (\<lambda>userID.
           if userID = uuid_Nil then fail ErrOTPInvalid
           else do {
             found \<leftarrow> repo (GetUserByID userID);
             (case found of
                Inr (Some u) \<Rightarrow>
                  checked (ensure (requireActiveUser (Some u))) (\<lambda>_. issueTokenPair a u deviceID deviceLabel)
              | _ \<Rightarrow> fail ErrOTPInvalid) }))"

section \<open>Bootstrap accounts\<close>

definition EnsureBootstrapAdmin :: "auth \<Rightarrow> unit svc" where
  "EnsureBootstrapAdmin a =
     (let login = TrimSpace (BootstrapSuperuserLogin (cfg a))
      in if login = [] then ret ()
         else checked (repo CountHumanUsers) (\<lambda>n.
           if n > 0 then ret ()
           else
             let em = TrimSpace (BootstrapSuperuserEmail (cfg a));
                 pwd = BootstrapSuperuserPassword (cfg a)
             in if em = [] then fail (ErrOther ''BOOTSTRAP_SUPERUSER_EMAIL is required when BOOTSTRAP_SUPERUSER_LOGIN is set'')
                else if pwd = [] then fail (ErrOther ''BOOTSTRAP_SUPERUSER_PASSWORD is required when BOOTSTRAP_SUPERUSER_LOGIN is set'')
                else do {
                  salt \<leftarrow> rand_Read argonSaltLen;
                  checked (pure (HashPassword (alib a) salt pwd)) (\<lambda>hash. do {
                    newID \<leftarrow> uuid_New;
                    checked (repo_now (\<lambda>at. CreateHumanUser newID at (normalizeLogin login) em hash)) (\<lambda>i.
                      checked (repo (SetSuperuser i True)) (\<lambda>_. appendPasswordHistory a i pwd hash)) }) }))"

definition bootstrapSuperuserServiceMatches :: "lib \<Rightarrow> user \<Rightarrow> string \<Rightarrow> svc_error option" where
  "bootstrapSuperuserServiceMatches L u secret =
     (case u_service_secret_hash u of
        None \<Rightarrow> Some (ErrOther ''bootstrap superuser service login collides with an incompatible account'')
      | Some h \<Rightarrow>
          if u_kind u \<noteq> UserService \<or> \<not> u_superuser u \<or> u_banned_at u \<noteq> None
          then Some (ErrOther ''bootstrap superuser service login collides with an incompatible account'')
          else if VerifySecret L secret h \<noteq> Inr True
          then Some (ErrOther ''bootstrap superuser service credentials do not match the existing account'')
          else None)"

definition EnsureBootstrapSuperuserService :: "auth \<Rightarrow> unit svc" where
  "EnsureBootstrapSuperuserService a =
     (let configuredLogin = TrimSpace (BootstrapSuperuserServiceLogin (cfg a));
          secret = BootstrapSuperuserServiceSecret (cfg a)
      in if configuredLogin = [] then ret ()
         else checked (pure (validateServiceAccountCredentials (alib a) configuredLogin secret)) (\<lambda>login.
           checked (repo (GetUserByLogin login)) (\<lambda>existing.
             case existing of
               Some u \<Rightarrow> ensure (bootstrapSuperuserServiceMatches (alib a) u secret)
             | None \<Rightarrow> do {
                 salt \<leftarrow> rand_Read argonSaltLen;
                 checked (pure (HashSecret (alib a) salt secret)) (\<lambda>hash. do {
                   newID \<leftarrow> uuid_New;
                   created \<leftarrow> repo_now (\<lambda>at. CreateServiceUser newID at login hash True);
                   (case created of
                      Inr _ \<Rightarrow> ret ()
                    | Inl e \<Rightarrow> do {
                        concurrent \<leftarrow> repo (GetUserByLogin login);
                        (case concurrent of
                           Inr (Some u) \<Rightarrow> ensure (bootstrapSuperuserServiceMatches (alib a) u secret)
                         | _ \<Rightarrow> fail e) }) }) })))"

end
