(* ===== verification/Operations.thy ===== *)
theory Operations
  imports Access Validation
begin

text \<open>
  The transport-neutral use cases of \<open>internal/service/operations.go\<close>; the paged listings are in
  the theory \<open>Paging\<close>.
\<close>

section \<open>Accounts\<close>

definition CreateServiceAccount :: "lib \<Rightarrow> uuid \<Rightarrow> string \<Rightarrow> string \<Rightarrow> bool \<Rightarrow> uuid svc" where
  "CreateServiceAccount L actor login secret superuser =
     guarded (IsSuperuser actor)
       (checked (pure (validateServiceAccountCredentials L login secret)) (\<lambda>login. do {
          salt \<leftarrow> rand_Read argonSaltLen;
          checked (pure (HashSecret L salt secret)) (\<lambda>secretHash. do {
            newID \<leftarrow> uuid_New;
            repo_now (\<lambda>now. CreateServiceUser newID now login secretHash superuser) }) }))"

definition CurrentUser :: "uuid \<Rightarrow> user svc" where
  "CurrentUser actor =
     checked (repo (GetUserByID actor)) (\<lambda>u. case u of None \<Rightarrow> fail ErrNotFound | Some u \<Rightarrow> ret u)"

definition EffectiveRoleAccess :: "uuid \<Rightarrow> effective_access list svc" where
  "EffectiveRoleAccess actor =
     checked (IsBanned actor) (\<lambda>banned.
       if banned then fail ErrBanned
       else do { now \<leftarrow> time_Now; repo (ListEffectiveRoleAccess actor now) })"

definition Auth_Sessions :: "uuid \<Rightarrow> refresh_session list svc" where
  "Auth_Sessions actor = repo (ListRefreshSessions actor)"

section \<open>Roles\<close>

definition Auth_CreateRole :: "uuid \<Rightarrow> string \<Rightarrow> string \<Rightarrow> uuid list \<Rightarrow> uuid svc" where
  "Auth_CreateRole actor name description parents =
     guarded (IsSuperuser actor) (do {
       newID \<leftarrow> uuid_New;
       repo_now (\<lambda>now. CreateRoleWithParents newID now name (TrimSpace description) parents) })"

definition Auth_DeleteRole :: "uuid \<Rightarrow> uuid \<Rightarrow> unit svc" where
  "Auth_DeleteRole actor role = guarded (IsSuperuser actor) (repo (DeleteRole role))"

definition Auth_SetRoleParent :: "uuid \<Rightarrow> uuid \<Rightarrow> uuid option \<Rightarrow> unit svc" where
  "Auth_SetRoleParent actor role parent = guarded (IsSuperuser actor) (repo (SetRoleParent role parent))"

definition Auth_UpdateRoleDescription :: "uuid \<Rightarrow> uuid \<Rightarrow> string \<Rightarrow> unit svc" where
  "Auth_UpdateRoleDescription actor role description =
     checked (IsSuperuser actor) (\<lambda>superuser.
       checked (IsRoleAdmin actor role) (\<lambda>admin.
         if \<not> superuser \<and> \<not> admin then fail ErrForbidden
         else repo (UpdateRoleDescription role description)))"

definition Mount :: "uuid \<Rightarrow> uuid \<Rightarrow> uuid \<Rightarrow> unit svc" where
  "Mount actor role parent = guarded (CanMountRole actor role parent) (repo (MountRole role parent))"

definition Unmount :: "uuid \<Rightarrow> uuid \<Rightarrow> uuid \<Rightarrow> unit svc" where
  "Unmount actor role parent = guarded (CanMountRole actor role parent) (repo (UnmountRole role parent))"

definition Subgroups :: "uuid \<Rightarrow> bool \<Rightarrow> role_view list svc" where
  "Subgroups role recursive = repo (ListSubroles role recursive)"

definition ChangeRoleTag :: "uuid \<Rightarrow> uuid \<Rightarrow> string \<Rightarrow> bool \<Rightarrow> unit svc" where
  "ChangeRoleTag actor role tag add =
     guarded (CanAssignRole actor role)
       (if add then repo (AddRoleTag role tag) else repo (DeleteRoleTag role tag))"

definition Auth_RenameRoleTag :: "uuid \<Rightarrow> uuid \<Rightarrow> string \<Rightarrow> string \<Rightarrow> unit svc" where
  "Auth_RenameRoleTag actor role oldTag newTag =
     guarded (CanAssignRole actor role) (repo (RenameRoleTag role oldTag newTag))"

section \<open>Memberships\<close>

definition RoleMembers :: "uuid \<Rightarrow> uuid \<Rightarrow> role_member list svc" where
  "RoleMembers actor role =
     guarded (CanAssignRole actor role) (do { now \<leftarrow> time_Now; repo (ListRoleMembers role now) })"

definition UserRoles :: "uuid \<Rightarrow> uuid \<Rightarrow> user_role list svc" where
  "UserRoles actor target =
     guarded (CanViewUserRoles actor target) (do { now \<leftarrow> time_Now; repo (ListUserRoles target now) })"

definition AssignRole :: "uuid \<Rightarrow> uuid \<Rightarrow> uuid \<Rightarrow> role_level \<Rightarrow> instant option \<Rightarrow> string list \<Rightarrow> unit svc" where
  "AssignRole actor target role level validUntil tags = do {
     now \<leftarrow> time_Now;
     if (case validUntil of None \<Rightarrow> False | Some t \<Rightarrow> \<not> t > now) then fail (ErrInvalidArgument [])
     else guarded (CanAssignRole actor role) (do {
       newID \<leftarrow> uuid_New;
       repo (AssignUserRoleWithTagGrants newID target role level (Some actor) now validUntil tags) }) }"

definition ChangeMembershipTag :: "uuid \<Rightarrow> uuid \<Rightarrow> uuid \<Rightarrow> string \<Rightarrow> bool \<Rightarrow> unit svc" where
  "ChangeMembershipTag actor target role tag add =
     guarded (CanAssignRole actor role)
       (if add then
          checked (repo (GetRoleByID role)) (\<lambda>r.
            case r of
              None \<Rightarrow> fail ErrNotFound
            | Some v \<Rightarrow>
                if \<not> list_ex (\<lambda>candidate. candidate = tag) (v_tags v) then fail ErrTagNotConfigured
                else repo (AddUserRoleTag target role tag))
        else repo (DeleteUserRoleTag target role tag))"

definition RemoveRole :: "uuid \<Rightarrow> uuid \<Rightarrow> uuid \<Rightarrow> unit svc" where
  "RemoveRole actor target role = guarded (CanAssignRole actor role) (repo (RemoveUserRole target role))"

section \<open>Requests\<close>

definition RequestRole :: "uuid \<Rightarrow> uuid \<Rightarrow> uuid \<Rightarrow> (bool \<times> uuid) svc" where
  "RequestRole actor target role =
     (if target \<noteq> actor then guarded (CanAssignRole actor role) (RequestRoleMembership actor target role)
      else RequestRoleMembership actor target role)"

definition PendingRoleRequests :: "uuid \<Rightarrow> uuid \<Rightarrow> role_request list svc" where
  "PendingRoleRequests actor role = guarded (CanAssignRole actor role) (repo (ListPendingRoleRequests role))"

definition Auth_DecideRoleRequest :: "uuid \<Rightarrow> uuid \<Rightarrow> bool \<Rightarrow> unit svc" where
  "Auth_DecideRoleRequest actor requestID approve =
     checked (repo (GetRoleRequest requestID)) (\<lambda>request.
       case request of
         None \<Rightarrow> fail ErrNotFound
       | Some q \<Rightarrow>
           if q_status q \<noteq> RoleRequestPending then fail ErrRequestNotPending
           else guarded (CanAssignRole actor (q_role q)) (do {
             now \<leftarrow> time_Now;
             newID \<leftarrow> uuid_New;
             r \<leftarrow> repo (DecideRoleRequestWithMembership newID requestID approve actor now);
             (case r of
                Inl e \<Rightarrow> if e = RepoError ErrRoleRequestNotPending then fail ErrRequestNotPending else fail e
              | Inr _ \<Rightarrow> ret ()) }))"

end
