(* ===== verification/Paging.thy ===== *)
theory Paging
  imports Operations
begin

text \<open>
  The paged listings: \<open>ListUsers\<close>, \<open>SearchUsers\<close> and \<open>SearchRoles\<close> of the store, and the service's
  \<open>UsersPage\<close> and \<open>RolesPage\<close>. A page is cut by the last sort key of the page before it (keyset
  pagination). Main result: a client that follows the cursors receives every matching row exactly
  once, in order, and the walk ends.

  The database compares names in byte order; any other total order of names would do as well.
\<close>

section \<open>Pattern matching\<close>

text \<open>SQL's \<open>LIKE\<close>: a percent sign matches any run, an underscore any character, a backslash makes the next
  character stand for itself.\<close>

fun like :: "string \<Rightarrow> string \<Rightarrow> bool" where
  "like [] s \<longleftrightarrow> s = []"
| "like (p # ps) [] \<longleftrightarrow> p = CHR ''%'' \<and> like ps []"
| "like (p # ps) (x # s) \<longleftrightarrow>
     (if p = CHR ''%'' then like ps (x # s) \<or> like (p # ps) s
      else if p = CHR 0x5C then (case ps of [] \<Rightarrow> False | c # qs \<Rightarrow> x = c \<and> like qs s)
      else (p = CHR ''_'' \<or> x = p) \<and> like ps s)"

definition substring_pattern :: "string \<Rightarrow> string" where
  "substring_pattern q = ''%'' @ ToLower q @ ''%''"

section \<open>Pages\<close>

type_synonym cursor = "string \<times> uuid"

text \<open>
  The shared tail of the two searches: the rows after the cursor, in order, one more than the page
  holds; when there is one more, the page ends with a cursor. \<open>rows[limit-1]\<close> panics when the limit is
  not positive and there is a row; a negative limit is no limit for GORM.
\<close>

definition keyset_page ::
  "('r \<Rightarrow> cursor) \<Rightarrow> cursor option \<Rightarrow> int \<Rightarrow> 'r list \<Rightarrow> repo_error + ('r list \<times> cursor option)" where
  "keyset_page key after limit rows0 =
     (let rows = limit_rows (limit + 1) (order_asc key
             (filter (\<lambda>r. case after of None \<Rightarrow> True | Some c \<Rightarrow> key r > c) rows0))
      in if int (length rows) > limit then
           if limit < 1 then Inl (RepoMessage ''panic: index out of range'')
           else Inr (take (nat limit) rows, Some (key (rows ! (nat limit - 1))))
         else Inr (rows, None))"

definition user_key :: "user \<Rightarrow> cursor" where
  "user_key u = (ToLower (u_login u), u_id u)"

definition role_key :: "role \<Rightarrow> cursor" where
  "role_key r = (ToLower (r_name r), r_id r)"

definition user_matches :: "string \<Rightarrow> user \<Rightarrow> bool" where
  "user_matches query u \<longleftrightarrow>
     (let q = TrimSpace query
      in q = [] \<or> like (substring_pattern q) (ToLower (u_login u))
         \<or> like (substring_pattern q) (ToLower (case u_email u of None \<Rightarrow> [] | Some e \<Rightarrow> e)))"

definition role_matches :: "string \<Rightarrow> role \<Rightarrow> bool" where
  "role_matches query r \<longleftrightarrow>
     (let q = TrimSpace query in q = [] \<or> like (substring_pattern q) (ToLower (r_name r)))"

definition ListUsers :: "int \<Rightarrow> user list repo" where
  "ListUsers limit = reads (\<lambda>d. limit_rows limit (order_desc u_created_at (users d)))"

definition SearchUsers ::
  "string \<Rightarrow> cursor option \<Rightarrow> int \<Rightarrow> bool \<Rightarrow> (user list \<times> cursor option \<times> nat option) repo" where
  "SearchUsers query after limit countTotal d =
     (let found = filter (user_matches query) (users d);
          total = (if countTotal then Some (length found) else None)
      in case keyset_page user_key after limit found of
           Inl e \<Rightarrow> Inl e
         | Inr (rows, next) \<Rightarrow> Inr ((rows, next, total), d))"

definition SearchRoles ::
  "string \<Rightarrow> cursor option \<Rightarrow> int \<Rightarrow> bool \<Rightarrow> (role_view list \<times> cursor option \<times> nat option) repo" where
  "SearchRoles query after limit countTotal d =
     (let found = filter (role_matches query) (roles d);
          total = (if countTotal then Some (length found) else None)
      in case keyset_page role_key after limit found of
           Inl e \<Rightarrow> Inl e
         | Inr (rows, next) \<Rightarrow> Inr ((loadRoleDetails d rows, next, total), d))"

definition UsersPage ::
  "uuid \<Rightarrow> string \<Rightarrow> cursor option \<Rightarrow> int \<Rightarrow> (user list \<times> cursor option \<times> nat option) svc" where
  "UsersPage actor query cursor pageSize =
     guarded (IsSuperuser actor) (repo (SearchUsers query cursor pageSize (cursor = None)))"

definition RolesPage ::
  "string \<Rightarrow> cursor option \<Rightarrow> int \<Rightarrow> (role_view list \<times> cursor option \<times> nat option) svc" where
  "RolesPage query cursor pageSize = repo (SearchRoles query cursor pageSize (cursor = None))"

section \<open>Following the cursors\<close>

text \<open>A client that asks for pages until one comes without a cursor; \<open>None\<close> if the requests run out first
  or one fails.\<close>

fun walk :: "nat \<Rightarrow> (cursor option \<Rightarrow> ('e + ('r list \<times> cursor option))) \<Rightarrow> cursor option \<Rightarrow> 'r list option" where
  "walk 0 page after = None"
| "walk (Suc n) page after =
     (case page after of
        Inl _ \<Rightarrow> None
      | Inr (rows, None) \<Rightarrow> Some rows
      | Inr (rows, Some c) \<Rightarrow> map_option (\<lambda>rest. rows @ rest) (walk n page (Some c)))"

lemma order_asc_filter: "order_asc k (filter P t) = filter P (order_asc k t)"
  by (simp add: order_asc_def filter_sort)

lemma after_nth:
  assumes "sorted_wrt (\<lambda>x y. k x < (k y :: 'k::linorder)) t" "i < length t"
  shows "filter (\<lambda>x. k x > k (t ! i)) t = drop (Suc i) t"
  using assms
proof (induction t arbitrary: i)
  case (Cons x t)
  show ?case
  proof (cases i)
    case 0
    then show ?thesis using Cons.prems(1) by (simp add: filter_id_conv)
  next
    case (Suc j)
    then have "k x < k (t ! j)" using Cons.prems by simp
    then show ?thesis using Suc Cons by (auto dest: order.asym)
  qed
qed simp

lemma order_asc_strict:
  assumes "distinct (map k t)"
  shows "sorted_wrt (\<lambda>x y. k x < k y) (order_asc k t)"
proof -
  have "distinct (map k (order_asc k t))"
    using assms by (simp add: order_asc_def distinct_map)
  moreover have "sorted (map k (order_asc k t))" by (simp add: order_asc_def)
  ultimately have "sorted_wrt (<) (map k (order_asc k t))" by (simp add: strict_sorted_iff)
  then show ?thesis by (simp add: sorted_wrt_map)
qed

text \<open>The page that starts after the row at position \<open>i - 1\<close> of the ordered rows.\<close>

definition cursor_at :: "('r \<Rightarrow> cursor) \<Rightarrow> 'r list \<Rightarrow> nat \<Rightarrow> cursor option" where
  "cursor_at key t i = (if i = 0 then None else Some (key (t ! (i - 1))))"

lemma rows_after:
  assumes "distinct (map key t)" "i \<le> length t"
  shows "order_asc key (filter (\<lambda>r. case cursor_at key (order_asc key t) i of None \<Rightarrow> True | Some c \<Rightarrow> key r > c) t)
       = drop i (order_asc key t)"
proof (cases i)
  case (Suc j)
  have "filter (\<lambda>r. key r > key (order_asc key t ! j)) (order_asc key t) = drop (Suc j) (order_asc key t)"
    using order_asc_strict [OF assms(1)] by (rule after_nth) (use assms(2) Suc in simp)
  then show ?thesis by (simp add: Suc cursor_at_def order_asc_filter)
qed (simp add: cursor_at_def)

lemma keyset_page_at:
  assumes "distinct (map key t)" "i \<le> length t" "0 < limit"
  defines "s \<equiv> order_asc key t"
  shows "keyset_page key (cursor_at key s i) limit t =
    (if i + nat limit < length t
     then Inr (take (nat limit) (drop i s), cursor_at key s (i + nat limit))
     else Inr (drop i s, None))"
proof -
  have len: "length s = length t" by (simp add: s_def)
  have lim: "limit_rows (limit + 1) x = take (Suc (nat limit)) x" for x :: "'b list"
    using assms(3) by (simp add: limit_rows_def nat_add_distrib)
  have page: "keyset_page key (cursor_at key s i) limit t =
     (let rows = take (Suc (nat limit)) (drop i s)
      in if int (length rows) > limit then Inr (take (nat limit) rows, Some (key (rows ! (nat limit - 1))))
         else Inr (rows, None))"
    unfolding keyset_page_def s_def rows_after [OF assms(1,2)] lim using assms(3) by (simp add: Let_def)
  show ?thesis
  proof (cases "i + nat limit < length t")
    case True
    then have "take (Suc (nat limit)) (drop i s) ! (nat limit - 1) = s ! (i + nat limit - 1)"
      using assms(3) by (simp add: len)
    moreover have "int (length (take (Suc (nat limit)) (drop i s))) > limit" "i + nat limit \<noteq> 0"
      using True assms(3) by (simp_all add: len)
    ultimately show ?thesis using True by (simp add: page cursor_at_def [of _ _ "i + nat limit"] min_def)
  next
    case False
    then have "\<not> int (length (take (Suc (nat limit)) (drop i s))) > limit"
      "take (Suc (nat limit)) (drop i s) = drop i s" using assms(2,3) by (simp_all add: len)
    then show ?thesis using False by (simp add: page)
  qed
qed

lemma walk_from:
  assumes "distinct (map key t)" "0 < limit" "i \<le> length t" "length t - i < n"
  shows "walk n (\<lambda>c. keyset_page key c limit t) (cursor_at key (order_asc key t) i) = Some (drop i (order_asc key t))"
  using assms(3,4)
proof (induction n arbitrary: i)
  case (Suc n)
  note page = keyset_page_at [OF assms(1) Suc.prems(1) assms(2)]
  show ?case
  proof (cases "i + nat limit < length t")
    case False
    then show ?thesis by (simp add: page)
  next
    case True
    let ?j = "i + nat limit"
    have "0 < nat limit" using assms(2) by simp
    then have "length t - ?j < n" "cursor_at key (order_asc key t) ?j = Some (key (order_asc key t ! (?j - 1)))"
      using True Suc.prems by (simp_all add: cursor_at_def)
    with Suc.IH [of ?j] True show ?thesis
      by (simp add: page) (metis add.commute append_take_drop_id drop_drop)
  qed
qed simp

text \<open>What one request of the client returns, for users and for roles.\<close>

definition page_of :: "repo_error + (('r list \<times> cursor option \<times> nat option) \<times> db) \<Rightarrow> repo_error + ('r list \<times> cursor option)" where
  "page_of r = (case r of Inl e \<Rightarrow> Inl e | Inr ((rows, next, _), _) \<Rightarrow> Inr (rows, next))"

lemma page_of_users:
  "page_of (SearchUsers q c limit b d) = keyset_page user_key c limit (filter (user_matches q) (users d))"
  by (simp add: page_of_def SearchUsers_def Let_def split: sum.split prod.split)

lemma page_of_roles:
  "page_of (SearchRoles q c limit b d) =
     map_sum id (map_prod (loadRoleDetails d) id) (keyset_page role_key c limit (filter (role_matches q) (roles d)))"
  by (simp add: page_of_def SearchRoles_def Let_def split: sum.split prod.split)

text \<open>Reading the details of a page of roles and then appending is appending and then reading them.\<close>

lemma walk_map:
  assumes "\<And>xs ys. f (xs @ ys) = f xs @ f ys"
  shows "walk n (\<lambda>c. map_sum id (map_prod f id) (page c)) after = map_option f (walk n page after)"
proof (induction n arbitrary: after)
  case (Suc n)
  show ?case
  proof (cases "page after")
    case (Inr p)
    then show ?thesis using Suc assms
      by (cases p; cases "snd p") (auto simp: option.map_comp comp_def)
  qed simp
qed simp

lemma filter_key_distinct: "distinct (map i t) \<Longrightarrow> (\<And>x. snd (k x) = i x) \<Longrightarrow> distinct (map k (filter P t))"
  by (auto simp: distinct_map inj_on_def) metis

lemma walk_all:
  assumes "distinct (map i t)" "\<And>x. snd (key x) = i x" "0 < limit"
  shows "walk (Suc (length t)) (\<lambda>c. keyset_page key c limit (filter P t)) None = Some (order_asc key (filter P t))"
proof -
  have "distinct (map key (filter P t))" using assms(1,2) by (rule filter_key_distinct)
  from walk_from [OF this assms(3), of 0 "Suc (length t)"] show ?thesis
    by (simp add: cursor_at_def le_imp_less_Suc)
qed

text \<open>
  C34. A client that follows the cursors of the user search receives, after at most one request per
  account and one more, every matching account exactly once in the order of login and id, whatever
  the page size; the walk ends and no request fails.
\<close>

theorem user_pages_complete:
  assumes "distinct (map u_id (users d))" "0 < limit"
  shows "walk (Suc (length (users d))) (\<lambda>c. page_of (SearchUsers q c limit (c = None) d)) None =
    Some (order_asc user_key (filter (user_matches q) (users d)))"
  unfolding page_of_users by (rule walk_all [OF assms(1) _ assms(2)]) (simp add: user_key_def)

definition sample_users :: "user list" where
  "sample_users = [new_user 3 0 ''Bob'' UserHuman, new_user 1 0 ''alice'' UserHuman, new_user 2 0 ''carol'' UserHuman]"

theorem user_pages_complete_witness:
  "walk 4 (\<lambda>c. page_of (SearchUsers ''O'' c 1 (c = None) (empty_db\<lparr>users := sample_users\<rparr>))) None =
     Some [new_user 3 0 ''Bob'' UserHuman, new_user 2 0 ''carol'' UserHuman]"
proof -
  let ?d = "empty_db\<lparr>users := sample_users\<rparr>"
  have len: "Suc (length (users ?d)) = 4" by (simp add: sample_users_def)
  have "distinct (map u_id (users ?d))" by code_simp
  from user_pages_complete [OF this, of 1 "''O''", unfolded len]
  have "walk 4 (\<lambda>c. page_of (SearchUsers ''O'' c 1 (c = None) ?d)) None =
      Some (order_asc user_key (filter (user_matches ''O'') (users ?d)))" by simp
  moreover have "order_asc user_key (filter (user_matches ''O'') (users ?d)) =
      [new_user 3 0 ''Bob'' UserHuman, new_user 2 0 ''carol'' UserHuman]" by code_simp
  ultimately show ?thesis by simp
qed

lemma role_pages_complete:
  assumes "distinct (map r_id (roles d))" "0 < limit"
  shows "walk (Suc (length (roles d))) (\<lambda>c. page_of (SearchRoles q c limit (c = None) d)) None =
    Some (loadRoleDetails d (order_asc role_key (filter (role_matches q) (roles d))))"
proof -
  have "loadRoleDetails d (xs @ ys) = loadRoleDetails d xs @ loadRoleDetails d ys" for xs ys
    by (simp add: loadRoleDetails_def)
  moreover have "walk (Suc (length (roles d))) (\<lambda>c. keyset_page role_key c limit (filter (role_matches q) (roles d))) None =
      Some (order_asc role_key (filter (role_matches q) (roles d)))"
    by (rule walk_all [OF assms(1) _ assms(2)]) (simp add: role_key_def)
  ultimately show ?thesis unfolding page_of_roles by (subst walk_map) simp_all
qed

end
