(* ===== verification/Authorisation.thy ===== *)
theory Authorisation
  imports Onboarding Paging
begin

text \<open>
  The access-control theorems of the service: an actor without authority changes nothing,
  whatever happens concurrently, and the ban is restricted as \<open>BanUser\<close> promises.
\<close>

section \<open>Actors without authority\<close>

definition account :: "uuid \<Rightarrow> db \<Rightarrow> user option" where
  "account i d = find_row (\<lambda>u. u_id u = i) (users d)"

definition is_banned :: "uuid \<Rightarrow> db \<Rightarrow> bool" where
  "is_banned i d \<longleftrightarrow> (case account i d of None \<Rightarrow> False | Some u \<Rightarrow> u_banned_at u \<noteq> None)"

definition is_superuser :: "uuid \<Rightarrow> db \<Rightarrow> bool" where
  "is_superuser i d \<longleftrightarrow> (case account i d of None \<Rightarrow> False | Some u \<Rightarrow> u_superuser u)"

definition is_admin_of :: "uuid \<Rightarrow> uuid \<Rightarrow> instant \<Rightarrow> db \<Rightarrow> bool" where
  "is_admin_of i x now d \<longleftrightarrow> UserIsEffectiveRoleAdmin i x now d = Inr (True, d)"

text \<open>A banned account, or one that is neither a superuser nor administers any role at any time.\<close>

definition powerless :: "uuid \<Rightarrow> db \<Rightarrow> bool" where
  "powerless i d \<longleftrightarrow> is_banned i d \<or> (\<not> is_superuser i d \<and> (\<forall>x now. \<not> is_admin_of i x now d))"

text \<open>What a powerless actor is answered: an error, or no.\<close>

abbreviation (input) refused :: "svc_error + bool \<Rightarrow> bool" where "refused r \<equiv> r \<noteq> Inr True"

text \<open>The account lookup of the guards answers from a database in which the actor is powerless.\<close>

lemma stays_account:
  "stays J (repo (GetUserByID i)) (\<lambda>r. \<forall>x. r = Inr x \<longrightarrow> (\<exists>d. J d \<and> x = account i d))"
  unfolding GetUserByID_def account_def by (rule stays_reads)

locale powerless_actor =
  fixes actor :: uuid and J :: "db \<Rightarrow> bool"
  assumes no_power: "J d \<Longrightarrow> powerless actor d"
    and ban_fixed: "J d \<Longrightarrow> J d' \<Longrightarrow> is_banned actor d = is_banned actor d'"
begin

lemma superuser_refused: "stays J (IsSuperuser actor) refused"
  unfolding IsSuperuser_def
proof (rule stays_checked [OF stays_account])
  fix x assume "\<forall>y. Inr x = Inr y \<longrightarrow> (\<exists>d. J d \<and> y = account actor d)"
  then obtain d where d: "J d" "x = account actor d" by auto
  show "stays J (case x of None \<Rightarrow> ret False
      | Some u \<Rightarrow> if u_banned_at u \<noteq> None then fail ErrBanned else ret (u_superuser u)) refused"
    using no_power [OF d(1)]
    by (cases x) (auto simp: d(2) powerless_def is_banned_def is_superuser_def intro: stays_return)
qed simp

lemma banned_answer: "stays J (IsBanned actor) (\<lambda>r. \<forall>b. r = Inr b \<longrightarrow> (\<exists>d. J d \<and> b = is_banned actor d))"
  unfolding IsBanned_def
proof (rule stays_checked [OF stays_account])
  fix x assume "\<forall>y. Inr x = Inr y \<longrightarrow> (\<exists>d. J d \<and> y = account actor d)"
  then obtain d where d: "J d" "x = account actor d" by auto
  show "stays J (case x of None \<Rightarrow> ret False | Some u \<Rightarrow> ret (u_banned_at u \<noteq> None))
      (\<lambda>r. \<forall>b. r = Inr b \<longrightarrow> (\<exists>d. J d \<and> b = is_banned actor d))"
  proof -
    have "(case x of None \<Rightarrow> ret False | Some u \<Rightarrow> ret (u_banned_at u \<noteq> None)) = ret (is_banned actor d)"
      by (simp add: d(2) is_banned_def split: option.split)
    with d(1) show ?thesis by (auto intro: stays_return)
  qed
qed simp

lemma admin_query:
  "stays J (repo (UserIsEffectiveRoleAdmin actor x now)) (\<lambda>r. \<forall>b. r = Inr b \<longrightarrow> (\<exists>d. J d \<and> b = is_admin_of actor x now d))"
proof -
  have "UserIsEffectiveRoleAdmin actor x now d = Inr (is_admin_of actor x now d, d)" for d
    by (auto simp: is_admin_of_def UserIsEffectiveRoleAdmin_def reads_def)
  then show ?thesis by (rule stays_query)
qed

lemma role_admin_refused: "stays J (IsRoleAdmin actor x) refused"
  unfolding IsRoleAdmin_def
proof (rule stays_checked [OF banned_answer])
  fix banned assume "\<forall>b. Inr banned = Inr b \<longrightarrow> (\<exists>d. J d \<and> b = is_banned actor d)"
  then obtain d where d: "J d" "banned = is_banned actor d" by auto
  show "stays J (if banned then fail ErrBanned
      else time_Now \<bind> (\<lambda>now. repo (UserIsEffectiveRoleAdmin actor x now))) refused"
  proof (cases banned)
    case True
    then show ?thesis by (simp add: stays_return)
  next
    case False
    have "\<not> is_admin_of actor x now d'" if "J d'" for now d'
      using no_power [OF that] ban_fixed [OF d(1) that] d(2) False by (auto simp: powerless_def)
    then have "stays J (repo (UserIsEffectiveRoleAdmin actor x now)) refused" for now
      by (intro stays_weaken [OF admin_query]) auto
    then show ?thesis using False by (auto intro: stays_bind [OF stays_time_Now])
  qed
qed simp

lemma assign_refused: "stays J (CanAssignRole actor x) refused"
  unfolding CanAssignRole_def
  by (rule stays_checked [OF superuser_refused]) (auto intro: role_admin_refused)

lemma mount_refused: "stays J (CanMountRole actor x y) refused"
  unfolding CanMountRole_def
proof (rule stays_checked [OF superuser_refused])
  fix su assume "Inr su \<noteq> (Inr True :: svc_error + bool)"
  moreover have "stays J (if \<not> child then ret False else IsRoleAdmin actor y) refused" for child
    by (simp add: role_admin_refused stays_return)
  then have "stays J (checked (IsRoleAdmin actor x) (\<lambda>child. if \<not> child then ret False else IsRoleAdmin actor y)) refused"
    by (intro stays_checked [OF role_admin_refused]) (simp_all add: stays_return)
  ultimately show "stays J (if su then ret True else checked (IsRoleAdmin actor x)
      (\<lambda>child. if \<not> child then ret False else IsRoleAdmin actor y)) refused" by simp
qed simp

lemma guarded_refused:
  "stays J g refused \<Longrightarrow> stays J (guarded g m) (\<lambda>r. \<exists>e. r = Inl e)"
  unfolding guarded_def by (erule stays_checked) (auto intro: stays_return)

lemma guarded_after:
  "stays J m P \<Longrightarrow> (\<And>x. stays J (guarded (g x) (k x)) (\<lambda>r. \<exists>e. r = Inl e)) \<Longrightarrow>
    stays J (checked m (\<lambda>x. guarded (g x) (k x))) (\<lambda>r. \<exists>e. r = Inl e)"
  by (erule stays_checked) auto

lemmas refusals = superuser_refused assign_refused mount_refused

lemma guards_refused:
  "stays J (guarded (IsSuperuser actor) m) (\<lambda>r. \<exists>e. r = Inl e)"
  "stays J (guarded (CanAssignRole actor x) m) (\<lambda>r. \<exists>e. r = Inl e)"
  "stays J (guarded (CanMountRole actor x y) m) (\<lambda>r. \<exists>e. r = Inl e)"
  by (intro guarded_refused refusals)+

lemma UpdateRoleDescription_refused:
  "stays J (Auth_UpdateRoleDescription actor x t) (\<lambda>r. \<exists>e. r = Inl e)"
  unfolding Auth_UpdateRoleDescription_def
proof (rule stays_checked [OF superuser_refused])
  fix su assume "refused (Inr su)"
  then have su: "su = False" by simp
  show "stays J (checked (IsRoleAdmin actor x) (\<lambda>admin. if \<not> su \<and> \<not> admin then fail ErrForbidden
      else repo (UpdateRoleDescription x t))) (\<lambda>r. \<exists>e. r = Inl e)"
    by (rule stays_checked [OF role_admin_refused]) (auto simp: su intro: stays_return)
qed simp

lemma AssignRole_refused: "stays J (AssignRole actor i x level until tags) (\<lambda>r. \<exists>e. r = Inl e)"
  unfolding AssignRole_def
  by (rule stays_bind [OF stays_time_Now]) (auto intro: stays_return guards_refused)

lemma DecideRoleRequest_refused: "stays J (Auth_DecideRoleRequest actor rid ok) (\<lambda>r. \<exists>e. r = Inl e)"
  unfolding Auth_DecideRoleRequest_def GetRoleRequest_def
  by (rule stays_checked [OF stays_reads]) (auto intro: stays_return guards_refused split: option.split)

lemma CreateRegistrationInvite_refused:
  "stays J (CreateRegistrationInvite a actor em su ttl) (\<lambda>r. \<exists>e. r = Inl e)"
  unfolding CreateRegistrationInvite_def
  by (rule stays_checked [OF stays_return [of "\<lambda>_. True"]]) (auto intro: guards_refused)

lemma discard_refused: "stays J m (\<lambda>r. \<exists>e. r = Inl e) \<Longrightarrow> stays J (checked m (\<lambda>_. ret ())) (\<lambda>r. \<exists>e. r = Inl e)"
  by (erule stays_checked) auto

end

section \<open>Calls that need authority\<close>

text \<open>Every method of the service that manages something in the name of an actor, with its result dropped.\<close>

inductive managing :: "auth \<Rightarrow> uuid \<Rightarrow> unit svc \<Rightarrow> bool" for a :: auth and actor :: uuid where
  ban: "managing a actor (BanUser actor i reason)"
| unban: "managing a actor (UnbanUser actor i)"
| account: "managing a actor (checked (CreateServiceAccount (alib a) actor lg secret su) (\<lambda>_. ret ()))"
| key: "managing a actor (RotateSigningKeyForActor a actor)"
| invite: "managing a actor (checked (CreateRegistrationInvite a actor em su ttl) (\<lambda>_. ret ()))"
| users: "managing a actor (checked (UsersPage actor q c n) (\<lambda>_. ret ()))"
| role: "managing a actor (checked (Auth_CreateRole actor name desc ps) (\<lambda>_. ret ()))"
| delete: "managing a actor (Auth_DeleteRole actor x)"
| parent: "managing a actor (Auth_SetRoleParent actor x p)"
| describe: "managing a actor (Auth_UpdateRoleDescription actor x t)"
| mount: "managing a actor (Mount actor x y)"
| unmount: "managing a actor (Unmount actor x y)"
| tag: "managing a actor (ChangeRoleTag actor x tag add)"
| rename: "managing a actor (Auth_RenameRoleTag actor x old new)"
| members: "managing a actor (checked (RoleMembers actor x) (\<lambda>_. ret ()))"
| assign: "managing a actor (AssignRole actor i x level until tags)"
| grant: "managing a actor (ChangeMembershipTag actor i x tag add)"
| remove: "managing a actor (RemoveRole actor i x)"
| request: "i \<noteq> actor \<Longrightarrow> managing a actor (checked (RequestRole actor i x) (\<lambda>_. ret ()))"
| pending: "managing a actor (checked (PendingRoleRequests actor x) (\<lambda>_. ret ()))"
| decide: "managing a actor (Auth_DecideRoleRequest actor rid ok)"

text \<open>The databases the others can lead to from \<open>d0\<close>, as long as they give the actor no power and leave
  its ban alone.\<close>

definition confined :: "(db \<Rightarrow> db \<Rightarrow> bool) \<Rightarrow> db \<Rightarrow> uuid \<Rightarrow> bool \<Rightarrow> db \<Rightarrow> bool" where
  "confined R d0 actor b d \<longleftrightarrow> R d0 d \<and> powerless actor d \<and> is_banned actor d = b"

interpretation confined: powerless_actor actor "confined R d0 actor b" for R d0 actor b
  by unfold_locales (simp_all add: confined_def)

lemma managing_refused:
  assumes "managing a actor m"
  shows "stays (confined R d0 actor b) m (\<lambda>r. \<exists>e. r = Inl e)"
  using assms
proof cases
  case (request i x)
  then show ?thesis unfolding RequestRole_def by (simp add: confined.discard_refused confined.guards_refused)
qed (simp_all add: confined.discard_refused confined.guards_refused confined.UpdateRoleDescription_refused
    confined.AssignRole_refused confined.DecideRoleRequest_refused confined.CreateRegistrationInvite_refused
    BanUser_def UnbanUser_def CreateServiceAccount_def RotateSigningKeyForActor_def UsersPage_def Auth_CreateRole_def
    Auth_DeleteRole_def Auth_SetRoleParent_def Mount_def Unmount_def ChangeRoleTag_def Auth_RenameRoleTag_def
    RoleMembers_def ChangeMembershipTag_def RemoveRole_def PendingRoleRequests_def)

text \<open>
  C2. No authority, no effect: an actor that is banned, or is neither a superuser nor an administrator
  of any role, is refused by every managing method, and the call adds nothing to the database: the
  database has moved by what the other requests did only, however they interleave, as long as they
  neither empower the actor nor change its ban.
\<close>

theorem powerless_actor_refused:
  assumes "managing a actor m" "run_state m w = (r, w')"
    and "powerless actor (w_db w)" "\<And>d. R d d" "\<And>d d1 d2. R d d1 \<Longrightarrow> R d1 d2 \<Longrightarrow> R d d2"
    and "\<And>e d. e \<in> set (w_schedule w) \<Longrightarrow> powerless actor d \<Longrightarrow>
      R d (e_other e d) \<and> powerless actor (e_other e d) \<and> is_banned actor (e_other e d) = is_banned actor d"
  shows "(\<exists>e. r = Inl e) \<and> R (w_db w) (w_db w')"
proof -
  let ?J = "confined R (w_db w) actor (is_banned actor (w_db w))"
  have "keeping ?J d (e_other e d)" if "e \<in> set (w_schedule w)" for e d
    using assms(6) [OF that, of d] assms(5) by (auto simp: keeping_def confined_def)
  then have "under ?J w" using assms(3,4) by (simp add: under_def others_def confined_def)
  with staysD [OF managing_refused [OF assms(1)] assms(2)] show ?thesis
    by (auto simp: under_def confined_def)
qed

text \<open>An ordinary account tries to ban another one in a quiet world.\<close>

definition sample_member_db :: db where
  "sample_member_db = empty_db\<lparr>users := [sample_user, sample_user\<lparr>u_id := 2, u_login := ''bob''\<rparr>]\<rparr>"

definition sample_member_world :: world where
  "sample_member_world = \<lparr>w_db = sample_member_db, w_clock = 5, w_outbox = [], w_rand = (\<lambda>k n. None),
     w_digits = (\<lambda>k. None), w_uuids = (\<lambda>k. k), w_draws = 0, w_schedule = [quiet, quiet]\<rparr>"

lemma sample_powerless: "powerless 2 sample_member_db"
  by (simp add: powerless_def is_banned_def is_superuser_def account_def sample_member_db_def find_row_def sample_user_def
      new_user_def is_admin_of_def UserIsEffectiveRoleAdmin_def reads_def exists_row_iff empty_db_def)

theorem powerless_actor_refused_witness:
  "(\<exists>e. fst (run_state (BanUser 2 1 ''spam'') sample_member_world) = Inl e)
     \<and> w_db (snd (run_state (BanUser 2 1 ''spam'') sample_member_world)) = sample_member_db"
proof -
  obtain r w' where run: "run_state (BanUser 2 1 ''spam'') sample_member_world = (r, w')" by fastforce
  have "(\<exists>e. r = Inl e) \<and> w_db sample_member_world = w_db w'"
    by (rule powerless_actor_refused [OF managing.ban run])
      (auto simp: sample_member_world_def sample_powerless quiet_def)
  with run show ?thesis by (simp add: sample_member_world_def)
qed

end
