(* ===== verification/Store.thy ===== *)
theory Store
  imports Requests Signing_Keys Registration Links OTP
begin

text \<open>
  The store as a transition system: one rule per writing operation of the repository, grouped by
  the tables they write, and the invariant of all reachable databases. A reading operation is no
  step, since it returns the database it was given.
\<close>

section \<open>Steps\<close>

text \<open>Writers of the account tables (and, for a ban, of the sessions).\<close>

inductive account_step :: "db \<Rightarrow> db \<Rightarrow> bool" where
  step_create_human: "CreateHumanUser i now lg em h d = Inr (x, d') \<Longrightarrow> account_step d d'"
| step_create_passwordless: "CreatePasswordlessHuman i now lg em d = Inr (x, d') \<Longrightarrow> account_step d d'"
| step_create_service: "CreateServiceUser i now lg h su d = Inr (x, d') \<Longrightarrow> account_step d d'"
| step_lock: "SetLockedUntil i t d = Inr (u, d') \<Longrightarrow> account_step d d'"
| step_password: "UpdatePassword now i h d = Inr (u, d') \<Longrightarrow> account_step d d'"
| step_superuser: "SetSuperuser i v d = Inr (u, d') \<Longrightarrow> account_step d d'"
| step_ban: "SetUserBan now i by reason d = Inr (u, d') \<Longrightarrow> account_step d d'"
| step_history: "InsertPasswordHistory hid now i h c n d = Inr (u, d') \<Longrightarrow> account_step d d'"
| step_trim: "TrimPasswordHistory i keep d = Inr (u, d') \<Longrightarrow> account_step d d'"
| step_register: "RegisterHumanOpen uid hid now lg em ph c n k d = Inr (x, d') \<Longrightarrow> account_step d d'"

inductive invite_step :: "db \<Rightarrow> db \<Rightarrow> bool" where
  step_invite: "InsertRegistrationInvite vid h em su ex by d = Inr (x, d') \<Longrightarrow> invite_step d d'"
| step_mark_invite: "MarkRegistrationInviteUsed now vid d = Inr (u, d') \<Longrightarrow> invite_step d d'"
| step_register_invited: "RegisterHumanWithInvite uid hid now h lg em ph c n k d = Inr (r, d') \<Longrightarrow> invite_step d d'"

inductive session_step :: "db \<Rightarrow> db \<Rightarrow> bool" where
  step_upsert: "UpsertRefreshSessionForActiveVersion sid now i v dev label hash ex mx d = Inr (x, d') \<Longrightarrow> session_step d d'"
| step_rotate: "RotateRefreshSessionForActiveVersion now i sid v old new ex d = Inr (x, d') \<Longrightarrow> session_step d d'"
| step_mark_used: "MarkRefreshUsed now sid d = Inr (u, d') \<Longrightarrow> session_step d d'"
| step_revoke: "RevokeRefreshSession now sid d = Inr (u, d') \<Longrightarrow> session_step d d'"
| step_revoke_hash: "RevokeRefreshByHash now i hash d = Inr (u, d') \<Longrightarrow> session_step d d'"

inductive otp_step :: "db \<Rightarrow> db \<Rightarrow> bool" where
  step_otp: "CreateEmailOTP oid now i purpose h ex c d = Inr (x, d') \<Longrightarrow> otp_step d d'"
| step_consume: "ConsumeOTP now oid d = Inr (u, d') \<Longrightarrow> otp_step d d'"
| step_attempt: "IncrementOTPAttempt oid d = Inr (u, d') \<Longrightarrow> otp_step d d'"
| step_issue: "issuePasswordResetOTP reserved oid i h now ex mi d = Inr (r, d') \<Longrightarrow> otp_step d d'"
| step_activate: "ActivatePasswordResetOTP i oid now d = Inr (r, d') \<Longrightarrow> otp_step d d'"

inductive reset_step :: "db \<Rightarrow> db \<Rightarrow> bool" where
  step_complete: "CompletePasswordResetOTP hid i h now m n prep d = Inr (b, d') \<Longrightarrow> reset_step d d'"

inductive role_step :: "db \<Rightarrow> db \<Rightarrow> bool" where
  step_role: "CreateRoleWithParents x now name desc ps d = Inr (y, d') \<Longrightarrow> role_step d d'"
| step_parent: "SetRoleParent x parent d = Inr (u, d') \<Longrightarrow> role_step d d'"
| step_mount: "MountRole x p d = Inr (u, d') \<Longrightarrow> role_step d d'"
| step_unmount: "UnmountRole x p d = Inr (u, d') \<Longrightarrow> role_step d d'"
| step_describe: "UpdateRoleDescription x t d = Inr (u, d') \<Longrightarrow> role_step d d'"
| step_add_tag: "AddRoleTag x tag d = Inr (u, d') \<Longrightarrow> role_step d d'"
| step_delete_tag: "DeleteRoleTag x tag d = Inr (u, d') \<Longrightarrow> role_step d d'"
| step_rename_tag: "RenameRoleTag x old new d = Inr (u, d') \<Longrightarrow> role_step d d'"
| step_assign: "assignUserRoleTx newID i x level by from until tags d = Inr (u, d') \<Longrightarrow> role_step d d'"
| step_grant: "AddUserRoleTag i x tag d = Inr (u, d') \<Longrightarrow> role_step d d'"
| step_revoke_tag: "DeleteUserRoleTag i x tag d = Inr (u, d') \<Longrightarrow> role_step d d'"
| step_remove: "RemoveUserRole i x d = Inr (u, d') \<Longrightarrow> role_step d d'"

inductive request_step :: "db \<Rightarrow> db \<Rightarrow> bool" where
  step_request: "CreateRoleRequest rid r i x d = Inr (y, d') \<Longrightarrow> request_step d d'"
| step_decide: "DecideRoleRequestWithMembership newID rid ok by now d = Inr (u, d') \<Longrightarrow> request_step d d'"
| step_delete_role: "DeleteRole x d = Inr (u, d') \<Longrightarrow> request_step d d'"

inductive key_step :: "db \<Rightarrow> db \<Rightarrow> bool" where
  step_first_key: "InsertSigningKey now kid cipher nonce dep d = Inr (u, d') \<Longrightarrow> key_step d d'"
| step_rotate_key: "DeprecateCurrentAndSet now kid cipher nonce d = Inr (u, d') \<Longrightarrow> key_step d d'"

inductive link_step :: "db \<Rightarrow> db \<Rightarrow> bool" where
  step_link: "InsertMagicLink lid h i ex d = Inr (x, d') \<Longrightarrow> link_step d d'"
| step_invalidate: "InvalidateMagicLink now lid d = Inr (u, d') \<Longrightarrow> link_step d d'"
| step_consume_link: "ConsumeMagicLink now h d = Inr (x, d') \<Longrightarrow> link_step d d'"

inductive login_step :: "db \<Rightarrow> db \<Rightarrow> bool" where
  step_failed_login: "InsertFailedLogin now lg ip d = Inr (u, d') \<Longrightarrow> login_step d d'"
| step_forget_logins: "DeleteOldFailedLogins before d = Inr (u, d') \<Longrightarrow> login_step d d'"

inductive db_step :: "db \<Rightarrow> db \<Rightarrow> bool" where
  by_account: "account_step d d' \<Longrightarrow> db_step d d'"
| by_invite: "invite_step d d' \<Longrightarrow> db_step d d'"
| by_session: "session_step d d' \<Longrightarrow> db_step d d'"
| by_otp: "otp_step d d' \<Longrightarrow> db_step d d'"
| by_reset: "reset_step d d' \<Longrightarrow> db_step d d'"
| by_role: "role_step d d' \<Longrightarrow> db_step d d'"
| by_request: "request_step d d' \<Longrightarrow> db_step d d'"
| by_key: "key_step d d' \<Longrightarrow> db_step d d'"
| by_link: "link_step d d' \<Longrightarrow> db_step d d'"
| by_step_up: "step_up_step d d' \<Longrightarrow> db_step d d'"
| by_login: "login_step d d' \<Longrightarrow> db_step d d'"

inductive_cases db_stepE: "db_step d d'"

section \<open>What a step leaves alone\<close>

text \<open>Databases that agree outside some tables are compared with those tables emptied.\<close>

lemmas op_defs = UpsertRefreshSessionForActiveVersion_def MarkRefreshUsed_def RevokeRefreshSession_def
  RevokeRefreshByHash_def CreateEmailOTP_def ConsumeOTP_def IncrementOTPAttempt_def issuePasswordResetOTP_def
  ActivatePasswordResetOTP_def writes_def Let_def

lemma session_step_frame: "session_step d d' \<Longrightarrow> d'\<lparr>refresh_sessions := []\<rparr> = d\<lparr>refresh_sessions := []\<rparr>"
proof (induction rule: session_step.induct)
  case (step_rotate now i sid v old new ex d x d')
  from rotate_InrD(5) [OF step_rotate] show ?case by simp
qed (auto simp: op_defs split: if_splits option.splits sum.splits)

lemma otp_step_frame: "otp_step d d' \<Longrightarrow> d'\<lparr>email_otps := []\<rparr> = d\<lparr>email_otps := []\<rparr>"
  by (induction rule: otp_step.induct) (auto simp: op_defs split: if_splits option.splits sum.splits)

lemma key_step_frame: "key_step d d' \<Longrightarrow> d'\<lparr>signing_keys := []\<rparr> = d\<lparr>signing_keys := []\<rparr>"
  by (induction rule: key_step.induct) (auto dest: signing_writes_frame)

lemma link_step_frame: "link_step d d' \<Longrightarrow> d'\<lparr>magic_links := []\<rparr> = d\<lparr>magic_links := []\<rparr>"
  by (induction rule: link_step.induct)
    (auto simp: InsertMagicLink_def InvalidateMagicLink_def ConsumeMagicLink_def writes_def split: if_splits option.splits)

lemma step_up_step_frame: "step_up_step d d' \<Longrightarrow> d'\<lparr>step_ups := []\<rparr> = d\<lparr>step_ups := []\<rparr>"
  by (induction rule: step_up_step.induct)
    (auto simp: CreateStepUp2FASession_def ApproveStepUp2FA_def ExpireStepUp2FA_def MarkExpiredStepUp2FAByTime_def
      writes_def split: if_splits)

lemma login_step_frame: "login_step d d' \<Longrightarrow> d'\<lparr>failed_logins := []\<rparr> = d\<lparr>failed_logins := []\<rparr>"
  by (induction rule: login_step.induct) (auto simp: InsertFailedLogin_def DeleteOldFailedLogins_def writes_def)

lemma reset_step_frame:
  "reset_step d d' \<Longrightarrow> d'\<lparr>users := [], password_histories := [], email_otps := []\<rparr>
    = d\<lparr>users := [], password_histories := [], email_otps := []\<rparr>"
proof (induction rule: reset_step.induct)
  case (step_complete hid i h now m n prep d b d')
  have "d'\<lparr>users := [], password_histories := [], email_otps := []\<rparr>
      = d\<lparr>users := [], password_histories := [], email_otps := []\<rparr>"
    if "apply_password_reset prep hid i now n row d = Inr (b, d')" for row
    by (rule apply_reset_InrD [OF that]) simp
  with step_complete show ?case
    by (auto simp: CompletePasswordResetOTP_def Let_def split: if_splits option.splits)
qed

lemma insert_user_frame:
  "insert_user u d = Inr d' \<Longrightarrow> d'\<lparr>users := [], identity_keys := []\<rparr> = d\<lparr>users := [], identity_keys := []\<rparr>"
  by (auto simp: insert_user_def split: sum.splits if_splits)

lemma account_step_frame:
  "account_step d d' \<Longrightarrow>
    d'\<lparr>users := [], identity_keys := [], password_histories := [], refresh_sessions := []\<rparr>
      = d\<lparr>users := [], identity_keys := [], password_histories := [], refresh_sessions := []\<rparr>"
proof (induction rule: account_step.induct)
  case (step_register uid hid now lg em ph c n k d x d')
  show ?case by (rule register_InrD [OF step_register [unfolded RegisterHumanOpen_def]]) simp
qed (auto simp: create_defs insert_user_def SetLockedUntil_def UpdatePassword_def SetSuperuser_def SetUserBan_def
    revoke_user_sessions_def InsertPasswordHistory_def insert_history_def TrimPasswordHistory_def trim_history_def
    writes_def Let_def split: sum.splits if_splits option.splits)

lemma invite_step_frame:
  "invite_step d d' \<Longrightarrow>
    d'\<lparr>users := [], identity_keys := [], password_histories := [], invites := []\<rparr>
      = d\<lparr>users := [], identity_keys := [], password_histories := [], invites := []\<rparr>"
proof (induction rule: invite_step.induct)
  case (step_register_invited uid hid now h lg em ph c n k d r d')
  then show ?case
  proof (cases rule: invite_register_cases)
    case (registered v d1)
    show ?thesis unfolding registered(6) by (rule register_InrD [OF registered(3)]) simp
  qed simp
qed (auto simp: InsertRegistrationInvite_def MarkRegistrationInviteUsed_def split: if_splits)

lemma insert_mount_frame: "insert_mount x p d = Inr d' \<Longrightarrow> d'\<lparr>role_mounts := []\<rparr> = d\<lparr>role_mounts := []\<rparr>"
  by (auto simp: insert_mount_def split: if_splits)

lemma mount_all_frame: "mount_all x ps d = Inr d' \<Longrightarrow> d'\<lparr>role_mounts := []\<rparr> = d\<lparr>role_mounts := []\<rparr>"
  by (induction ps arbitrary: d) (auto split: sum.splits dest: insert_mount_frame)

lemma assign_frame:
  "assignUserRoleTx newID i x level by from until tags d = Inr (u, d') \<Longrightarrow>
    d'\<lparr>user_roles := [], user_role_tags := []\<rparr> = d\<lparr>user_roles := [], user_role_tags := []\<rparr>"
  by (auto simp: assignUserRoleTx_def Let_def split: if_splits option.splits sum.splits)

abbreviation (input) no_roles :: "db \<Rightarrow> db" where
  "no_roles d \<equiv> d\<lparr>roles := [], role_mounts := [], role_tags := [], user_roles := [], user_role_tags := []\<rparr>"

lemma role_step_frame: "role_step d d' \<Longrightarrow> no_roles d' = no_roles d"
proof (induction rule: role_step.induct)
  case (step_role x now name desc ps d y d')
  let ?d1 = "d\<lparr>roles := roles d @ [\<lparr>r_id = x, r_name = TrimSpace name, r_description = desc, r_created_at = now\<rparr>]\<rparr>"
  have "d'\<lparr>role_mounts := []\<rparr> = ?d1\<lparr>role_mounts := []\<rparr>"
    using step_role by (auto simp: CreateRoleWithParents_def insert_role_def Let_def
        split: if_splits sum.splits dest: mount_all_frame)
  then show ?case by (cases d; cases d') simp
next
  case (step_parent x parent d u d')
  have "d'\<lparr>role_mounts := []\<rparr> = d\<lparr>role_mounts := []\<rparr>"
    using step_parent insert_mount_frame by (fastforce simp: SetRoleParent_def Let_def split: if_splits option.splits sum.splits)
  then show ?case by (cases d; cases d') simp
next
  case (step_mount x p d u d')
  have "d'\<lparr>role_mounts := []\<rparr> = d\<lparr>role_mounts := []\<rparr>"
    using step_mount insert_mount_frame by (fastforce simp: MountRole_def split: if_splits sum.splits)
  then show ?case by (cases d; cases d') simp
next
  case (step_assign newID i x level by' from' until' tags d u d')
  from assign_frame [OF step_assign] show ?case by (cases d; cases d') simp
next
  case (step_rename_tag x old new d u d')
  then show ?case
    by (auto simp: RenameRoleTag_def insert_role_tag_def Let_def split: if_splits sum.splits)
qed (auto simp: UnmountRole_def UpdateRoleDescription_def AddRoleTag_def insert_role_tag_def DeleteRoleTag_def
    AddUserRoleTag_def DeleteUserRoleTag_def RemoveUserRole_def writes_def split: if_splits sum.splits option.splits)

lemma request_step_frame: "request_step d d' \<Longrightarrow> (no_roles d')\<lparr>role_requests := []\<rparr> = (no_roles d)\<lparr>role_requests := []\<rparr>"
proof (induction rule: request_step.induct)
  case (step_decide newID rid ok by' now d u d')
  obtain q :: role_request and d1 rs where
    a: "(if ok then assignUserRoleTx newID (q_target q) (q_role q) RoleMember (Some by') now None [] d
         else Inr ((), d)) = Inr ((), d1)"
    and d': "d' = d1\<lparr>role_requests := rs\<rparr>"
    by (rule decide_InrD [OF step_decide]) (rule that)
  have "d1\<lparr>user_roles := [], user_role_tags := []\<rparr> = d\<lparr>user_roles := [], user_role_tags := []\<rparr>"
    using a assign_frame by (cases ok) auto
  then show ?case unfolding d' by (cases d; cases d1) simp
qed (auto simp: CreateRoleRequest_def DeleteRole_def Let_def split: if_splits)

section \<open>The store invariant\<close>

text \<open>
  Identities, sessions and bans; challenges; the hierarchy and its memberships; requests; signing
  keys; invites; magic links; step-up sessions.
\<close>

definition store_ok :: "db \<Rightarrow> bool" where
  "store_ok d \<longleftrightarrow> account_inv d \<and> otps_ok d \<and> roles_ok d \<and> requests_ok d \<and> keys_ok d \<and> invites_ok d
     \<and> links_ok d \<and> step_ups_ok d"

lemmas store_invariants = account_inv_def identity_ok_def sessions_ok_def ban_ok_def otps_ok_def roles_ok_def edges_def
  requests_ok_def keys_ok_def invites_ok_def links_ok_def step_ups_ok_def

lemma account_step_inv:
  assumes "account_step d d'" "account_inv d"
  shows "account_inv d'"
proof -
  have c: "account_inv d'" if "keeps identity_ok f" "keeps ban_ok f" "f d = Inr (x, d')" "refresh_sessions d' = refresh_sessions d"
    for f :: "'x repo" and x
    using that assms(2) sessions_ok_frame [OF that(4)] keepsD [OF that(1,3)] keepsD [OF that(2,3)]
    by (simp add: account_inv_def)
  have h: "account_inv d'" if "d'\<lparr>password_histories := []\<rparr> = d\<lparr>password_histories := []\<rparr>"
    using that assms(2) by (cases d; cases d') (simp add: store_invariants)
  show ?thesis
    using assms(1)
  proof cases
    case (step_create_human i now lg em h x)
    then show ?thesis
      by (intro c [OF create_keeps_identity(1) create_keep_ban_ok(1) step_create_human])
        (auto simp: create_defs insert_user_def Let_def split: sum.splits if_splits)
  next
    case (step_create_passwordless i now lg em x)
    then show ?thesis
      by (intro c [OF create_keeps_identity(2) create_keep_ban_ok(2) step_create_passwordless])
        (auto simp: create_defs insert_user_def Let_def split: sum.splits if_splits)
  next
    case (step_create_service i now lg h su x)
    then show ?thesis
      by (intro c [OF create_keeps_identity(3) create_keep_ban_ok(3) step_create_service])
        (auto simp: create_defs insert_user_def Let_def split: sum.splits if_splits)
  next
    case (step_lock i t u)
    then show ?thesis
      by (intro c [OF user_updates_keep_identity(1) user_writes_keep_ban_ok(1) step_lock])
        (auto simp: SetLockedUntil_def writes_def)
  next
    case (step_password now i h u)
    then show ?thesis
      by (intro c [OF user_updates_keep_identity(2) user_writes_keep_ban_ok(2) step_password])
        (auto simp: UpdatePassword_def writes_def)
  next
    case (step_superuser i v u)
    then show ?thesis
      by (intro c [OF user_updates_keep_identity(3) user_writes_keep_ban_ok(3) step_superuser])
        (auto simp: SetSuperuser_def writes_def)
  next
    case (step_ban now i by' reason u)
    from keepsD [OF SetUserBan_keeps_identity step_ban] keepsD [OF SetUserBan_ban_ok step_ban]
      keepsD [OF keeps_sessions_ok(6) step_ban] assms(2) show ?thesis by (simp add: account_inv_def)
  next
    case (step_history hid now i h c n u)
    then show ?thesis
      by (intro h) (auto simp: InsertPasswordHistory_def insert_history_def split: if_splits)
  next
    case (step_trim i keep u)
    then show ?thesis
      by (intro h) (auto simp: TrimPasswordHistory_def trim_history_def Let_def split: if_splits)
  next
    case (step_register uid hid now lg em ph c n k x)
    from keepsD [OF open_register_keeps step_register assms(2)] show ?thesis .
  qed
qed

lemma session_step_inv: "session_step d d' \<Longrightarrow> account_inv d \<Longrightarrow> account_inv d'"
proof (induction rule: session_step.induct)
  case (step_upsert sid now i v dev label hash ex mx d x d')
  from keepsD [OF upsert_keeps_account_inv step_upsert] show ?case .
next
  case (step_rotate now i sid v old new ex d x d')
  from keepsD [OF rotate_keeps_account_inv step_rotate] show ?case .
next
  case (step_mark_used now sid d u d')
  have "identity_ok d' = identity_ok d"
    by (rule identity_ok_frame) (use step_mark_used(1) in \<open>auto simp: MarkRefreshUsed_def writes_def\<close>)
  with keepsD [OF keeps_sessions_ok(3) step_mark_used(1)] keepsD [OF session_writes_keep_ban_ok(1) step_mark_used(1)]
    step_mark_used(2) show ?case by (simp add: account_inv_def)
next
  case (step_revoke now sid d u d')
  have "identity_ok d' = identity_ok d"
    by (rule identity_ok_frame) (use step_revoke(1) in \<open>auto simp: RevokeRefreshSession_def writes_def\<close>)
  with keepsD [OF keeps_sessions_ok(4) step_revoke(1)] keepsD [OF session_writes_keep_ban_ok(2) step_revoke(1)]
    step_revoke(2) show ?case by (simp add: account_inv_def)
next
  case (step_revoke_hash now i hash d u d')
  have "identity_ok d' = identity_ok d"
    by (rule identity_ok_frame) (use step_revoke_hash(1) in \<open>auto simp: RevokeRefreshByHash_def writes_def\<close>)
  with keepsD [OF keeps_sessions_ok(5) step_revoke_hash(1)] keepsD [OF session_writes_keep_ban_ok(3) step_revoke_hash(1)]
    step_revoke_hash(2) show ?case by (simp add: account_inv_def)
qed

lemma otp_step_inv: "otp_step d d' \<Longrightarrow> otps_ok d \<Longrightarrow> otps_ok d'"
  by (induction rule: otp_step.induct)
    (auto dest: keepsD [OF CreateEmailOTP_keeps] keepsD [OF ConsumeOTP_keeps] keepsD [OF IncrementOTPAttempt_keeps]
      keepsD [OF issue_keeps] keepsD [OF activate_keeps])

definition set_password :: "uuid \<Rightarrow> string \<Rightarrow> instant \<Rightarrow> user list \<Rightarrow> user list" where
  "set_password i h now us = update_rows (\<lambda>u. u_id u = i)
     (\<lambda>u. u\<lparr>u_password_hash := Some h, u_password_changed_at := Some now\<rparr>) us"

lemma reset_step_users:
  assumes "reset_step d d'"
  shows "users d' = users d \<or> (\<exists>i h now. users d' = set_password i h now (users d))"
  using assms
proof cases
  case (step_complete hid i h now m n prep b)
  have "\<exists>h. users d' = set_password i h now (users d)"
    if "apply_password_reset prep hid i now n row d = Inr (b, d')" for row
    by (rule apply_reset_InrD [OF that]) (auto simp: set_password_def)
  with step_complete show ?thesis
    by (auto simp: CompletePasswordResetOTP_def Let_def split: if_splits option.splits)
qed

lemma reset_step_inv:
  assumes "reset_step d d'"
  shows "account_inv d' = account_inv d" "otps_ok d \<Longrightarrow> otps_ok d'"
proof -
  have t: "identity_keys d' = identity_keys d" "refresh_sessions d' = refresh_sessions d"
    using reset_step_frame [OF assms] by (cases d; cases d'; simp)+
  have "map ident (set_password i h now us) = map ident us" for i h now us
    unfolding set_password_def by (rule map_update_rows) (simp add: ident_def)
  then have "map ident (users d') = map ident (users d)" using reset_step_users [OF assms] by auto
  moreover have "banned_ids (set_password i h now us) = banned_ids us" for i h now us
    unfolding set_password_def by (rule banned_ids_update) simp_all
  then have "banned_ids (users d') = banned_ids (users d)" using reset_step_users [OF assms] by auto
  ultimately show "account_inv d' = account_inv d"
    using t identity_ok_frame [of d' d] sessions_ok_frame [of d' d] ban_ok_frame [of d' d] by (simp add: account_inv_def)
  show "otps_ok d \<Longrightarrow> otps_ok d'"
    using assms by cases (auto dest: keepsD [OF complete_keeps])
qed

lemma role_step_inv: "role_step d d' \<Longrightarrow> roles_ok d \<Longrightarrow> roles_ok d'"
  by (induction rule: role_step.induct)
    (auto dest: keepsD [OF CreateRole_keeps_ok] keepsD [OF SetRoleParent_keeps_ok] keepsD [OF MountRole_keeps_ok]
      keepsD [OF UnmountRole_keeps_ok] keepsD [OF role_writes_keep(1)] keepsD [OF role_writes_keep(2)]
      keepsD [OF role_writes_keep(3)] keepsD [OF AddRoleTag_keeps_ok] keepsD [OF RenameRoleTag_keeps_ok]
      keepsD [OF AddUserRoleTag_keeps_ok] keepsD [OF RemoveUserRole_keeps_ok] keepsD [OF assign_keeps_ok])

lemma DeleteRole_keeps_requests: "keeps requests_ok (DeleteRole x)"
proof (rule keepsI)
  fix d u d' assume ok: "requests_ok d" and eq: "DeleteRole x d = Inr (u, d')"
  have "role_requests d' = role_requests d \<or> role_requests d' = delete_rows (\<lambda>q. q_role q = x) (role_requests d)"
    using eq by (auto simp: DeleteRole_def Let_def split: if_splits)
  then show "requests_ok d'"
    using ok unfolding requests_ok_def
    by (metis (no_types, lifting) count_rows_delete_le distinct_delete_rows order_trans)
qed

lemma request_step_inv:
  assumes "request_step d d'"
  shows "roles_ok d \<Longrightarrow> roles_ok d'" "requests_ok d \<Longrightarrow> requests_ok d'"
proof -
  show "requests_ok d'" if "requests_ok d"
    using assms that by cases
      (auto dest: keepsD [OF CreateRoleRequest_keeps] keepsD [OF decide_keeps] keepsD [OF DeleteRole_keeps_requests])
  show "roles_ok d'" if "roles_ok d"
    using assms
  proof cases
    case (step_request rid r i x y)
    then have "roles_ok d' = roles_ok d"
      by (intro roles_ok_frame) (auto simp: CreateRoleRequest_def split: if_splits)
    with that show ?thesis by simp
  next
    case (step_decide newID rid ok by' now u)
    from keepsD [OF decide_keeps_roles_ok step_decide that] show ?thesis .
  next
    case (step_delete_role x u)
    from keepsD [OF DeleteRole_keeps_ok step_delete_role that] show ?thesis .
  qed
qed

lemma invite_step_inv:
  assumes "invite_step d d'"
  shows "account_inv d \<Longrightarrow> account_inv d'" "invites_ok d \<Longrightarrow> invites_ok d'"
proof -
  show "invites_ok d'" if "invites_ok d"
    using assms that by cases
      (auto dest: keepsD [OF InsertRegistrationInvite_keeps] keepsD [OF MarkRegistrationInviteUsed_keeps]
        keepsD [OF invite_register_keeps(2)])
  have same: "account_inv d'" if "d'\<lparr>invites := []\<rparr> = d\<lparr>invites := []\<rparr>" "account_inv d"
    using that by (cases d; cases d') (simp add: store_invariants)
  show "account_inv d'" if "account_inv d"
    using assms
  proof cases
    case (step_invite vid h em su ex by' x)
    then show ?thesis by (intro same [OF _ that]) (auto simp: InsertRegistrationInvite_def split: if_splits)
  next
    case (step_mark_invite now vid u)
    then show ?thesis by (intro same [OF _ that]) (auto simp: MarkRegistrationInviteUsed_def split: if_splits)
  next
    case (step_register_invited uid hid now h lg em ph c n k r)
    from keepsD [OF invite_register_keeps(1) step_register_invited that] show ?thesis .
  qed
qed

lemma key_step_inv: "key_step d d' \<Longrightarrow> keys_ok d \<Longrightarrow> keys_ok d'"
  by (induction rule: key_step.induct) (auto dest: keepsD [OF insert_signing_keeps] keepsD [OF rotation_keeps])

lemma link_step_inv: "link_step d d' \<Longrightarrow> links_ok d \<Longrightarrow> links_ok d'"
  by (induction rule: link_step.induct)
    (auto dest: keepsD [OF InsertMagicLink_keeps] keepsD [OF InvalidateMagicLink_keeps] keepsD [OF ConsumeMagicLink_keeps])

lemma step_up_step_inv: "step_up_step d d' \<Longrightarrow> step_ups_ok d \<Longrightarrow> step_ups_ok d'"
  by (induction rule: step_up_step.induct)
    (auto dest: keepsD [OF step_up_keeps(1)] keepsD [OF step_up_keeps(2)] keepsD [OF step_up_keeps(3)]
      keepsD [OF step_up_keeps(4)])

lemma db_step_ok: "db_step d d' \<Longrightarrow> store_ok d \<Longrightarrow> store_ok d'"
proof (induction rule: db_step.induct)
  case (by_account d d')
  with account_step_inv [OF by_account(1)] account_step_frame [OF by_account(1)] show ?case
    by (cases d; cases d') (simp add: store_ok_def store_invariants)
next
  case (by_invite d d')
  with invite_step_inv [OF by_invite(1)] invite_step_frame [OF by_invite(1)] show ?case
    by (cases d; cases d') (simp add: store_ok_def store_invariants)
next
  case (by_session d d')
  with session_step_inv [OF by_session(1)] session_step_frame [OF by_session(1)] show ?case
    by (cases d; cases d') (simp add: store_ok_def store_invariants)
next
  case (by_otp d d')
  with otp_step_inv [OF by_otp(1)] otp_step_frame [OF by_otp(1)] show ?case
    by (cases d; cases d') (simp add: store_ok_def store_invariants)
next
  case (by_reset d d')
  with reset_step_inv [OF by_reset(1)] reset_step_frame [OF by_reset(1)] show ?case
    by (cases d; cases d') (simp add: store_ok_def store_invariants)
next
  case (by_role d d')
  with role_step_inv [OF by_role(1)] role_step_frame [OF by_role(1)] show ?case
    by (cases d; cases d') (simp add: store_ok_def store_invariants)
next
  case (by_request d d')
  with request_step_inv [OF by_request(1)] request_step_frame [OF by_request(1)] show ?case
    by (cases d; cases d') (simp add: store_ok_def store_invariants)
next
  case (by_key d d')
  with key_step_inv [OF by_key(1)] key_step_frame [OF by_key(1)] show ?case
    by (cases d; cases d') (simp add: store_ok_def store_invariants)
next
  case (by_link d d')
  with link_step_inv [OF by_link(1)] link_step_frame [OF by_link(1)] show ?case
    by (cases d; cases d') (simp add: store_ok_def store_invariants)
next
  case (by_step_up d d')
  with step_up_step_inv [OF by_step_up(1)] step_up_step_frame [OF by_step_up(1)] show ?case
    by (cases d; cases d') (simp add: store_ok_def store_invariants)
next
  case (by_login d d')
  with login_step_frame [OF by_login(1)] show ?case
    by (cases d; cases d') (simp add: store_ok_def store_invariants)
qed

end
