(* ===== verification/Step_Up.thy ===== *)
theory Step_Up
  imports Login Validation
begin

text \<open>
  Step-up confirmation, from \<open>internal/service/auth.go\<close>: a correlation id names a session of the
  store and the mailed code that approves it.
\<close>

section \<open>Methods\<close>

definition BeginStepUp2FA :: "auth \<Rightarrow> uuid \<Rightarrow> duration \<Rightarrow> string svc" where
  "BeginStepUp2FA a userID ttl0 =
     checked (pure (normalizeStepUpTTL ttl0)) (\<lambda>ttl. do {
       now \<leftarrow> time_Now;
       found \<leftarrow> repo (GetUserByID userID);
       (case found of
          Inr (Some u) \<Rightarrow>
            (case u_email u of
               None \<Rightarrow> fail ErrNotFound
             | Some em \<Rightarrow> do {
                 x \<leftarrow> uuid_New;
                 let correlationID = uuid_String (alib a) x;
                 let ends = now + ttl;
                 sessionID \<leftarrow> uuid_New;
                 checked (repo (CreateStepUp2FASession sessionID correlationID userID ends)) (\<lambda>_.
                   checked (randomNumericCode (OTPCodeLength (cfg a))) (\<lambda>otp. do {
                     let otpExp = (if ttl < OTPCodeTTL (cfg a) then ends else now + OTPCodeTTL (cfg a));
                     newID \<leftarrow> uuid_New;
                     checked (repo_now (\<lambda>at. CreateEmailOTP newID at userID OTPStepUp2FA
                         (hashOTP a (otpPepper a) otp) otpExp (Some correlationID))) (\<lambda>_. do {
                       _ \<leftarrow> mail_to em ''Step-up 2FA code''
                         (''Code: '' @ otp @ [CHR 0x0A] @ ''Correlation: '' @ correlationID);
                       ret correlationID }) })) })
        | _ \<Rightarrow> fail ErrNotFound) })"

definition CompleteStepUp2FAOTP :: "auth \<Rightarrow> string \<Rightarrow> string \<Rightarrow> unit svc" where
  "CompleteStepUp2FAOTP a correlationID otp =
     checked (check_mailed_code a (repo (GetOTPByCorrelation correlationID)) otp)
       (\<lambda>_. repo_now (\<lambda>at. ApproveStepUp2FA at correlationID))"

definition StepUp2FAStatusForUser :: "string \<Rightarrow> uuid \<Rightarrow> step_up_status svc" where
  "StepUp2FAStatusForUser correlationID userID = do {
     found \<leftarrow> repo (GetStepUp2FA correlationID);
     (case found of
        Inr (Some s) \<Rightarrow>
          if su_user s \<noteq> userID then fail ErrNotFound
          else if su_status s \<noteq> StepUpPending then ret (su_status s)
          else do {
            now \<leftarrow> time_Now;
            (if now > su_expires_at s then do {
               _ \<leftarrow> repo_now (\<lambda>at. ExpireStepUp2FA at correlationID);
               ret StepUpExpired }
             else ret (su_status s)) }
      | _ \<Rightarrow> fail ErrNotFound) }"

definition ExpireStepUp2FASessionForUser :: "string \<Rightarrow> uuid \<Rightarrow> unit svc" where
  "ExpireStepUp2FASessionForUser correlationID userID = do {
     found \<leftarrow> repo (GetStepUp2FA correlationID);
     (case found of
        Inr (Some s) \<Rightarrow>
          if su_user s \<noteq> userID then fail ErrNotFound
          else repo_now (\<lambda>at. ExpireStepUp2FA at correlationID)
      | _ \<Rightarrow> fail ErrNotFound) }"

end
