(* ===== verification/Mail_Queue.thy ===== *)
theory Mail_Queue
  imports Onboarding "HOL-Library.Multiset"
begin

text \<open>
  The queue of public mail jobs, \<open>internal/service/public_mail_queue.go\<close>, and the methods of the
  service that use it (\<open>NewAuth\<close>, \<open>Shutdown\<close>, \<open>StartPasswordReset\<close>, \<open>StartMagicLink\<close>).

  The queue is a concurrent object: the callers of \<open>enqueue\<close> and \<open>Shutdown\<close>, the workers, the log
  worker and the goroutine that waits for the workers interleave. Its state is a record, each
  atomic action of a goroutine a rule of the step relation \<open>queue_step\<close>. \<open>enqueue\<close> holds the read
  lock and the closing half of \<open>Shutdown\<close> the write lock, so both are atomic; a send to a closed
  channel and a second close panic, which is the answer \<open>None\<close>.
\<close>

section \<open>State\<close>

datatype publicMailKind = publicMailMagicLink | publicMailPasswordReset

record publicMailJob =
  kind :: publicMailKind
  identity :: string

text \<open>
  \<open>jobs\<close> and \<open>closed\<close> are the channel, \<open>cancelled\<close> is the queue's context, \<open>shut\<close> the
  \<open>sync.Once\<close>, \<open>idle\<close> the workers in their \<open>select\<close>, \<open>running\<close> the jobs of the others, \<open>drained\<close> the
  closed channel \<open>done\<close>. The last four fields are history: the jobs accepted by \<open>enqueue\<close>, taken from
  the channel and finished so far, and whether a \<open>Shutdown\<close> gave up waiting.
\<close>

record publicMailQueue =
  accepting :: bool
  jobs :: "publicMailJob list"
  closed :: bool
  capacity :: nat
  cancelled :: bool
  shut :: bool
  workerCount :: nat
  idle :: nat
  running :: "publicMailJob list"
  logging :: bool
  logEvents :: "(publicMailKind \<times> string) list"
  logDone :: bool
  drained :: bool
  accepted :: "publicMailJob list"
  taken :: "publicMailJob list"
  finished :: "publicMailJob list"
  gave_up :: bool

definition newPublicMailQueue :: "int \<Rightarrow> int \<Rightarrow> duration \<Rightarrow> bool \<Rightarrow> bool \<Rightarrow> svc_error + publicMailQueue" where
  "newPublicMailQueue workers cap jobTimeout hasLog hasProcess =
     (if workers \<le> 0 then Inl (ErrOther ''public mail workers must be positive'')
      else if cap \<le> 0 then Inl (ErrOther ''public mail queue capacity must be positive'')
      else if jobTimeout \<le> 0 then Inl (ErrOther ''public mail job timeout must be positive'')
      else if \<not> hasProcess then Inl (ErrOther ''public mail processor is required'')
      else Inr \<lparr>accepting = True, jobs = [], closed = False, capacity = nat cap, cancelled = False, shut = False,
        workerCount = nat workers, idle = nat workers, running = [], logging = hasLog, logEvents = [],
        logDone = False, drained = False, accepted = [], taken = [], finished = [], gave_up = False\<rparr>)"

section \<open>Actions\<close>

definition logClass :: "publicMailKind \<Rightarrow> string \<Rightarrow> publicMailQueue \<Rightarrow> publicMailQueue" where
  "logClass k cls q =
     (if \<not> logging q then q
      else if length (logEvents q) < 16 then q\<lparr>logEvents := logEvents q @ [(k, cls)]\<rparr>
      else q)"

definition enqueue :: "publicMailJob \<Rightarrow> publicMailQueue \<Rightarrow> publicMailQueue option" where
  "enqueue job q =
     (if \<not> accepting q then Some (logClass (kind job) ''queue_closed'' q)
      else if closed q then None
      else if length (jobs q) < capacity q
      then Some (q\<lparr>jobs := jobs q @ [job], accepted := accepted q @ [job]\<rparr>)
      else Some (logClass (kind job) ''queue_full'' q))"

text \<open>The part of \<open>Shutdown\<close> under the \<open>sync.Once\<close>.\<close>

definition close_jobs :: "publicMailQueue \<Rightarrow> publicMailQueue option" where
  "close_jobs q =
     (if shut q then Some q
      else if closed q then None
      else Some (q\<lparr>shut := True, accepting := False, closed := True\<rparr>))"

text \<open>The \<open>select\<close> of \<open>Shutdown\<close>: the branches that are ready, with what they return and do. It waits
  while the list is empty.\<close>

definition shutdown_select :: "bool \<Rightarrow> publicMailQueue \<Rightarrow> ((svc_error + unit) \<times> publicMailQueue) list" where
  "shutdown_select ctxDone q =
     (if drained q then [(Inr (), q)] else []) @
     (if ctxDone then [(Inl (ErrOther ''context ended''), q\<lparr>cancelled := True, gave_up := True\<rparr>)] else [])"

text \<open>What a goroutine of the queue does next: a worker takes the job at the head, ends it (after
  \<open>recover\<close> when it panicked), or returns because the context is done or the channel is closed and
  empty; the log worker writes a line or returns; the waiting goroutine cancels the context when
  every worker has returned, and closes \<open>done\<close> when the log worker has returned too.\<close>

inductive internal :: "publicMailQueue \<Rightarrow> publicMailQueue \<Rightarrow> bool" where
  take_job: "idle q > 0 \<Longrightarrow> jobs q = j # js \<Longrightarrow>
    internal q (q\<lparr>idle := idle q - 1, jobs := js, running := j # running q, taken := taken q @ [j]\<rparr>)"
| end_job: "running q = a @ j # b \<Longrightarrow> r = q\<lparr>idle := idle q + 1, running := a @ b, finished := finished q @ [j]\<rparr> \<Longrightarrow>
    internal q (if panicked then logClass (kind j) ''worker_panic'' r else r)"
| worker_returns: "idle q > 0 \<Longrightarrow> cancelled q \<or> (closed q \<and> jobs q = []) \<Longrightarrow> internal q (q\<lparr>idle := idle q - 1\<rparr>)"
| log_line: "\<not> logDone q \<Longrightarrow> logEvents q = e # es \<Longrightarrow> internal q (q\<lparr>logEvents := es\<rparr>)"
| log_returns: "\<not> logDone q \<Longrightarrow> cancelled q \<Longrightarrow> internal q (q\<lparr>logDone := True\<rparr>)"
| workers_gone: "idle q = 0 \<Longrightarrow> running q = [] \<Longrightarrow> \<not> cancelled q \<Longrightarrow> internal q (q\<lparr>cancelled := True\<rparr>)"
| all_gone: "idle q = 0 \<Longrightarrow> running q = [] \<Longrightarrow> cancelled q \<Longrightarrow> logDone q \<Longrightarrow> \<not> drained q \<Longrightarrow> internal q (q\<lparr>drained := True\<rparr>)"

inductive queue_step :: "publicMailQueue \<Rightarrow> publicMailQueue \<Rightarrow> bool" where
  step_internal: "internal q q' \<Longrightarrow> queue_step q q'"
| step_enqueue: "enqueue job q = Some q' \<Longrightarrow> queue_step q q'"
| step_close: "close_jobs q = Some q' \<Longrightarrow> queue_step q q'"
| step_select: "shut q \<Longrightarrow> (r, q') \<in> set (shutdown_select ctxDone q) \<Longrightarrow> queue_step q q'"

inductive_cases internalE: "internal q q'"
inductive_cases queue_stepE: "queue_step q q'"

inductive queue_reachable :: "publicMailQueue \<Rightarrow> bool" where
  start: "newPublicMailQueue w c t l p = Inr q \<Longrightarrow> queue_reachable q"
| more: "queue_reachable q \<Longrightarrow> queue_step q q' \<Longrightarrow> queue_reachable q'"

section \<open>The service methods\<close>

definition NewAuth :: "config \<Rightarrow> lib \<Rightarrow> bool \<Rightarrow> svc_error + (auth \<times> publicMailQueue)" where
  "NewAuth c L hasLog =
     (case DecodeKey32 (SigningKeyMasterKey c) of
        Inl e \<Rightarrow> Inl (ErrOther ''signing master key'')
      | Inr sm \<Rightarrow>
          let a = \<lparr>cfg = c, alib = L, signingMaster = sm, otpPepper = take 32 (sm @ replicate 32 CHR 0x00)\<rparr>;
              workers = (if PublicMailWorkers c = 0 then 2 else PublicMailWorkers c);
              cap = (if PublicMailQueueSize c = 0 then 64 else PublicMailQueueSize c);
              timeout = (if PublicMailJobTimeout c = 0 then 10 * Second else PublicMailJobTimeout c)
          in case newPublicMailQueue workers cap timeout hasLog True of
               Inl e \<Rightarrow> Inl e
             | Inr q \<Rightarrow> Inr (a, q))"

definition StartPasswordReset :: "string \<Rightarrow> publicMailQueue \<Rightarrow> svc_error + publicMailQueue option" where
  "StartPasswordReset login q =
     (case normalizePublicIdentity login of
        Inl e \<Rightarrow> Inl e
      | Inr login \<Rightarrow> Inr (enqueue \<lparr>kind = publicMailPasswordReset, identity = login\<rparr> q))"

definition StartMagicLink :: "string \<Rightarrow> publicMailQueue \<Rightarrow> svc_error + publicMailQueue option" where
  "StartMagicLink login q =
     (case normalizePublicIdentity login of
        Inl e \<Rightarrow> Inl e
      | Inr login \<Rightarrow> Inr (enqueue \<lparr>kind = publicMailMagicLink, identity = login\<rparr> q))"

definition processPublicMail :: "auth \<Rightarrow> publicMailJob \<Rightarrow> unit prog" where
  "processPublicMail a job =
     (case kind job of
        publicMailMagicLink \<Rightarrow> processMagicLink a (identity job)
      | publicMailPasswordReset \<Rightarrow> processPasswordReset a (identity job))"

section \<open>The invariant\<close>

definition queue_ok :: "publicMailQueue \<Rightarrow> bool" where
  "queue_ok q \<longleftrightarrow>
     closed q = shut q \<and> accepting q = (\<not> shut q) \<and> 0 < workerCount q
     \<and> length (jobs q) \<le> capacity q \<and> length (logEvents q) \<le> 16
     \<and> idle q + length (running q) \<le> workerCount q
     \<and> accepted q = taken q @ jobs q \<and> mset (taken q) = mset (running q) + mset (finished q)
     \<and> (drained q \<longrightarrow> idle q = 0 \<and> running q = [] \<and> logDone q)
     \<and> (logDone q \<longrightarrow> cancelled q)
     \<and> (cancelled q \<longrightarrow> closed q)
     \<and> (gave_up q \<longrightarrow> cancelled q)
     \<and> (idle q + length (running q) < workerCount q \<longrightarrow> cancelled q \<or> (closed q \<and> jobs q = []))
     \<and> (cancelled q \<longrightarrow> gave_up q \<or> (jobs q = [] \<and> idle q = 0 \<and> running q = []))"

lemma new_queue_ok: "newPublicMailQueue w c t l p = Inr q \<Longrightarrow> queue_ok q"
  by (auto simp: newPublicMailQueue_def queue_ok_def split: if_splits)

text \<open>A log event changes nothing but the buffer, which stays within its bound.\<close>

lemma logClass_frame [simp]:
  "accepting (logClass k c q) = accepting q" "jobs (logClass k c q) = jobs q" "closed (logClass k c q) = closed q"
  "capacity (logClass k c q) = capacity q" "cancelled (logClass k c q) = cancelled q" "shut (logClass k c q) = shut q"
  "workerCount (logClass k c q) = workerCount q" "idle (logClass k c q) = idle q" "running (logClass k c q) = running q"
  "logDone (logClass k c q) = logDone q" "drained (logClass k c q) = drained q" "accepted (logClass k c q) = accepted q"
  "taken (logClass k c q) = taken q" "finished (logClass k c q) = finished q" "gave_up (logClass k c q) = gave_up q"
  by (simp_all add: logClass_def)

lemma logClass_bound: "length (logEvents q) \<le> 16 \<Longrightarrow> length (logEvents (logClass k c q)) \<le> 16"
  "length (logEvents (logClass k c q)) \<le> length (logEvents q) + 1"
  by (auto simp: logClass_def)

lemma logClass_ok: "queue_ok q \<Longrightarrow> queue_ok (logClass k c q)"
  using logClass_bound(1) [of q k c] by (auto simp: queue_ok_def)

lemma enqueue_ok: "queue_ok q \<Longrightarrow> enqueue job q = Some q' \<Longrightarrow> queue_ok q'"
  by (auto simp: enqueue_def logClass_ok split: if_splits) (auto simp: queue_ok_def)

lemma close_ok: "queue_ok q \<Longrightarrow> close_jobs q = Some q' \<Longrightarrow> queue_ok q'"
  by (auto simp: close_jobs_def queue_ok_def split: if_splits)

lemma select_ok: "queue_ok q \<Longrightarrow> shut q \<Longrightarrow> (r, q') \<in> set (shutdown_select b q) \<Longrightarrow> queue_ok q'"
  by (auto simp: shutdown_select_def queue_ok_def split: if_splits)

lemma end_job_ok:
  assumes "queue_ok q" "running q = a @ j # b"
  shows "queue_ok (q\<lparr>idle := idle q + 1, running := a @ b, finished := finished q @ [j]\<rparr>)"
  using assms by (auto simp: queue_ok_def)

lemma internal_ok:
  assumes "internal q q'" "queue_ok q"
  shows "queue_ok q'"
  using assms(1)
proof cases
  case (end_job a j b r panicked)
  then show ?thesis using end_job_ok [OF assms(2)] by (simp add: logClass_ok)
qed (use assms(2) in \<open>auto simp: queue_ok_def\<close>)

lemma queue_step_ok: "queue_step q q' \<Longrightarrow> queue_ok q \<Longrightarrow> queue_ok q'"
  by (erule queue_stepE) (erule (1) internal_ok enqueue_ok [rotated] close_ok [rotated] select_ok [rotated 2])+

lemma reachable_ok: "queue_reachable q \<Longrightarrow> queue_ok q"
  by (induction rule: queue_reachable.induct) (auto intro: new_queue_ok queue_step_ok)

section \<open>Results\<close>

text \<open>
  C32. In every state the queue can reach, however enqueuers, workers, the log worker and shutdowns
  interleave: neither a send to the closed channel nor a second close happens, the buffers stay
  within their bounds, no more workers are busy than were started, and jobs leave the channel in
  the order they were accepted, none lost and none twice.
\<close>

theorem queue_safe:
  assumes "queue_reachable q"
  shows "enqueue job q \<noteq> None \<and> close_jobs q \<noteq> None
    \<and> length (jobs q) \<le> capacity q \<and> length (logEvents q) \<le> 16
    \<and> length (running q) \<le> workerCount q
    \<and> accepted q = taken q @ jobs q \<and> mset (taken q) = mset (running q) + mset (finished q)"
  using reachable_ok [OF assms] by (auto simp: queue_ok_def enqueue_def close_jobs_def)

text \<open>The work left in the queue; every action of its goroutines reduces it.\<close>

definition work :: "publicMailQueue \<Rightarrow> nat" where
  "work q = 4 * length (jobs q) + 3 * length (running q) + idle q + length (logEvents q)
     + (if logDone q then 0 else 1) + (if cancelled q then 0 else 1) + (if drained q then 0 else 1)"

lemma internal_work:
  assumes "internal q q'"
  shows "work q' < work q"
  using assms
proof cases
  case (end_job a j b r panicked)
  have "work (logClass (kind j) ''worker_panic'' r) \<le> work r + 1"
    using logClass_bound(2) [of "kind j" "''worker_panic''" r] by (simp add: work_def)
  moreover have "work r + 2 = work q" using end_job(2,3) by (simp add: work_def)
  ultimately show ?thesis unfolding end_job(1) by simp
qed (auto simp: work_def)

lemma internal_runs_bounded: "(internal ^^ n) q q' \<Longrightarrow> work q' + n \<le> work q"
proof (induction n arbitrary: q')
  case (Suc n)
  then obtain q1 where "(internal ^^ n) q q1" "internal q1 q'" by auto
  with Suc.IH internal_work show ?case by fastforce
qed simp

lemma closed_progress:
  assumes "queue_ok q" "closed q" "\<not> drained q"
  shows "\<exists>q'. internal q q'"
proof -
  consider (busy) a j b where "running q = a @ j # b" | (waiting) "running q = []" "idle q > 0"
    | (gone) "running q = []" "idle q = 0"
    by (cases "running q") (auto intro: append_Nil [symmetric])
  then show ?thesis
  proof cases
    case busy
    from internal.end_job [OF this refl, of False] show ?thesis by blast
  next
    case waiting
    then show ?thesis using assms(2) take_job worker_returns by (cases "jobs q") blast+
  next
    case gone
    then show ?thesis using assms log_returns workers_gone all_gone by blast
  qed
qed

lemma internal_closed: "internal q q' \<Longrightarrow> closed q \<Longrightarrow> closed q'"
  by (erule internalE) auto

text \<open>
  C33. Once a shutdown has closed the queue, its goroutines do a bounded number of further steps, in
  whatever order, and when they can do no more the queue is drained: a waiting shutdown returns.
  If no shutdown gave up, every job that was accepted has then been finished.
\<close>

theorem queue_drains:
  assumes "queue_reachable q" "closed q" "(internal ^^ n) q q'"
  shows "n \<le> work q
    \<and> ((\<nexists>q''. internal q' q'') \<longrightarrow> drained q')
    \<and> (drained q' \<and> \<not> gave_up q' \<longrightarrow> mset (finished q') = mset (accepted q'))"
proof -
  have "queue_ok q' \<and> closed q'"
    using assms(3)
  proof (induction n arbitrary: q')
    case 0
    then show ?case using assms reachable_ok by simp
  next
    case (Suc n)
    then obtain q1 where "(internal ^^ n) q q1" "internal q1 q'" by auto
    with Suc.IH show ?case by (meson internal_ok internal_closed)
  qed
  moreover have "mset (finished q') = mset (accepted q')" if "queue_ok q'" "drained q'" "\<not> gave_up q'"
    using that by (auto simp: queue_ok_def)
  ultimately show ?thesis using internal_runs_bounded [OF assms(3)] closed_progress by auto
qed

text \<open>A queue of one worker and one place: a job is accepted, the queue is closed, and six steps drain it.\<close>

definition sample_job :: publicMailJob where
  "sample_job = \<lparr>kind = publicMailMagicLink, identity = ''bob''\<rparr>"

definition sample_queue :: publicMailQueue where
  "sample_queue = \<lparr>accepting = False, jobs = [sample_job], closed = True, capacity = 1, cancelled = False, shut = True,
     workerCount = 1, idle = 1, running = [], logging = True, logEvents = [],
     logDone = False, drained = False, accepted = [sample_job], taken = [], finished = [], gave_up = False\<rparr>"

definition sample_drained :: publicMailQueue where
  "sample_drained = sample_queue\<lparr>jobs := [], idle := 0, taken := [sample_job], finished := [sample_job],
     cancelled := True, logDone := True, drained := True\<rparr>"

lemma sample_queue_reachable: "queue_reachable sample_queue"
proof -
  obtain q where q: "newPublicMailQueue 1 1 1 True True = Inr q" by (simp add: newPublicMailQueue_def)
  then have "enqueue sample_job q = Some (sample_queue\<lparr>accepting := True, closed := False, shut := False\<rparr>)"
    by (auto simp: newPublicMailQueue_def enqueue_def sample_queue_def)
  with q have "queue_reachable (sample_queue\<lparr>accepting := True, closed := False, shut := False\<rparr>)"
    by (meson queue_reachable.intros step_enqueue)
  moreover have "close_jobs (sample_queue\<lparr>accepting := True, closed := False, shut := False\<rparr>) = Some sample_queue"
    by (simp add: close_jobs_def sample_queue_def)
  ultimately show ?thesis by (meson queue_reachable.intros step_close)
qed

lemma sample_queue_run:
  "(internal ^^ 6) sample_queue sample_drained"
proof -
  let ?q1 = "sample_queue\<lparr>idle := 0, jobs := [], running := [sample_job], taken := [sample_job]\<rparr>"
  let ?q2 = "?q1\<lparr>idle := 1, running := [], finished := [sample_job]\<rparr>"
  let ?q3 = "?q2\<lparr>idle := 0\<rparr>"
  let ?q4 = "?q3\<lparr>cancelled := True\<rparr>"
  let ?q5 = "?q4\<lparr>logDone := True\<rparr>"
  have "internal sample_queue ?q1" using take_job [of sample_queue] by (simp add: sample_queue_def)
  moreover have "internal ?q1 ?q2" using end_job [of ?q1 "[]" sample_job "[]" _ False] by (simp add: sample_queue_def)
  moreover have "internal ?q2 ?q3" using worker_returns [of ?q2] by (simp add: sample_queue_def)
  moreover have "internal ?q3 ?q4" using workers_gone [of ?q3] by (simp add: sample_queue_def)
  moreover have "internal ?q4 ?q5" using log_returns [of ?q4] by (simp add: sample_queue_def)
  moreover have "internal ?q5 (?q5\<lparr>drained := True\<rparr>)" using all_gone [of ?q5] by (simp add: sample_queue_def)
  ultimately have "(internal ^^ 6) sample_queue (?q5\<lparr>drained := True\<rparr>)"
    by (simp add: numeral_eq_Suc relcompp_apply) blast
  then show ?thesis by (simp add: sample_queue_def sample_drained_def)
qed

theorem queue_safe_witness: "enqueue sample_job sample_queue \<noteq> None \<and> accepted sample_queue = taken sample_queue @ jobs sample_queue"
  using queue_safe [OF sample_queue_reachable, of sample_job] by simp

theorem queue_drains_witness: "6 \<le> work sample_queue \<and> mset (finished sample_drained) = mset (accepted sample_drained)"
proof -
  have "closed sample_queue" by (simp add: sample_queue_def)
  moreover have "drained sample_drained" "\<not> gave_up sample_drained" by (simp_all add: sample_drained_def sample_queue_def)
  ultimately show ?thesis using queue_drains [OF sample_queue_reachable _ sample_queue_run] by blast
qed

end
