(* ===== verification/Refinement.thy ===== *)
theory Refinement
  imports Store Operations Paging Step_Up Mail_Queue
begin

text \<open>
  The service refines the store: whatever a method of the service does, whichever of its effects
  fail and however other requests interleave, the database moves by steps of the store's transition
  system only. Every invariant of the store is therefore one of the running service.
\<close>

section \<open>Moves of the store\<close>

definition db_steps :: "db \<Rightarrow> db \<Rightarrow> bool" where
  "db_steps d d' \<longleftrightarrow> db_step\<^sup>*\<^sup>* d d'"

interpretation stepping: database_moves db_steps
  by unfold_locales (auto simp: db_steps_def)

lemma one_step: "db_step d d' \<Longrightarrow> db_steps d d'"
  by (simp add: db_steps_def)

lemma moves_let [preserves_intros]: "(\<And>y. moves R (k y)) \<Longrightarrow> moves R (Let x k)"
  by simp

lemma moves_query [preserves_intros]: "moves db_steps (repo (reads f))" "moves db_steps (repo_now (\<lambda>at. reads (g at)))"
  by (auto intro!: stepping.moves_repo stepping.moves_repo_now simp: reads_def stepping.refl)

named_theorems step_moves \<open>the store calls of the service as moves\<close>

lemma moves_searches [step_moves]:
  "moves db_steps (repo (GetHumanUserByLoginOrEmail s))"
  "moves db_steps (repo (SearchUsers q c n b))"
  "moves db_steps (repo (SearchRoles q c n b))"
  by (rule stepping.moves_repo; auto simp: GetHumanUserByLoginOrEmail_def SearchUsers_def SearchRoles_def Let_def stepping.refl
      split: list.splits sum.splits prod.splits)+

text \<open>A call whose commits are steps of one group is a move.\<close>

lemma group_moves:
  "(\<And>d x d'. f d = Inr (x, d') \<Longrightarrow> account_step d d') \<Longrightarrow> moves db_steps (repo f)"
  "(\<And>d x d'. f d = Inr (x, d') \<Longrightarrow> invite_step d d') \<Longrightarrow> moves db_steps (repo f)"
  "(\<And>d x d'. f d = Inr (x, d') \<Longrightarrow> otp_step d d') \<Longrightarrow> moves db_steps (repo f)"
  "(\<And>d x d'. f d = Inr (x, d') \<Longrightarrow> reset_step d d') \<Longrightarrow> moves db_steps (repo f)"
  "(\<And>d x d'. f d = Inr (x, d') \<Longrightarrow> role_step d d') \<Longrightarrow> moves db_steps (repo f)"
  "(\<And>d x d'. f d = Inr (x, d') \<Longrightarrow> request_step d d') \<Longrightarrow> moves db_steps (repo f)"
  "(\<And>d x d'. f d = Inr (x, d') \<Longrightarrow> link_step d d') \<Longrightarrow> moves db_steps (repo f)"
  "(\<And>d x d'. f d = Inr (x, d') \<Longrightarrow> step_up_step d d') \<Longrightarrow> moves db_steps (repo f)"
  by (rule stepping.moves_repo; rule one_step; rule db_step.intros; blast)+

lemma group_moves_now:
  "(\<And>now d x d'. g now d = Inr (x, d') \<Longrightarrow> account_step d d') \<Longrightarrow> moves db_steps (repo_now g)"
  "(\<And>now d x d'. g now d = Inr (x, d') \<Longrightarrow> invite_step d d') \<Longrightarrow> moves db_steps (repo_now g)"
  "(\<And>now d x d'. g now d = Inr (x, d') \<Longrightarrow> session_step d d') \<Longrightarrow> moves db_steps (repo_now g)"
  "(\<And>now d x d'. g now d = Inr (x, d') \<Longrightarrow> otp_step d d') \<Longrightarrow> moves db_steps (repo_now g)"
  "(\<And>now d x d'. g now d = Inr (x, d') \<Longrightarrow> role_step d d') \<Longrightarrow> moves db_steps (repo_now g)"
  "(\<And>now d x d'. g now d = Inr (x, d') \<Longrightarrow> key_step d d') \<Longrightarrow> moves db_steps (repo_now g)"
  "(\<And>now d x d'. g now d = Inr (x, d') \<Longrightarrow> link_step d d') \<Longrightarrow> moves db_steps (repo_now g)"
  "(\<And>now d x d'. g now d = Inr (x, d') \<Longrightarrow> step_up_step d d') \<Longrightarrow> moves db_steps (repo_now g)"
  "(\<And>now d x d'. g now d = Inr (x, d') \<Longrightarrow> login_step d d') \<Longrightarrow> moves db_steps (repo_now g)"
  by (rule stepping.moves_repo_now; rule one_step; rule db_step.intros; blast)+

lemma account_moves [step_moves]:
  "moves db_steps (repo_now (\<lambda>at. CreateHumanUser i at lg em h))"
  "moves db_steps (repo_now (\<lambda>at. CreateServiceUser i at lg h su))"
  "moves db_steps (repo (SetLockedUntil i t))"
  "moves db_steps (repo_now (\<lambda>at. UpdatePassword at i h))"
  "moves db_steps (repo (SetSuperuser i v))"
  "moves db_steps (repo_now (\<lambda>at. SetUserBan at i by reason))"
  "moves db_steps (repo_now (\<lambda>at. InsertPasswordHistory hid at i h c n))"
  "moves db_steps (repo (TrimPasswordHistory i keep))"
  "moves db_steps (repo_now (\<lambda>at. RegisterHumanOpen uid hid at lg em ph c n k))"
  by (auto intro!: group_moves(1) group_moves_now(1) intro: account_step.intros)

lemma invite_moves [step_moves]:
  "moves db_steps (repo (InsertRegistrationInvite vid h em' su ex by'))"
  "moves db_steps (repo_now (\<lambda>at. RegisterHumanWithInvite uid hid at h lg em ph c n k))"
  by (auto intro!: group_moves(2) group_moves_now(2) intro: invite_step.intros)

lemma session_moves [step_moves]:
  "moves db_steps (repo_now (\<lambda>at. UpsertRefreshSessionForActiveVersion sid at i v dev label hash ex mx))"
  "moves db_steps (repo_now (\<lambda>at. RotateRefreshSessionForActiveVersion at i sid v old new ex))"
  "moves db_steps (repo_now (\<lambda>at. RevokeRefreshSession at sid))"
  by (auto intro!: group_moves_now(3) intro: session_step.intros)

lemma otp_moves [step_moves]:
  "moves db_steps (repo_now (\<lambda>at. CreateEmailOTP oid at i purpose h ex c))"
  "moves db_steps (repo_now (\<lambda>at. ConsumeOTP at oid))"
  "moves db_steps (repo (IncrementOTPAttempt oid))"
  "moves db_steps (repo (ReservePasswordResetOTP oid i h now ex mi))"
  "moves db_steps (repo (ActivatePasswordResetOTP i oid now))"
  by (auto intro!: group_moves(3) group_moves_now(4) intro: otp_step.intros simp: ReservePasswordResetOTP_def)

lemma reset_moves [step_moves]: "moves db_steps (repo (CompletePasswordResetOTP hid i h now m n prep))"
  by (auto intro!: group_moves(4) intro: reset_step.intros)

lemma role_moves [step_moves]:
  "moves db_steps (repo_now (\<lambda>at. CreateRoleWithParents x at name desc ps))"
  "moves db_steps (repo (SetRoleParent x parent))"
  "moves db_steps (repo (MountRole x p))"
  "moves db_steps (repo (UnmountRole x p))"
  "moves db_steps (repo (UpdateRoleDescription x t))"
  "moves db_steps (repo (AddRoleTag x tag))"
  "moves db_steps (repo (DeleteRoleTag x tag))"
  "moves db_steps (repo (RenameRoleTag x old new))"
  "moves db_steps (repo (AssignUserRole newID i x level by from until))"
  "moves db_steps (repo (AssignUserRoleWithTagGrants newID i x level by from until tags))"
  "moves db_steps (repo (AddUserRoleTag i x tag))"
  "moves db_steps (repo (DeleteUserRoleTag i x tag))"
  "moves db_steps (repo (RemoveUserRole i x))"
  by (auto intro!: group_moves(5) group_moves_now(5) intro: role_step.intros
      simp: AssignUserRole_def AssignUserRoleWithTagGrants_def)

lemma request_moves [step_moves]:
  "moves db_steps (repo (CreateRoleRequest rid r i x))"
  "moves db_steps (repo (DecideRoleRequestWithMembership newID rid ok by now))"
  "moves db_steps (repo (DeleteRole x))"
  by (auto intro!: group_moves(6) intro: request_step.intros)

lemma key_moves [step_moves]:
  "moves db_steps (repo_now (\<lambda>at. InsertSigningKey at kid cipher nonce dep))"
  "moves db_steps (repo_now (\<lambda>at. DeprecateCurrentAndSet at kid cipher nonce))"
  by (auto intro!: group_moves_now(6) intro: key_step.intros)

lemma link_moves [step_moves]:
  "moves db_steps (repo (InsertMagicLink lid h i ex))"
  "moves db_steps (repo_now (\<lambda>at. InvalidateMagicLink at lid))"
  "moves db_steps (repo_now (\<lambda>at. ConsumeMagicLink at h))"
  by (auto intro!: group_moves(7) group_moves_now(7) intro: link_step.intros)

lemma step_up_moves [step_moves]:
  "moves db_steps (repo (CreateStepUp2FASession sid c i ex))"
  "moves db_steps (repo_now (\<lambda>at. ApproveStepUp2FA at c))"
  "moves db_steps (repo_now (\<lambda>at. ExpireStepUp2FA at c))"
  by (auto intro!: group_moves(8) group_moves_now(8) intro: step_up_step.intros)

lemma login_moves [step_moves]: "moves db_steps (repo_now (\<lambda>at. InsertFailedLogin at lg ip))"
  by (auto intro!: group_moves_now(9) intro: login_step.intros)

lemma query_moves [step_moves]:
  "moves db_steps (repo (GetUserByID i))"
  "moves db_steps (repo (GetUserByLogin lg))"
  "moves db_steps (repo CountHumanUsers)"
  "moves db_steps (repo (ListPasswordHistory i n))"
  "moves db_steps (repo (CountFailedLogins lg since))"
  "moves db_steps (repo_now (\<lambda>at. FindRefreshByTokenHash at h))"
  "moves db_steps (repo (GetRefreshByID sid))"
  "moves db_steps (repo (ListRefreshSessions i))"
  "moves db_steps (repo (GetOTPByCorrelation c))"
  "moves db_steps (repo (GetLatestOTP i purpose))"
  "moves db_steps (repo CountSigningKeys)"
  "moves db_steps (repo GetCurrentSigningKeyMaterial)"
  "moves db_steps (repo (GetSigningKeyMaterial kid))"
  "moves db_steps (repo_now (\<lambda>at. GetValidRegistrationInviteByTokenHash at h))"
  "moves db_steps (repo (GetStepUp2FA c))"
  unfolding GetUserByID_def GetUserByLogin_def CountHumanUsers_def ListPasswordHistory_def CountFailedLogins_def
    FindRefreshByTokenHash_def GetRefreshByID_def ListRefreshSessions_def GetOTPByCorrelation_def GetLatestOTP_def
    CountSigningKeys_def GetCurrentSigningKeyMaterial_def GetSigningKeyMaterial_def
    GetValidRegistrationInviteByTokenHash_def GetStepUp2FA_def
  by (rule moves_query)+

lemma role_query_moves [step_moves]:
  "moves db_steps (repo (GetRoleByName name))"
  "moves db_steps (repo (GetRoleByID x))"
  "moves db_steps (repo (UserHasEffectiveRole i x now))"
  "moves db_steps (repo (UserHasEffectiveRoleTag i x tag now))"
  "moves db_steps (repo (UserIsEffectiveRoleAdmin i x now))"
  "moves db_steps (repo (ListEffectiveRoleAccess i now))"
  "moves db_steps (repo (ListSubroles x rec))"
  "moves db_steps (repo (ListRoleMembers x now))"
  "moves db_steps (repo (ListUserRoles i now))"
  "moves db_steps (repo (ListPendingRoleRequests x))"
  "moves db_steps (repo (GetRoleRequest rid))"
  unfolding GetRoleByName_def GetRoleByID_def UserHasEffectiveRole_def UserHasEffectiveRoleTag_def
    UserIsEffectiveRoleAdmin_def ListEffectiveRoleAccess_def ListSubroles_def ListRoleMembers_def ListUserRoles_def
    ListPendingRoleRequests_def GetRoleRequest_def Let_def
  by (rule moves_query)+

section \<open>The methods\<close>

lemma guard_moves [step_moves]:
  "moves db_steps (IsSuperuser i)" "moves db_steps (IsBanned i)"
  unfolding IsSuperuser_def IsBanned_def by (intro preserves_intros step_moves)+

lemma decision_moves [step_moves]:
  "moves db_steps (IsRoleAdmin i x)" "moves db_steps (Auth_UserHasRoleName i name)"
  "moves db_steps (UserHasRoleWithTag i name tag)" "moves db_steps (CanViewUserRoles i j)"
  unfolding IsRoleAdmin_def Auth_UserHasRoleName_def UserHasRoleWithTag_def CanViewUserRoles_def
  by (intro preserves_intros step_moves)+

lemma may_moves [step_moves]: "moves db_steps (CanMountRole i x y)" "moves db_steps (CanAssignRole i x)"
  unfolding CanMountRole_def CanAssignRole_def by (intro preserves_intros step_moves)+

lemma guarded_moves [step_moves]: "moves db_steps g \<Longrightarrow> moves db_steps m \<Longrightarrow> moves db_steps (guarded g m)"
  unfolding guarded_def by (intro preserves_intros)

lemma mail_moves [step_moves]: "moves db_steps (mail_to addr subject body)"
  unfolding mail_to_def by (intro preserves_intros)

lemma random_moves [step_moves]:
  "moves db_steps randomRefreshToken" "moves db_steps (random_digits n)" "moves db_steps (randomNumericCode len)"
proof -
  show digits: "moves db_steps (random_digits n)" for n by (induction n) (simp_all, (intro preserves_intros | assumption)+)
  show "moves db_steps (randomNumericCode len)" unfolding randomNumericCode_def by (intro preserves_intros digits)
qed (unfold randomRefreshToken_def, intro preserves_intros)

lemma retry_moves [step_moves]: "moves db_steps m \<Longrightarrow> moves db_steps (retry n deadline m)"
  by (induction n) (simp_all, (intro preserves_intros | assumption)+)

lemma key_service_moves [step_moves]:
  "moves db_steps (new_signing_material a kid)" "moves db_steps (ensureSigningBootstrap a)"
  "moves db_steps (currentSigningSecret a)" "moves db_steps (secretForKID a kid now)" "moves db_steps (RotateSigningKey a)"
proof -
  show new: "moves db_steps (new_signing_material a kid)" for kid
    unfolding new_signing_material_def by (intro preserves_intros)
  show "moves db_steps (ensureSigningBootstrap a)" "moves db_steps (RotateSigningKey a)"
    "moves db_steps (currentSigningSecret a)" "moves db_steps (secretForKID a kid now)"
    unfolding ensureSigningBootstrap_def RotateSigningKey_def currentSigningSecret_def secretForKID_def
    by (intro preserves_intros step_moves new)+
qed

lemma token_moves [step_moves]:
  "moves db_steps (SignAccess L secret kid i lg typ v ttl)" "moves db_steps (ParseAndVerify L tok secret)"
  "moves db_steps (tokenSubject a subj v)"
  unfolding SignAccess_def ParseAndVerify_def tokenSubject_def by (intro preserves_intros step_moves)+

lemma verify_moves [step_moves]:
  "moves db_steps (VerifyAccessToken a tok typ)" "moves db_steps (VerifyAccessOrServiceToken a tok)"
  unfolding VerifyAccessToken_def VerifyAccessOrServiceToken_def by (intro preserves_intros step_moves)+

lemma login_part_moves [step_moves]:
  "moves db_steps (passwordExpired a u)" "moves db_steps (recordFailedLogin a lg known ip)"
  "moves db_steps (issue_login_challenge a u)" "moves db_steps (issueTokenPair a u dev label)"
  "moves db_steps (start_code_mail a i purpose subject)"
  unfolding passwordExpired_def recordFailedLogin_def issue_login_challenge_def issueTokenPair_def start_code_mail_def
  by (intro preserves_intros step_moves)+

lemma login_service_moves [step_moves]:
  "moves db_steps (reject_login a lg known ip)"
  "moves db_steps m \<Longrightarrow> moves db_steps (check_mailed_code a m otp)"
  unfolding reject_login_def check_mailed_code_def by (assumption | intro preserves_intros step_moves)+

lemma auth_moves [step_moves]:
  "moves db_steps (LoginPassword a lg pw ip)" "moves db_steps (LoginVerifyOTP a c otp dev label)"
  "moves db_steps (Refresh a tok dev label)" "moves db_steps (Logout a tok)"
  "moves db_steps (IssueServiceToken a lg secret)" "moves db_steps (StartSessionRevokeOTP a i)"
  "moves db_steps (RevokeSessionWithOTP a i sid otp)" "moves db_steps (RevokeOwnSession i sid)"
  unfolding LoginPassword_def LoginVerifyOTP_def Refresh_def Logout_def IssueServiceToken_def
    StartSessionRevokeOTP_def RevokeSessionWithOTP_def RevokeOwnSession_def
  by (intro preserves_intros step_moves)+

lemma password_part_moves [step_moves]:
  "moves db_steps (validateNewPassword a i pw)" "moves db_steps (appendPasswordHistory a i pw h)"
  "moves db_steps (activate_reset i oid)"
  unfolding validateNewPassword_def appendPasswordHistory_def activate_reset_def
  by (intro preserves_intros step_moves)+

lemma password_moves [step_moves]:
  "moves db_steps (StartPasswordChange2FA a i)" "moves db_steps (ChangePassword a i old new otp)"
  "moves db_steps (processPasswordReset a lg)" "moves db_steps (ResetPasswordWithOTP a lg otp pw)"
  unfolding StartPasswordChange2FA_def ChangePassword_def processPasswordReset_def ResetPasswordWithOTP_def
  by (intro preserves_intros step_moves)+

lemma step_up_service_moves [step_moves]:
  "moves db_steps (BeginStepUp2FA a i ttl)" "moves db_steps (CompleteStepUp2FAOTP a c otp)"
  "moves db_steps (StepUp2FAStatusForUser c i)" "moves db_steps (ExpireStepUp2FASessionForUser c i)"
  unfolding BeginStepUp2FA_def CompleteStepUp2FAOTP_def StepUp2FAStatusForUser_def ExpireStepUp2FASessionForUser_def
  by (intro preserves_intros step_moves)+

lemma onboarding_moves [step_moves]:
  "moves db_steps (Register a tok lg em pw)" "moves db_steps (PreviewRegistrationInvite a tok)"
  "moves db_steps (CreateRegistrationInvite a i em' su ttl)" "moves db_steps (invalidateUndeliveredMagicLink lid)"
  "moves db_steps (CompleteMagicLink a tok dev label)"
  "moves db_steps (EnsureBootstrapAdmin a)" "moves db_steps (EnsureBootstrapSuperuserService a)"
  unfolding Register_def PreviewRegistrationInvite_def CreateRegistrationInvite_def invalidateUndeliveredMagicLink_def
    CompleteMagicLink_def EnsureBootstrapAdmin_def EnsureBootstrapSuperuserService_def
  by (intro preserves_intros step_moves)+

lemma mail_job_moves [step_moves]: "moves db_steps (processMagicLink a lg)" "moves db_steps (processPublicMail a job)"
proof -
  show link: "moves db_steps (processMagicLink a lg)" for lg
    unfolding processMagicLink_def by (intro preserves_intros step_moves)
  show "moves db_steps (processPublicMail a job)"
    unfolding processPublicMail_def by (cases "kind job") (simp_all add: link password_moves)
qed

lemma operation_moves [step_moves]:
  "moves db_steps (BanUser i j reason)" "moves db_steps (UnbanUser i j)" "moves db_steps (RequestRoleMembership i j x)"
  "moves db_steps (CreateServiceAccount L i lg secret su)" "moves db_steps (RotateSigningKeyForActor a i)"
  "moves db_steps (Auth_CreateRole i name desc ps)" "moves db_steps (Auth_DeleteRole i x)"
  "moves db_steps (Auth_SetRoleParent i x p)" "moves db_steps (Auth_UpdateRoleDescription i x t)"
  "moves db_steps (Mount i x y)" "moves db_steps (Unmount i x y)" "moves db_steps (ChangeRoleTag i x tag add)"
  "moves db_steps (Auth_RenameRoleTag i x old new)" "moves db_steps (AssignRole i j x level until tags)"
  "moves db_steps (ChangeMembershipTag i j x tag add)" "moves db_steps (RemoveRole i j x)"
  "moves db_steps (Auth_DecideRoleRequest i rid ok)"
  unfolding BanUser_def UnbanUser_def RequestRoleMembership_def CreateServiceAccount_def RotateSigningKeyForActor_def
    Auth_CreateRole_def Auth_DeleteRole_def Auth_SetRoleParent_def Auth_UpdateRoleDescription_def Mount_def Unmount_def
    ChangeRoleTag_def Auth_RenameRoleTag_def AssignRole_def ChangeMembershipTag_def RemoveRole_def
    Auth_DecideRoleRequest_def
  by (intro preserves_intros step_moves)+

lemma reading_moves [step_moves]:
  "moves db_steps (CurrentUser i)" "moves db_steps (EffectiveRoleAccess i)" "moves db_steps (Auth_Sessions i)"
  "moves db_steps (UsersPage i q c n)" "moves db_steps (RolesPage q c n)" "moves db_steps (Subgroups x rec)"
  "moves db_steps (RoleMembers i x)" "moves db_steps (UserRoles i j)" "moves db_steps (RequestRole i j x)"
  "moves db_steps (PendingRoleRequests i x)" "moves db_steps (EnsureBootstrap a)"
  unfolding CurrentUser_def EffectiveRoleAccess_def Auth_Sessions_def UsersPage_def RolesPage_def Subgroups_def
    RoleMembers_def UserRoles_def RequestRole_def PendingRoleRequests_def EnsureBootstrap_def
  by (intro preserves_intros step_moves)+

section \<open>The refinement\<close>

text \<open>A call of the service: a method with its arguments, and what performing it does to the world.\<close>

datatype call =
    DoRegister string string string string
  | DoLoginPassword string string "string option"
  | DoLoginVerifyOTP string string string string
  | DoRefresh string string string
  | DoLogout string
  | DoVerifyAccessToken string string
  | DoVerifyAccessOrServiceToken string
  | DoStartPasswordChange2FA uuid
  | DoChangePassword uuid string string string
  | DoResetPasswordWithOTP string string string
  | DoIssueServiceToken string string
  | DoStartSessionRevokeOTP uuid
  | DoRevokeSessionWithOTP uuid uuid string
  | DoRevokeOwnSession uuid uuid
  | DoBeginStepUp2FA uuid duration
  | DoCompleteStepUp2FAOTP string string
  | DoStepUp2FAStatusForUser string uuid
  | DoExpireStepUp2FASessionForUser string uuid
  | DoPreviewRegistrationInvite string
  | DoCreateRegistrationInvite uuid "string option" bool duration
  | DoCompleteMagicLink string string string
  | DoEnsureBootstrap
  | DoEnsureBootstrapAdmin
  | DoEnsureBootstrapSuperuserService
  | DoRotateSigningKeyForActor uuid
  | DoProcessPublicMail publicMailJob
  | DoBanUser uuid uuid string
  | DoUnbanUser uuid uuid
  | DoCreateServiceAccount uuid string string bool
  | DoCurrentUser uuid
  | DoEffectiveRoleAccess uuid
  | DoSessions uuid
  | DoUsersPage uuid string "cursor option" int
  | DoRolesPage string "cursor option" int
  | DoCreateRole uuid string string "uuid list"
  | DoDeleteRole uuid uuid
  | DoSetRoleParent uuid uuid "uuid option"
  | DoUpdateRoleDescription uuid uuid string
  | DoMount uuid uuid uuid
  | DoUnmount uuid uuid uuid
  | DoSubgroups uuid bool
  | DoChangeRoleTag uuid uuid string bool
  | DoRenameRoleTag uuid uuid string string
  | DoRoleMembers uuid uuid
  | DoUserRoles uuid uuid
  | DoAssignRole uuid uuid uuid role_level "instant option" "string list"
  | DoChangeMembershipTag uuid uuid uuid string bool
  | DoRemoveRole uuid uuid uuid
  | DoRequestRole uuid uuid uuid
  | DoPendingRoleRequests uuid uuid
  | DoDecideRoleRequest uuid uuid bool

definition discard :: "'a prog \<Rightarrow> unit prog" where
  "discard m = State_Monad.bind m (\<lambda>_. State_Monad.return ())"

lemma moves_discard: "moves db_steps m \<Longrightarrow> moves db_steps (discard m)"
  unfolding discard_def by (intro preserves_intros)

fun perform :: "auth \<Rightarrow> call \<Rightarrow> unit prog" where
  "perform a (DoRegister x0 x1 x2 x3) = discard (Register a x0 x1 x2 x3)"
| "perform a (DoLoginPassword x0 x1 x2) = discard (LoginPassword a x0 x1 x2)"
| "perform a (DoLoginVerifyOTP x0 x1 x2 x3) = discard (LoginVerifyOTP a x0 x1 x2 x3)"
| "perform a (DoRefresh x0 x1 x2) = discard (Refresh a x0 x1 x2)"
| "perform a (DoLogout x0) = discard (Logout a x0)"
| "perform a (DoVerifyAccessToken x0 x1) = discard (VerifyAccessToken a x0 x1)"
| "perform a (DoVerifyAccessOrServiceToken x0) = discard (VerifyAccessOrServiceToken a x0)"
| "perform a (DoStartPasswordChange2FA x0) = discard (StartPasswordChange2FA a x0)"
| "perform a (DoChangePassword x0 x1 x2 x3) = discard (ChangePassword a x0 x1 x2 x3)"
| "perform a (DoResetPasswordWithOTP x0 x1 x2) = discard (ResetPasswordWithOTP a x0 x1 x2)"
| "perform a (DoIssueServiceToken x0 x1) = discard (IssueServiceToken a x0 x1)"
| "perform a (DoStartSessionRevokeOTP x0) = discard (StartSessionRevokeOTP a x0)"
| "perform a (DoRevokeSessionWithOTP x0 x1 x2) = discard (RevokeSessionWithOTP a x0 x1 x2)"
| "perform a (DoRevokeOwnSession x0 x1) = discard (RevokeOwnSession x0 x1)"
| "perform a (DoBeginStepUp2FA x0 x1) = discard (BeginStepUp2FA a x0 x1)"
| "perform a (DoCompleteStepUp2FAOTP x0 x1) = discard (CompleteStepUp2FAOTP a x0 x1)"
| "perform a (DoStepUp2FAStatusForUser x0 x1) = discard (StepUp2FAStatusForUser x0 x1)"
| "perform a (DoExpireStepUp2FASessionForUser x0 x1) = discard (ExpireStepUp2FASessionForUser x0 x1)"
| "perform a (DoPreviewRegistrationInvite x0) = discard (PreviewRegistrationInvite a x0)"
| "perform a (DoCreateRegistrationInvite x0 x1 x2 x3) = discard (CreateRegistrationInvite a x0 x1 x2 x3)"
| "perform a (DoCompleteMagicLink x0 x1 x2) = discard (CompleteMagicLink a x0 x1 x2)"
| "perform a (DoEnsureBootstrap) = discard (EnsureBootstrap a)"
| "perform a (DoEnsureBootstrapAdmin) = discard (EnsureBootstrapAdmin a)"
| "perform a (DoEnsureBootstrapSuperuserService) = discard (EnsureBootstrapSuperuserService a)"
| "perform a (DoRotateSigningKeyForActor x0) = discard (RotateSigningKeyForActor a x0)"
| "perform a (DoProcessPublicMail x0) = discard (processPublicMail a x0)"
| "perform a (DoBanUser x0 x1 x2) = discard (BanUser x0 x1 x2)"
| "perform a (DoUnbanUser x0 x1) = discard (UnbanUser x0 x1)"
| "perform a (DoCreateServiceAccount x0 x1 x2 x3) = discard (CreateServiceAccount (alib a) x0 x1 x2 x3)"
| "perform a (DoCurrentUser x0) = discard (CurrentUser x0)"
| "perform a (DoEffectiveRoleAccess x0) = discard (EffectiveRoleAccess x0)"
| "perform a (DoSessions x0) = discard (Auth_Sessions x0)"
| "perform a (DoUsersPage x0 x1 x2 x3) = discard (UsersPage x0 x1 x2 x3)"
| "perform a (DoRolesPage x0 x1 x2) = discard (RolesPage x0 x1 x2)"
| "perform a (DoCreateRole x0 x1 x2 x3) = discard (Auth_CreateRole x0 x1 x2 x3)"
| "perform a (DoDeleteRole x0 x1) = discard (Auth_DeleteRole x0 x1)"
| "perform a (DoSetRoleParent x0 x1 x2) = discard (Auth_SetRoleParent x0 x1 x2)"
| "perform a (DoUpdateRoleDescription x0 x1 x2) = discard (Auth_UpdateRoleDescription x0 x1 x2)"
| "perform a (DoMount x0 x1 x2) = discard (Mount x0 x1 x2)"
| "perform a (DoUnmount x0 x1 x2) = discard (Unmount x0 x1 x2)"
| "perform a (DoSubgroups x0 x1) = discard (Subgroups x0 x1)"
| "perform a (DoChangeRoleTag x0 x1 x2 x3) = discard (ChangeRoleTag x0 x1 x2 x3)"
| "perform a (DoRenameRoleTag x0 x1 x2 x3) = discard (Auth_RenameRoleTag x0 x1 x2 x3)"
| "perform a (DoRoleMembers x0 x1) = discard (RoleMembers x0 x1)"
| "perform a (DoUserRoles x0 x1) = discard (UserRoles x0 x1)"
| "perform a (DoAssignRole x0 x1 x2 x3 x4 x5) = discard (AssignRole x0 x1 x2 x3 x4 x5)"
| "perform a (DoChangeMembershipTag x0 x1 x2 x3 x4) = discard (ChangeMembershipTag x0 x1 x2 x3 x4)"
| "perform a (DoRemoveRole x0 x1 x2) = discard (RemoveRole x0 x1 x2)"
| "perform a (DoRequestRole x0 x1 x2) = discard (RequestRole x0 x1 x2)"
| "perform a (DoPendingRoleRequests x0 x1) = discard (PendingRoleRequests x0 x1)"
| "perform a (DoDecideRoleRequest x0 x1 x2) = discard (Auth_DecideRoleRequest x0 x1 x2)"

lemma perform_moves: "moves db_steps (perform a c)"
  by (cases c) (simp_all add: moves_discard step_moves)

text \<open>
  The service refines the store: whatever call it performs, whichever of its effects are refused
  or lost, and whatever steps other requests make in between, the database has moved by steps of
  the store's transition system when the call ends.
\<close>

theorem service_refines_store:
  assumes "others db_steps w" "run_state (perform a c) w = (u, w')"
  shows "db_steps (w_db w) (w_db w')"
  using movesD(1) [OF perform_moves assms(2,1)] .

text \<open>A world in which another request bans the account between the first and the second effect.\<close>

definition sample_auth :: auth where
  "sample_auth = \<lparr>cfg = default_config, alib = sample_lib, signingMaster = replicate 32 CHR 0x00,
     otpPepper = replicate 32 CHR 0x00\<rparr>"

definition ban_elsewhere :: "db \<Rightarrow> db" where
  "ban_elsewhere d = (case SetUserBan 7 1 (Some 9) ''spam'' d of Inl _ \<Rightarrow> d | Inr (_, d') \<Rightarrow> d')"

definition sample_world :: world where
  "sample_world = \<lparr>w_db = empty_db\<lparr>users := [sample_user]\<rparr>, w_clock = 5, w_outbox = [],
     w_rand = (\<lambda>k n. Some (replicate n CHR 0x00)), w_digits = (\<lambda>k. Some 7), w_uuids = (\<lambda>k. 100 + k), w_draws = 0,
     w_schedule = [quiet, \<lparr>e_elapsed = 1, e_other = ban_elsewhere, e_outcome = Served\<rparr>]\<rparr>"

lemma ban_elsewhere_steps: "db_steps d (ban_elsewhere d)"
proof (cases "SetUserBan 7 1 (Some 9) ''spam'' d")
  case (Inr p)
  then have "SetUserBan 7 1 (Some 9) ''spam'' d = Inr ((), snd p)" by (cases p) simp
  then have "db_step d (snd p)" by (intro by_account step_ban)
  then show ?thesis unfolding ban_elsewhere_def Inr by (cases p) (simp add: one_step)
qed (simp add: ban_elsewhere_def stepping.refl)

lemma sample_world_others: "others db_steps sample_world"
  by (simp add: others_def sample_world_def quiet_def ban_elsewhere_steps stepping.refl)

theorem service_refines_store_witness:
  "db_steps (w_db sample_world) (w_db (snd (run_state (perform sample_auth (DoLogout ''tok'')) sample_world)))"
  by (rule service_refines_store [OF sample_world_others prod.collapse [symmetric]])

section \<open>Invariants of the running service\<close>

lemma db_steps_ok: "db_steps d d' \<Longrightarrow> store_ok d \<Longrightarrow> store_ok d'"
  unfolding db_steps_def by (induction rule: rtranclp_induct) (auto dest: db_step_ok)

lemma empty_store_ok: "store_ok empty_db"
  by (simp add: store_ok_def store_invariants empty_db_def identity_ok_on_def sessions_ok_on_def otps_ok_on_def
      roles_ok_on_def keys_ok_on_def)

text \<open>
  C1. Starting from the empty database, after any history of store steps and during any interleaving,
  every call of the service leaves a database in which a login name or address denotes at most one
  person, no banned account has a live session, an account has at most one usable reset code, one
  session per device, one membership per role and one pending request per role, and there is
  exactly one current signing key once there is any.
\<close>

theorem service_keeps_invariants:
  assumes "db_steps empty_db (w_db w)" "others db_steps w" "run_state (perform a c) w = (u, w')"
  defines "d \<equiv> w_db w'"
  shows "(\<exists>r. GetHumanUserByLoginOrEmail s d = Inr (r, d))
    \<and> (\<forall>b\<in>set (users d). u_banned_at b \<noteq> None \<longrightarrow>
         (\<forall>e\<in>set (refresh_sessions d). s_user e = u_id b \<longrightarrow> s_revoked_at e \<noteq> None))
    \<and> count_rows (live_reset i) (email_otps d) \<le> 1
    \<and> distinct (map session_key (refresh_sessions d))
    \<and> distinct (map (\<lambda>m. (ur_user m, ur_role m)) (user_roles d))
    \<and> count_rows (pending_for i x) (role_requests d) \<le> 1
    \<and> (signing_keys d \<noteq> [] \<longrightarrow> count_rows k_is_current (signing_keys d) = 1)"
proof -
  have "db_steps (w_db w) d" unfolding d_def using movesD(1) [OF perform_moves assms(3,2)] .
  then have ok: "store_ok d" using db_steps_ok empty_store_ok assms(1) by blast
  then have "\<exists>r. GetHumanUserByLoginOrEmail s d = Inr (r, d)"
    by (auto simp: store_ok_def account_inv_def intro: GetHumanUser_unambiguous)
  moreover have "\<forall>b\<in>set (users d). u_banned_at b \<noteq> None \<longrightarrow>
      (\<forall>e\<in>set (refresh_sessions d). s_user e = u_id b \<longrightarrow> s_revoked_at e \<noteq> None)"
    using ok by (force simp: store_ok_def account_inv_def ban_ok_def banned_ids_def)
  moreover have "distinct (map (\<lambda>m. (ur_user m, ur_role m)) (user_roles d))"
    using ok by (auto simp: store_ok_def dest: roles_okD(4))
  ultimately show ?thesis
    using ok by (simp add: store_ok_def account_inv_def sessions_ok_def sessions_ok_on_def otps_ok_def otps_ok_on_def
        requests_ok_def keys_ok_def keys_ok_on_def)
qed

theorem service_keeps_invariants_witness:
  "\<exists>r. GetHumanUserByLoginOrEmail ''ann''
     (w_db (snd (run_state (perform sample_auth (DoLogout ''tok'')) (sample_world\<lparr>w_db := empty_db\<rparr>)))) = Inr r"
proof -
  let ?w = "sample_world\<lparr>w_db := empty_db\<rparr>"
  have "db_steps empty_db (w_db ?w)" by (simp add: stepping.refl)
  moreover have "others db_steps ?w" using sample_world_others by (simp add: others_def)
  ultimately show ?thesis using service_keeps_invariants [OF _ _ prod.collapse [symmetric]] by blast
qed

end
