(* ===== verification/Revocation.thy ===== *)
theory Revocation
  imports Refinement Authorisation
begin

text \<open>
  Tokens over time: token versions only grow, so a ban revokes for good every token issued before
  it; and a service token that was issued verifies until it expires.
\<close>

section \<open>Token versions grow\<close>

definition succeeds :: "user \<Rightarrow> user \<Rightarrow> bool" where
  "succeeds u v \<longleftrightarrow> u_id v = u_id u \<and> u_token_version u \<le> u_token_version v"

text \<open>The rows are still there, in place, and new rows come after them.\<close>

definition grown :: "user list \<Rightarrow> user list \<Rightarrow> bool" where
  "grown us us' \<longleftrightarrow> (\<exists>vs ws. us' = vs @ ws \<and> list_all2 succeeds us vs)"

lemma succeeds_refl: "succeeds u u"
  by (simp add: succeeds_def)

lemma succeeds_trans: "succeeds u v \<Longrightarrow> succeeds v w \<Longrightarrow> succeeds u w"
  by (auto simp: succeeds_def)

lemma grown_append: "grown us (us @ ws)"
  unfolding grown_def by (metis list_all2_refl succeeds_refl)

lemma grown_refl: "grown us us"
  using grown_append [of us "[]"] by simp

lemma grown_update: "(\<And>u. succeeds u (f u)) \<Longrightarrow> grown us (update_rows P f us)"
  unfolding grown_def update_rows_def
  by (intro exI conjI) (rule append_Nil2 [symmetric], simp add: list_all2_conv_all_nth succeeds_refl)

lemma grown_trans:
  assumes "grown us vs" "grown vs ws"
  shows "grown us ws"
proof -
  obtain v1 v2 where v: "vs = v1 @ v2" "list_all2 succeeds us v1" using assms(1) by (auto simp: grown_def)
  obtain w1 w2 where w: "ws = w1 @ w2" "list_all2 succeeds (v1 @ v2) w1" using assms(2) v by (auto simp: grown_def)
  obtain x y where xy: "w1 = x @ y" "list_all2 succeeds v1 x" using w(2) by (auto simp: list_all2_append1)
  have "list_all2 succeeds us x" using list_all2_trans [OF succeeds_trans v(2) xy(2)] .
  then show ?thesis unfolding grown_def using w(1) xy(1) by (metis append_assoc)
qed

lemma grown_account:
  assumes "grown (users d) (users d')" "account i d = Some u"
  obtains u' where "account i d' = Some u'" "succeeds u u'"
proof -
  have "\<exists>u'. find_row (\<lambda>u. u_id u = i) vs = Some u' \<and> succeeds u u'"
    if "list_all2 succeeds us vs" "find_row (\<lambda>u. u_id u = i) us = Some u" for us vs
    using that by (induction rule: list_all2_induct) (auto simp: find_row_def succeeds_def split: if_splits)
  then show thesis using assms that by (force simp: grown_def account_def find_row_append)
qed

section \<open>Every step of the store lets versions grow\<close>

lemma insert_user_users: "insert_user u d = Inr d' \<Longrightarrow> \<exists>v. users d' = users d @ [v]"
  by (auto simp: insert_user_def split: sum.splits if_splits)

lemma register_grown: "createRegisteredHuman uid hid now lg em ph c n k su d = Inr (x, d') \<Longrightarrow> grown (users d) (users d')"
  by (erule register_InrD) (simp add: grown_append)

lemma create_grown:
  "insert_user u d = Inr d' \<Longrightarrow> grown (users d) (users d')"
  by (auto dest: insert_user_users simp: grown_append)

lemma account_step_grown: "account_step d d' \<Longrightarrow> grown (users d) (users d')"
proof (induction rule: account_step.induct)
  case (step_register uid hid now lg em ph c n k d x d')
  then show ?case by (simp add: RegisterHumanOpen_def register_grown)
qed (auto simp: create_defs SetLockedUntil_def UpdatePassword_def SetSuperuser_def SetUserBan_def
    revoke_user_sessions_def InsertPasswordHistory_def insert_history_def TrimPasswordHistory_def trim_history_def
    writes_def Let_def succeeds_def intro!: grown_update intro: grown_refl create_grown split: sum.splits if_splits option.splits)

lemma invite_step_grown: "invite_step d d' \<Longrightarrow> grown (users d) (users d')"
proof (induction rule: invite_step.induct)
  case (step_register_invited uid hid now h lg em ph c n k d r d')
  then show ?case
  proof (cases rule: invite_register_cases)
    case (registered v d1)
    then show ?thesis by (simp add: register_grown)
  qed (simp add: grown_refl)
qed (auto simp: InsertRegistrationInvite_def MarkRegistrationInviteUsed_def grown_refl split: if_splits)

lemma reset_step_grown: "reset_step d d' \<Longrightarrow> grown (users d) (users d')"
  using reset_step_users [of d d'] by (auto simp: set_password_def succeeds_def intro!: grown_update intro: grown_refl)

lemma other_step_users:
  "session_step d d' \<Longrightarrow> users d' = users d" "otp_step d d' \<Longrightarrow> users d' = users d"
  "role_step d d' \<Longrightarrow> users d' = users d" "request_step d d' \<Longrightarrow> users d' = users d"
  "key_step d d' \<Longrightarrow> users d' = users d" "link_step d d' \<Longrightarrow> users d' = users d"
  "step_up_step d d' \<Longrightarrow> users d' = users d" "login_step d d' \<Longrightarrow> users d' = users d"
  using session_step_frame [of d d'] otp_step_frame [of d d'] role_step_frame [of d d'] request_step_frame [of d d']
    key_step_frame [of d d'] link_step_frame [of d d'] step_up_step_frame [of d d'] login_step_frame [of d d']
  by (cases d; cases d'; simp)+

lemma db_step_grown: "db_step d d' \<Longrightarrow> grown (users d) (users d')"
  by (erule db_stepE)
    (simp_all add: account_step_grown invite_step_grown reset_step_grown other_step_users grown_refl)

lemma db_steps_grown: "db_steps d d' \<Longrightarrow> grown (users d) (users d')"
  unfolding db_steps_def
  by (induction rule: rtranclp_induct) (auto intro: grown_refl grown_trans db_step_grown)

lemma find_row_update:
  assumes "\<And>r. P (f r) = P r"
  shows "find_row P (update_rows P f t) = map_option f (find_row P t)"
  using assms by (induction t) (auto simp: find_row_def update_rows_def)

section \<open>What a verified token says\<close>

text \<open>A subject is accepted on a database the store can have reached by then, from an account that is active
  there and whose version is the token's.\<close>

lemma tokenSubject_InrD:
  assumes "run_state (tokenSubject a subject v) w = (Inr u, w')" "others db_steps w"
  obtains i d where "uuid_Parse (alib a) subject = Some i" "db_steps (w_db w) d" "account i d = Some u"
    "u_token_version u = v" "u_banned_at u = None"
proof -
  obtain i where i: "uuid_Parse (alib a) subject = Some i"
    using assms(1) by (auto simp: tokenSubject_def split: option.splits)
  from assms(1) obtain x w1 where x: "run_state (repo (GetUserByID i)) w = (Inr x, w1)"
    and k: "run_state (case x of None \<Rightarrow> fail ErrInvalidCredentials
            | Some u \<Rightarrow> checked (ensure (requireActiveUser (Some u))) (\<lambda>_.
                  if u_token_version u \<noteq> v then fail ErrInvalidCredentials else ret u)) w1 = (Inr u, w')"
    unfolding tokenSubject_def i option.case by (rule checked_InrE)
  obtain w2 d where w2: "arrive w = (Served, w2)" "GetUserByID i (w_db w2) = Inr (x, d)"
    using x by (rule repo_InrE)
  then have "x = account i (w_db w2)" by (auto simp: GetUserByID_def reads_def account_def)
  moreover have "db_steps (w_db w) (w_db w2)" using stepping.arrive_moves(1) [OF assms(2) w2(1)] .
  moreover have "x = Some u \<and> u_token_version u = v \<and> u_banned_at u = None"
    using k by (auto simp: run_checked requireActiveUser_def split: option.splits if_splits)
  ultimately show thesis using that i by metis
qed

lemma after_move:
  assumes "moves db_steps m" "run_state m w = (x, w1)" "others db_steps w"
  shows "db_steps (w_db w) (w_db w1) \<and> others db_steps w1"
  using movesD [OF assms] by blast

lemma checked_pure_InrE:
  assumes "run_state (checked (pure r) k) w = (Inr y, w')"
  obtains x where "r = Inr x" "run_state (k x) w = (Inr y, w')"
  using assms that by (auto simp: run_checked split: sum.splits)

text \<open>The part the two verifiers share, from the clock reading on: the key by its id, the signature, the
  type, and the account behind the subject.\<close>

lemma verified_InrD:
  assumes "run_state (do { now \<leftarrow> time_Now;
       checked (secretForKID a kid now) (\<lambda>(sec, _, stale).
         if stale then fail ErrStaleSigningKey
         else checked (ParseAndVerify (alib a) tok sec) (\<lambda>v.
           if bad (c_typ v) then fail ErrWrongTokenType
           else checked (tokenSubject a (c_subject v) (c_token_version v)) (\<lambda>_. ret v))) }) w = (Inr c, w')"
    and "others db_steps w"
  obtains u w1 w2 where "run_state (tokenSubject a (c_subject c) (c_token_version c)) w1 = (Inr u, w2)"
    "db_steps (w_db w) (w_db w1)" "others db_steps w1"
proof -
  let ?subject = "\<lambda>v. if bad (c_typ v) then fail ErrWrongTokenType
     else checked (tokenSubject a (c_subject v) (c_token_version v)) (\<lambda>_. ret v)"
  from assms(1) obtain now wa where a: "run_state time_Now w = (now, wa)"
    and b: "run_state (checked (secretForKID a kid now) (\<lambda>(sec, _, stale).
         if stale then fail ErrStaleSigningKey
         else checked (ParseAndVerify (alib a) tok sec) ?subject)) wa = (Inr c, w')"
    by (rule bindE)
  from b obtain sec dep stale wb where s: "run_state (secretForKID a kid now) wa = (Inr (sec, dep, stale), wb)"
    and "run_state (if stale then fail ErrStaleSigningKey
         else checked (ParseAndVerify (alib a) tok sec) ?subject) wb = (Inr c, w')"
    by (elim checked_InrE) auto
  then have "run_state (checked (ParseAndVerify (alib a) tok sec) ?subject) wb = (Inr c, w')"
    by (auto split: if_splits)
  then obtain v wc where p: "run_state (ParseAndVerify (alib a) tok sec) wb = (Inr v, wc)"
    and v: "run_state (?subject v) wc = (Inr c, w')" by (rule checked_InrE)
  from v obtain u where "v = c" "run_state (tokenSubject a (c_subject c) (c_token_version c)) wc = (Inr u, w')"
    by (auto simp: run_checked split: if_splits sum.splits prod.splits)
  moreover have 1: "db_steps (w_db w) (w_db wa)" "others db_steps wa" using after_move [OF stepping.moves_time_Now a assms(2)] by auto
  moreover have 2: "db_steps (w_db wa) (w_db wb)" "others db_steps wb" using after_move [OF key_service_moves(4) s 1(2)] by auto
  moreover have "db_steps (w_db wb) (w_db wc)" "others db_steps wc" using after_move [OF token_moves(2) p 2(2)] by auto
  ultimately show thesis using that stepping.trans by metis
qed

lemma Verify_InrD:
  assumes "run_state (VerifyAccessToken a tok typ) w = (Inr c, w') \<or>
           run_state (VerifyAccessOrServiceToken a tok) w = (Inr c, w')" "others db_steps w"
  obtains u w1 w2 where "run_state (tokenSubject a (c_subject c) (c_token_version c)) w1 = (Inr u, w2)"
    "db_steps (w_db w) (w_db w1)" "others db_steps w1"
  using assms(1)
proof
  assume "run_state (VerifyAccessToken a tok typ) w = (Inr c, w')"
  then obtain c0 :: claims where "run_state (do { now \<leftarrow> time_Now;
       checked (secretForKID a (c_kid c0) now) (\<lambda>(sec, _, stale).
         if stale then fail ErrStaleSigningKey
         else checked (ParseAndVerify (alib a) tok sec) (\<lambda>v.
           if c_typ v \<noteq> typ then fail ErrWrongTokenType
           else checked (tokenSubject a (c_subject v) (c_token_version v)) (\<lambda>_. ret v))) }) w = (Inr c, w')"
    unfolding VerifyAccessToken_def by (rule checked_pure_InrE)
  from verified_InrD [where bad = "\<lambda>x. x \<noteq> typ", OF this assms(2)] show thesis using that by blast
next
  assume "run_state (VerifyAccessOrServiceToken a tok) w = (Inr c, w')"
  then obtain c0 :: claims where "run_state (if c_typ c0 \<noteq> TypeAccess \<and> c_typ c0 \<noteq> TypeService then fail ErrWrongTokenType
     else do { now \<leftarrow> time_Now;
       checked (secretForKID a (c_kid c0) now) (\<lambda>(sec, _, stale).
         if stale then fail ErrStaleSigningKey
         else checked (ParseAndVerify (alib a) tok sec) (\<lambda>v.
           if c_typ v \<noteq> TypeAccess \<and> c_typ v \<noteq> TypeService then fail ErrWrongTokenType
           else checked (tokenSubject a (c_subject v) (c_token_version v)) (\<lambda>_. ret v))) }) w = (Inr c, w')"
    unfolding VerifyAccessOrServiceToken_def by (rule checked_pure_InrE)
  then have "run_state (do { now \<leftarrow> time_Now;
       checked (secretForKID a (c_kid c0) now) (\<lambda>(sec, _, stale).
         if stale then fail ErrStaleSigningKey
         else checked (ParseAndVerify (alib a) tok sec) (\<lambda>v.
           if c_typ v \<noteq> TypeAccess \<and> c_typ v \<noteq> TypeService then fail ErrWrongTokenType
           else checked (tokenSubject a (c_subject v) (c_token_version v)) (\<lambda>_. ret v))) }) w = (Inr c, w')"
    by (simp split: if_splits)
  from verified_InrD [where bad = "\<lambda>x. x \<noteq> TypeAccess \<and> x \<noteq> TypeService", OF this assms(2)]
  show thesis using that by blast
qed

text \<open>The version a verified token carries is one the account had after the ban, hence a later one than it
  had before it.\<close>

lemma banned_version_outgrown:
  assumes "SetUserBan now i (Some admin) reason d = Inr ((), d1)" "account i d = Some u"
    and "db_steps d1 (w_db w)" "others db_steps w"
    and "run_state (VerifyAccessToken a tok typ) w = (Inr c, w') \<or>
         run_state (VerifyAccessOrServiceToken a tok) w = (Inr c, w')"
    and "uuid_Parse (alib a) (c_subject c) = Some i"
  shows "u_token_version u < c_token_version c"
proof -
  obtain v w1 w2 where v: "run_state (tokenSubject a (c_subject c) (c_token_version c)) w1 = (Inr v, w2)"
    "db_steps (w_db w) (w_db w1)" "others db_steps w1" using assms(5,4) by (rule Verify_InrD)
  obtain d' where d': "db_steps (w_db w1) d'" "account i d' = Some v" "u_token_version v = c_token_version c"
    using v(1,3) by (rule tokenSubject_InrD) (use assms(6) in auto)
  have "account i d1 = Some (u\<lparr>u_banned_at := Some now, u_banned_by := Some admin,
                         u_ban_reason := TrimSpace reason, u_token_version := u_token_version u + 1\<rparr>)"
    using assms(1,2) by (auto simp: SetUserBan_def account_def revoke_user_sessions_def find_row_update split: if_splits)
  moreover have "grown (users d1) (users d')"
    using assms(3) v(2) d'(1) by (meson db_steps_grown stepping.trans)
  ultimately show ?thesis using d'(2,3) by (auto elim!: grown_account simp: succeeds_def)
qed

text \<open>
  C9. A ban revokes every earlier token for good: when a ban has been committed, no token that carries
  the version the account had, or an older one, is ever accepted again by either of the two verifiers (the
  one for access tokens only, and the one for access and service tokens behind the HTTP and gRPC actor
  guards and the inspection of tokens), whatever the store does afterwards (an unban included) and however
  other requests interleave with the verification.
\<close>

theorem ban_revokes_tokens:
  assumes "SetUserBan now i (Some admin) reason d = Inr ((), d1)" "account i d = Some u"
    and "db_steps d1 (w_db w)" "others db_steps w"
    and "run_state (VerifyAccessToken a tok typ) w = (Inr c, w') \<or>
         run_state (VerifyAccessOrServiceToken a tok) w = (Inr c, w')"
    and "uuid_Parse (alib a) (c_subject c) = Some i"
  shows "u_token_version u < c_token_version c"
  using assms by (rule banned_version_outgrown)

section \<open>An issued token verifies\<close>

lemma verify_quiet:
  assumes "jwt_ok (alib a)" "uuid_ok (alib a)" "w_schedule w = []"
    and "find_row (\<lambda>k. k_kid k = c_kid c) (signing_keys (w_db w)) = Some m" "decryptSigningMaterial a m = Inr sec"
    and "k_deprecated_at m = None"
    and "c_subject c = uuid_String (alib a) i" "account i (w_db w) = Some u" "u_banned_at u = None"
    and "u_token_version u = c_token_version c" "w_clock w < c_expires_at c * Second" "c_typ c = typ"
  shows "run_state (VerifyAccessToken a (jwt_Sign (alib a) sec c) typ) w = (Inr c, w)"
proof -
  have "jwt_ParseUnverified (alib a) (jwt_Sign (alib a) sec c) = Some c"
    "jwt_ParseWithClaims (alib a) sec (w_clock w) (jwt_Sign (alib a) sec c) = Some c"
    using assms(1,11) by (simp_all add: jwt_ok_def)
  moreover have "uuid_Parse (alib a) (c_subject c) = Some i" using assms(2,7) by (simp add: uuid_ok_def)
  ultimately show ?thesis
    using assms(3-6,8-12)
    by (simp add: VerifyAccessToken_def ParseUnverifiedClaims_def secretForKID_def GetSigningKeyMaterial_def reads_def
        transact_def ParseAndVerify_def tokenSubject_def GetUserByID_def account_def requireActiveUser_def run_simps)
qed

lemma bootstrap_quiet:
  assumes "w_schedule w = []" "run_state (ensureSigningBootstrap a) w = (Inr (), w1)"
  shows "w_schedule w1 = []" "w_clock w1 = w_clock w" "users (w_db w1) = users (w_db w)"
  using assms
  by (auto simp: ensureSigningBootstrap_def new_signing_material_def CountSigningKeys_def reads_def transact_def
      run_simps InsertSigningKey_def Let_def split: if_splits option.splits sum.splits prod.splits)

text \<open>The secret the service signs with belongs to the current key, which is found by its id and not
  deprecated.\<close>

lemma current_secret_quiet:
  assumes "w_schedule w = []" "keys_ok (w_db w)" "run_state (currentSigningSecret a) w = (Inr (kid, sec), w1)"
  obtains m where "w1 = w" "find_row (\<lambda>k. k_kid k = kid) (signing_keys (w_db w)) = Some m"
    "decryptSigningMaterial a m = Inr sec" "k_deprecated_at m = None"
proof -
  obtain m where m: "find_row k_is_current (signing_keys (w_db w)) = Some m" "w1 = w" "k_kid m = kid"
    "decryptSigningMaterial a m = Inr sec"
    using assms(1,3)
    by (auto simp: currentSigningSecret_def GetCurrentSigningKeyMaterial_def reads_def transact_def run_simps
        split: option.splits sum.splits)
  then have "m \<in> set (signing_keys (w_db w))" "k_is_current m" by (auto dest: find_row_SomeD)
  moreover from this have "find_row (\<lambda>k. k_kid k = k_kid m) (signing_keys (w_db w)) = Some m"
    using assms(2) by (intro find_row_key) (simp_all add: keys_ok_def keys_ok_on_def)
  ultimately show thesis using that [of m] m assms(2) by (simp add: keys_ok_def keys_ok_on_def)
qed

lemma issue_quiet:
  assumes "w_schedule w = []" "run_state (IssueServiceToken a lg secret) w = (Inr (tok, ends), w')"
  obtains u w1 kid sec where "u \<in> set (users (w_db w))" "u_kind u = UserService" "u_banned_at u = None"
    "run_state (ensureSigningBootstrap a) w = (Inr (), w1)" "run_state (currentSigningSecret a) w1 = (Inr (kid, sec), w')"
    "ends = w_clock w' + AccessTokenTTL (cfg a)"
    "tok = jwt_Sign (alib a) sec \<lparr>c_login = u_login u, c_typ = TypeService, c_kid = kid,
       c_token_version = u_token_version u, c_subject = uuid_String (alib a) (u_id u),
       c_issued_at = NewNumericDate (w_clock w'), c_expires_at = NewNumericDate ends\<rparr>"
proof -
  obtain u where u: "find_row (\<lambda>u. ToLower (u_login u) = ToLower (normalizeLogin lg)) (users (w_db w)) = Some u"
    and k: "u_kind u = UserService" "u_banned_at u = None"
    and r: "run_state (checked (ensureSigningBootstrap a) (\<lambda>_.
                 checked (currentSigningSecret a) (\<lambda>(kid, sec). do {
                   now \<leftarrow> time_Now;
                   checked (SignAccess (alib a) sec kid (uuid_String (alib a) (u_id u)) (u_login u) TypeService
                       (u_token_version u) (AccessTokenTTL (cfg a)))
                     (\<lambda>tok. ret (tok, now + AccessTokenTTL (cfg a))) }))) w = (Inr (tok, ends), w')"
    using assms
    by (auto simp: IssueServiceToken_def GetUserByLogin_def reads_def transact_def run_quiet
        split: option.splits if_splits)
  from r obtain y w1 where "run_state (ensureSigningBootstrap a) w = (Inr y, w1)"
    and r1: "run_state (checked (currentSigningSecret a) (\<lambda>(kid, sec). do {
                   now \<leftarrow> time_Now;
                   checked (SignAccess (alib a) sec kid (uuid_String (alib a) (u_id u)) (u_login u) TypeService
                       (u_token_version u) (AccessTokenTTL (cfg a)))
                     (\<lambda>tok. ret (tok, now + AccessTokenTTL (cfg a))) })) w1 = (Inr (tok, ends), w')"
    by (rule checked_InrE)
  then have b: "run_state (ensureSigningBootstrap a) w = (Inr (), w1)" by simp
  from r1 obtain p w2 where p: "run_state (currentSigningSecret a) w1 = (Inr p, w2)"
    and s0: "run_state (case p of (kid, sec) \<Rightarrow> do {
                   now \<leftarrow> time_Now;
                   checked (SignAccess (alib a) sec kid (uuid_String (alib a) (u_id u)) (u_login u) TypeService
                       (u_token_version u) (AccessTokenTTL (cfg a)))
                     (\<lambda>tok. ret (tok, now + AccessTokenTTL (cfg a))) }) w2 = (Inr (tok, ends), w')"
    by (rule checked_InrE)
  obtain kid sec where "p = (kid, sec)" by fastforce
  note c = p [unfolded this] and s = s0 [unfolded this prod.case]
  have "w_schedule w1 = []" using bootstrap_quiet(1) [OF assms(1) b] .
  then have q: "w_schedule w2 = []"
    using c by (auto simp: currentSigningSecret_def GetCurrentSigningKeyMaterial_def reads_def transact_def run_simps
        split: option.splits sum.splits)
  have "w' = w2" using s q by (simp add: SignAccess_def run_simps)
  then show thesis
    using that [OF _ k b] c s q find_row_SomeD [OF u] by (auto simp: SignAccess_def run_simps)
qed

text \<open>
  C10. A token round trip through the whole service: the token that \<open>IssueServiceToken\<close> answers is
  accepted by \<open>VerifyAccessToken\<close>, by the key stored in the database, from the moment it is issued
  until the second it expires in, and its claims name the service account it was issued to.
\<close>

theorem service_token_roundtrip:
  assumes "jwt_ok (alib a)" "uuid_ok (alib a)" "w_schedule w = []" "store_ok (w_db w)"
    and "run_state (IssueServiceToken a lg secret) w = (Inr (tok, ends), w')"
    and "t < NewNumericDate ends * Second"
  shows "\<exists>c u. run_state (VerifyAccessToken a tok TypeService) (w'\<lparr>w_clock := t\<rparr>) = (Inr c, w'\<lparr>w_clock := t\<rparr>)
    \<and> u \<in> set (users (w_db w')) \<and> u_kind u = UserService \<and> c_login c = u_login u
    \<and> c_subject c = uuid_String (alib a) (u_id u) \<and> c_token_version c = u_token_version u"
proof (rule issue_quiet [OF assms(3,5)])
  fix u :: user and w1 kid sec
  let ?c = "\<lparr>c_login = u_login u, c_typ = TypeService, c_kid = kid,
       c_token_version = u_token_version u, c_subject = uuid_String (alib a) (u_id u),
       c_issued_at = NewNumericDate (w_clock w'), c_expires_at = NewNumericDate ends\<rparr>"
  assume u: "u \<in> set (users (w_db w))" "u_kind u = UserService" "u_banned_at u = None"
    and b: "run_state (ensureSigningBootstrap a) w = (Inr (), w1)"
    and c: "run_state (currentSigningSecret a) w1 = (Inr (kid, sec), w')"
    and tok: "ends = w_clock w' + AccessTokenTTL (cfg a)" "tok = jwt_Sign (alib a) sec ?c"
  note q = bootstrap_quiet [OF assms(3) b]
  have "others db_steps w" using assms(3) by (simp add: others_def)
  then have "db_steps (w_db w) (w_db w1)" using after_move [OF key_service_moves(2) b] by blast
  then have ok: "store_ok (w_db w1)" using db_steps_ok assms(4) by blast
  then have "keys_ok (w_db w1)" by (simp add: store_ok_def)
  then obtain m where m: "w' = w1" "find_row (\<lambda>k. k_kid k = kid) (signing_keys (w_db w1)) = Some m"
      "decryptSigningMaterial a m = Inr sec" "k_deprecated_at m = None"
    using current_secret_quiet [OF q(1) _ c] by blast
  have "distinct (map u_id (users (w_db w1)))"
    using ok by (simp add: store_ok_def account_inv_def identity_ok_def identity_ok_on_def ident_def comp_def)
  then have "account (u_id u) (w_db w1) = Some u"
    using u(1) q(3) unfolding account_def by (intro find_row_key) simp_all
  then have "run_state (VerifyAccessToken a tok TypeService) (w'\<lparr>w_clock := t\<rparr>) = (Inr ?c, w'\<lparr>w_clock := t\<rparr>)"
    unfolding tok(2) using m u(3) q(1) assms(6)
    by (intro verify_quiet [OF assms(1,2), where m = m and i = "u_id u" and u = u]) simp_all
  then show ?thesis using u q(3) m(1)
    by (intro exI [of _ ?c] exI [of _ u]) simp
qed

text \<open>A service account with a stored key, in a quiet world.\<close>

definition sample_bot :: user where
  "sample_bot = (new_user 4 0 ''bot'' UserService)\<lparr>u_service_secret_hash :=
     (case HashSecret sample_lib (Some ''salt'') ''Secret-1'' of Inl _ \<Rightarrow> None | Inr h \<Rightarrow> Some h)\<rparr>"

definition sample_bot_world :: world where
  "sample_bot_world = sample_world\<lparr>w_db := empty_db\<lparr>users := [sample_bot], signing_keys :=
     [\<lparr>k_kid = ''k'', k_secret_cipher = ''s-key'', k_nonce = ''n'', k_deprecated_at = None, k_is_current = True\<rparr>]\<rparr>,
     w_schedule := []\<rparr>"

lemma sample_bot_store_ok: "store_ok (w_db sample_bot_world)"
  by (simp add: store_ok_def store_invariants empty_db_def identity_ok_on_def sessions_ok_on_def otps_ok_on_def
      roles_ok_on_def keys_ok_on_def sample_bot_world_def sample_bot_def ident_def ident_keyed_def new_user_def
      count_rows_def)

lemma sample_bot_issues:
  "\<exists>tok. run_state (IssueServiceToken sample_auth ''bot'' ''Secret-1'') sample_bot_world =
     (Inr (tok, 5 + AccessTokenTTL default_config), sample_bot_world)"
proof -
  obtain h where h: "HashSecret sample_lib (Some ''salt'') ''Secret-1'' = Inr h" by (simp add: HashSecret_def HashPassword_def)
  then have v: "VerifySecret sample_lib ''Secret-1'' h = Inr True"
    using verify_hashed [of sample_lib "Some ''salt''" "''Secret-1''" h "''Secret-1''"] by (simp add: HashSecret_def VerifySecret_def)
  have l: "normalizeLogin ''bot'' = ''bot''" "ToLower ''bot'' = ''bot''" by code_simp+
  have k: "decryptSigningMaterial sample_auth \<lparr>k_kid = ''k'', k_secret_cipher = ''s-key'', k_nonce = ''n'',
      k_deprecated_at = None, k_is_current = True\<rparr> = Inr ''-key''" by code_simp
  show ?thesis
    by (simp add: IssueServiceToken_def GetUserByLogin_def reads_def transact_def run_simps sample_bot_world_def l
        find_row_def sample_bot_def h v new_user_def sample_auth_def [THEN arg_cong, of alib] sample_auth_def
        ensureSigningBootstrap_def CountSigningKeys_def currentSigningSecret_def GetCurrentSigningKeyMaterial_def
        k [unfolded sample_auth_def] SignAccess_def sample_world_def)
qed

theorem service_token_roundtrip_witness:
  "\<exists>tok c. fst (run_state (IssueServiceToken sample_auth ''bot'' ''Secret-1'') sample_bot_world) = Inr (tok, 5 + AccessTokenTTL default_config)
     \<and> fst (run_state (VerifyAccessToken sample_auth tok TypeService) (sample_bot_world\<lparr>w_clock := 6\<rparr>)) = Inr c"
proof -
  obtain tok where i: "run_state (IssueServiceToken sample_auth ''bot'' ''Secret-1'') sample_bot_world =
     (Inr (tok, 5 + AccessTokenTTL default_config), sample_bot_world)" using sample_bot_issues by blast
  have "jwt_ok (alib sample_auth)" "uuid_ok (alib sample_auth)" "w_schedule sample_bot_world = []"
    "6 < NewNumericDate (5 + AccessTokenTTL default_config) * Second"
    by (simp_all add: sample_auth_def sample_lib_ok sample_bot_world_def NewNumericDate_def Second_def default_config_def)
  from service_token_roundtrip [OF this(1,2,3) sample_bot_store_ok i this(4)] i show ?thesis by auto
qed

text \<open>The account is banned and unbanned again; a token of its new version is accepted.\<close>

definition sample_claims :: claims where
  "sample_claims = \<lparr>c_login = ''bot'', c_typ = TypeService, c_kid = ''k'', c_token_version = 1,
     c_subject = uuid_String sample_lib 4, c_issued_at = 0, c_expires_at = 900\<rparr>"

definition sample_unbanned_world :: world where
  "sample_unbanned_world = sample_bot_world\<lparr>w_db := (w_db sample_bot_world)\<lparr>users := [sample_bot\<lparr>u_token_version := 1\<rparr>]\<rparr>\<rparr>"

lemma sample_token_accepted:
  "run_state (VerifyAccessToken sample_auth (jwt_Sign sample_lib ''-key'' sample_claims) TypeService) sample_unbanned_world
     = (Inr sample_claims, sample_unbanned_world)"
proof -
  have a: "alib sample_auth = sample_lib" by (simp add: sample_auth_def)
  have k: "decryptSigningMaterial sample_auth \<lparr>k_kid = ''k'', k_secret_cipher = ''s-key'', k_nonce = ''n'',
      k_deprecated_at = None, k_is_current = True\<rparr> = Inr ''-key''" by code_simp
  show ?thesis
    unfolding a [symmetric]
    by (rule verify_quiet [OF _ _ _ _ k, where i = 4 and u = "sample_bot\<lparr>u_token_version := 1\<rparr>"])
      (simp_all add: a sample_lib_ok sample_unbanned_world_def sample_bot_world_def sample_claims_def find_row_def account_def
        sample_bot_def new_user_def sample_world_def Second_def)
qed

text \<open>The account is banned and unbanned.\<close>

definition sample_banned_db :: db where
  "sample_banned_db = (w_db sample_bot_world)\<lparr>users := [sample_bot\<lparr>u_banned_at := Some 5, u_banned_by := Some 9, u_ban_reason := [],
     u_token_version := 1\<rparr>]\<rparr>"

lemma sample_ban:
  "account 4 (w_db sample_bot_world) = Some sample_bot"
  "SetUserBan 5 4 (Some 9) [] (w_db sample_bot_world) = Inr ((), sample_banned_db)"
proof -
  show u: "account 4 (w_db sample_bot_world) = Some sample_bot"
    by (simp add: account_def sample_bot_world_def find_row_def sample_bot_def new_user_def)
  show "SetUserBan 5 4 (Some 9) [] (w_db sample_bot_world) = Inr ((), sample_banned_db)"
    using u by (simp add: SetUserBan_def account_def revoke_user_sessions_def update_rows_def sample_bot_world_def sample_banned_db_def
        empty_db_def sample_bot_def new_user_def maxInt64_def TrimSpace_def trim_with_def)
qed

lemma sample_unban: "db_steps sample_banned_db (w_db sample_unbanned_world)" "others db_steps sample_unbanned_world"
proof -
  have "SetUserBan 6 4 None [] sample_banned_db = Inr ((), w_db sample_unbanned_world)"
    by (simp add: SetUserBan_def find_row_def update_rows_def sample_bot_world_def sample_unbanned_world_def sample_banned_db_def
        sample_bot_def new_user_def)
  then show "db_steps sample_banned_db (w_db sample_unbanned_world)" by (intro one_step by_account step_ban)
  show "others db_steps sample_unbanned_world" by (simp add: others_def sample_unbanned_world_def sample_bot_world_def)
qed

theorem ban_revokes_tokens_witness: "u_token_version sample_bot < c_token_version sample_claims"
proof -
  have "uuid_Parse (alib sample_auth) (c_subject sample_claims) = Some 4"
    by (simp add: sample_auth_def sample_claims_def sample_lib_def)
  from ban_revokes_tokens [OF sample_ban(2,1) sample_unban disjI1 [OF sample_token_accepted] this] show ?thesis .
qed

end
