(* ===== verification/Wire.thy ===== *)
theory Wire
  imports Mail_Queue Operations Paging Step_Up
begin

text \<open>
  What the HTTP handlers share: JSON values and their decoding into Go structs, requests, responses,
  cookies, the text of an error, the format of a time, and the small parsers of
  \<open>internal/transport/http/server.go\<close>, \<open>handlers.go\<close> and \<open>handlers_extra.go\<close>.

  The lexical side of JSON (bytes to values and back), the parser of IP addresses, the text the
  database driver gives its errors, the text of a time and the matching of a path in the router are
  parameters of the server, collected in the record \<open>server\<close>. What \<open>encoding/json\<close> does with a value and the fields of a struct is
  written out.
\<close>

section \<open>JSON\<close>

text \<open>\<open>JNum\<close> is a number that is not an integer literal.\<close>

datatype json =
    JNull
  | JBool bool
  | JInt int
  | JNum string
  | JStr string
  | JArr "json list"
  | JObj "(string \<times> json) list"

text \<open>What the router makes of a method and a path, for a table of methods and patterns: the number of the
  route and the values of the parameters, or that only the path is known, or nothing.\<close>

datatype match = Matched nat "(string \<times> string) list" | MethodNotAllowed | NotFound

record server =
  srv_auth :: auth
  json_Decode :: "bytes \<Rightarrow> (json \<times> bytes) option"
  json_Encode :: "json \<Rightarrow> bytes"
  net_ParseIP :: "string \<Rightarrow> string option"
  net_SplitHostPort :: "string \<Rightarrow> string option"
  driver_text :: "repo_error \<Rightarrow> string"
  time_UnmarshalJSON :: "string \<Rightarrow> instant option"
  time_MarshalJSON :: "instant \<Rightarrow> string"
  chi_Match :: "(string \<times> string) list \<Rightarrow> string \<Rightarrow> string \<Rightarrow> match"

abbreviation (input) srv_cfg :: "server \<Rightarrow> config" where "srv_cfg s \<equiv> cfg (srv_auth s)"
abbreviation (input) srv_lib :: "server \<Rightarrow> lib" where "srv_lib s \<equiv> alib (srv_auth s)"

subsection \<open>Decoding into a struct\<close>

text \<open>A member of an object goes to the field whose name it equals up to case; the last one wins; \<open>null\<close> leaves
  a field as it is; a value of another type leaves it too and is reported when the value has been read.\<close>

datatype field = FStr string | FBool string | FInt string | FStrs string | FTime string | FUUID string

definition field_name :: "field \<Rightarrow> string" where
  "field_name f = (case f of FStr n \<Rightarrow> n | FBool n \<Rightarrow> n | FInt n \<Rightarrow> n | FStrs n \<Rightarrow> n | FTime n \<Rightarrow> n
     | FUUID n \<Rightarrow> n)"

definition members :: "json \<Rightarrow> (string \<times> json) list" where
  "members v = (case v of JObj ms \<Rightarrow> ms | _ \<Rightarrow> [])"

definition values_of :: "string \<Rightarrow> json \<Rightarrow> json list" where
  "values_of n v = map snd (filter (\<lambda>(k, _). EqualFold k n) (members v))"

definition in_int64 :: "int \<Rightarrow> bool" where
  "in_int64 n \<longleftrightarrow> - (2 ^ 63) \<le> n \<and> n < 2 ^ 63"

definition value_ok :: "server \<Rightarrow> field \<Rightarrow> json \<Rightarrow> bool" where
  "value_ok s f x \<longleftrightarrow> x = JNull \<or>
     (case f of
        FStr _ \<Rightarrow> (case x of JStr _ \<Rightarrow> True | _ \<Rightarrow> False)
      | FBool _ \<Rightarrow> (case x of JBool _ \<Rightarrow> True | _ \<Rightarrow> False)
      | FInt _ \<Rightarrow> (case x of JInt n \<Rightarrow> in_int64 n | _ \<Rightarrow> False)
      | FStrs _ \<Rightarrow> (case x of JArr xs \<Rightarrow> list_all (\<lambda>y. y = JNull \<or> (case y of JStr _ \<Rightarrow> True | _ \<Rightarrow> False)) xs | _ \<Rightarrow> False)
      | FTime _ \<Rightarrow> (case x of JStr t \<Rightarrow> time_UnmarshalJSON s t \<noteq> None | _ \<Rightarrow> False)
      | FUUID _ \<Rightarrow> (case x of JStr t \<Rightarrow> uuid_Parse (srv_lib s) t \<noteq> None | _ \<Rightarrow> False))"

definition str_field :: "string \<Rightarrow> json \<Rightarrow> string" where
  "str_field n v = fold (\<lambda>x r. case x of JStr t \<Rightarrow> t | _ \<Rightarrow> r) (values_of n v) []"

definition bool_field :: "string \<Rightarrow> json \<Rightarrow> bool" where
  "bool_field n v = fold (\<lambda>x r. case x of JBool b \<Rightarrow> b | _ \<Rightarrow> r) (values_of n v) False"

definition int_field :: "string \<Rightarrow> json \<Rightarrow> int" where
  "int_field n v = fold (\<lambda>x r. case x of JInt k \<Rightarrow> if in_int64 k then k else r | _ \<Rightarrow> r) (values_of n v) 0"

definition strs_field :: "string \<Rightarrow> json \<Rightarrow> string list" where
  "strs_field n v = fold (\<lambda>x r. case x of
       JArr ys \<Rightarrow> map (\<lambda>y. case y of JStr t \<Rightarrow> t | _ \<Rightarrow> []) ys | JNull \<Rightarrow> [] | _ \<Rightarrow> r) (values_of n v) []"

definition time_field :: "server \<Rightarrow> string \<Rightarrow> json \<Rightarrow> instant option" where
  "time_field s n v = fold (\<lambda>x r. case x of JStr t \<Rightarrow> time_UnmarshalJSON s t | JNull \<Rightarrow> None | _ \<Rightarrow> r) (values_of n v) None"

definition uuid_field :: "server \<Rightarrow> string \<Rightarrow> json \<Rightarrow> uuid" where
  "uuid_field s n v = fold (\<lambda>x r. case x of
       JStr t \<Rightarrow> (case uuid_Parse (srv_lib s) t of None \<Rightarrow> r | Some i \<Rightarrow> i) | _ \<Rightarrow> r) (values_of n v) uuid_Nil"

text \<open>\<open>Decode(&dst)\<close>: whether it returned no error, and the value the fields were read from. \<open>strict\<close> is
  \<open>DisallowUnknownFields\<close>.\<close>

definition struct_ok :: "server \<Rightarrow> bool \<Rightarrow> field list \<Rightarrow> json \<Rightarrow> bool" where
  "struct_ok s strict fs v \<longleftrightarrow>
     (v = JNull \<or> (case v of JObj _ \<Rightarrow> True | _ \<Rightarrow> False))
     \<and> list_all (\<lambda>f. list_all (value_ok s f) (values_of (field_name f) v)) fs
     \<and> (strict \<longrightarrow> list_all (\<lambda>(k, _). list_ex (\<lambda>f. EqualFold k (field_name f)) fs) (members v))"

definition Decode :: "server \<Rightarrow> bool \<Rightarrow> field list \<Rightarrow> bytes \<Rightarrow> bool \<times> json" where
  "Decode s strict fs body =
     (case json_Decode s body of None \<Rightarrow> (False, JNull) | Some (v, _) \<Rightarrow> (struct_ok s strict fs v, v))"

definition json_space :: "char \<Rightarrow> bool" where
  "json_space c \<longleftrightarrow> code c \<in> {9, 10, 13, 32}"

text \<open>\<open>json.Unmarshal\<close>: one value and nothing but white space after it.\<close>

definition Unmarshal :: "server \<Rightarrow> field list \<Rightarrow> bytes \<Rightarrow> json option" where
  "Unmarshal s fs body =
     (case json_Decode s body of
        None \<Rightarrow> None
      | Some (v, rest) \<Rightarrow> if list_all json_space rest \<and> struct_ok s False fs v then Some v else None)"

text \<open>A body longer than the bound never ends in \<open>io.EOF\<close>: either the bound or what follows the value is
  reported.\<close>

definition publicMailStartBodyMaxBytes :: nat where "publicMailStartBodyMaxBytes = 1024"

definition decodePublicMailStart :: "server \<Rightarrow> field list \<Rightarrow> bytes \<Rightarrow> json option" where
  "decodePublicMailStart s fs body =
     (if length body > publicMailStartBodyMaxBytes then None
      else case json_Decode s body of
        None \<Rightarrow> None
      | Some (v, rest) \<Rightarrow> if struct_ok s True fs v \<and> list_all json_space rest then Some v else None)"

section \<open>Requests and responses\<close>

record request =
  rq_method :: string
  rq_path :: string
  rq_header :: "(string \<times> string) list"
  rq_cookie :: "(string \<times> string) list"
  rq_query :: "(string \<times> string) list"
  rq_body :: bytes
  rq_remote :: string
  rq_param :: "(string \<times> string) list"

text \<open>\<open>Header.Get\<close>, \<open>Query().Get\<close> and \<open>chi.URLParam\<close> answer the first value, or the empty string.\<close>

definition first_value :: "(string \<Rightarrow> bool) \<Rightarrow> (string \<times> string) list \<Rightarrow> string" where
  "first_value P xs = (case find (\<lambda>(k, _). P k) xs of None \<Rightarrow> [] | Some (_, v) \<Rightarrow> v)"

definition Header_Get :: "request \<Rightarrow> string \<Rightarrow> string" where
  "Header_Get r n = first_value (\<lambda>k. EqualFold k n) (rq_header r)"

definition Query_Get :: "request \<Rightarrow> string \<Rightarrow> string" where
  "Query_Get r n = first_value (\<lambda>k. k = n) (rq_query r)"

definition URLParam :: "request \<Rightarrow> string \<Rightarrow> string" where
  "URLParam r n = first_value (\<lambda>k. k = n) (rq_param r)"

definition Cookie :: "request \<Rightarrow> string \<Rightarrow> string option" where
  "Cookie r n = map_of (rq_cookie r) n"

record cookie =
  ck_name :: string
  ck_value :: string
  ck_max_age :: int
  ck_http_only :: bool
  ck_secure :: bool

record response =
  rs_status :: nat
  rs_header :: "(string \<times> string) list"
  rs_cookies :: "cookie list"
  rs_body :: "json option"

definition writeJSON :: "nat \<Rightarrow> json \<Rightarrow> response" where
  "writeJSON status v = \<lparr>rs_status = status, rs_header = [(''Content-Type'', ''application/json'')], rs_cookies = [],
     rs_body = Some v\<rparr>"

definition writeErr :: "nat \<Rightarrow> string \<Rightarrow> response" where
  "writeErr status msg = writeJSON status (JObj [(''error'', JStr msg)])"

definition no_content :: response where
  "no_content = \<lparr>rs_status = 204, rs_header = [], rs_cookies = [], rs_body = None\<rparr>"

definition with_header :: "string \<Rightarrow> string \<Rightarrow> response \<Rightarrow> response" where
  "with_header k v r = r\<lparr>rs_header := (k, v) # rs_header r\<rparr>"

definition with_cookies :: "cookie list \<Rightarrow> response \<Rightarrow> response" where
  "with_cookies cs r = r\<lparr>rs_cookies := cs\<rparr>"

definition refresh_cookie :: "server \<Rightarrow> string \<Rightarrow> int \<Rightarrow> cookie" where
  "refresh_cookie s token maxAgeSec = \<lparr>ck_name = RefreshCookieName (srv_cfg s), ck_value = token, ck_max_age = maxAgeSec,
     ck_http_only = True, ck_secure = RefreshCookieSecure (srv_cfg s)\<rparr>"

definition cleared_cookie :: "server \<Rightarrow> cookie" where
  "cleared_cookie s = \<lparr>ck_name = RefreshCookieName (srv_cfg s), ck_value = [], ck_max_age = -1,
     ck_http_only = True, ck_secure = RefreshCookieSecure (srv_cfg s)\<rparr>"

definition csrf_cookie :: "server \<Rightarrow> string \<Rightarrow> cookie" where
  "csrf_cookie s token = \<lparr>ck_name = ''csrf_token'', ck_value = token, ck_max_age = 86400 * 7,
     ck_http_only = False, ck_secure = RefreshCookieSecure (srv_cfg s)\<rparr>"

definition clientIP :: "server \<Rightarrow> request \<Rightarrow> string option" where
  "clientIP s r =
     (let h = Header_Get r ''X-Forwarded-For''
      in if h \<noteq> [] then net_ParseIP s (TrimSpace (hd (split_on (CHR '','') h)))
         else case net_SplitHostPort s (rq_remote r) of
                None \<Rightarrow> net_ParseIP s (rq_remote r)
              | Some host \<Rightarrow> net_ParseIP s host)"

definition csrfOK :: "server \<Rightarrow> request \<Rightarrow> bool" where
  "csrfOK s r =
     (let h = Header_Get r (CSRFHeaderName (srv_cfg s))
      in case Cookie r ''csrf_token'' of None \<Rightarrow> False | Some c \<Rightarrow> h \<noteq> [] \<and> c = h)"

section \<open>The text of an error\<close>

definition wrapped :: "string \<Rightarrow> string \<Rightarrow> string" where
  "wrapped sentinel detail = (if detail = [] then sentinel else sentinel @ '': '' @ detail)"

fun err_Error :: "server \<Rightarrow> svc_error \<Rightarrow> string" where
  "err_Error s ErrInvalidCredentials = ''invalid credentials''"
| "err_Error s ErrLocked = ''account locked''"
| "err_Error s ErrBanned = ''account banned''"
| "err_Error s ErrStaleSigningKey = ''signing key stale''"
| "err_Error s ErrWrongTokenType = ''wrong token type''"
| "err_Error s ErrOTPInvalid = ''invalid or expired otp''"
| "err_Error s (ErrPasswordPolicy d) = wrapped ''password policy violation'' d"
| "err_Error s ErrForbidden = ''forbidden''"
| "err_Error s ErrNotFound = ''not found''"
| "err_Error s ErrInvalidInvite = ''invalid or expired registration invite''"
| "err_Error s ErrCannotBanSelf = ''cannot ban yourself''"
| "err_Error s ErrCannotBanSuperuser = ''cannot ban a superuser''"
| "err_Error s ErrTagNotConfigured = ''tag is not configured for role''"
| "err_Error s (ErrInvalidArgument d) = wrapped ''invalid argument'' d"
| "err_Error s ErrRequestNotPending = ''role request is not pending''"
| "err_Error s (ErrOther m) = m"
| "err_Error s (RepoError e) = (case e of
     ErrUserInactive \<Rightarrow> ''user is inactive''
   | ErrTokenVersionMismatch \<Rightarrow> ''token version mismatch''
   | ErrRefreshInvalid \<Rightarrow> ''refresh token is invalid''
   | ErrInvalidMaxSessions \<Rightarrow> ''maximum sessions per user must be positive''
   | ErrRoleRequestNotPending \<Rightarrow> ''role request is not pending''
   | RepoMessage m \<Rightarrow> m
   | _ \<Rightarrow> driver_text s e)"

section \<open>Times\<close>

definition two_digits :: "int \<Rightarrow> string" where
  "two_digits n = [char_of (48 + nat (n div 10)), char_of (48 + nat (n mod 10))]"

text \<open>The Gregorian date of a day number (day 0 is 1970-01-01), by eras of 400 years that begin in March.\<close>

definition civil :: "int \<Rightarrow> int \<times> int \<times> int" where
  "civil days =
     (let z = days + 719468;
          era = z div 146097;
          doe = z mod 146097;
          yoe = (doe - doe div 1460 + doe div 36524 - doe div 146096) div 365;
          doy = doe - (365 * yoe + yoe div 4 - yoe div 100);
          mp = (5 * doy + 2) div 153;
          m = (if mp < 10 then mp + 3 else mp - 9)
      in (yoe + era * 400 + (if m \<le> 2 then 1 else 0), m, doy - (153 * mp + 2) div 5 + 1))"

text \<open>\<open>t.UTC().Format(time.RFC3339)\<close>, for the years of four digits.\<close>

definition rfc3339 :: "instant \<Rightarrow> string" where
  "rfc3339 t =
     (let secs = t div Second; (y, m, d) = civil (secs div 86400); r = secs mod 86400
      in two_digits (y div 100) @ two_digits (y mod 100) @ ''-'' @ two_digits m @ ''-'' @ two_digits d @ ''T''
         @ two_digits (r div 3600) @ '':'' @ two_digits (r mod 3600 div 60) @ '':'' @ two_digits (r mod 60) @ ''Z'')"

section \<open>Parameters of a request\<close>

definition normalizeRoleName :: "string \<Rightarrow> string option" where
  "normalizeRoleName name0 =
     (let name = TrimSpace name0 in if name = [] \<or> length name > 100 then None else Some name)"

fun normalize_tag_list :: "string list \<Rightarrow> string list \<Rightarrow> string list option" where
  "normalize_tag_list [] out = Some out"
| "normalize_tag_list (raw # rest) out =
     (let tag = ToLower (TrimSpace raw)
      in if tag = [] \<or> length tag > 64 then None
         else normalize_tag_list rest (if tag \<in> set out then out else out @ [tag]))"

definition normalizeTags :: "string list \<Rightarrow> string + string list" where
  "normalizeTags tags =
     (if length tags > 32 then Inl ''at most 32 tags are allowed''
      else case normalize_tag_list tags [] of
        None \<Rightarrow> Inl ''tags must contain 1 to 64 characters'' | Some out \<Rightarrow> Inr out)"

definition normalizeRoleTagRename :: "string \<Rightarrow> string \<Rightarrow> string + (string \<times> string)" where
  "normalizeRoleTagRename oldTag newTag =
     (case normalizeTags [oldTag] of
        Inl e \<Rightarrow> Inl e
      | Inr oldTags \<Rightarrow> (case normalizeTags [newTag] of
          Inl e \<Rightarrow> Inl e
        | Inr newTags \<Rightarrow> Inr (oldTags ! 0, newTags ! 0)))"

definition normalizeTokenRoleCheck :: "string \<Rightarrow> string \<Rightarrow> string \<Rightarrow> bool \<Rightarrow> string + (string \<times> string \<times> string)" where
  "normalizeTokenRoleCheck token0 role0 tag0 requireTag =
     (let token = TrimSpace token0; roleName = TrimSpace role0; tag = TrimSpace tag0
      in if token = [] \<or> roleName = [] \<or> (requireTag \<and> tag = [])
         then Inl (''token and role_name are required'' @ (if requireTag then ''; tag is also required'' else []))
         else Inr (token, roleName, tag))"

definition pageSize :: "request \<Rightarrow> int" where
  "pageSize r = (let n = Atoi (Query_Get r ''page_size'') in if n > 0 \<and> n \<le> 100 then n else 25)"

section \<open>Cursors\<close>

text \<open>The alphabet of \<open>base64.RawURLEncoding\<close> differs from the standard one in its last two characters.\<close>

definition url_char :: "char \<Rightarrow> char" where
  "url_char c = (if c = CHR ''+'' then CHR ''-'' else if c = CHR ''/'' then CHR ''_'' else c)"

definition std_char :: "char \<Rightarrow> char" where
  "std_char c = (if c = CHR ''-'' then CHR ''+'' else if c = CHR ''_'' then CHR ''/'' else c)"

definition url_EncodeToString :: "bytes \<Rightarrow> string" where
  "url_EncodeToString bs = map url_char (raw_EncodeToString bs)"

definition url_DecodeString :: "string \<Rightarrow> bytes option" where
  "url_DecodeString t =
     (if CHR ''+'' \<in> set t \<or> CHR ''/'' \<in> set t then None else raw_DecodeString (map std_char t))"

definition encodeCursor :: "server \<Rightarrow> cursor option \<Rightarrow> string" where
  "encodeCursor s c =
     (case c of
        None \<Rightarrow> []
      | Some (k, i) \<Rightarrow> url_EncodeToString (json_Encode s (JObj [(''Sort'', JStr k), (''ID'', JStr (uuid_String (srv_lib s) i))])))"

text \<open>\<open>None\<close> is an error, \<open>Some None\<close> the first page.\<close>

definition decodeCursor :: "server \<Rightarrow> string \<Rightarrow> cursor option option" where
  "decodeCursor s raw =
     (if TrimSpace raw = [] then Some None
      else case url_DecodeString raw of
        None \<Rightarrow> None
      | Some data \<Rightarrow>
          (case Unmarshal s [FStr ''Sort'', FUUID ''ID''] data of
             None \<Rightarrow> None
           | Some v \<Rightarrow>
               let k = str_field ''Sort'' v; i = uuid_field s ''ID'' v
               in if k = [] \<or> i = uuid_Nil then None else Some (Some (k, i))))"

end
