(* ===== verification/Http_Handlers.thy ===== *)
theory Http_Handlers
  imports Wire
begin

text \<open>
  The HTTP handlers of \<open>internal/transport/http/handlers.go\<close> and \<open>handlers_extra.go\<close>, one definition
  each. A handler gets the server, the request and the account the middleware put into the
  context, and is a program that ends with a response. Objects list their members in the order
  in which \<open>encoding/json\<close> writes the keys of a map.

  The handlers of the two public mail routes do not reach the database at all: they work on the
  queue of \<open>Mail_Queue\<close>; \<open>None\<close> is a panic.
\<close>

section \<open>The shape of a handler\<close>

text \<open>Decode the body, or answer 400; the value of a path parameter, or 400; call the service and answer its
  error or its result.\<close>

definition with_body :: "server \<Rightarrow> request \<Rightarrow> bool \<Rightarrow> field list \<Rightarrow> (json \<Rightarrow> response prog) \<Rightarrow> response prog" where
  "with_body s r strict fs k =
     (case Decode s strict fs (rq_body r) of
        (ok, v) \<Rightarrow> if ok then k v else State_Monad.return (writeErr 400 ''invalid json''))"

definition with_uuid :: "server \<Rightarrow> string \<Rightarrow> string \<Rightarrow> (uuid \<Rightarrow> response prog) \<Rightarrow> response prog" where
  "with_uuid s text msg k =
     (case uuid_Parse (srv_lib s) text of
        None \<Rightarrow> State_Monad.return (writeErr 400 msg)
      | Some i \<Rightarrow> k i)"

definition answer :: "'a svc \<Rightarrow> (svc_error \<Rightarrow> response) \<Rightarrow> ('a \<Rightarrow> response) \<Rightarrow> response prog" where
  "answer m onerr ok = State_Monad.bind m (\<lambda>res.
     State_Monad.return (case res of Inl e \<Rightarrow> onerr e | Inr x \<Rightarrow> ok x))"

abbreviation (input) nothing :: "unit \<Rightarrow> response" where "nothing \<equiv> \<lambda>_. no_content"

definition status_ok :: "string \<Rightarrow> json" where
  "status_ok t = JObj [(''status'', JStr t)]"

section \<open>Values\<close>

definition opt_str :: "string option \<Rightarrow> json" where
  "opt_str x = (case x of None \<Rightarrow> JNull | Some t \<Rightarrow> JStr t)"

definition opt_uuid :: "server \<Rightarrow> uuid option \<Rightarrow> json" where
  "opt_uuid s x = (case x of None \<Rightarrow> JNull | Some i \<Rightarrow> JStr (uuid_String (srv_lib s) i))"

definition opt_time :: "server \<Rightarrow> instant option \<Rightarrow> json" where
  "opt_time s x = (case x of None \<Rightarrow> JNull | Some t \<Rightarrow> JStr (time_MarshalJSON s t))"

text \<open>A slice that was never appended to is \<open>null\<close>.\<close>

definition nil_slice :: "json list \<Rightarrow> json" where
  "nil_slice xs = (if xs = [] then JNull else JArr xs)"

definition kind_text :: "user_kind \<Rightarrow> string" where
  "kind_text k = (case k of UserHuman \<Rightarrow> ''human'' | UserService \<Rightarrow> ''service'')"

definition level_text :: "role_level \<Rightarrow> string" where
  "level_text l = (case l of RoleDirectMember \<Rightarrow> ''direct_member'' | RoleMember \<Rightarrow> ''member'' | RoleRoleAdmin \<Rightarrow> ''role_admin'')"

definition level_of :: "string \<Rightarrow> role_level option" where
  "level_of t = (if t = ''direct_member'' then Some RoleDirectMember else if t = ''member'' then Some RoleMember
     else if t = ''role_admin'' then Some RoleRoleAdmin else None)"

lemma level_of_text [simp]: "level_of (level_text l) = Some l"
  by (cases l) (simp_all add: level_of_def level_text_def)

definition request_status_text :: "role_request_status \<Rightarrow> string" where
  "request_status_text q = (case q of RoleRequestPending \<Rightarrow> ''pending'' | RoleRequestApproved \<Rightarrow> ''approved''
     | RoleRequestRejected \<Rightarrow> ''rejected'')"

definition step_up_text :: "step_up_status \<Rightarrow> string" where
  "step_up_text q = (case q of StepUpPending \<Rightarrow> ''pending'' | StepUpApproved \<Rightarrow> ''approved'' | StepUpExpired \<Rightarrow> ''expired'')"

text \<open>Structs without tags are written with the names of their fields.\<close>

definition role_json :: "server \<Rightarrow> role_view \<Rightarrow> json" where
  "role_json s v = JObj [(''ID'', JStr (uuid_String (srv_lib s) (r_id (v_role v)))), (''Name'', JStr (r_name (v_role v))),
     (''Description'', JStr (r_description (v_role v))),
     (''ParentIDs'', nil_slice (map (\<lambda>i. JStr (uuid_String (srv_lib s) i)) (v_parents v))),
     (''ParentID'', opt_uuid s (v_parent v)), (''Tags'', nil_slice (map JStr (v_tags v))),
     (''CreatedAt'', JStr (time_MarshalJSON s (r_created_at (v_role v))))]"

definition user_role_json :: "server \<Rightarrow> user_role \<Rightarrow> json" where
  "user_role_json s m = JObj [(''ID'', JStr (uuid_String (srv_lib s) (ur_id m))), (''UserID'', JStr (uuid_String (srv_lib s) (ur_user m))),
     (''RoleID'', JStr (uuid_String (srv_lib s) (ur_role m))), (''Level'', JStr (level_text (ur_level m))),
     (''ValidFrom'', JStr (time_MarshalJSON s (ur_valid_from m))), (''ValidUntil'', opt_time s (ur_valid_until m)),
     (''GrantedBy'', opt_uuid s (ur_granted_by m))]"

definition role_request_json :: "server \<Rightarrow> role_request \<Rightarrow> json" where
  "role_request_json s q = JObj [(''ID'', JStr (uuid_String (srv_lib s) (q_id q))),
     (''RequesterID'', JStr (uuid_String (srv_lib s) (q_requester q))), (''TargetUserID'', JStr (uuid_String (srv_lib s) (q_target q))),
     (''RoleID'', JStr (uuid_String (srv_lib s) (q_role q))), (''Status'', JStr (request_status_text (q_status q))),
     (''DecidedBy'', opt_uuid s (q_decided_by q))]"

definition user_row_json :: "server \<Rightarrow> user \<Rightarrow> json" where
  "user_row_json s u = JObj [(''ban_reason'', JStr (u_ban_reason u)), (''banned_at'', opt_time s (u_banned_at u)),
     (''created_at'', JStr (rfc3339 (u_created_at u))), (''email'', opt_str (u_email u)),
     (''id'', JStr (uuid_String (srv_lib s) (u_id u))), (''kind'', JStr (kind_text (u_kind u))), (''login'', JStr (u_login u)),
     (''superuser'', JBool (u_superuser u))]"

definition session_json :: "server \<Rightarrow> refresh_session \<Rightarrow> json" where
  "session_json s x = JObj ([(''id'', JStr (uuid_String (srv_lib s) (s_id x))), (''device_id'', JStr (s_device x))]
     @ (case s_label x of None \<Rightarrow> [] | Some t \<Rightarrow> [(''device_label'', JStr t)])
     @ [(''created_at'', JStr (rfc3339 (s_created_at x))), (''expires_at'', JStr (rfc3339 (s_expires_at x))),
        (''revoked'', JBool (s_revoked_at x \<noteq> None))])"

definition member_json :: "server \<Rightarrow> role_member \<Rightarrow> json" where
  "member_json s m = JObj [(''email'', opt_str (rm_email m)), (''level'', JStr (level_text (rm_level m))), (''login'', JStr (rm_login m)),
     (''tags'', JArr (map JStr (rm_tags m))), (''user_id'', JStr (uuid_String (srv_lib s) (rm_user m)))]"

definition claims_json :: "claims \<Rightarrow> json" where
  "claims_json c = JObj [(''kid'', JStr (c_kid c)), (''login'', JStr (c_login c)), (''subject'', JStr (c_subject c)), (''typ'', JStr (c_typ c))]"

definition total_json :: "nat option \<Rightarrow> json" where
  "total_json n0 = (case n0 of None \<Rightarrow> JNull | Some n \<Rightarrow> JInt (int n))"

section \<open>Registration and service accounts\<close>

definition handleRegister :: "server \<Rightarrow> request \<Rightarrow> response prog" where
  "handleRegister s r = with_body s r False [FStr ''invite_token'', FStr ''login'', FStr ''email'', FStr ''password''] (\<lambda>b.
     if TrimSpace (str_field ''invite_token'' b) = [] \<and> \<not> RegistrationOpen (srv_cfg s)
     then State_Monad.return (writeErr 400 ''invite_token required'')
     else answer (Register (srv_auth s) (str_field ''invite_token'' b) (str_field ''login'' b) (str_field ''email'' b) (str_field ''password'' b))
       (\<lambda>e. case e of
          ErrInvalidInvite \<Rightarrow> writeErr 410 ''invalid or expired invite''
        | ErrPasswordPolicy _ \<Rightarrow> writeErr 400 (err_Error s e)
        | _ \<Rightarrow> writeErr 400 (err_Error s e))
       (\<lambda>i. writeJSON 201 (JObj [(''user_id'', JStr (uuid_String (srv_lib s) i))])))"

definition handleRegistrationInvitePreview :: "server \<Rightarrow> request \<Rightarrow> response prog" where
  "handleRegistrationInvitePreview s r =
     answer (PreviewRegistrationInvite (srv_auth s) (Query_Get r ''token''))
       (\<lambda>e. writeErr 500 (err_Error s e))
       (\<lambda>p. writeJSON 200 (JObj (if Valid p
          then [(''email'', opt_str (Preview_Email p)),
                (''expires_at'', case Preview_ExpiresAt p of None \<Rightarrow> JNull | Some t \<Rightarrow> JStr (rfc3339 t)),
                (''registration_open'', JBool (Preview_RegistrationOpen p)), (''superuser'', JBool (Preview_Superuser p)),
                (''valid'', JBool (Valid p))]
          else [(''registration_open'', JBool (Preview_RegistrationOpen p)), (''valid'', JBool (Valid p))])))"

definition handleCreateRegistrationInvite :: "server \<Rightarrow> request \<Rightarrow> uuid \<Rightarrow> response prog" where
  "handleCreateRegistrationInvite s r uid = with_body s r False [FStr ''email'', FInt ''ttl_seconds'', FBool ''superuser''] (\<lambda>b.
     case DurationFromSeconds (word_of_int (int_field ''ttl_seconds'' b)) of
       Inl e \<Rightarrow> State_Monad.return (writeErr 400 (err_Error s e))
     | Inr ttl \<Rightarrow>
         let e = TrimSpace (str_field ''email'' b); locked = (if e \<noteq> [] then Some e else None)
         in answer (CreateRegistrationInvite (srv_auth s) uid locked (bool_field ''superuser'' b) (sint ttl))
              (\<lambda>e. case e of ErrForbidden \<Rightarrow> writeErr 403 ''superuser only'' | _ \<Rightarrow> writeErr 400 (err_Error s e))
              (\<lambda>(raw, expires, regURL). writeJSON 201 (JObj [(''expires_at'', JStr (rfc3339 expires)),
                 (''registration_url'', JStr regURL), (''token'', JStr raw)])))"

definition handleCreateServiceAccount :: "server \<Rightarrow> request \<Rightarrow> uuid \<Rightarrow> response prog" where
  "handleCreateServiceAccount s r actor = with_body s r True [FStr ''login'', FStr ''secret'', FBool ''superuser''] (\<lambda>b.
     answer (CreateServiceAccount (srv_lib s) actor (str_field ''login'' b) (str_field ''secret'' b) (bool_field ''superuser'' b))
       (\<lambda>e. case e of
          ErrForbidden \<Rightarrow> writeErr 403 ''superuser only''
        | ErrBanned \<Rightarrow> writeErr 403 ''superuser only''
        | ErrInvalidArgument _ \<Rightarrow> writeErr 400 (err_Error s e)
        | ErrPasswordPolicy _ \<Rightarrow> writeErr 400 (err_Error s e)
        | _ \<Rightarrow> writeErr 500 ''service account creation failed'')
       (\<lambda>i. writeJSON 201 (JObj [(''user_id'', JStr (uuid_String (srv_lib s) i))])))"

section \<open>Login\<close>

definition handleLogin :: "server \<Rightarrow> request \<Rightarrow> response prog" where
  "handleLogin s r = with_body s r False [FStr ''login'', FStr ''password''] (\<lambda>b.
     answer (LoginPassword (srv_auth s) (str_field ''login'' b) (str_field ''password'' b) (clientIP s r))
       (\<lambda>e. case e of
          ErrBanned \<Rightarrow> writeErr 403 ''account banned''
        | ErrInvalidCredentials \<Rightarrow> writeErr 401 ''invalid credentials''
        | ErrLocked \<Rightarrow> writeErr 423 ''account locked''
        | _ \<Rightarrow> writeErr 500 (err_Error s e))
       (\<lambda>res. if PasswordExpired res then writeJSON 403 (JObj [(''password_expired'', JBool True)])
              else writeJSON 200 (JObj [(''login_challenge'', JStr (LoginChallenge res)), (''otp_sent'', JBool (OTPRequired res))])))"

text \<open>\<open>int(s.cfg.RefreshTokenTTL.Seconds())\<close>, up to the rounding of a float.\<close>

definition refresh_max_age :: "server \<Rightarrow> int" where
  "refresh_max_age s = RefreshTokenTTL (srv_cfg s) sdiv Second"

text \<open>The shared end of the two ways to log in: a fresh CSRF token, both cookies and the tokens.\<close>

definition tokens_issued :: "server \<Rightarrow> (svc_error \<Rightarrow> response) \<Rightarrow> (token_pair \<times> user) svc \<Rightarrow> response prog" where
  "tokens_issued s onerr m = State_Monad.bind m (\<lambda>res.
     case res of
       Inl e \<Rightarrow> State_Monad.return (onerr e)
     | Inr (tokens, _) \<Rightarrow> State_Monad.bind uuid_New (\<lambda>i.
         let csrf = uuid_String (srv_lib s) i
         in State_Monad.return (with_cookies [csrf_cookie s csrf, refresh_cookie s (RefreshToken tokens) (refresh_max_age s)]
              (writeJSON 200 (JObj [(''access_token'', JStr (AccessToken tokens)), (''csrf_token'', JStr csrf),
                 (''expires_at'', JStr (rfc3339 (ExpiresAt tokens))), (''refresh_token'', JStr (RefreshToken tokens))])))))"

definition handleLoginVerify :: "server \<Rightarrow> request \<Rightarrow> response prog" where
  "handleLoginVerify s r = with_body s r False [FStr ''challenge'', FStr ''code'', FStr ''device_id'', FStr ''device_label''] (\<lambda>b.
     if str_field ''device_id'' b = [] then State_Monad.return (writeErr 400 ''device_id required'')
     else if str_field ''challenge'' b = [] then State_Monad.return (writeErr 400 ''challenge required'')
     else tokens_issued s
       (\<lambda>e. case e of
          ErrBanned \<Rightarrow> writeErr 403 ''account banned''
        | ErrOTPInvalid \<Rightarrow> writeErr 401 ''invalid otp''
        | _ \<Rightarrow> writeErr 500 (err_Error s e))
       (LoginVerifyOTP (srv_auth s) (str_field ''challenge'' b) (str_field ''code'' b) (str_field ''device_id'' b) (str_field ''device_label'' b)))"

definition handleMagicLinkStart :: "server \<Rightarrow> request \<Rightarrow> publicMailQueue \<Rightarrow> (response \<times> publicMailQueue) option" where
  "handleMagicLinkStart s r q =
     (case decodePublicMailStart s [FStr ''login''] (rq_body r) of
        None \<Rightarrow> Some (writeErr 400 ''invalid json'', q)
      | Some b \<Rightarrow>
          (case StartMagicLink (str_field ''login'' b) q of
             Inl e \<Rightarrow> Some ((case e of ErrInvalidArgument _ \<Rightarrow> writeErr 400 ''invalid login'' | _ \<Rightarrow> writeErr 500 (err_Error s e)), q)
           | Inr None \<Rightarrow> None
           | Inr (Some q') \<Rightarrow> Some (writeJSON 200 (status_ok ''link_sent''), q')))"

definition handleMagicLinkVerify :: "server \<Rightarrow> request \<Rightarrow> response prog" where
  "handleMagicLinkVerify s r = with_body s r False [FStr ''token'', FStr ''device_id'', FStr ''device_label''] (\<lambda>b.
     if str_field ''device_id'' b = [] then State_Monad.return (writeErr 400 ''device_id required'')
     else tokens_issued s
       (\<lambda>e. case e of
          ErrBanned \<Rightarrow> writeErr 403 ''account banned''
        | ErrOTPInvalid \<Rightarrow> writeErr 401 ''invalid or expired link''
        | _ \<Rightarrow> writeErr 500 (err_Error s e))
       (CompleteMagicLink (srv_auth s) (str_field ''token'' b) (str_field ''device_id'' b) (str_field ''device_label'' b)))"

text \<open>A refresh token in the body is not ambient; the cookie is, and needs the double submit check.\<close>

definition refresh_with :: "server \<Rightarrow> json \<Rightarrow> string \<Rightarrow> response prog" where
  "refresh_with s b token =
     answer (Refresh (srv_auth s) token (str_field ''device_id'' b) (str_field ''device_label'' b))
       (\<lambda>_. writeErr 401 ''refresh failed'')
       (\<lambda>tokens. with_cookies [refresh_cookie s (RefreshToken tokens) (refresh_max_age s)]
          (writeJSON 200 (JObj [(''access_token'', JStr (AccessToken tokens)), (''expires_at'', JStr (rfc3339 (ExpiresAt tokens))),
             (''refresh_token'', JStr (RefreshToken tokens))])))"

definition handleRefresh :: "server \<Rightarrow> request \<Rightarrow> response prog" where
  "handleRefresh s r =
     (let b = snd (Decode s False [FStr ''device_id'', FStr ''device_label'', FStr ''refresh_token''] (rq_body r));
          token = TrimSpace (str_field ''refresh_token'' b)
      in if token \<noteq> [] then refresh_with s b token
         else case Cookie r (RefreshCookieName (srv_cfg s)) of
           None \<Rightarrow> State_Monad.return (writeErr 401 ''missing refresh token'')
         | Some c \<Rightarrow>
             if c = [] then State_Monad.return (writeErr 401 ''missing refresh token'')
             else if \<not> csrfOK s r then State_Monad.return (writeErr 403 ''csrf validation failed'')
             else refresh_with s b c)"

definition handleLogout :: "server \<Rightarrow> request \<Rightarrow> response prog" where
  "handleLogout s r =
     (let b = snd (Decode s False [FStr ''refresh_token''] (rq_body r));
          t = TrimSpace (str_field ''refresh_token'' b);
          out = with_cookies [cleared_cookie s] no_content
      in if t \<noteq> [] then State_Monad.bind (Logout (srv_auth s) t) (\<lambda>_. State_Monad.return out)
         else if \<not> csrfOK s r then State_Monad.return (writeErr 403 ''csrf validation failed'')
         else case Cookie r (RefreshCookieName (srv_cfg s)) of
           None \<Rightarrow> State_Monad.return out
         | Some c \<Rightarrow> State_Monad.bind (Logout (srv_auth s) c) (\<lambda>_. State_Monad.return out))"

definition handleServiceToken :: "server \<Rightarrow> request \<Rightarrow> response prog" where
  "handleServiceToken s r = with_body s r False [FStr ''login'', FStr ''secret''] (\<lambda>b.
     answer (IssueServiceToken (srv_auth s) (str_field ''login'' b) (str_field ''secret'' b))
       (\<lambda>e. case e of ErrInvalidCredentials \<Rightarrow> writeErr 401 ''invalid credentials'' | _ \<Rightarrow> writeErr 500 (err_Error s e))
       (\<lambda>(tok, expires). writeJSON 200 (JObj [(''access_token'', JStr tok), (''expires_at'', JStr (rfc3339 expires))])))"

section \<open>The own account\<close>

text \<open>Behind the middleware there is always an account in the context.\<close>

definition handleMe :: "server \<Rightarrow> request \<Rightarrow> uuid \<Rightarrow> response prog" where
  "handleMe s r uid =
     answer (CurrentUser uid)
       (\<lambda>_. writeErr 404 ''user not found'')
       (\<lambda>u. writeJSON 200 (JObj [(''email'', opt_str (u_email u)), (''id'', JStr (uuid_String (srv_lib s) (u_id u))),
          (''kind'', JStr (kind_text (u_kind u))), (''login'', JStr (u_login u)), (''superuser'', JBool (u_superuser u))]))"

definition handleChangePassword2FAStart :: "server \<Rightarrow> request \<Rightarrow> uuid \<Rightarrow> response prog" where
  "handleChangePassword2FAStart s r uid =
     answer (StartPasswordChange2FA (srv_auth s) uid)
       (\<lambda>e. case e of ErrNotFound \<Rightarrow> writeErr 404 ''user not found'' | _ \<Rightarrow> writeErr 400 (err_Error s e))
       (\<lambda>_. writeJSON 200 (status_ok ''otp_sent''))"

definition handleChangePassword :: "server \<Rightarrow> request \<Rightarrow> uuid \<Rightarrow> response prog" where
  "handleChangePassword s r uid = with_body s r False [FStr ''old_password'', FStr ''new_password'', FStr ''code''] (\<lambda>b.
     answer (ChangePassword (srv_auth s) uid (str_field ''old_password'' b) (str_field ''new_password'' b) (str_field ''code'' b))
       (\<lambda>e. case e of
          ErrInvalidCredentials \<Rightarrow> writeErr 401 ''invalid old password''
        | ErrOTPInvalid \<Rightarrow> writeErr 401 ''invalid 2fa code''
        | ErrNotFound \<Rightarrow> writeErr 404 ''user not found''
        | ErrPasswordPolicy _ \<Rightarrow> writeErr 400 (err_Error s e)
        | _ \<Rightarrow> writeErr 400 (err_Error s e))
       nothing)"

definition handlePasswordResetStart :: "server \<Rightarrow> request \<Rightarrow> publicMailQueue \<Rightarrow> (response \<times> publicMailQueue) option" where
  "handlePasswordResetStart s r q =
     (case decodePublicMailStart s [FStr ''login''] (rq_body r) of
        None \<Rightarrow> Some (writeErr 400 ''invalid json'', q)
      | Some b \<Rightarrow>
          (case StartPasswordReset (str_field ''login'' b) q of
             Inl e \<Rightarrow> Some ((case e of ErrInvalidArgument _ \<Rightarrow> writeErr 400 ''invalid login'' | _ \<Rightarrow> writeErr 500 (err_Error s e)), q)
           | Inr None \<Rightarrow> None
           | Inr (Some q') \<Rightarrow> Some (writeJSON 200 (status_ok ''otp_sent''), q')))"

definition handlePasswordResetComplete :: "server \<Rightarrow> request \<Rightarrow> response prog" where
  "handlePasswordResetComplete s r = with_body s r False [FStr ''login'', FStr ''code'', FStr ''new_password''] (\<lambda>b.
     answer (ResetPasswordWithOTP (srv_auth s) (str_field ''login'' b) (str_field ''code'' b) (str_field ''new_password'' b))
       (\<lambda>e. case e of
          ErrOTPInvalid \<Rightarrow> writeErr 401 ''invalid otp''
        | ErrPasswordPolicy _ \<Rightarrow> writeErr 400 (err_Error s e)
        | _ \<Rightarrow> writeErr 400 (err_Error s e))
       nothing)"

definition handleListSessions :: "server \<Rightarrow> request \<Rightarrow> uuid \<Rightarrow> response prog" where
  "handleListSessions s r uid =
     answer (Auth_Sessions uid)
       (\<lambda>e. writeErr 500 (err_Error s e))
       (\<lambda>xs. writeJSON 200 (JObj [(''sessions'', JArr (map (session_json s) xs))]))"

definition handleSessionRevokeOTP :: "server \<Rightarrow> request \<Rightarrow> uuid \<Rightarrow> response prog" where
  "handleSessionRevokeOTP s r uid =
     answer (StartSessionRevokeOTP (srv_auth s) uid)
       (\<lambda>e. writeErr 400 (err_Error s e))
       (\<lambda>_. writeJSON 200 (status_ok ''otp_sent''))"

definition handleSessionRevoke :: "server \<Rightarrow> request \<Rightarrow> uuid \<Rightarrow> response prog" where
  "handleSessionRevoke s r uid = with_uuid s (URLParam r ''sessionID'') ''bad session id'' (\<lambda>sid.
     with_body s r False [FStr ''code''] (\<lambda>b.
       answer (RevokeSessionWithOTP (srv_auth s) uid sid (str_field ''code'' b))
         (\<lambda>e. case e of ErrOTPInvalid \<Rightarrow> writeErr 401 ''invalid otp'' | _ \<Rightarrow> writeErr 400 (err_Error s e))
         nothing))"

definition handleSessionDelete :: "server \<Rightarrow> request \<Rightarrow> uuid \<Rightarrow> response prog" where
  "handleSessionDelete s r uid = with_uuid s (URLParam r ''sessionID'') ''bad session id'' (\<lambda>sid.
     answer (RevokeOwnSession uid sid)
       (\<lambda>e. case e of ErrNotFound \<Rightarrow> writeErr 404 ''session not found'' | _ \<Rightarrow> writeErr 500 (err_Error s e))
       nothing)"

section \<open>Step-up confirmation\<close>

definition handleStepUp2FAComplete :: "server \<Rightarrow> request \<Rightarrow> response prog" where
  "handleStepUp2FAComplete s r = with_body s r False [FStr ''correlation_id'', FStr ''code''] (\<lambda>b.
     answer (CompleteStepUp2FAOTP (srv_auth s) (str_field ''correlation_id'' b) (str_field ''code'' b))
       (\<lambda>_. writeErr 401 ''invalid otp'')
       (\<lambda>_. writeJSON 200 (status_ok ''ok'')))"

definition handleStepUp2FAStart :: "server \<Rightarrow> request \<Rightarrow> uuid \<Rightarrow> response prog" where
  "handleStepUp2FAStart s r uid =
     (let b = snd (Decode s False [FInt ''ttl_seconds''] (rq_body r))
      in case DurationFromSeconds (word_of_int (int_field ''ttl_seconds'' b)) of
           Inl e \<Rightarrow> State_Monad.return (writeErr 400 (err_Error s e))
         | Inr ttl \<Rightarrow>
             answer (BeginStepUp2FA (srv_auth s) uid (sint ttl))
               (\<lambda>e. case e of ErrNotFound \<Rightarrow> writeErr 404 ''user not found'' | _ \<Rightarrow> writeErr 400 (err_Error s e))
               (\<lambda>corr. writeJSON 200 (JObj [(''correlation_id'', JStr corr)])))"

definition handleStepUp2FAStatus :: "server \<Rightarrow> request \<Rightarrow> uuid \<Rightarrow> response prog" where
  "handleStepUp2FAStatus s r uid =
     (let corr = TrimSpace (Query_Get r ''correlation_id'')
      in if corr = [] then State_Monad.return (writeErr 400 ''correlation_id required'')
         else answer (StepUp2FAStatusForUser corr uid)
           (\<lambda>e. case e of ErrNotFound \<Rightarrow> writeErr 404 ''not found'' | _ \<Rightarrow> writeErr 500 (err_Error s e))
           (\<lambda>st. writeJSON 200 (status_ok (step_up_text st))))"

definition handleStepUp2FAExpire :: "server \<Rightarrow> request \<Rightarrow> uuid \<Rightarrow> response prog" where
  "handleStepUp2FAExpire s r uid = with_body s r False [FStr ''correlation_id''] (\<lambda>b.
     answer (ExpireStepUp2FASessionForUser (TrimSpace (str_field ''correlation_id'' b)) uid)
       (\<lambda>e. case e of ErrNotFound \<Rightarrow> writeErr 404 ''not found'' | _ \<Rightarrow> writeErr 400 (err_Error s e))
       nothing)"

section \<open>Tokens\<close>

abbreviation (input) "bearer \<equiv> ''Bearer ''"

definition bearer_token :: "request \<Rightarrow> string option" where
  "bearer_token r =
     (let h = Header_Get r ''Authorization''
      in if take (length bearer) h = bearer then Some (TrimSpace (drop (length bearer) h)) else None)"

definition stale :: "response \<Rightarrow> response" where
  "stale = with_header ''X-Token-Stale'' ''1''"

definition handleTokenValidate :: "server \<Rightarrow> request \<Rightarrow> response prog" where
  "handleTokenValidate s r =
     (case bearer_token r of
        None \<Rightarrow> State_Monad.return (writeErr 401 ''missing bearer token'')
      | Some tok \<Rightarrow>
          answer (VerifyAccessOrServiceToken (srv_auth s) tok)
            (\<lambda>e. case e of
               ErrStaleSigningKey \<Rightarrow> stale (writeErr 401 ''token stale'')
             | ErrWrongTokenType \<Rightarrow> writeErr 400 ''wrong token type''
             | _ \<Rightarrow> writeErr 401 ''invalid token'')
            (\<lambda>cl. writeJSON 200 (claims_json cl)))"

definition handleVerifyAccessTokenOnly :: "server \<Rightarrow> request \<Rightarrow> response prog" where
  "handleVerifyAccessTokenOnly s r =
     (case bearer_token r of
        None \<Rightarrow> State_Monad.return (writeErr 401 ''missing bearer token'')
      | Some tok \<Rightarrow>
          answer (VerifyAccessToken (srv_auth s) tok TypeAccess)
            (\<lambda>e. case e of
               ErrStaleSigningKey \<Rightarrow> stale (writeErr 401 ''token stale'')
             | _ \<Rightarrow> writeErr 401 ''invalid token'')
            (\<lambda>cl. writeJSON 200 (claims_json cl)))"

definition handleRotateSigningKey :: "server \<Rightarrow> request \<Rightarrow> uuid \<Rightarrow> response prog" where
  "handleRotateSigningKey s r uid =
     answer (RotateSigningKeyForActor (srv_auth s) uid)
       (\<lambda>e. case e of ErrForbidden \<Rightarrow> writeErr 403 ''superuser only'' | _ \<Rightarrow> writeErr 500 (err_Error s e))
       nothing"

text \<open>The account of an access token, or the response that refuses it.\<close>

definition token_account :: "server \<Rightarrow> string \<Rightarrow> (response + uuid) prog" where
  "token_account s token = State_Monad.bind (VerifyAccessToken (srv_auth s) token TypeAccess) (\<lambda>res.
     State_Monad.return (case res of
       Inl e \<Rightarrow> Inl (case e of
         ErrStaleSigningKey \<Rightarrow> stale (writeErr 401 ''invalid access token'')
       | _ \<Rightarrow> writeErr 401 ''invalid access token'')
     | Inr cl \<Rightarrow> (case uuid_Parse (srv_lib s) (c_subject cl) of
         None \<Rightarrow> Inl (writeErr 401 ''invalid access token subject'')
       | Some uid \<Rightarrow> Inr uid)))"

definition has_json :: "string \<Rightarrow> bool \<Rightarrow> response" where
  "has_json name has = writeJSON 200 (JObj [(name, JBool has)])"

definition handleTokenRoleCheck :: "server \<Rightarrow> request \<Rightarrow> bool \<Rightarrow> response prog" where
  "handleTokenRoleCheck s r withTag = with_body s r True [FStr ''token'', FStr ''role_name'', FStr ''tag''] (\<lambda>b.
     case normalizeTokenRoleCheck (str_field ''token'' b) (str_field ''role_name'' b) (str_field ''tag'' b) withTag of
       Inl msg \<Rightarrow> State_Monad.return (writeErr 400 msg)
     | Inr (token, roleName, tag) \<Rightarrow> State_Monad.bind (token_account s token) (\<lambda>res.
         case res of
           Inl refused \<Rightarrow> State_Monad.return refused
         | Inr uid \<Rightarrow>
             if withTag
             then answer (UserHasRoleWithTag uid roleName tag)
               (\<lambda>_. writeErr 401 ''authorization check failed'') (has_json ''has_role_with_tag'')
             else answer (Auth_UserHasRoleName uid roleName)
               (\<lambda>_. writeErr 401 ''authorization check failed'') (has_json ''has_role'')))"

definition handleTokenCheckRole :: "server \<Rightarrow> request \<Rightarrow> response prog" where
  "handleTokenCheckRole s r = handleTokenRoleCheck s r False"

definition handleTokenCheckRoleWithTag :: "server \<Rightarrow> request \<Rightarrow> response prog" where
  "handleTokenCheckRoleWithTag s r = handleTokenRoleCheck s r True"

end
