(* ===== verification/Http_Roles.thy ===== *)
theory Http_Roles
  imports Http_Handlers
begin

text \<open>
  The HTTP handlers for administrators and for the role hierarchy, from
  \<open>internal/transport/http/handlers.go\<close> and \<open>handlers_extra.go\<close>.
\<close>

section \<open>Users\<close>

definition handleListUsers :: "server \<Rightarrow> request \<Rightarrow> uuid \<Rightarrow> response prog" where
  "handleListUsers s r uid =
     (let size = pageSize r
      in case decodeCursor s (Query_Get r ''cursor'') of
           None \<Rightarrow> State_Monad.return (writeErr 400 ''invalid cursor'')
         | Some cursor \<Rightarrow>
             answer (UsersPage uid (Query_Get r ''q'') cursor size)
               (\<lambda>e. case e of ErrForbidden \<Rightarrow> writeErr 403 ''superuser only'' | _ \<Rightarrow> writeErr 500 (err_Error s e))
               (\<lambda>(list, next, n). writeJSON 200 (JObj [(''next_cursor'', JStr (encodeCursor s next)), (''page_size'', JInt size),
                  (''total'', total_json n), (''users'', JArr (map (user_row_json s) list))])))"

definition handleBanUser :: "server \<Rightarrow> request \<Rightarrow> uuid \<Rightarrow> response prog" where
  "handleBanUser s r actor = with_uuid s (URLParam r ''userID'') ''bad user id'' (\<lambda>target.
     with_body s r False [FStr ''reason''] (\<lambda>b.
       answer (BanUser actor target (str_field ''reason'' b))
         (\<lambda>e. case e of
            ErrForbidden \<Rightarrow> writeErr 403 ''superuser only''
          | ErrCannotBanSelf \<Rightarrow> writeErr 400 (err_Error s e)
          | ErrCannotBanSuperuser \<Rightarrow> writeErr 400 (err_Error s e)
          | ErrNotFound \<Rightarrow> writeErr 404 ''user not found''
          | _ \<Rightarrow> writeErr 500 (err_Error s e))
         nothing))"

definition handleUnbanUser :: "server \<Rightarrow> request \<Rightarrow> uuid \<Rightarrow> response prog" where
  "handleUnbanUser s r actor = with_uuid s (URLParam r ''userID'') ''bad user id'' (\<lambda>target.
     answer (UnbanUser actor target)
       (\<lambda>e. case e of
          ErrForbidden \<Rightarrow> writeErr 403 ''superuser only''
        | ErrNotFound \<Rightarrow> writeErr 404 ''user not found''
        | _ \<Rightarrow> writeErr 500 (err_Error s e))
       nothing)"

definition handleRoleAccess :: "server \<Rightarrow> request \<Rightarrow> uuid \<Rightarrow> response prog" where
  "handleRoleAccess s r uid =
     answer (EffectiveRoleAccess uid)
       (\<lambda>e. writeErr 500 (err_Error s e))
       (\<lambda>xs. writeJSON 200 (JObj [(''roles'', JArr (map (\<lambda>x. JObj [(''can_manage'', JBool (ea_can_manage x)),
          (''role_id'', JStr (uuid_String (srv_lib s) (ea_role x)))]) xs))]))"

definition handleCheckRole :: "server \<Rightarrow> request \<Rightarrow> uuid \<Rightarrow> response prog" where
  "handleCheckRole s r uid =
     (let name = TrimSpace (Query_Get r ''role_name'')
      in if name = [] then State_Monad.return (writeErr 400 ''role_name required'')
         else answer (Auth_UserHasRoleName uid name) (\<lambda>e. writeErr 500 (err_Error s e)) (has_json ''has_role''))"

definition handleCheckRoleWithTag :: "server \<Rightarrow> request \<Rightarrow> uuid \<Rightarrow> response prog" where
  "handleCheckRoleWithTag s r uid =
     (let name = TrimSpace (Query_Get r ''role_name''); tag = TrimSpace (Query_Get r ''tag'')
      in if name = [] \<or> tag = [] then State_Monad.return (writeErr 400 ''role_name and tag required'')
         else answer (UserHasRoleWithTag uid name tag) (\<lambda>e. writeErr 500 (err_Error s e)) (has_json ''has_role_with_tag''))"

section \<open>Roles\<close>

definition handleListRoles :: "server \<Rightarrow> request \<Rightarrow> uuid \<Rightarrow> response prog" where
  "handleListRoles s r uid =
     (let size = pageSize r
      in case decodeCursor s (Query_Get r ''cursor'') of
           None \<Rightarrow> State_Monad.return (writeErr 400 ''invalid cursor'')
         | Some cursor \<Rightarrow>
             answer (RolesPage (Query_Get r ''q'') cursor size)
               (\<lambda>e. writeErr 500 (err_Error s e))
               (\<lambda>(list, next, n). writeJSON 200 (JObj [(''next_cursor'', JStr (encodeCursor s next)), (''page_size'', JInt size),
                  (''roles'', JArr (map (role_json s) list)), (''total'', total_json n)])))"

text \<open>The first parent comes from \<open>parent_id\<close>, the others from \<open>parent_ids\<close>; the error names the field.\<close>

definition parent_ids :: "server \<Rightarrow> json \<Rightarrow> string + uuid list" where
  "parent_ids s b =
     (let p = TrimSpace (str_field ''parent_id'' b);
          rest = those (map (\<lambda>raw. uuid_Parse (srv_lib s) (TrimSpace raw)) (strs_field ''parent_ids'' b));
          with_rest = (\<lambda>first. case rest of None \<Rightarrow> Inl ''bad parent_ids'' | Some ids \<Rightarrow> Inr (first @ ids))
      in if p = [] then with_rest []
         else case uuid_Parse (srv_lib s) p of None \<Rightarrow> Inl ''bad parent_id'' | Some pid \<Rightarrow> with_rest [pid])"

definition handleCreateRole :: "server \<Rightarrow> request \<Rightarrow> uuid \<Rightarrow> response prog" where
  "handleCreateRole s r uid =
     with_body s r False [FStr ''name'', FStr ''description'', FStr ''parent_id'', FStrs ''parent_ids''] (\<lambda>b.
       case normalizeRoleName (str_field ''name'' b) of
         None \<Rightarrow> State_Monad.return (writeErr 400 ''role name must contain 1 to 100 characters'')
       | Some name \<Rightarrow>
           (case parent_ids s b of
              Inl msg \<Rightarrow> State_Monad.return (writeErr 400 msg)
            | Inr parents \<Rightarrow>
                answer (Auth_CreateRole uid name (str_field ''description'' b) parents)
                  (\<lambda>e. case e of ErrForbidden \<Rightarrow> writeErr 403 ''superuser only'' | _ \<Rightarrow> writeErr 400 (err_Error s e))
                  (\<lambda>i. writeJSON 201 (JObj [(''role_id'', JStr (uuid_String (srv_lib s) i))]))))"

definition handleDeleteRole :: "server \<Rightarrow> request \<Rightarrow> uuid \<Rightarrow> response prog" where
  "handleDeleteRole s r uid = with_uuid s (URLParam r ''roleID'') ''bad role id'' (\<lambda>rid.
     answer (Auth_DeleteRole uid rid)
       (\<lambda>e. case e of ErrForbidden \<Rightarrow> writeErr 403 ''superuser only'' | _ \<Rightarrow> writeErr 500 (err_Error s e))
       nothing)"

definition handleSetRoleParent :: "server \<Rightarrow> request \<Rightarrow> uuid \<Rightarrow> response prog" where
  "handleSetRoleParent s r uid = with_uuid s (URLParam r ''roleID'') ''bad role id'' (\<lambda>rid.
     with_body s r False [FStr ''parent_id''] (\<lambda>b.
       let p = TrimSpace (str_field ''parent_id'' b);
           go = (\<lambda>parent. answer (Auth_SetRoleParent uid rid parent)
             (\<lambda>e. case e of ErrForbidden \<Rightarrow> writeErr 403 ''superuser only'' | _ \<Rightarrow> writeErr 400 (err_Error s e))
             nothing)
       in if p = [] then go None else with_uuid s p ''bad parent_id'' (\<lambda>pid. go (Some pid))))"

definition handleMountRole :: "server \<Rightarrow> request \<Rightarrow> uuid \<Rightarrow> response prog" where
  "handleMountRole s r uid = with_uuid s (URLParam r ''roleID'') ''bad role id'' (\<lambda>rid.
     with_body s r False [FStr ''parent_id''] (\<lambda>b.
       with_uuid s (TrimSpace (str_field ''parent_id'' b)) ''bad parent_id'' (\<lambda>pid.
         answer (Mount uid rid pid)
           (\<lambda>e. case e of ErrForbidden \<Rightarrow> writeErr 403 ''manager of both roles required'' | _ \<Rightarrow> writeErr 400 (err_Error s e))
           nothing)))"

definition handleUnmountRole :: "server \<Rightarrow> request \<Rightarrow> uuid \<Rightarrow> response prog" where
  "handleUnmountRole s r uid = with_uuid s (URLParam r ''roleID'') ''bad role id'' (\<lambda>rid.
     with_uuid s (URLParam r ''parentID'') ''bad parent id'' (\<lambda>pid.
       answer (Unmount uid rid pid)
         (\<lambda>e. case e of ErrForbidden \<Rightarrow> writeErr 403 ''manager of both roles required'' | _ \<Rightarrow> writeErr 500 (err_Error s e))
         nothing))"

definition handleListSubgroups :: "server \<Rightarrow> request \<Rightarrow> uuid \<Rightarrow> response prog" where
  "handleListSubgroups s r uid = with_uuid s (URLParam r ''roleID'') ''bad role id'' (\<lambda>rid.
     answer (Subgroups rid (Query_Get r ''recursive'' = ''true''))
       (\<lambda>e. writeErr 500 (err_Error s e))
       (\<lambda>list. writeJSON 200 (JObj [(''roles'', JArr (map (role_json s) list))])))"

definition handlePatchRole :: "server \<Rightarrow> request \<Rightarrow> uuid \<Rightarrow> response prog" where
  "handlePatchRole s r uid = with_uuid s (URLParam r ''roleID'') ''bad role id'' (\<lambda>rid.
     with_body s r False [FStr ''description''] (\<lambda>b.
       answer (Auth_UpdateRoleDescription uid rid (str_field ''description'' b))
         (\<lambda>e. case e of ErrForbidden \<Rightarrow> writeErr 403 ''forbidden'' | _ \<Rightarrow> writeErr 500 (err_Error s e))
         nothing))"

section \<open>Tags\<close>

definition handleRoleTagPair :: "server \<Rightarrow> request \<Rightarrow> uuid \<Rightarrow> bool \<Rightarrow> response prog" where
  "handleRoleTagPair s r actor add = with_uuid s (URLParam r ''roleID'') ''bad role id'' (\<lambda>rid.
     with_body s r False [FStr ''tag''] (\<lambda>b.
       case normalizeTags [str_field ''tag'' b] of
         Inl msg \<Rightarrow> State_Monad.return (writeErr 400 msg)
       | Inr tags \<Rightarrow>
           answer (ChangeRoleTag actor rid (tags ! 0) add)
             (\<lambda>e. case e of ErrForbidden \<Rightarrow> writeErr 403 ''role manager required'' | _ \<Rightarrow> writeErr 500 (err_Error s e))
             nothing))"

definition handleAddRoleTag :: "server \<Rightarrow> request \<Rightarrow> uuid \<Rightarrow> response prog" where
  "handleAddRoleTag s r uid = handleRoleTagPair s r uid True"

definition handleDeleteRoleTag :: "server \<Rightarrow> request \<Rightarrow> uuid \<Rightarrow> response prog" where
  "handleDeleteRoleTag s r uid = handleRoleTagPair s r uid False"

definition handleRenameRoleTag :: "server \<Rightarrow> request \<Rightarrow> uuid \<Rightarrow> response prog" where
  "handleRenameRoleTag s r actor = with_uuid s (URLParam r ''roleID'') ''bad role id'' (\<lambda>rid.
     with_body s r False [FStr ''old_tag'', FStr ''new_tag''] (\<lambda>b.
       case normalizeRoleTagRename (str_field ''old_tag'' b) (str_field ''new_tag'' b) of
         Inl msg \<Rightarrow> State_Monad.return (writeErr 400 msg)
       | Inr (oldTag, newTag) \<Rightarrow>
           answer (Auth_RenameRoleTag actor rid oldTag newTag)
             (\<lambda>e. case e of ErrForbidden \<Rightarrow> writeErr 403 ''role manager required'' | _ \<Rightarrow> writeErr 400 (err_Error s e))
             nothing))"

definition handleUserRoleTagPair :: "server \<Rightarrow> request \<Rightarrow> uuid \<Rightarrow> bool \<Rightarrow> response prog" where
  "handleUserRoleTagPair s r actor add = with_uuid s (URLParam r ''roleID'') ''bad role id'' (\<lambda>rid.
     with_uuid s (URLParam r ''userID'') ''bad user id'' (\<lambda>target.
       with_body s r False [FStr ''tag''] (\<lambda>b.
         case normalizeTags [str_field ''tag'' b] of
           Inl msg \<Rightarrow> State_Monad.return (writeErr 400 msg)
         | Inr tags \<Rightarrow>
             answer (ChangeMembershipTag actor target rid (tags ! 0) add)
               (\<lambda>e. case e of
                  ErrForbidden \<Rightarrow> writeErr 403 ''role manager required''
                | ErrNotFound \<Rightarrow> writeErr 400 ''role not found''
                | ErrTagNotConfigured \<Rightarrow> writeErr 400 (err_Error s e)
                | _ \<Rightarrow> writeErr 400 (err_Error s e))
               nothing)))"

definition handleAddUserRoleTag :: "server \<Rightarrow> request \<Rightarrow> uuid \<Rightarrow> response prog" where
  "handleAddUserRoleTag s r uid = handleUserRoleTagPair s r uid True"

definition handleDeleteUserRoleTag :: "server \<Rightarrow> request \<Rightarrow> uuid \<Rightarrow> response prog" where
  "handleDeleteUserRoleTag s r uid = handleUserRoleTagPair s r uid False"

section \<open>Memberships and requests\<close>

definition handleListRoleMembers :: "server \<Rightarrow> request \<Rightarrow> uuid \<Rightarrow> response prog" where
  "handleListRoleMembers s r uid = with_uuid s (URLParam r ''roleID'') ''bad role id'' (\<lambda>rid.
     answer (RoleMembers uid rid)
       (\<lambda>e. case e of ErrForbidden \<Rightarrow> writeErr 403 ''forbidden'' | _ \<Rightarrow> writeErr 500 (err_Error s e))
       (\<lambda>ms. writeJSON 200 (JObj [(''members'', JArr (map (member_json s) ms))])))"

definition handleUserRoles :: "server \<Rightarrow> request \<Rightarrow> uuid \<Rightarrow> response prog" where
  "handleUserRoles s r actor = with_uuid s (URLParam r ''userID'') ''bad user id'' (\<lambda>target.
     answer (UserRoles actor target)
       (\<lambda>e. case e of ErrForbidden \<Rightarrow> writeErr 403 ''forbidden'' | _ \<Rightarrow> writeErr 500 (err_Error s e))
       (\<lambda>ms. writeJSON 200 (JObj [(''user_roles'', JArr (map (user_role_json s) ms))])))"

definition handleAssignRole :: "server \<Rightarrow> request \<Rightarrow> uuid \<Rightarrow> response prog" where
  "handleAssignRole s r actor = with_uuid s (URLParam r ''roleID'') ''bad role id'' (\<lambda>rid.
     with_body s r False [FStr ''user_id'', FStr ''level'', FTime ''valid_until'', FStrs ''tag_grants''] (\<lambda>b.
       with_uuid s (str_field ''user_id'' b) ''bad user_id'' (\<lambda>target.
         case level_of (str_field ''level'' b) of
           None \<Rightarrow> State_Monad.return (writeErr 400 ''invalid level'')
         | Some lvl \<Rightarrow>
             (case normalizeTags (strs_field ''tag_grants'' b) of
                Inl msg \<Rightarrow> State_Monad.return (writeErr 400 msg)
              | Inr tags \<Rightarrow>
                  answer (AssignRole actor target rid lvl (time_field s ''valid_until'' b) tags)
                    (\<lambda>e. case e of ErrForbidden \<Rightarrow> writeErr 403 ''forbidden'' | _ \<Rightarrow> writeErr 400 (err_Error s e))
                    nothing))))"

definition handleRemoveRole :: "server \<Rightarrow> request \<Rightarrow> uuid \<Rightarrow> response prog" where
  "handleRemoveRole s r actor = with_uuid s (URLParam r ''roleID'') ''bad role id'' (\<lambda>rid.
     with_uuid s (URLParam r ''userID'') ''bad user id'' (\<lambda>target.
       answer (RemoveRole actor target rid)
         (\<lambda>e. case e of ErrForbidden \<Rightarrow> writeErr 403 ''forbidden'' | _ \<Rightarrow> writeErr 500 (err_Error s e))
         nothing))"

definition handleRoleRequest :: "server \<Rightarrow> request \<Rightarrow> uuid \<Rightarrow> response prog" where
  "handleRoleRequest s r actor = with_uuid s (URLParam r ''roleID'') ''bad role id'' (\<lambda>rid.
     let b = snd (Decode s False [FStr ''target_user_id''] (rq_body r));
         t = str_field ''target_user_id'' b;
         go = (\<lambda>target. answer (RequestRole actor target rid)
           (\<lambda>e. case e of
              ErrForbidden \<Rightarrow> writeErr 403 ''only a role manager may request membership for another user''
            | _ \<Rightarrow> writeErr 400 (err_Error s e))
           (\<lambda>(granted, i). if granted then writeJSON 201 (status_ok ''granted'')
              else writeJSON 201 (JObj [(''request_id'', JStr (uuid_String (srv_lib s) i)), (''status'', JStr ''pending'')])))
     in if t \<noteq> [] then with_uuid s t ''bad target_user_id'' go else go actor)"

definition handleListRoleRequests :: "server \<Rightarrow> request \<Rightarrow> uuid \<Rightarrow> response prog" where
  "handleListRoleRequests s r uid = with_uuid s (URLParam r ''roleID'') ''bad role id'' (\<lambda>rid.
     answer (PendingRoleRequests uid rid)
       (\<lambda>e. case e of ErrForbidden \<Rightarrow> writeErr 403 ''forbidden'' | _ \<Rightarrow> writeErr 500 (err_Error s e))
       (\<lambda>qs. writeJSON 200 (JObj [(''requests'', JArr (map (role_request_json s) qs))])))"

definition handleDecideRoleRequest :: "server \<Rightarrow> request \<Rightarrow> uuid \<Rightarrow> response prog" where
  "handleDecideRoleRequest s r actor = with_uuid s (URLParam r ''requestID'') ''bad request id'' (\<lambda>reqID.
     with_body s r False [FBool ''approve''] (\<lambda>b.
       answer (Auth_DecideRoleRequest actor reqID (bool_field ''approve'' b))
         (\<lambda>e. case e of
            ErrNotFound \<Rightarrow> writeErr 404 ''not found''
          | ErrForbidden \<Rightarrow> writeErr 403 ''forbidden''
          | _ \<Rightarrow> writeErr 400 (err_Error s e))
         nothing))"

end
