(* ===== verification/Http_Server.thy ===== *)
theory Http_Server
  imports Http_Roles Refinement
begin

text \<open>
  The HTTP server: the middleware and the route table of \<open>internal/transport/http/server.go\<close>,
  \<open>context.go\<close> and \<open>middleware.go\<close>. \<open>serve\<close> is the whole life of a request: its identifier, the match of
  the router, the checks of the route and its handler.

  The responses of CORS, of the metrics and documentation pages and the bodies of the router's own
  404 and 405 are third-party code and are left out.
\<close>

section \<open>Middleware\<close>

definition csrf :: "server \<Rightarrow> request \<Rightarrow> bool \<Rightarrow> response prog \<Rightarrow> response prog" where
  "csrf s r service next =
     (if service then next
      else if \<not> csrfOK s r then State_Monad.return (writeErr 403 ''csrf validation failed'')
      else next)"

text \<open>The end both guards share: the subject of the verified claims, or the refusal.\<close>

definition with_claims :: "server \<Rightarrow> svc_error + claims \<Rightarrow> (claims \<Rightarrow> uuid \<Rightarrow> response prog) \<Rightarrow> response prog" where
  "with_claims s res next =
     (case res of
        Inl e \<Rightarrow> State_Monad.return (case e of
            ErrStaleSigningKey \<Rightarrow> stale (writeErr 401 ''token stale, refresh required'')
          | _ \<Rightarrow> writeErr 401 ''invalid token'')
      | Inr cl \<Rightarrow>
          (case uuid_Parse (srv_lib s) (c_subject cl) of
             None \<Rightarrow> State_Monad.return (writeErr 401 ''invalid subject'')
           | Some uid \<Rightarrow> next cl uid))"

text \<open>What follows gets the account and whether the token is one of a service.\<close>

definition requireAccessJWT :: "server \<Rightarrow> request \<Rightarrow> (uuid \<Rightarrow> bool \<Rightarrow> response prog) \<Rightarrow> response prog" where
  "requireAccessJWT s r next =
     (case bearer_token r of
        None \<Rightarrow> State_Monad.return (writeErr 401 ''missing bearer token'')
      | Some tok \<Rightarrow> State_Monad.bind (VerifyAccessToken (srv_auth s) tok TypeAccess) (\<lambda>res.
          with_claims s res (\<lambda>cl uid. State_Monad.bind (IsBanned uid) (\<lambda>banned.
            if banned = Inr False then next uid False
            else State_Monad.return (writeErr 401 ''account banned'')))))"

definition requireActorJWT :: "server \<Rightarrow> request \<Rightarrow> (uuid \<Rightarrow> bool \<Rightarrow> response prog) \<Rightarrow> response prog" where
  "requireActorJWT s r next =
     (case bearer_token r of
        None \<Rightarrow> State_Monad.return (writeErr 401 ''missing bearer token'')
      | Some tok \<Rightarrow> State_Monad.bind (VerifyAccessOrServiceToken (srv_auth s) tok) (\<lambda>res.
          with_claims s res (\<lambda>cl uid. next uid (c_typ cl = TypeService))))"

section \<open>Routes\<close>

datatype guard = AccessJWT | ActorJWT

datatype endpoint =
    Public "server \<Rightarrow> request \<Rightarrow> response prog"
  | MailStart "server \<Rightarrow> request \<Rightarrow> publicMailQueue \<Rightarrow> (response \<times> publicMailQueue) option"
  | Guarded guard bool "server \<Rightarrow> request \<Rightarrow> uuid \<Rightarrow> response prog"

definition handle_healthz :: "server \<Rightarrow> request \<Rightarrow> response prog" where
  "handle_healthz s r = State_Monad.return no_content"

text \<open>Method, pattern and end point; the flag of a guarded route is \<open>r.With(s.csrf)\<close>.\<close>

definition routes :: "(string \<times> string \<times> endpoint) list" where
  "routes =
    [(''GET'', ''/healthz'', Public handle_healthz),
     (''GET'', ''/v1/auth/registration-invite'', Public handleRegistrationInvitePreview),
     (''POST'', ''/v1/auth/register'', Public handleRegister),
     (''POST'', ''/v1/auth/login'', Public handleLogin),
     (''POST'', ''/v1/auth/service-token'', Public handleServiceToken),
     (''POST'', ''/v1/auth/has-role'', Public handleTokenCheckRole),
     (''POST'', ''/v1/auth/has-role-with-tag'', Public handleTokenCheckRoleWithTag),
     (''GET'', ''/v1/auth/token/info'', Public handleTokenValidate),
     (''GET'', ''/v1/auth/token/verify-access'', Public handleVerifyAccessTokenOnly),
     (''POST'', ''/v1/auth/login/verify-otp'', Public handleLoginVerify),
     (''POST'', ''/v1/auth/login/magic-link'', MailStart handleMagicLinkStart),
     (''POST'', ''/v1/auth/login/magic-link/verify'', Public handleMagicLinkVerify),
     (''POST'', ''/v1/auth/password/reset/start'', MailStart handlePasswordResetStart),
     (''POST'', ''/v1/auth/password/reset/complete'', Public handlePasswordResetComplete),
     (''POST'', ''/v1/auth/refresh'', Public handleRefresh),
     (''POST'', ''/v1/auth/logout'', Public handleLogout),
     (''POST'', ''/v1/auth/step-up-2fa/complete'', Public handleStepUp2FAComplete),
     (''GET'', ''/v1/me'', Guarded AccessJWT False handleMe),
     (''GET'', ''/v1/me/has-role'', Guarded AccessJWT False handleCheckRole),
     (''GET'', ''/v1/me/has-role-with-tag'', Guarded AccessJWT False handleCheckRoleWithTag),
     (''GET'', ''/v1/me/role-access'', Guarded AccessJWT False handleRoleAccess),
     (''POST'', ''/v1/auth/password/2fa'', Guarded AccessJWT False handleChangePassword2FAStart),
     (''POST'', ''/v1/auth/password'', Guarded AccessJWT False handleChangePassword),
     (''POST'', ''/v1/auth/step-up-2fa/start'', Guarded AccessJWT False handleStepUp2FAStart),
     (''GET'', ''/v1/auth/step-up-2fa/status'', Guarded AccessJWT False handleStepUp2FAStatus),
     (''POST'', ''/v1/auth/step-up-2fa/expire'', Guarded AccessJWT True handleStepUp2FAExpire),
     (''GET'', ''/v1/sessions'', Guarded AccessJWT False handleListSessions),
     (''DELETE'', ''/v1/sessions/{sessionID}'', Guarded AccessJWT False handleSessionDelete),
     (''POST'', ''/v1/sessions/revoke-otp'', Guarded AccessJWT False handleSessionRevokeOTP),
     (''POST'', ''/v1/sessions/{sessionID}/revoke'', Guarded AccessJWT False handleSessionRevoke),
     (''POST'', ''/v1/admin/registration-invites'', Guarded ActorJWT True handleCreateRegistrationInvite),
     (''POST'', ''/v1/admin/service-accounts'', Guarded ActorJWT True handleCreateServiceAccount),
     (''POST'', ''/v1/admin/signing-keys/rotate'', Guarded ActorJWT True handleRotateSigningKey),
     (''GET'', ''/v1/admin/users'', Guarded ActorJWT False handleListUsers),
     (''POST'', ''/v1/admin/users/{userID}/ban'', Guarded ActorJWT True handleBanUser),
     (''DELETE'', ''/v1/admin/users/{userID}/ban'', Guarded ActorJWT True handleUnbanUser),
     (''GET'', ''/v1/roles'', Guarded ActorJWT False handleListRoles),
     (''POST'', ''/v1/roles'', Guarded ActorJWT True handleCreateRole),
     (''DELETE'', ''/v1/roles/{roleID}'', Guarded ActorJWT True handleDeleteRole),
     (''PATCH'', ''/v1/roles/{roleID}/description'', Guarded ActorJWT True handlePatchRole),
     (''PATCH'', ''/v1/roles/{roleID}/parent'', Guarded ActorJWT True handleSetRoleParent),
     (''POST'', ''/v1/roles/{roleID}/mounts'', Guarded ActorJWT True handleMountRole),
     (''DELETE'', ''/v1/roles/{roleID}/mounts/{parentID}'', Guarded ActorJWT True handleUnmountRole),
     (''GET'', ''/v1/roles/{roleID}/subgroups'', Guarded ActorJWT False handleListSubgroups),
     (''POST'', ''/v1/roles/{roleID}/tags'', Guarded ActorJWT True handleAddRoleTag),
     (''DELETE'', ''/v1/roles/{roleID}/tags'', Guarded ActorJWT True handleDeleteRoleTag),
     (''PATCH'', ''/v1/roles/{roleID}/tags'', Guarded ActorJWT True handleRenameRoleTag),
     (''GET'', ''/v1/users/{userID}/roles'', Guarded ActorJWT False handleUserRoles),
     (''GET'', ''/v1/roles/{roleID}/members'', Guarded ActorJWT False handleListRoleMembers),
     (''POST'', ''/v1/roles/{roleID}/members'', Guarded ActorJWT True handleAssignRole),
     (''POST'', ''/v1/roles/{roleID}/members/{userID}/tags'', Guarded ActorJWT True handleAddUserRoleTag),
     (''DELETE'', ''/v1/roles/{roleID}/members/{userID}/tags'', Guarded ActorJWT True handleDeleteUserRoleTag),
     (''DELETE'', ''/v1/roles/{roleID}/members/{userID}'', Guarded ActorJWT True handleRemoveRole),
     (''POST'', ''/v1/roles/{roleID}/requests'', Guarded ActorJWT True handleRoleRequest),
     (''GET'', ''/v1/roles/{roleID}/requests'', Guarded ActorJWT False handleListRoleRequests),
     (''POST'', ''/v1/role-requests/{requestID}/decide'', Guarded ActorJWT True handleDecideRoleRequest)]"

definition route_table :: "(string \<times> string) list" where
  "route_table = map (\<lambda>(m, p, _). (m, p)) routes"

section \<open>Serving a request\<close>

definition run_guarded :: "server \<Rightarrow> request \<Rightarrow> guard \<Rightarrow> bool \<Rightarrow> (server \<Rightarrow> request \<Rightarrow> uuid \<Rightarrow> response prog) \<Rightarrow> response prog" where
  "run_guarded s r g checks h =
     (let next = (\<lambda>uid service. if checks then csrf s r service (h s r uid) else h s r uid)
      in case g of AccessJWT \<Rightarrow> requireAccessJWT s r next | ActorJWT \<Rightarrow> requireActorJWT s r next)"

text \<open>The recoverer turns a panic into an empty response with status 500.\<close>

definition bare :: "nat \<Rightarrow> response" where
  "bare status = \<lparr>rs_status = status, rs_header = [], rs_cookies = [], rs_body = None\<rparr>"

definition run_endpoint :: "server \<Rightarrow> request \<Rightarrow> publicMailQueue \<Rightarrow> endpoint \<Rightarrow> (response \<times> publicMailQueue) prog" where
  "run_endpoint s r q e =
     (case e of
        Public h \<Rightarrow> State_Monad.bind (h s r) (\<lambda>rs. State_Monad.return (rs, q))
      | MailStart h \<Rightarrow> State_Monad.return (case h s r q of None \<Rightarrow> (bare 500, q) | Some p \<Rightarrow> p)
      | Guarded g checks h \<Rightarrow> State_Monad.bind (run_guarded s r g checks h) (\<lambda>rs. State_Monad.return (rs, q)))"

definition dispatch :: "server \<Rightarrow> request \<Rightarrow> publicMailQueue \<Rightarrow> (response \<times> publicMailQueue) prog" where
  "dispatch s r q =
     (case chi_Match s route_table (rq_method r) (rq_path r) of
        NotFound \<Rightarrow> State_Monad.return (bare 404, q)
      | MethodNotAllowed \<Rightarrow> State_Monad.return (bare 405, q)
      | Matched i params \<Rightarrow>
          if i < length routes
          then run_endpoint s (r\<lparr>rq_param := params\<rparr>) q (snd (snd (routes ! i)))
          else State_Monad.return (bare 404, q))"

definition RequestID :: "server \<Rightarrow> request \<Rightarrow> string prog" where
  "RequestID s r =
     (let i = Header_Get r ''X-Request-ID''
      in if i = [] then State_Monad.bind uuid_New (\<lambda>x. State_Monad.return (uuid_String (srv_lib s) x))
         else State_Monad.return i)"

definition serve :: "server \<Rightarrow> request \<Rightarrow> publicMailQueue \<Rightarrow> (response \<times> publicMailQueue) prog" where
  "serve s r q = State_Monad.bind (RequestID s r) (\<lambda>i.
     State_Monad.bind (dispatch s r q) (\<lambda>(rs, q').
       State_Monad.return (with_header ''X-Request-ID'' i rs, q')))"

section \<open>Requests as steps of the store\<close>

lemma shape_moves [step_moves]:
  "(\<And>v. moves db_steps (k v)) \<Longrightarrow> moves db_steps (with_body s r strict fs k)"
  "(\<And>i. moves db_steps (h i)) \<Longrightarrow> moves db_steps (with_uuid s t msg h)"
  "moves db_steps m \<Longrightarrow> moves db_steps (answer m onerr good)"
  "moves db_steps p \<Longrightarrow> moves db_steps (tokens_issued s onerr p)"
  unfolding with_body_def with_uuid_def answer_def tokens_issued_def Let_def
  by (intro preserves_intros; simp)+

lemma part_moves [step_moves]:
  "moves db_steps (refresh_with s b token)" "moves db_steps (token_account s token)"
  "moves db_steps (handleTokenRoleCheck s r withTag)"
  "moves db_steps (handleRoleTagPair s r i add)" "moves db_steps (handleUserRoleTagPair s r i add)"
  unfolding refresh_with_def token_account_def handleTokenRoleCheck_def handleRoleTagPair_def handleUserRoleTagPair_def
  by (intro preserves_intros step_moves)+

lemma public_handler_moves [step_moves]:
  "moves db_steps (handleRegister s r)"
  "moves db_steps (handleRegistrationInvitePreview s r)"
  "moves db_steps (handleLogin s r)"
  "moves db_steps (handleLoginVerify s r)"
  "moves db_steps (handleMagicLinkVerify s r)"
  "moves db_steps (handleRefresh s r)"
  "moves db_steps (handleLogout s r)"
  "moves db_steps (handleServiceToken s r)"
  "moves db_steps (handlePasswordResetComplete s r)"
  "moves db_steps (handleStepUp2FAComplete s r)"
  "moves db_steps (handleTokenValidate s r)"
  "moves db_steps (handleVerifyAccessTokenOnly s r)"
  "moves db_steps (handleTokenCheckRole s r)"
  "moves db_steps (handleTokenCheckRoleWithTag s r)"
  unfolding handleRegister_def handleRegistrationInvitePreview_def handleLogin_def handleLoginVerify_def handleMagicLinkVerify_def handleRefresh_def handleLogout_def handleServiceToken_def handlePasswordResetComplete_def handleStepUp2FAComplete_def handleTokenValidate_def handleVerifyAccessTokenOnly_def handleTokenCheckRole_def handleTokenCheckRoleWithTag_def Let_def
  by (intro preserves_intros step_moves)+

lemma account_handler_moves [step_moves]:
  "moves db_steps (handleCreateRegistrationInvite s r uid)"
  "moves db_steps (handleCreateServiceAccount s r uid)"
  "moves db_steps (handleMe s r uid)"
  "moves db_steps (handleChangePassword2FAStart s r uid)"
  "moves db_steps (handleChangePassword s r uid)"
  "moves db_steps (handleListSessions s r uid)"
  "moves db_steps (handleSessionRevokeOTP s r uid)"
  "moves db_steps (handleSessionRevoke s r uid)"
  "moves db_steps (handleSessionDelete s r uid)"
  "moves db_steps (handleStepUp2FAStart s r uid)"
  "moves db_steps (handleStepUp2FAStatus s r uid)"
  "moves db_steps (handleStepUp2FAExpire s r uid)"
  "moves db_steps (handleRotateSigningKey s r uid)"
  unfolding handleCreateRegistrationInvite_def handleCreateServiceAccount_def handleMe_def handleChangePassword2FAStart_def handleChangePassword_def handleListSessions_def handleSessionRevokeOTP_def handleSessionRevoke_def handleSessionDelete_def handleStepUp2FAStart_def handleStepUp2FAStatus_def handleStepUp2FAExpire_def handleRotateSigningKey_def Let_def
  by (intro preserves_intros step_moves)+

lemma role_handler_moves [step_moves]:
  "moves db_steps (handleListUsers s r uid)"
  "moves db_steps (handleBanUser s r uid)"
  "moves db_steps (handleUnbanUser s r uid)"
  "moves db_steps (handleRoleAccess s r uid)"
  "moves db_steps (handleCheckRole s r uid)"
  "moves db_steps (handleCheckRoleWithTag s r uid)"
  "moves db_steps (handleListRoles s r uid)"
  "moves db_steps (handleCreateRole s r uid)"
  "moves db_steps (handleDeleteRole s r uid)"
  "moves db_steps (handleSetRoleParent s r uid)"
  "moves db_steps (handleMountRole s r uid)"
  "moves db_steps (handleUnmountRole s r uid)"
  "moves db_steps (handleListSubgroups s r uid)"
  "moves db_steps (handlePatchRole s r uid)"
  "moves db_steps (handleAddRoleTag s r uid)"
  "moves db_steps (handleDeleteRoleTag s r uid)"
  "moves db_steps (handleRenameRoleTag s r uid)"
  "moves db_steps (handleAddUserRoleTag s r uid)"
  "moves db_steps (handleDeleteUserRoleTag s r uid)"
  "moves db_steps (handleListRoleMembers s r uid)"
  "moves db_steps (handleUserRoles s r uid)"
  "moves db_steps (handleAssignRole s r uid)"
  "moves db_steps (handleRemoveRole s r uid)"
  "moves db_steps (handleRoleRequest s r uid)"
  "moves db_steps (handleListRoleRequests s r uid)"
  "moves db_steps (handleDecideRoleRequest s r uid)"
  unfolding handleListUsers_def handleBanUser_def handleUnbanUser_def handleRoleAccess_def handleCheckRole_def handleCheckRoleWithTag_def handleListRoles_def handleCreateRole_def handleDeleteRole_def handleSetRoleParent_def handleMountRole_def handleUnmountRole_def handleListSubgroups_def handlePatchRole_def handleAddRoleTag_def handleDeleteRoleTag_def handleRenameRoleTag_def handleAddUserRoleTag_def handleDeleteUserRoleTag_def handleListRoleMembers_def handleUserRoles_def handleAssignRole_def handleRemoveRole_def handleRoleRequest_def handleListRoleRequests_def handleDecideRoleRequest_def Let_def
  by (intro preserves_intros step_moves)+

lemma middleware_moves [step_moves]:
  "(\<And>uid service. moves db_steps (next uid service)) \<Longrightarrow> moves db_steps (requireAccessJWT s r next)"
  "(\<And>uid service. moves db_steps (next uid service)) \<Longrightarrow> moves db_steps (requireActorJWT s r next)"
  "moves db_steps m \<Longrightarrow> moves db_steps (csrf s r service m)"
  unfolding requireAccessJWT_def requireActorJWT_def csrf_def with_claims_def
  by (intro preserves_intros step_moves; simp)+

lemma run_guarded_moves [step_moves]:
  assumes "\<And>uid. moves db_steps (h s r uid)"
  shows "moves db_steps (run_guarded s r g checks h)"
  unfolding run_guarded_def Let_def by (cases g) (auto intro!: step_moves assms)

text \<open>The two mail routes put one job into the queue or leave it alone.\<close>

lemma mail_start_step:
  "handleMagicLinkStart s r q = Some (rs, q') \<Longrightarrow> q' = q \<or> queue_step q q'"
  "handlePasswordResetStart s r q = Some (rs, q') \<Longrightarrow> q' = q \<or> queue_step q q'"
  by (auto simp: handleMagicLinkStart_def handlePasswordResetStart_def StartMagicLink_def StartPasswordReset_def
      intro: step_enqueue split: option.splits sum.splits)

definition endpoint_ok :: "endpoint \<Rightarrow> bool" where
  "endpoint_ok e \<longleftrightarrow> (case e of
     Public h \<Rightarrow> \<forall>s r. moves db_steps (h s r)
   | MailStart h \<Rightarrow> \<forall>s r q rs q'. h s r q = Some (rs, q') \<longrightarrow> q' = q \<or> queue_step q q'
   | Guarded g checks h \<Rightarrow> \<forall>s r uid. moves db_steps (h s r uid))"

lemma handle_healthz_moves [step_moves]: "moves db_steps (handle_healthz s r)"
  unfolding handle_healthz_def by (intro preserves_intros)

lemma routes_ok: "list_all (\<lambda>(m, p, e). endpoint_ok e) routes"
  by (auto simp: routes_def endpoint_ok_def step_moves dest: mail_start_step)

lemma route_ok: "i < length routes \<Longrightarrow> endpoint_ok (snd (snd (routes ! i)))"
  using routes_ok by (auto simp: list_all_length split_beta)

text \<open>The queue after a program whose queue part is decided by its answer.\<close>

definition queue_moves :: "publicMailQueue \<Rightarrow> (response \<times> publicMailQueue) prog \<Rightarrow> bool" where
  "queue_moves q m \<longleftrightarrow> (\<forall>w. let q' = snd (fst (run_state m w)) in q' = q \<or> queue_step q q')"

lemma endpoint_moves:
  assumes "endpoint_ok e"
  shows "moves db_steps (run_endpoint s r q e)" "queue_moves q (run_endpoint s r q e)"
  using assms
  by (auto simp: run_endpoint_def endpoint_ok_def queue_moves_def intro!: preserves_intros step_moves
      split: endpoint.splits option.splits prod.splits)

lemma dispatch_moves: "moves db_steps (dispatch s r q)" "queue_moves q (dispatch s r q)"
  by (auto simp: dispatch_def endpoint_moves route_ok intro!: preserves_intros split: match.splits)
     (auto simp: queue_moves_def)

lemma RequestID_moves: "moves db_steps (RequestID s r)"
  unfolding RequestID_def Let_def by (intro preserves_intros)

lemma serve_moves: "moves db_steps (serve s r q)"
  unfolding serve_def by (intro preserves_intros RequestID_moves dispatch_moves)

lemma serve_queue: "queue_moves q (serve s r q)"
  using dispatch_moves(2) [of q s r]
  by (auto simp: queue_moves_def serve_def Let_def split: prod.splits) (metis fst_conv snd_conv)

text \<open>
  The HTTP server refines the store and the mail queue: whatever request it serves, whichever of
  the effects are refused or lost and whatever other requests do in between, the database has moved
  by steps of the store's transition system and the queue by at most one of its own steps.
\<close>

lemma http_refines_store:
  assumes "others db_steps w" "run_state (serve s r q) w = ((rs, q'), w')"
  shows "db_steps (w_db w) (w_db w') \<and> (q' = q \<or> queue_step q q')"
proof -
  have "db_steps (w_db w) (w_db w')" using movesD(1) [OF serve_moves assms(2,1)] .
  moreover have "q' = q \<or> queue_step q q'"
    using serve_queue [of q s r] unfolding queue_moves_def Let_def by (metis assms(2) fst_conv snd_conv)
  ultimately show ?thesis by blast
qed

section \<open>What only the others did\<close>

text \<open>The moves of the other requests of a world, and nothing else.\<close>

definition by_others :: "world \<Rightarrow> db \<Rightarrow> db \<Rightarrow> bool" where
  "by_others w d d' \<longleftrightarrow> (\<lambda>d d'. \<exists>e\<in>set (w_schedule w). d' = e_other e d)\<^sup>*\<^sup>* d d'"

interpretation idle_request: database_moves "by_others w" for w
  by unfold_locales (auto simp: by_others_def)

lemma others_by_others: "others (by_others w) w"
  by (auto simp: others_def by_others_def)

lemma by_others_quiet: "w_schedule w = [] \<Longrightarrow> by_others w d d' \<longleftrightarrow> d' = d"
  by (auto simp: by_others_def elim: rtranclp.cases)

text \<open>Reading moves nothing, whatever the moves are; so the checks of the middleware move nothing.\<close>

context database_moves
begin

lemma moves_reads: "moves R (repo (reads f))"
  by (rule moves_repo) (auto simp: reads_def refl)

lemma checks_move_nothing:
  "moves R (VerifyAccessToken a tok typ)" "moves R (VerifyAccessOrServiceToken a tok)" "moves R (IsBanned i)"
  unfolding VerifyAccessToken_def VerifyAccessOrServiceToken_def IsBanned_def secretForKID_def tokenSubject_def
    ParseAndVerify_def GetUserByID_def GetSigningKeyMaterial_def
  by (intro preserves_intros moves_reads moves_return moves_bind moves_checked moves_time_Now moves_if moves_case_option
      moves_case_prod moves_case_sum)+

lemma refusing_check:
  assumes "run_state (State_Monad.bind m k) w = (rs, w')" "moves R m" "others R w"
    and "\<And>x w1. run_state m w = (x, w1) \<Longrightarrow> moves R (k x) \<and> P (fst (run_state (k x) w1))"
  shows "R (w_db w) (w_db w') \<and> others R w' \<and> P rs"
proof -
  obtain x w1 where 1: "run_state m w = (x, w1)" "run_state (k x) w1 = (rs, w')" using assms(1) by (rule bindE)
  note m = movesD [OF assms(2) 1(1) assms(3)]
  have k: "moves R (k x)" and "P (fst (run_state (k x) w1))" using assms(4) [OF 1(1)] by blast+
  then show ?thesis using movesD [OF k 1(2) m(2)] trans [OF m(1)] 1(2) by simp
qed

end

definition refusal :: "response \<Rightarrow> bool" where
  "refusal rs \<longleftrightarrow> rs_status rs \<in> {401, 403} \<and> rs_cookies rs = []"

lemma refusal_simps [simp]:
  "refusal (writeErr 401 msg)" "refusal (writeErr 403 msg)" "refusal (stale (writeErr 401 msg))"
  by (simp_all add: refusal_def writeErr_def writeJSON_def stale_def with_header_def)

lemma verified_claims:
  "run_state (VerifyAccessToken a tok typ) w = (Inr c, w') \<Longrightarrow> \<exists>k now. jwt_ParseWithClaims (alib a) k now tok = Some c"
  "run_state (VerifyAccessOrServiceToken a tok) w = (Inr c, w') \<Longrightarrow> \<exists>k now. jwt_ParseWithClaims (alib a) k now tok = Some c"
  unfolding VerifyAccessToken_def VerifyAccessOrServiceToken_def ParseAndVerify_def
  by (auto elim!: checked_InrE bindE split: if_splits option.splits prod.splits) blast+

context database_moves
begin

lemma with_claims_refuses:
  assumes "\<And>cl uid. res = Inr cl \<Longrightarrow> moves R (k cl uid) \<and> refusal (fst (run_state (k cl uid) w))"
  shows "moves R (with_claims s res k) \<and> refusal (fst (run_state (with_claims s res k) w))"
  using assms by (auto simp: with_claims_def moves_return split: sum.splits option.splits svc_error.splits)

text \<open>The guards refuse when no verification of the token succeeds with claims that the rest accepts.\<close>

lemma actor_guard_refuses:
  assumes run: "run_state (requireActorJWT s r next) w = (rs, w')" and o: "others R w"
    and no: "\<And>tok k now c uid. bearer_token r = Some tok \<Longrightarrow> jwt_ParseWithClaims (srv_lib s) k now tok = Some c \<Longrightarrow>
      \<exists>no. next uid (c_typ c = TypeService) = State_Monad.return no \<and> refusal no"
  shows "R (w_db w) (w_db w') \<and> refusal rs"
proof (cases "bearer_token r")
  case (Some tok)
  have rest: "moves R (next uid (c_typ c = TypeService)) \<and> refusal (fst (run_state (next uid (c_typ c = TypeService)) w1))"
    if "jwt_ParseWithClaims (srv_lib s) k now tok = Some c" for uid k now c w1
    using no [OF Some that, of uid] by (auto intro: moves_return)
  have "R (w_db w) (w_db w') \<and> others R w' \<and> refusal rs"
    by (rule refusing_check [OF run [unfolded requireActorJWT_def Some option.case] checks_move_nothing(2) o],
        rule with_claims_refuses)
       (use rest in \<open>blast dest: verified_claims(2)\<close>)
  then show ?thesis by blast
qed (use run in \<open>auto simp: requireActorJWT_def refl\<close>)

lemma access_guard_refuses:
  assumes run: "run_state (requireAccessJWT s r next) w = (rs, w')" and o: "others R w"
    and no: "\<And>tok k now c uid. bearer_token r = Some tok \<Longrightarrow> jwt_ParseWithClaims (srv_lib s) k now tok = Some c \<Longrightarrow>
      \<exists>no. next uid False = State_Monad.return no \<and> refusal no"
  shows "R (w_db w) (w_db w') \<and> refusal rs"
proof (cases "bearer_token r")
  case (Some tok)
  let ?rest = "\<lambda>uid. State_Monad.bind (IsBanned uid) (\<lambda>banned.
      if banned = Inr False then next uid False else State_Monad.return (writeErr 401 ''account banned''))"
  have rest: "moves R (?rest uid) \<and> refusal (fst (run_state (?rest uid) w1))"
    if "jwt_ParseWithClaims (srv_lib s) k now tok = Some c" for uid k now c w1
    using no [OF Some that, of uid] 
    by (auto intro!: moves_bind checks_move_nothing moves_if moves_return split: prod.splits)
  have "R (w_db w) (w_db w') \<and> others R w' \<and> refusal rs"
    by (rule refusing_check [OF run [unfolded requireAccessJWT_def Some option.case] checks_move_nothing(1) o],
        rule with_claims_refuses)
       (use rest in \<open>blast dest: verified_claims(1)\<close>)
  then show ?thesis by blast
qed (use run in \<open>auto simp: requireAccessJWT_def refl\<close>)

end

lemmas idle_refusals = idle_request.actor_guard_refuses [OF _ others_by_others] idle_request.access_guard_refuses [OF _ others_by_others]

lemma guard_refuses:
  assumes "run_state (run_guarded s r g checks h) w = (rs, w')"
    and "\<And>tok k now c uid. bearer_token r = Some tok \<Longrightarrow> jwt_ParseWithClaims (srv_lib s) k now tok = Some c \<Longrightarrow>
      checks \<and> \<not> csrfOK s r \<and> (g = ActorJWT \<longrightarrow> c_typ c \<noteq> TypeService)"
  shows "by_others w (w_db w) (w_db w') \<and> refusal rs"
proof (cases g)
  case AccessJWT
  show ?thesis
    by (rule idle_refusals(2) [OF assms(1) [unfolded run_guarded_def Let_def AccessJWT guard.case]])
       (use assms(2) in \<open>fastforce simp: csrf_def\<close>)
next
  case ActorJWT
  show ?thesis
    by (rule idle_refusals(1) [OF assms(1) [unfolded run_guarded_def Let_def ActorJWT guard.case]])
       (use assms(2) ActorJWT in \<open>fastforce simp: csrf_def\<close>)
qed

text \<open>The parameters of the route change neither the token nor the cookies.\<close>

lemma request_params [simp]:
  "bearer_token (r\<lparr>rq_param := ps\<rparr>) = bearer_token r" "csrfOK s (r\<lparr>rq_param := ps\<rparr>) = csrfOK s r"
  by (simp_all add: bearer_token_def csrfOK_def Header_Get_def Cookie_def)

lemma RequestID_idle:
  assumes "run_state (RequestID s r) w = (i, w1)"
  shows "w_db w1 = w_db w \<and> w_schedule w1 = w_schedule w \<and> w_outbox w1 = w_outbox w"
  using assms by (auto simp: RequestID_def Let_def run_draw split: if_splits)

lemma serve_guarded:
  assumes "run_state (serve s r q) w = ((rs, q'), w')"
    and "chi_Match s route_table (rq_method r) (rq_path r) = Matched i ps" "i < length routes"
    and "snd (snd (routes ! i)) = Guarded g checks h"
  obtains w1 rs1 rid where "w_db w1 = w_db w" "w_schedule w1 = w_schedule w"
    "run_state (run_guarded s (r\<lparr>rq_param := ps\<rparr>) g checks h) w1 = (rs1, w')"
    "rs = with_header ''X-Request-ID'' rid rs1" "q' = q"
  using assms that by (auto simp: serve_def dispatch_def run_endpoint_def split: prod.splits dest!: RequestID_idle)

lemma by_others_schedule: "w_schedule w1 = w_schedule w \<Longrightarrow> by_others w1 = by_others w"
  by (simp add: by_others_def fun_eq_iff)

lemma serve_refuses:
  assumes "run_state (serve s r q) w = ((rs, q'), w')"
    and "chi_Match s route_table (rq_method r) (rq_path r) = Matched i ps" "i < length routes"
    and "snd (snd (routes ! i)) = Guarded g checks h"
    and "\<And>tok k now c. bearer_token r = Some tok \<Longrightarrow> jwt_ParseWithClaims (srv_lib s) k now tok = Some c \<Longrightarrow>
      checks \<and> \<not> csrfOK s r \<and> (g = ActorJWT \<longrightarrow> c_typ c \<noteq> TypeService)"
  shows "rs_status rs \<in> {401, 403} \<and> rs_cookies rs = [] \<and> q' = q \<and> by_others w (w_db w) (w_db w')"
proof -
  obtain w1 rs1 rid where 1: "w_db w1 = w_db w" "w_schedule w1 = w_schedule w"
    "run_state (run_guarded s (r\<lparr>rq_param := ps\<rparr>) g checks h) w1 = (rs1, w')"
    "rs = with_header ''X-Request-ID'' rid rs1" "q' = q"
    using assms(1-4) by (rule serve_guarded)
  have "by_others w1 (w_db w1) (w_db w') \<and> refusal rs1"
    by (rule guard_refuses [OF 1(3)], unfold request_params) (rule assms(5))
  then show ?thesis
    unfolding 1(1) by_others_schedule [OF 1(2)] 1(4,5) by (simp add: refusal_def with_header_def)
qed

text \<open>
  C5. A route behind a guard is closed to a request without a token and to one whose token no key
  verifies at any time: the answer is 401 or 403 without a cookie, the mail queue is as it was, and
  the database has changed only by what other requests did.
\<close>

theorem guarded_routes_need_token:
  assumes "run_state (serve s r q) w = ((rs, q'), w')"
    and "chi_Match s route_table (rq_method r) (rq_path r) = Matched i ps" "i < length routes"
    and "routes ! i = (m, p, Guarded g checks h)"
    and "\<And>tok key now. bearer_token r = Some tok \<Longrightarrow> jwt_ParseWithClaims (srv_lib s) key now tok = None"
  shows "rs_status rs \<in> {401, 403} \<and> rs_cookies rs = [] \<and> q' = q \<and> by_others w (w_db w) (w_db w')"
  by (rule serve_refuses [OF assms(1-3)]) (use assms(4,5) in auto)

text \<open>Every route of an actor that is not a \<open>GET\<close> carries the CSRF check.\<close>

lemma actor_routes_check:
  "list_all (\<lambda>(m, p, e). case e of Guarded ActorJWT checks h \<Rightarrow> m \<noteq> ''GET'' \<longrightarrow> checks | _ \<Rightarrow> True) routes"
  by (simp add: routes_def)

text \<open>
  C4. A browser cannot be made to change anything on the routes for administrators and roles: a
  request to one of them with another method than \<open>GET\<close>, whose token is not one of a service and whose CSRF
  header does not repeat the CSRF cookie, is refused, and the database has changed only by what
  other requests did.
\<close>

theorem csrf_enforced:
  assumes "run_state (serve s r q) w = ((rs, q'), w')"
    and "chi_Match s route_table (rq_method r) (rq_path r) = Matched i ps" "i < length routes"
    and "routes ! i = (m, p, Guarded ActorJWT checks h)" "m \<noteq> ''GET''"
    and "\<not> csrfOK s r"
    and "\<And>tok key now c. bearer_token r = Some tok \<Longrightarrow> jwt_ParseWithClaims (srv_lib s) key now tok = Some c \<Longrightarrow>
      c_typ c \<noteq> TypeService"
  shows "rs_status rs \<in> {401, 403} \<and> rs_cookies rs = [] \<and> q' = q \<and> by_others w (w_db w) (w_db w')"
proof -
  have "checks" using actor_routes_check assms(3-5) by (fastforce simp: list_all_length)
  then show ?thesis by (intro serve_refuses [OF assms(1-3)]) (use assms(4,6,7) in auto)
qed

section \<open>A server to try\<close>

text \<open>A router that knows patterns without parameters, and a JSON that knows objects of strings, in hexadecimal.\<close>

definition sample_match :: "(string \<times> string) list \<Rightarrow> string \<Rightarrow> string \<Rightarrow> match" where
  "sample_match t m p = (case find (\<lambda>i. t ! i = (m, p)) [0..<length t] of None \<Rightarrow> NotFound | Some i \<Rightarrow> Matched i [])"

definition sample_encode :: "json \<Rightarrow> bytes" where
  "sample_encode v = CHR ''{'' # concat (map (\<lambda>(k, x). hex_EncodeToString k @ ''.''
     @ hex_EncodeToString (case x of JStr t \<Rightarrow> t | _ \<Rightarrow> []) @ ''.'') (members v))"

fun sample_pairs :: "string list \<Rightarrow> (string \<times> json) list option" where
  "sample_pairs (a # b # rest) =
     (case (hex_DecodeString a, hex_DecodeString b) of
        (Some k, Some t) \<Rightarrow> map_option ((#) (k, JStr t)) (sample_pairs rest)
      | _ \<Rightarrow> None)"
| "sample_pairs [z] = (if z = [] then Some [] else None)"
| "sample_pairs [] = None"

definition sample_decode :: "bytes \<Rightarrow> (json \<times> bytes) option" where
  "sample_decode b = (case b of [] \<Rightarrow> None | _ # t \<Rightarrow> map_option (\<lambda>ms. (JObj ms, [])) (sample_pairs (split_on (CHR ''.'') t)))"

lemma sample_json:
  "sample_decode (sample_encode (JObj (map (\<lambda>(k, t). (k, JStr t)) ms))) = Some (JObj (map (\<lambda>(k, t). (k, JStr t)) ms), [])"
proof -
  have "sample_pairs (split_on (CHR ''.'') (concat (map (\<lambda>(k, t). hex_EncodeToString k @ ''.'' @ hex_EncodeToString t @ ''.'') ms)))
      = Some (map (\<lambda>(k, t). (k, JStr t)) ms)"
    by (induction ms) (auto simp: split_on_append hex_no_dot)
  then show ?thesis by (simp add: sample_decode_def sample_encode_def members_def comp_def case_prod_unfold)
qed

definition sample_server :: server where
  "sample_server = \<lparr>srv_auth = sample_auth, json_Decode = sample_decode, json_Encode = sample_encode,
     net_ParseIP = Some, net_SplitHostPort = Some, driver_text = (\<lambda>_. ''database''),
     time_UnmarshalJSON = (\<lambda>_. None), time_MarshalJSON = rfc3339, chi_Match = sample_match\<rparr>"

text \<open>A request of the account 2 with a valid access token to rotate the signing key, without a CSRF header.\<close>

definition sample_token :: string where
  "sample_token = sample_sign ''k'' \<lparr>c_login = ''bob'', c_typ = ''access'', c_kid = ''k'', c_token_version = 0,
     c_subject = ''uu'', c_issued_at = 2, c_expires_at = 9\<rparr>"

definition sample_request :: "string \<Rightarrow> string \<Rightarrow> string \<Rightarrow> request" where
  "sample_request m p token = \<lparr>rq_method = m, rq_path = p, rq_header = [(''Authorization'', ''Bearer '' @ token)],
     rq_cookie = [], rq_query = [], rq_body = ''{'', rq_remote = ''10.0.0.9'', rq_param = []\<rparr>"

abbreviation (input) rotation :: "string \<Rightarrow> request" where
  "rotation t \<equiv> sample_request ''POST'' ''/v1/admin/signing-keys/rotate'' t"

lemma sample_bearer: "bearer_token (sample_request m p t) = Some (TrimSpace t)"
proof -
  have "EqualFold ''Authorization'' ''Authorization''" by code_simp
  then show ?thesis by (simp add: bearer_token_def Header_Get_def first_value_def sample_request_def)
qed

lemma sample_claims:
  assumes "bearer_token (sample_request m p sample_token) = Some tok" "jwt_ParseWithClaims (srv_lib sample_server) key now tok = Some c"
  shows "c_typ c = ''access''" "c_subject c = ''uu''"
proof -
  have "TrimSpace sample_token = sample_token" by code_simp
  then have "tok = sample_token" using assms(1) by (simp add: sample_bearer)
  then show "c_typ c = ''access''" "c_subject c = ''uu''"
    using assms(2) by (auto simp: sample_server_def sample_auth_def sample_lib_def sample_token_def sample_parse_sign split: if_splits)
qed

lemma rotate_route:
  "chi_Match sample_server route_table ''POST'' ''/v1/admin/signing-keys/rotate'' = Matched 32 []"
  "routes ! 32 = (''POST'', ''/v1/admin/signing-keys/rotate'', Guarded ActorJWT True handleRotateSigningKey)"
  "32 < length routes"
  by (simp_all add: sample_server_def sample_match_def route_table_def routes_def)

abbreviation (input) served :: "request \<Rightarrow> world \<Rightarrow> response" where
  "served r w \<equiv> fst (fst (run_state (serve sample_server r sample_queue) w))"

abbreviation (input) db_after :: "request \<Rightarrow> world \<Rightarrow> db" where
  "db_after r w \<equiv> w_db (snd (run_state (serve sample_server r sample_queue) w))"

lemma sample_run: "run_state (serve sample_server r sample_queue) w =
    ((served r w, snd (fst (run_state (serve sample_server r sample_queue) w))), snd (run_state (serve sample_server r sample_queue) w))"
  by simp

lemma rotation_route: "chi_Match sample_server route_table (rq_method (rotation t)) (rq_path (rotation t)) = Matched 32 []"
  by (simp add: sample_request_def rotate_route)

theorem guarded_routes_need_token_witness:
  "rs_status (served (rotation ''forged'') sample_world) \<in> {401, 403}
    \<and> by_others sample_world (w_db sample_world) (db_after (rotation ''forged'') sample_world)"
proof -
  have "TrimSpace ''forged'' = ''forged''" by code_simp
  moreover have "sample_parse ''forged'' = None" by code_simp
  ultimately have "jwt_ParseWithClaims (srv_lib sample_server) key now tok = None"
    if "bearer_token (rotation ''forged'') = Some tok" for tok key now
    using that by (simp add: sample_bearer sample_server_def sample_auth_def sample_lib_def)
  from guarded_routes_need_token [OF sample_run [where w = sample_world] rotation_route rotate_route(3,2) this] show ?thesis by simp
qed

theorem csrf_enforced_witness:
  "rs_status (served (rotation sample_token) sample_world) \<in> {401, 403}
    \<and> by_others sample_world (w_db sample_world) (db_after (rotation sample_token) sample_world)"
proof -
  have no: "\<not> csrfOK sample_server (rotation sample_token)"
    by (simp add: csrfOK_def Cookie_def sample_request_def)
  have "c_typ c \<noteq> TypeService" if "bearer_token (rotation sample_token) = Some tok"
      "jwt_ParseWithClaims (srv_lib sample_server) key now tok = Some c" for tok key now c
    using sample_claims(1) [OF that] by simp
  from csrf_enforced [OF sample_run [where w = sample_world] rotation_route rotate_route(3,2) _ no this] show ?thesis by simp
qed

end
