(* ===== verification/Http_Properties.thy ===== *)
theory Http_Properties
  imports Http_Server Revocation
begin

text \<open>
  Properties of the HTTP server as a whole: cursors survive the wire, the public mail routes do not
  tell whether an account exists, an actor without authority changes nothing.
\<close>

section \<open>Cursors on the wire\<close>

text \<open>
  Documented behaviour of \<open>encoding/json\<close>: what it writes for an object of valid UTF-8 strings it reads
  back, and it reads nothing from empty input. (A string without a replacement character is valid.)
\<close>

definition utf8 :: "string \<Rightarrow> bool" where
  "utf8 t \<longleftrightarrow> 65533 \<notin> set (runes t)"

definition text_object :: "(string \<times> string) list \<Rightarrow> json" where
  "text_object ms = JObj (map (\<lambda>(k, t). (k, JStr t)) ms)"

definition json_ok :: "server \<Rightarrow> bool" where
  "json_ok s \<longleftrightarrow> json_Decode s [] = None
     \<and> (\<forall>ms. list_all (\<lambda>(k, t). utf8 k \<and> utf8 t) ms \<longrightarrow> json_Decode s (json_Encode s (text_object ms)) = Some (text_object ms, []))"

lemma ascii_utf8: "list_all (\<lambda>c. code c < 128) t \<Longrightarrow> utf8 t"
  using decode_ascii [of "map code t"] by (auto simp: utf8_def runes_def list_all_iff)

lemma url_chars: "c \<in> set (raw_EncodeToString bs) \<Longrightarrow> std_char (url_char c) = c \<and> url_char c \<noteq> CHR ''+'' \<and> url_char c \<noteq> CHR ''/''"
proof -
  assume "c \<in> set (raw_EncodeToString bs)"
  then obtain n where "n < 64" "c = b64_char n"
    using sextets_less [OF codes_less] by (auto simp: raw_EncodeToString_def)
  then have "b64_val c \<noteq> None" by (simp add: b64_val_char)
  moreover have "b64_val (CHR ''-'') = None" "b64_val (CHR ''_'') = None" by (simp_all add: b64_val_def code_def)
  ultimately have "c \<noteq> CHR ''-''" "c \<noteq> CHR ''_''" by metis+
  then show ?thesis by (simp add: std_char_def url_char_def)
qed

lemma url_roundtrip [simp]: "url_DecodeString (url_EncodeToString bs) = Some bs"
proof -
  have "map std_char (map url_char (raw_EncodeToString bs)) = raw_EncodeToString bs"
    by (simp add: map_idI url_chars)
  then show ?thesis using url_chars by (fastforce simp: url_DecodeString_def url_EncodeToString_def)
qed

lemma url_not_blank: "bs \<noteq> [] \<Longrightarrow> TrimSpace (url_EncodeToString bs) \<noteq> []"
proof -
  assume "bs \<noteq> []"
  then have "url_EncodeToString bs \<noteq> []" by (cases "map code bs" rule: sextets.cases) (auto simp: url_EncodeToString_def raw_EncodeToString_def)
  moreover have "\<not> isSpace c" if "c \<in> set (url_EncodeToString bs)" for c
    using that by (auto simp: url_EncodeToString_def url_char_def isSpace_def code_def dest: raw_not_space split: if_splits)
  ultimately show ?thesis using TrimSpace_id by metis
qed

text \<open>
  The cursor a page hands out is the cursor the next request means: it is written to a text the
  decoder accepts and reads back unchanged, and the empty text is the first page.
\<close>

theorem cursor_roundtrip:
  assumes "json_ok s" "uuid_ok (srv_lib s)" "utf8 k" "utf8 (uuid_String (srv_lib s) i)" "k \<noteq> []" "i \<noteq> uuid_Nil"
  shows "decodeCursor s (encodeCursor s (Some (k, i))) = Some (Some (k, i)) \<and> decodeCursor s (encodeCursor s None) = Some None"
proof -
  let ?id = "uuid_String (srv_lib s) i"
  let ?v = "JObj [(''Sort'', JStr k), (''ID'', JStr ?id)]"
  have v: "text_object [(''Sort'', k), (''ID'', ?id)] = ?v" by (simp add: text_object_def)
  have "utf8 ''Sort''" "utf8 ''ID''" by (rule ascii_utf8; simp add: code_def)+
  then have d: "json_Decode s (json_Encode s ?v) = Some (?v, [])"
    using assms(1,3,4) unfolding json_ok_def v [symmetric] by simp
  then have "json_Encode s ?v \<noteq> []" using assms(1) unfolding json_ok_def by (metis option.distinct(1))
  moreover have u: "uuid_Parse (srv_lib s) ?id = Some i" using assms(2) by (simp add: uuid_ok_def)
  have f: "EqualFold ''Sort'' ''Sort''" "EqualFold ''ID'' ''ID''" "\<not> EqualFold ''ID'' ''Sort''" "\<not> EqualFold ''Sort'' ''ID''"
    by code_simp+
  have "struct_ok s False [FStr ''Sort'', FUUID ''ID''] ?v"
    by (simp add: struct_ok_def values_of_def members_def field_name_def f value_ok_def u)
  moreover have "str_field ''Sort'' ?v = k" "uuid_field s ''ID'' ?v = i"
    by (simp_all add: str_field_def uuid_field_def values_of_def members_def f u)
  ultimately show ?thesis
    using assms(5,6) TrimSpace_id [of "[]"] by (simp add: decodeCursor_def encodeCursor_def url_not_blank Unmarshal_def d)
qed

section \<open>The public mail routes\<close>

definition same_answer :: "(response \<times> publicMailQueue) option \<Rightarrow> (response \<times> publicMailQueue) option \<Rightarrow> bool" where
  "same_answer x y \<longleftrightarrow> (\<exists>rs q1 q2. x = Some (rs, q1) \<and> y = Some (rs, q2) \<and> rs_status rs < 500)"

lemma mail_start_uniform:
  assumes "queue_ok q1" "queue_ok q2"
  shows "same_answer (handleMagicLinkStart s r q1) (handleMagicLinkStart s r q2)"
    and "same_answer (handlePasswordResetStart s r q1) (handlePasswordResetStart s r q2)"
proof -
  have e: "\<exists>q'. enqueue job q = Some q'" if "queue_ok q" for q job
    using that by (auto simp: queue_ok_def enqueue_def)
  have n: "normalizePublicIdentity t = Inl x \<Longrightarrow> \<exists>d. x = ErrInvalidArgument d" for t x
    by (auto simp: normalizePublicIdentity_def Let_def split: if_splits)
  have eqs: "\<And>job. \<exists>a b. enqueue job q1 = Some a \<and> enqueue job q2 = Some b" using e assms by blast
  note defs = same_answer_def writeErr_def writeJSON_def
  show "same_answer (handleMagicLinkStart s r q1) (handleMagicLinkStart s r q2)"
    using eqs unfolding handleMagicLinkStart_def StartMagicLink_def
    by (auto simp: defs split: option.splits sum.splits dest!: n) (metis option.distinct(1))+
  show "same_answer (handlePasswordResetStart s r q1) (handlePasswordResetStart s r q2)"
    using eqs unfolding handlePasswordResetStart_def StartPasswordReset_def
    by (auto simp: defs split: option.splits sum.splits dest!: n) (metis option.distinct(1))+
qed

lemma mail_routes:
  "list_all (\<lambda>(m, p, e). case e of MailStart h \<Rightarrow> h = handleMagicLinkStart \<or> h = handlePasswordResetStart | _ \<Rightarrow> True) routes"
  by (simp add: routes_def)

lemma serve_mail:
  assumes "run_state (serve s r q) w = ((rs, q'), w')"
    and "chi_Match s route_table (rq_method r) (rq_path r) = Matched i ps" "i < length routes"
    and "routes ! i = (m, p, MailStart h)" "h s (r\<lparr>rq_param := ps\<rparr>) q = Some (rs0, q0)"
  shows "\<exists>rid. rs = with_header ''X-Request-ID'' rid rs0" "w_db w' = w_db w" "w_outbox w' = w_outbox w"
  using assms by (auto simp: serve_def dispatch_def run_endpoint_def split: prod.splits dest!: RequestID_idle)

text \<open>
  C17. Asking for a magic link or a password reset tells nothing about the accounts: two servers with
  different databases, different mail queues and at different times give the same answer to the same
  request, and neither touches its database or sends mail before it answers.
\<close>

theorem mail_start_tells_nothing:
  assumes "chi_Match s route_table (rq_method r) (rq_path r) = Matched i ps" "i < length routes"
    and "routes ! i = (m, p, MailStart h)"
    and "queue_reachable q1" "run_state (serve s r q1) w1 = ((rs1, q1'), w1')"
    and "queue_reachable q2" "run_state (serve s r q2) w2 = ((rs2, q2'), w2')"
  shows "rs_status rs1 = rs_status rs2 \<and> rs_body rs1 = rs_body rs2 \<and> rs_cookies rs1 = rs_cookies rs2
    \<and> rs_status rs1 < 500
    \<and> w_db w1' = w_db w1 \<and> w_outbox w1' = w_outbox w1 \<and> w_db w2' = w_db w2 \<and> w_outbox w2' = w_outbox w2"
proof -
  have "h = handleMagicLinkStart \<or> h = handlePasswordResetStart"
    using mail_routes assms(2,3) by (fastforce simp: list_all_length)
  then have "same_answer (h s (r\<lparr>rq_param := ps\<rparr>) q1) (h s (r\<lparr>rq_param := ps\<rparr>) q2)"
    using mail_start_uniform [OF reachable_ok [OF assms(4)] reachable_ok [OF assms(6)]] by metis
  then obtain rs a b where h: "h s (r\<lparr>rq_param := ps\<rparr>) q1 = Some (rs, a)" "h s (r\<lparr>rq_param := ps\<rparr>) q2 = Some (rs, b)"
    "rs_status rs < 500" unfolding same_answer_def by blast
  note m1 = serve_mail [OF assms(5,1-3) h(1)] and m2 = serve_mail [OF assms(7,1-3) h(2)]
  show ?thesis using m1 m2 h(3) by (auto simp: with_header_def)
qed

section \<open>Actors without authority\<close>

text \<open>A program that keeps the invariant of its world answers anything; a check of a token answers what a key
  verifies.\<close>

lemma stays_moves:
  assumes "moves (keeping J) m" "\<And>w r w'. run_state m w = (r, w') \<Longrightarrow> Q r"
  shows "stays J m Q"
proof (rule staysI)
  fix w r w' assume r: "run_state m w = (r, w')" and u: "under J w"
  then have "others (keeping J) w" by (simp add: under_def)
  from movesD [OF assms(1) r this] assms(2) [OF r] u show "under J w' \<and> Q r" by (simp add: under_def keeping_def)
qed

lemma stays_verified:
  "stays J (VerifyAccessOrServiceToken a tok) (\<lambda>res. \<forall>c. res = Inr c \<longrightarrow> (\<exists>k now. jwt_ParseWithClaims (alib a) k now tok = Some c))"
  by (rule stays_moves [OF keeping.checks_move_nothing(2)]) (auto dest: verified_claims(2))

definition bad :: "response \<Rightarrow> bool" where
  "bad rs \<longleftrightarrow> 400 \<le> rs_status rs \<and> rs_cookies rs = []"

lemma bad_simps [simp]: "bad (writeErr n msg) = (400 \<le> n)" "bad (stale rs) = bad rs"
  by (simp_all add: bad_def writeErr_def writeJSON_def stale_def with_header_def)

lemma stays_shapes:
  "(\<And>v. stays J (k v) bad) \<Longrightarrow> stays J (with_body s r strict fs k) bad"
  "(\<And>i. stays J (h i) bad) \<Longrightarrow> stays J (with_uuid s t msg h) bad"
  "stays J m (\<lambda>r. \<exists>e. r = Inl e) \<Longrightarrow> (\<And>e. bad (onerr e)) \<Longrightarrow> stays J (answer m onerr good) bad"
  unfolding with_body_def with_uuid_def answer_def
  by (auto intro!: stays_return split: option.split prod.split) (auto elim!: stays_bind intro!: stays_return)

context powerless_actor
begin

text \<open>The methods behind the managing routes answer such an actor with an error.\<close>

lemma methods_refused:
  "stays J (BanUser actor i reason) (\<lambda>r. \<exists>e. r = Inl e)"
  "stays J (UnbanUser actor i) (\<lambda>r. \<exists>e. r = Inl e)"
  "stays J (CreateServiceAccount L actor lg secret su) (\<lambda>r. \<exists>e. r = Inl e)"
  "stays J (RotateSigningKeyForActor a actor) (\<lambda>r. \<exists>e. r = Inl e)"
  "stays J (UsersPage actor query c n) (\<lambda>r. \<exists>e. r = Inl e)"
  "stays J (Auth_CreateRole actor name desc parents) (\<lambda>r. \<exists>e. r = Inl e)"
  "stays J (Auth_DeleteRole actor x) (\<lambda>r. \<exists>e. r = Inl e)"
  "stays J (Auth_SetRoleParent actor x p) (\<lambda>r. \<exists>e. r = Inl e)"
  "stays J (Mount actor x y) (\<lambda>r. \<exists>e. r = Inl e)"
  "stays J (Unmount actor x y) (\<lambda>r. \<exists>e. r = Inl e)"
  "stays J (ChangeRoleTag actor x tag add) (\<lambda>r. \<exists>e. r = Inl e)"
  "stays J (Auth_RenameRoleTag actor x old new) (\<lambda>r. \<exists>e. r = Inl e)"
  "stays J (RoleMembers actor x) (\<lambda>r. \<exists>e. r = Inl e)"
  "stays J (ChangeMembershipTag actor i x tag add) (\<lambda>r. \<exists>e. r = Inl e)"
  "stays J (RemoveRole actor i x) (\<lambda>r. \<exists>e. r = Inl e)"
  "stays J (PendingRoleRequests actor x) (\<lambda>r. \<exists>e. r = Inl e)"
  unfolding BanUser_def UnbanUser_def CreateServiceAccount_def RotateSigningKeyForActor_def UsersPage_def Auth_CreateRole_def
    Auth_DeleteRole_def Auth_SetRoleParent_def Mount_def Unmount_def ChangeRoleTag_def Auth_RenameRoleTag_def
    RoleMembers_def ChangeMembershipTag_def RemoveRole_def PendingRoleRequests_def
  by (rule guards_refused)+

lemmas managing_methods = methods_refused UpdateRoleDescription_refused AssignRole_refused DecideRoleRequest_refused
  CreateRegistrationInvite_refused

lemma tag_handlers_refused:
  "stays J (handleRoleTagPair s r actor add) bad" "stays J (handleUserRoleTagPair s r actor add) bad"
  unfolding handleRoleTagPair_def handleUserRoleTagPair_def
  by (auto intro!: stays_shapes managing_methods stays_return split: sum.split svc_error.split)

lemma handlers_refused:
  "stays J (handleCreateRegistrationInvite s r actor) bad"
  "stays J (handleCreateServiceAccount s r actor) bad"
  "stays J (handleRotateSigningKey s r actor) bad"
  "stays J (handleListUsers s r actor) bad"
  "stays J (handleBanUser s r actor) bad"
  "stays J (handleUnbanUser s r actor) bad"
  "stays J (handleCreateRole s r actor) bad"
  "stays J (handleDeleteRole s r actor) bad"
  "stays J (handlePatchRole s r actor) bad"
  "stays J (handleSetRoleParent s r actor) bad"
  "stays J (handleMountRole s r actor) bad"
  "stays J (handleUnmountRole s r actor) bad"
  "stays J (handleAddRoleTag s r actor) bad"
  "stays J (handleDeleteRoleTag s r actor) bad"
  "stays J (handleRenameRoleTag s r actor) bad"
  "stays J (handleListRoleMembers s r actor) bad"
  "stays J (handleAssignRole s r actor) bad"
  "stays J (handleAddUserRoleTag s r actor) bad"
  "stays J (handleDeleteUserRoleTag s r actor) bad"
  "stays J (handleRemoveRole s r actor) bad"
  "stays J (handleListRoleRequests s r actor) bad"
  "stays J (handleDecideRoleRequest s r actor) bad"
  unfolding handleCreateRegistrationInvite_def handleCreateServiceAccount_def handleRotateSigningKey_def handleListUsers_def handleBanUser_def handleUnbanUser_def handleCreateRole_def handleDeleteRole_def handlePatchRole_def handleSetRoleParent_def handleMountRole_def handleUnmountRole_def handleAddRoleTag_def handleDeleteRoleTag_def handleRenameRoleTag_def handleListRoleMembers_def handleAssignRole_def handleAddUserRoleTag_def handleDeleteUserRoleTag_def handleRemoveRole_def handleListRoleRequests_def handleDecideRoleRequest_def Let_def
  by (auto intro!: stays_shapes managing_methods tag_handlers_refused stays_return
      split: sum.split option.split svc_error.split prod.split)

end

text \<open>The routes of actors that are open to members: reading roles, and asking for one.\<close>

definition member_routes :: "(string \<times> string) list" where
  "member_routes = [(''GET'', ''/v1/roles''), (''GET'', ''/v1/roles/{roleID}/subgroups''), (''GET'', ''/v1/users/{userID}/roles''),
     (''POST'', ''/v1/roles/{roleID}/requests'')]"

definition refuses_powerless :: "(server \<Rightarrow> request \<Rightarrow> uuid \<Rightarrow> response prog) \<Rightarrow> bool" where
  "refuses_powerless h \<longleftrightarrow> (\<forall>R d0 actor b s r. stays (confined R d0 actor b) (h s r actor) bad)"

lemma managing_routes:
  "list_all (\<lambda>(m, p, e). case e of Guarded ActorJWT checks h \<Rightarrow> (m, p) \<notin> set member_routes \<longrightarrow> refuses_powerless h | _ \<Rightarrow> True) routes"
  by (simp add: routes_def member_routes_def refuses_powerless_def confined.handlers_refused)

lemma actor_guard_stays:
  assumes "refuses_powerless h"
    and "\<And>tok key now c. bearer_token r = Some tok \<Longrightarrow> jwt_ParseWithClaims (srv_lib s) key now tok = Some c \<Longrightarrow>
      uuid_Parse (srv_lib s) (c_subject c) = Some actor"
  shows "stays (confined R d0 actor b) (run_guarded s r ActorJWT checks h) bad"
proof (cases "bearer_token r")
  case (Some tok)
  let ?J = "confined R d0 actor b"
  let ?next = "\<lambda>cl uid. if checks then csrf s r (c_typ cl = TypeService) (h s r uid) else h s r uid"
  have rest: "stays ?J (?next cl actor) bad" for cl
    using assms(1) by (auto simp: refuses_powerless_def csrf_def intro: stays_return)
  have "stays ?J (with_claims s res ?next) bad"
    if "\<forall>c. res = Inr c \<longrightarrow> (\<exists>k now. jwt_ParseWithClaims (srv_lib s) k now tok = Some c)" for res
    using that assms(2) [OF Some] rest
    by (auto simp: with_claims_def intro!: stays_return split: sum.split option.split svc_error.split)
  then have "stays ?J (State_Monad.bind (VerifyAccessOrServiceToken (srv_auth s) tok) (\<lambda>res. with_claims s res ?next)) bad"
    by (rule stays_bind [OF stays_verified])
  then show ?thesis by (simp add: run_guarded_def requireActorJWT_def Some)
qed (simp add: run_guarded_def requireActorJWT_def stays_return)

lemma confined_under:
  assumes "powerless actor (w_db w)"
    and "\<And>e d. e \<in> set (w_schedule w) \<Longrightarrow> powerless actor d \<Longrightarrow>
      powerless actor (e_other e d) \<and> is_banned actor (e_other e d) = is_banned actor d"
  shows "under (confined (by_others w) (w_db w) actor (is_banned actor (w_db w))) w"
proof -
  have "by_others w d (e_other e d)" if "e \<in> set (w_schedule w)" for e d
    using that by (auto simp: by_others_def)
  then have "keeping (confined (by_others w) (w_db w) actor (is_banned actor (w_db w))) d (e_other e d)" if "e \<in> set (w_schedule w)" for e d
    using assms(2) [OF that, of d] that idle_request.trans by (auto simp: keeping_def confined_def)
  then show ?thesis using assms(1) by (simp add: under_def others_def confined_def idle_request.refl)
qed

text \<open>
  C3. No authority over HTTP: on every route for administrators and role managers, a request whose
  token names an account that is banned, or is neither a superuser nor the administrator of any role, is
  answered with an error and without cookies, whatever its body, and the database has changed only
  by what other requests did, as long as these give the account no authority.
\<close>

theorem powerless_request_refused:
  assumes "run_state (serve s r q) w = ((rs, q'), w')"
    and "chi_Match s route_table (rq_method r) (rq_path r) = Matched i ps" "i < length routes"
    and "routes ! i = (m, p, Guarded ActorJWT checks h)" "(m, p) \<notin> set member_routes"
    and "\<And>tok key now c. bearer_token r = Some tok \<Longrightarrow> jwt_ParseWithClaims (srv_lib s) key now tok = Some c \<Longrightarrow>
      uuid_Parse (srv_lib s) (c_subject c) = Some actor"
    and "powerless actor (w_db w)"
    and "\<And>e d. e \<in> set (w_schedule w) \<Longrightarrow> powerless actor d \<Longrightarrow>
      powerless actor (e_other e d) \<and> is_banned actor (e_other e d) = is_banned actor d"
  shows "400 \<le> rs_status rs \<and> rs_cookies rs = [] \<and> q' = q \<and> by_others w (w_db w) (w_db w')"
proof -
  let ?J = "confined (by_others w) (w_db w) actor (is_banned actor (w_db w))"
  have "refuses_powerless h" using managing_routes assms(3-5) by (fastforce simp: list_all_length)
  then have stays: "stays ?J (run_guarded s (r\<lparr>rq_param := ps\<rparr>) ActorJWT checks h) bad"
    by (rule actor_guard_stays) (simp add: assms(6))
  have "snd (snd (routes ! i)) = Guarded ActorJWT checks h" using assms(4) by simp
  then obtain w1 rs1 rid where 1: "w_db w1 = w_db w" "w_schedule w1 = w_schedule w"
    "run_state (run_guarded s (r\<lparr>rq_param := ps\<rparr>) ActorJWT checks h) w1 = (rs1, w')"
    "rs = with_header ''X-Request-ID'' rid rs1" "q' = q"
    by (rule serve_guarded [OF assms(1-3)])
  have "under ?J w1" using confined_under [OF assms(7,8)] 1(1,2) by (simp add: under_def others_def)
  with staysD [OF stays 1(3)] have "under ?J w'" "bad rs1" by blast+
  then show ?thesis using 1(4,5) by (simp add: under_def confined_def bad_def with_header_def)
qed

section \<open>Examples\<close>

lemma sample_json_ok: "json_ok sample_server"
  using sample_json by (simp add: json_ok_def text_object_def sample_server_def sample_decode_def)

theorem cursor_roundtrip_witness:
  "decodeCursor sample_server (encodeCursor sample_server (Some (''ann'', 2))) = Some (Some (''ann'', 2))"
proof -
  have "utf8 ''ann''" "utf8 (uuid_String (srv_lib sample_server) 2)"
    by (rule ascii_utf8; simp add: code_def sample_server_def sample_auth_def sample_lib_def numeral_eq_Suc)+
  moreover have "uuid_ok (srv_lib sample_server)" by (simp add: sample_server_def sample_auth_def sample_lib_ok)
  ultimately show ?thesis using cursor_roundtrip [OF sample_json_ok] by simp
qed

text \<open>The same request for a reset code, to a server without accounts and to one with accounts.\<close>

abbreviation (input) reset_start :: request where
  "reset_start \<equiv> sample_request ''POST'' ''/v1/auth/password/reset/start'' []"

lemma reset_route:
  "chi_Match sample_server route_table (rq_method reset_start) (rq_path reset_start) = Matched 12 []"
  "12 < length routes" "routes ! 12 = (''POST'', ''/v1/auth/password/reset/start'', MailStart handlePasswordResetStart)"
  by (simp_all add: sample_server_def sample_match_def route_table_def routes_def sample_request_def)

theorem mail_start_tells_nothing_witness:
  "rs_body (served reset_start sample_world) = rs_body (served reset_start (sample_world\<lparr>w_db := empty_db\<rparr>))
    \<and> db_after reset_start sample_world = w_db sample_world"
  using mail_start_tells_nothing [OF reset_route sample_queue_reachable sample_run sample_queue_reachable sample_run,
      of sample_world "sample_world\<lparr>w_db := empty_db\<rparr>"] by blast

lemma sample_member_start: "w_db sample_member_world = sample_member_db"
  by (simp add: sample_member_world_def)

lemma sample_member_quiet: "by_others sample_member_world d d' \<longleftrightarrow> d' = d"
proof
  show "by_others sample_member_world d d' \<Longrightarrow> d' = d"
    unfolding by_others_def by (induction rule: rtranclp_induct) (auto simp: sample_member_world_def quiet_def)
qed (simp add: idle_request.refl)

theorem powerless_request_refused_witness:
  "400 \<le> rs_status (served (rotation sample_token) sample_member_world)
    \<and> db_after (rotation sample_token) sample_member_world = sample_member_db"
proof -
  have "(''POST'', ''/v1/admin/signing-keys/rotate'') \<notin> set member_routes" by (simp add: member_routes_def)
  moreover have "uuid_Parse (srv_lib sample_server) (c_subject c) = Some 2"
    if "bearer_token (rotation sample_token) = Some tok" "jwt_ParseWithClaims (srv_lib sample_server) key now tok = Some c" for tok key now c
    using sample_claims(2) [OF that] by (simp add: sample_server_def sample_auth_def sample_lib_def)
  moreover have "powerless 2 (w_db sample_member_world)" by (simp add: sample_member_world_def sample_powerless)
  moreover have "e_other e d = d" if "e \<in> set (w_schedule sample_member_world)" for e d
    using that by (auto simp: sample_member_world_def quiet_def)
  ultimately have "400 \<le> rs_status (served (rotation sample_token) sample_member_world)"
    "by_others sample_member_world (w_db sample_member_world) (db_after (rotation sample_token) sample_member_world)"
    using powerless_request_refused [OF sample_run [where w = sample_member_world] rotation_route rotate_route(3,2), where actor = 2] by simp_all
  then show ?thesis unfolding sample_member_quiet sample_member_start by simp
qed

end
