(* ===== verification/Grpc.thy ===== *)
theory Grpc
  imports Http_Properties
begin

text \<open>
  The gRPC transport: \<open>internal/transport/grpc/convert.go\<close>, \<open>auth.go\<close>, \<open>identity_session_admin.go\<close> and
  \<open>role.go\<close>. A method gets the fields of its request message and the account the interceptor put into
  the context, if any; it ends with a reply or an error, either of the service or already a status.

  The validity of a protobuf duration and timestamp is a parameter; a timestamp is otherwise the
  instant it denotes. A context is never cancelled, so a failed database call is not an error of the
  context.
\<close>

section \<open>Statuses and replies\<close>

datatype status_code = InvalidArgument | Unauthenticated | PermissionDenied | FailedPrecondition | Code_NotFound
  | AlreadyExists | Code_Internal

record grpc_status =
  st_code :: status_code
  st_reason :: string
  st_message :: string

datatype rpc_error = Service svc_error | Status grpc_status

definition grpcError :: "status_code \<Rightarrow> string \<Rightarrow> string \<Rightarrow> grpc_status" where
  "grpcError c reason message = \<lparr>st_code = c, st_reason = reason, st_message = message\<rparr>"

definition invalid :: "string \<Rightarrow> string \<Rightarrow> rpc_error" where
  "invalid field problem = Status (grpcError InvalidArgument ''INVALID_ARGUMENT'' (field @ '': '' @ problem))"

record grpc_server =
  gs_server :: server
  duration_CheckValid :: "int64 \<Rightarrow> int32 \<Rightarrow> bool"
  timestamp_CheckValid :: "instant \<Rightarrow> bool"

abbreviation (input) gs_auth :: "grpc_server \<Rightarrow> auth" where "gs_auth g \<equiv> srv_auth (gs_server g)"
abbreviation (input) gs_lib :: "grpc_server \<Rightarrow> lib" where "gs_lib g \<equiv> srv_lib (gs_server g)"

record pb_user =
  pu_id :: string
  pu_login :: string
  pu_email :: "string option"
  pu_kind :: user_kind
  pu_superuser :: bool
  pu_banned_at :: "instant option"
  pu_ban_reason :: string
  pu_created_at :: instant

record pb_role =
  pr_id :: string
  pr_name :: string
  pr_description :: string
  pr_parents :: "string list"
  pr_tags :: "string list"
  pr_created_at :: instant

record pb_user_role =
  pm_id :: string
  pm_user :: string
  pm_role :: string
  pm_level :: role_level
  pm_valid_from :: instant
  pm_valid_until :: "instant option"
  pm_granted_by :: "string option"

record pb_member =
  pe_user :: string
  pe_login :: string
  pe_email :: "string option"
  pe_level :: role_level
  pe_tags :: "string list"

record pb_session =
  ps_id :: string
  ps_device :: string
  ps_label :: "string option"
  ps_created_at :: instant
  ps_expires_at :: instant
  ps_revoked :: bool

record pb_role_request =
  pq_id :: string
  pq_requester :: string
  pq_target :: string
  pq_role :: string
  pq_status :: role_request_status
  pq_decided_by :: "string option"

datatype reply =
    Empty
  | PreviewReply bool bool "string option" bool "instant option"
  | UserIdReply string
  | LoginReply bool string bool
  | ServiceTokenReply string instant
  | HasRoleReply bool
  | HasRoleWithTagReply bool
  | ClaimsReply string string string string
  | TokensReply string string instant
  | UserReply pb_user
  | AccessReply "(string \<times> bool) list"
  | CorrelationReply string
  | StatusReply string
  | SessionsReply "pb_session list"
  | InviteReply string instant string
  | UsersReply "pb_user list" int string "nat option"
  | RolesReply "pb_role list" int string "nat option"
  | RoleIdReply string
  | SubgroupsReply "pb_role list"
  | UserRolesReply "pb_user_role list"
  | MembersReply "pb_member list"
  | GrantedReply
  | PendingReply string
  | RequestsReply "pb_role_request list"

section \<open>Conversion\<close>

definition pbUser :: "grpc_server \<Rightarrow> user \<Rightarrow> pb_user" where
  "pbUser g u = \<lparr>pu_id = uuid_String (gs_lib g) (u_id u), pu_login = u_login u, pu_email = u_email u, pu_kind = u_kind u,
     pu_superuser = u_superuser u, pu_banned_at = u_banned_at u, pu_ban_reason = u_ban_reason u, pu_created_at = u_created_at u\<rparr>"

definition pbRole :: "grpc_server \<Rightarrow> role_view \<Rightarrow> pb_role" where
  "pbRole g v = \<lparr>pr_id = uuid_String (gs_lib g) (r_id (v_role v)), pr_name = r_name (v_role v),
     pr_description = r_description (v_role v), pr_parents = map (uuid_String (gs_lib g)) (v_parents v),
     pr_tags = v_tags v, pr_created_at = r_created_at (v_role v)\<rparr>"

definition pbUserRole :: "grpc_server \<Rightarrow> user_role \<Rightarrow> pb_user_role" where
  "pbUserRole g m = \<lparr>pm_id = uuid_String (gs_lib g) (ur_id m), pm_user = uuid_String (gs_lib g) (ur_user m),
     pm_role = uuid_String (gs_lib g) (ur_role m), pm_level = ur_level m, pm_valid_from = ur_valid_from m,
     pm_valid_until = ur_valid_until m, pm_granted_by = map_option (uuid_String (gs_lib g)) (ur_granted_by m)\<rparr>"

definition pbMember :: "grpc_server \<Rightarrow> role_member \<Rightarrow> pb_member" where
  "pbMember g m = \<lparr>pe_user = uuid_String (gs_lib g) (rm_user m), pe_login = rm_login m, pe_email = rm_email m,
     pe_level = rm_level m, pe_tags = rm_tags m\<rparr>"

definition pbSession :: "grpc_server \<Rightarrow> refresh_session \<Rightarrow> pb_session" where
  "pbSession g x = \<lparr>ps_id = uuid_String (gs_lib g) (s_id x), ps_device = s_device x, ps_label = s_label x,
     ps_created_at = s_created_at x, ps_expires_at = s_expires_at x, ps_revoked = (s_revoked_at x \<noteq> None)\<rparr>"

definition pbRoleRequest :: "grpc_server \<Rightarrow> role_request \<Rightarrow> pb_role_request" where
  "pbRoleRequest g q = \<lparr>pq_id = uuid_String (gs_lib g) (q_id q), pq_requester = uuid_String (gs_lib g) (q_requester q),
     pq_target = uuid_String (gs_lib g) (q_target q), pq_role = uuid_String (gs_lib g) (q_role q), pq_status = q_status q,
     pq_decided_by = map_option (uuid_String (gs_lib g)) (q_decided_by q)\<rparr>"

text \<open>The wire has a fourth level, the default of a field that was not set.\<close>

datatype pb_level = LevelUnspecified | Level role_level

definition domainRoleLevel :: "pb_level \<Rightarrow> rpc_error + role_level" where
  "domainRoleLevel l = (case l of
     Level x \<Rightarrow> Inr x
   | LevelUnspecified \<Rightarrow> Inl (invalid ''level'' ''must be DIRECT_MEMBER, MEMBER, or ROLE_ADMIN''))"

definition parseID :: "grpc_server \<Rightarrow> string \<Rightarrow> string \<Rightarrow> rpc_error + uuid" where
  "parseID g field v =
     (case uuid_Parse (gs_lib g) (TrimSpace v) of
        None \<Rightarrow> Inl (invalid field ''must be a UUID'')
      | Some i \<Rightarrow> Inr i)"

definition itoa :: "nat \<Rightarrow> string" where
  "itoa n = (if n = 100 then ''100'' else if n = 64 then ''64'' else ''32'')"

definition normalizeText :: "string \<Rightarrow> string \<Rightarrow> nat \<Rightarrow> rpc_error + string" where
  "normalizeText field v0 most =
     (let v = TrimSpace v0
      in if v = [] \<or> length v > most then Inl (invalid field (''must contain 1 to '' @ itoa most @ '' characters'')) else Inr v)"

fun pb_tag_list :: "string list \<Rightarrow> string list \<Rightarrow> rpc_error + string list" where
  "pb_tag_list [] out = Inr out"
| "pb_tag_list (raw # rest) out =
     (case normalizeText ''tag'' (ToLower raw) 64 of
        Inl e \<Rightarrow> Inl e
      | Inr tag \<Rightarrow> pb_tag_list rest (if tag \<in> set out then out else out @ [tag]))"

definition pb_normalizeTags :: "string list \<Rightarrow> rpc_error + string list" where
  "pb_normalizeTags tags =
     (if length tags > 32 then Inl (invalid ''tags'' ''at most 32 tags are allowed'') else pb_tag_list tags [])"

definition pb_decodeCursor :: "grpc_server \<Rightarrow> string \<Rightarrow> rpc_error + cursor option" where
  "pb_decodeCursor g raw =
     (case decodeCursor (gs_server g) raw of
        None \<Rightarrow> Inl (invalid ''cursor'' ''invalid opaque cursor'')
      | Some c \<Rightarrow> Inr c)"

text \<open>Query, cursor and size of the page message.\<close>

definition page :: "grpc_server \<Rightarrow> (string \<times> string \<times> int32) option \<Rightarrow> rpc_error + (string \<times> cursor option \<times> int)" where
  "page g p =
     (case p of
        None \<Rightarrow> Inr ([], None, 25)
      | Some (query, cur, size0) \<Rightarrow>
          let size = (if sint size0 = 0 then 25 else sint size0)
          in if size < 1 \<or> size > 100 then Inl (invalid ''page_size'' ''must be between 1 and 100'')
             else case pb_decodeCursor g cur of
               Inl e \<Rightarrow> Inl e
             | Inr c \<Rightarrow> Inr (TrimSpace query, c, size))"

definition optionalTime :: "grpc_server \<Rightarrow> instant option \<Rightarrow> string \<Rightarrow> rpc_error + instant option" where
  "optionalTime g t field =
     (case t of
        None \<Rightarrow> Inr None
      | Some x \<Rightarrow> if timestamp_CheckValid g x then Inr (Some x) else Inl (invalid field ''invalid timestamp''))"

text \<open>The optional duration of the two messages that have one.\<close>

definition optional_ttl :: "grpc_server \<Rightarrow> (int64 \<times> int32) option \<Rightarrow> rpc_error + duration" where
  "optional_ttl g t =
     (case t of
        None \<Rightarrow> Inr 0
      | Some (seconds, nanos) \<Rightarrow>
          if \<not> duration_CheckValid g seconds nanos then Inl (invalid ''ttl'' ''invalid duration'')
          else case DurationFromParts seconds nanos of
            Inl e \<Rightarrow> Inl (Service e)
          | Inr d \<Rightarrow> Inr (sint d))"

section \<open>The shape of a method\<close>

type_synonym rpc = "(rpc_error + reply) prog"

definition call_service :: "'a svc \<Rightarrow> ('a \<Rightarrow> reply) \<Rightarrow> rpc" where
  "call_service m k = State_Monad.bind m (\<lambda>res. State_Monad.return (case res of Inl e \<Rightarrow> Inl (Service e) | Inr x \<Rightarrow> Inr (k x)))"

definition provided :: "rpc_error + 'a \<Rightarrow> ('a \<Rightarrow> rpc) \<Rightarrow> rpc" where
  "provided x k = (case x of Inl e \<Rightarrow> State_Monad.return (Inl e) | Inr y \<Rightarrow> k y)"

definition actorFromContext :: "uuid option \<Rightarrow> rpc_error + uuid" where
  "actorFromContext ctx =
     (case ctx of
        None \<Rightarrow> Inl (Status (grpcError Unauthenticated ''MISSING_ACTOR'' ''authenticated actor is missing''))
      | Some actor \<Rightarrow>
          if actor = uuid_Nil then Inl (Status (grpcError Unauthenticated ''MISSING_ACTOR'' ''authenticated actor is missing''))
          else Inr actor)"

definition actorAndRole :: "grpc_server \<Rightarrow> uuid option \<Rightarrow> string \<Rightarrow> (uuid \<Rightarrow> uuid \<Rightarrow> rpc) \<Rightarrow> rpc" where
  "actorAndRole g ctx raw k = provided (actorFromContext ctx) (\<lambda>actor. provided (parseID g ''role_id'' raw) (\<lambda>role. k actor role))"

abbreviation (input) "is_blank t \<equiv> TrimSpace t = []"

abbreviation (input) "required field t k \<equiv> (if is_blank t then State_Monad.return (Inl (invalid field ''is required'')) else k)"

abbreviation (input) no_reply :: "unit \<Rightarrow> reply" where "no_reply \<equiv> \<lambda>_. Empty"

section \<open>AuthService\<close>

definition rpc_PreviewRegistrationInvite :: "grpc_server \<Rightarrow> string \<Rightarrow> rpc" where
  "rpc_PreviewRegistrationInvite g token0 =
     call_service (PreviewRegistrationInvite (gs_auth g) (TrimSpace token0)) (\<lambda>p.
       if Valid p then PreviewReply True (Preview_RegistrationOpen p) (Preview_Email p) (Preview_Superuser p) (Preview_ExpiresAt p)
       else PreviewReply False (Preview_RegistrationOpen p) None False None)"

definition rpc_Register :: "grpc_server \<Rightarrow> string \<Rightarrow> string \<Rightarrow> string \<Rightarrow> string \<Rightarrow> rpc" where
  "rpc_Register g invite login email password =
     (if is_blank invite \<and> \<not> Auth_RegistrationOpen (gs_auth g)
      then State_Monad.return (Inl (invalid ''invite_token'' ''is required''))
      else call_service (Register (gs_auth g) invite login email password) (\<lambda>i. UserIdReply (uuid_String (gs_lib g) i)))"

definition rpc_LoginPassword :: "grpc_server \<Rightarrow> string \<Rightarrow> string \<Rightarrow> string \<Rightarrow> rpc" where
  "rpc_LoginPassword g login password client_ip =
     (let v = TrimSpace client_ip;
          go = (\<lambda>ip. call_service (LoginPassword (gs_auth g) login password ip)
            (\<lambda>res. LoginReply (OTPRequired res) (LoginChallenge res) (PasswordExpired res)))
      in if v = [] then go None
         else case net_ParseIP (gs_server g) v of
           None \<Rightarrow> State_Monad.return (Inl (invalid ''client_ip'' ''must be an IP address''))
         | Some ip \<Rightarrow> go (Some ip))"

definition rpc_IssueServiceToken :: "grpc_server \<Rightarrow> string \<Rightarrow> string \<Rightarrow> rpc" where
  "rpc_IssueServiceToken g login secret =
     call_service (IssueServiceToken (gs_auth g) login secret) (\<lambda>(tok, expires). ServiceTokenReply tok expires)"

definition rpc_tokenSubject :: "grpc_server \<Rightarrow> string \<Rightarrow> (uuid \<Rightarrow> rpc) \<Rightarrow> rpc" where
  "rpc_tokenSubject g tok k = State_Monad.bind (VerifyAccessToken (gs_auth g) (TrimSpace tok) TypeAccess) (\<lambda>res.
     case res of
       Inl e \<Rightarrow> State_Monad.return (Inl (Service e))
     | Inr cl \<Rightarrow>
         (case uuid_Parse (gs_lib g) (c_subject cl) of
            None \<Rightarrow> State_Monad.return (Inl (Status (grpcError Unauthenticated ''INVALID_SUBJECT'' ''access token subject is invalid'')))
          | Some i \<Rightarrow> k i))"

definition rpc_CheckTokenRole :: "grpc_server \<Rightarrow> string \<Rightarrow> string \<Rightarrow> rpc" where
  "rpc_CheckTokenRole g tok role_name = provided (normalizeText ''role_name'' role_name 100) (\<lambda>role.
     rpc_tokenSubject g tok (\<lambda>uid. call_service (Auth_UserHasRoleName uid role) HasRoleReply))"

definition rpc_CheckTokenRoleWithTag :: "grpc_server \<Rightarrow> string \<Rightarrow> string \<Rightarrow> string \<Rightarrow> rpc" where
  "rpc_CheckTokenRoleWithTag g tok role_name tag = provided (normalizeText ''role_name'' role_name 100) (\<lambda>role.
     provided (pb_normalizeTags [tag]) (\<lambda>tags.
       rpc_tokenSubject g tok (\<lambda>uid. call_service (UserHasRoleWithTag uid role (tags ! 0)) HasRoleWithTagReply)))"

definition claimsResponse :: "claims \<Rightarrow> reply" where
  "claimsResponse c = ClaimsReply (c_subject c) (c_login c) (c_kid c) (c_typ c)"

definition rpc_InspectToken :: "grpc_server \<Rightarrow> string \<Rightarrow> rpc" where
  "rpc_InspectToken g tok = call_service (VerifyAccessOrServiceToken (gs_auth g) (TrimSpace tok)) claimsResponse"

definition rpc_VerifyAccessToken :: "grpc_server \<Rightarrow> string \<Rightarrow> rpc" where
  "rpc_VerifyAccessToken g tok = call_service (VerifyAccessToken (gs_auth g) (TrimSpace tok) TypeAccess) claimsResponse"

definition tokenPair :: "token_pair \<Rightarrow> reply" where
  "tokenPair p = TokensReply (AccessToken p) (RefreshToken p) (ExpiresAt p)"

definition rpc_VerifyLoginOTP :: "grpc_server \<Rightarrow> string \<Rightarrow> string \<Rightarrow> string \<Rightarrow> string \<Rightarrow> rpc" where
  "rpc_VerifyLoginOTP g challenge otp device label =
     required ''challenge'' challenge (required ''device_id'' device
       (call_service (LoginVerifyOTP (gs_auth g) challenge otp device label) (\<lambda>(p, _). tokenPair p)))"

definition rpc_StartMagicLink :: "string \<Rightarrow> publicMailQueue \<Rightarrow> (rpc_error + reply) \<times> publicMailQueue option" where
  "rpc_StartMagicLink login q =
     (case StartMagicLink login q of Inl e \<Rightarrow> (Inl (Service e), Some q) | Inr q' \<Rightarrow> (Inr Empty, q'))"

definition rpc_CompleteMagicLink :: "grpc_server \<Rightarrow> string \<Rightarrow> string \<Rightarrow> string \<Rightarrow> rpc" where
  "rpc_CompleteMagicLink g tok device label =
     required ''device_id'' device (call_service (CompleteMagicLink (gs_auth g) tok device label) (\<lambda>(p, _). tokenPair p))"

definition rpc_StartPasswordReset :: "string \<Rightarrow> publicMailQueue \<Rightarrow> (rpc_error + reply) \<times> publicMailQueue option" where
  "rpc_StartPasswordReset login q =
     (case StartPasswordReset login q of Inl e \<Rightarrow> (Inl (Service e), Some q) | Inr q' \<Rightarrow> (Inr Empty, q'))"

definition rpc_CompletePasswordReset :: "grpc_server \<Rightarrow> string \<Rightarrow> string \<Rightarrow> string \<Rightarrow> rpc" where
  "rpc_CompletePasswordReset g login otp new_password =
     call_service (ResetPasswordWithOTP (gs_auth g) login otp new_password) no_reply"

definition rpc_Refresh :: "grpc_server \<Rightarrow> string \<Rightarrow> string \<Rightarrow> string \<Rightarrow> rpc" where
  "rpc_Refresh g tok device label =
     required ''refresh_token'' tok (call_service (Refresh (gs_auth g) tok device label) tokenPair)"

definition rpc_Logout :: "grpc_server \<Rightarrow> string \<Rightarrow> rpc" where
  "rpc_Logout g tok = required ''refresh_token'' tok (call_service (Logout (gs_auth g) tok) no_reply)"

definition rpc_CompleteStepUp2FA :: "grpc_server \<Rightarrow> string \<Rightarrow> string \<Rightarrow> rpc" where
  "rpc_CompleteStepUp2FA g correlation otp = call_service (CompleteStepUp2FAOTP (gs_auth g) correlation otp) no_reply"

end
