(* ===== verification/Grpc_Methods.thy ===== *)
theory Grpc_Methods
  imports Grpc
begin

text \<open>
  The gRPC methods for the own account, its sessions, administrators and roles:
  \<open>internal/transport/grpc/identity_session_admin.go\<close> and \<open>role.go\<close>.
\<close>

section \<open>IdentityService\<close>

definition rpc_GetMe :: "grpc_server \<Rightarrow> uuid option \<Rightarrow> rpc" where
  "rpc_GetMe g ctx = provided (actorFromContext ctx) (\<lambda>actor. call_service (CurrentUser actor) (\<lambda>u. UserReply (pbUser g u)))"

definition rpc_CheckMyRole :: "uuid option \<Rightarrow> string \<Rightarrow> rpc" where
  "rpc_CheckMyRole ctx role_name = provided (actorFromContext ctx) (\<lambda>actor.
     provided (normalizeText ''role_name'' role_name 100) (\<lambda>role. call_service (Auth_UserHasRoleName actor role) HasRoleReply))"

definition rpc_CheckMyRoleWithTag :: "uuid option \<Rightarrow> string \<Rightarrow> string \<Rightarrow> rpc" where
  "rpc_CheckMyRoleWithTag ctx role_name tag = provided (actorFromContext ctx) (\<lambda>actor.
     provided (normalizeText ''role_name'' role_name 100) (\<lambda>role. provided (pb_normalizeTags [tag]) (\<lambda>tags.
       call_service (UserHasRoleWithTag actor role (tags ! 0)) HasRoleWithTagReply)))"

definition rpc_ListMyRoleAccess :: "grpc_server \<Rightarrow> uuid option \<Rightarrow> rpc" where
  "rpc_ListMyRoleAccess g ctx = provided (actorFromContext ctx) (\<lambda>actor.
     call_service (EffectiveRoleAccess actor) (\<lambda>xs. AccessReply (map (\<lambda>x. (uuid_String (gs_lib g) (ea_role x), ea_can_manage x)) xs)))"

definition rpc_StartPasswordChangeOTP :: "grpc_server \<Rightarrow> uuid option \<Rightarrow> rpc" where
  "rpc_StartPasswordChangeOTP g ctx = provided (actorFromContext ctx) (\<lambda>actor.
     call_service (StartPasswordChange2FA (gs_auth g) actor) no_reply)"

definition rpc_ChangePassword :: "grpc_server \<Rightarrow> uuid option \<Rightarrow> string \<Rightarrow> string \<Rightarrow> string \<Rightarrow> rpc" where
  "rpc_ChangePassword g ctx old new otp = provided (actorFromContext ctx) (\<lambda>actor.
     call_service (ChangePassword (gs_auth g) actor old new otp) no_reply)"

definition rpc_StartStepUp2FA :: "grpc_server \<Rightarrow> uuid option \<Rightarrow> (int64 \<times> int32) option \<Rightarrow> rpc" where
  "rpc_StartStepUp2FA g ctx ttl = provided (actorFromContext ctx) (\<lambda>actor. provided (optional_ttl g ttl) (\<lambda>d.
     call_service (BeginStepUp2FA (gs_auth g) actor d) CorrelationReply))"

definition rpc_GetStepUp2FAStatus :: "uuid option \<Rightarrow> string \<Rightarrow> rpc" where
  "rpc_GetStepUp2FAStatus ctx correlation = provided (actorFromContext ctx) (\<lambda>actor.
     required ''correlation_id'' correlation
       (call_service (StepUp2FAStatusForUser correlation actor) (\<lambda>st. StatusReply (step_up_text st))))"

definition rpc_ExpireStepUp2FA :: "uuid option \<Rightarrow> string \<Rightarrow> rpc" where
  "rpc_ExpireStepUp2FA ctx correlation = provided (actorFromContext ctx) (\<lambda>actor.
     call_service (ExpireStepUp2FASessionForUser correlation actor) no_reply)"

section \<open>SessionService\<close>

definition rpc_ListSessions :: "grpc_server \<Rightarrow> uuid option \<Rightarrow> rpc" where
  "rpc_ListSessions g ctx = provided (actorFromContext ctx) (\<lambda>actor.
     call_service (Auth_Sessions actor) (\<lambda>xs. SessionsReply (map (pbSession g) xs)))"

definition rpc_RevokeOwnSession :: "grpc_server \<Rightarrow> uuid option \<Rightarrow> string \<Rightarrow> rpc" where
  "rpc_RevokeOwnSession g ctx sid = provided (actorFromContext ctx) (\<lambda>actor. provided (parseID g ''session_id'' sid) (\<lambda>i.
     call_service (RevokeOwnSession actor i) no_reply))"

definition rpc_StartSessionRevokeOTP :: "grpc_server \<Rightarrow> uuid option \<Rightarrow> rpc" where
  "rpc_StartSessionRevokeOTP g ctx = provided (actorFromContext ctx) (\<lambda>actor.
     call_service (StartSessionRevokeOTP (gs_auth g) actor) no_reply)"

definition rpc_RevokeSessionWithOTP :: "grpc_server \<Rightarrow> uuid option \<Rightarrow> string \<Rightarrow> string \<Rightarrow> rpc" where
  "rpc_RevokeSessionWithOTP g ctx sid otp = provided (actorFromContext ctx) (\<lambda>actor. provided (parseID g ''session_id'' sid) (\<lambda>i.
     call_service (RevokeSessionWithOTP (gs_auth g) actor i otp) no_reply))"

section \<open>AdminService\<close>

definition rpc_CreateRegistrationInvite :: "grpc_server \<Rightarrow> uuid option \<Rightarrow> string option \<Rightarrow> (int64 \<times> int32) option \<Rightarrow> bool \<Rightarrow> rpc" where
  "rpc_CreateRegistrationInvite g ctx email0 ttl superuser = provided (actorFromContext ctx) (\<lambda>actor.
     provided (case email0 of
         None \<Rightarrow> Inr None
       | Some e \<Rightarrow> if is_blank e then Inl (invalid ''email'' ''must not be empty when present'') else Inr (Some (TrimSpace e))) (\<lambda>email.
       provided (optional_ttl g ttl) (\<lambda>d.
         call_service (CreateRegistrationInvite (gs_auth g) actor email superuser d) (\<lambda>(tok, expires, url). InviteReply tok expires url))))"

definition rpc_CreateServiceAccount :: "grpc_server \<Rightarrow> uuid option \<Rightarrow> string \<Rightarrow> string \<Rightarrow> bool \<Rightarrow> rpc" where
  "rpc_CreateServiceAccount g ctx login secret superuser = provided (actorFromContext ctx) (\<lambda>actor.
     call_service (CreateServiceAccount (gs_lib g) actor login secret superuser) (\<lambda>i. UserIdReply (uuid_String (gs_lib g) i)))"

definition rpc_RotateSigningKey :: "grpc_server \<Rightarrow> uuid option \<Rightarrow> rpc" where
  "rpc_RotateSigningKey g ctx = provided (actorFromContext ctx) (\<lambda>actor.
     call_service (RotateSigningKeyForActor (gs_auth g) actor) no_reply)"

definition rpc_ListUsers :: "grpc_server \<Rightarrow> uuid option \<Rightarrow> (string \<times> string \<times> int32) option \<Rightarrow> rpc" where
  "rpc_ListUsers g ctx p = provided (actorFromContext ctx) (\<lambda>actor. provided (page g p) (\<lambda>(query, cursor, size).
     call_service (UsersPage actor query cursor size)
       (\<lambda>(xs, next, n). UsersReply (map (pbUser g) xs) size (encodeCursor (gs_server g) next) n)))"

definition rpc_BanUser :: "grpc_server \<Rightarrow> uuid option \<Rightarrow> string \<Rightarrow> string \<Rightarrow> rpc" where
  "rpc_BanUser g ctx user_id reason = provided (actorFromContext ctx) (\<lambda>actor. provided (parseID g ''user_id'' user_id) (\<lambda>target.
     call_service (BanUser actor target reason) no_reply))"

definition rpc_UnbanUser :: "grpc_server \<Rightarrow> uuid option \<Rightarrow> string \<Rightarrow> rpc" where
  "rpc_UnbanUser g ctx user_id = provided (actorFromContext ctx) (\<lambda>actor. provided (parseID g ''user_id'' user_id) (\<lambda>target.
     call_service (UnbanUser actor target) no_reply))"

section \<open>RoleService\<close>

definition rpc_ListRoles :: "grpc_server \<Rightarrow> (string \<times> string \<times> int32) option \<Rightarrow> rpc" where
  "rpc_ListRoles g p = provided (page g p) (\<lambda>(query, cursor, size).
     call_service (RolesPage query cursor size)
       (\<lambda>(xs, next, n). RolesReply (map (pbRole g) xs) size (encodeCursor (gs_server g) next) n))"

fun parse_parents :: "grpc_server \<Rightarrow> string list \<Rightarrow> uuid list \<Rightarrow> rpc_error + uuid list" where
  "parse_parents g [] out = Inr out"
| "parse_parents g (raw # rest) out =
     (case parseID g ''parent_ids'' raw of
        Inl e \<Rightarrow> Inl e
      | Inr i \<Rightarrow> parse_parents g rest (if i \<in> set out then out else out @ [i]))"

definition rpc_CreateRole :: "grpc_server \<Rightarrow> uuid option \<Rightarrow> string \<Rightarrow> string \<Rightarrow> string list \<Rightarrow> rpc" where
  "rpc_CreateRole g ctx name0 description parents0 = provided (actorFromContext ctx) (\<lambda>actor.
     provided (normalizeText ''name'' name0 100) (\<lambda>name. provided (parse_parents g parents0 []) (\<lambda>parents.
       call_service (Auth_CreateRole actor name description parents) (\<lambda>i. RoleIdReply (uuid_String (gs_lib g) i)))))"

definition rpc_DeleteRole :: "grpc_server \<Rightarrow> uuid option \<Rightarrow> string \<Rightarrow> rpc" where
  "rpc_DeleteRole g ctx role_id = actorAndRole g ctx role_id (\<lambda>actor role. call_service (Auth_DeleteRole actor role) no_reply)"

definition rpc_UpdateRoleDescription :: "grpc_server \<Rightarrow> uuid option \<Rightarrow> string \<Rightarrow> string \<Rightarrow> rpc" where
  "rpc_UpdateRoleDescription g ctx role_id description = actorAndRole g ctx role_id (\<lambda>actor role.
     call_service (Auth_UpdateRoleDescription actor role description) no_reply)"

definition rpc_SetRoleParent :: "grpc_server \<Rightarrow> uuid option \<Rightarrow> string \<Rightarrow> string option \<Rightarrow> rpc" where
  "rpc_SetRoleParent g ctx role_id parent_id = actorAndRole g ctx role_id (\<lambda>actor role.
     provided (case parent_id of
         None \<Rightarrow> Inr None
       | Some raw \<Rightarrow> (case parseID g ''parent_id'' raw of Inl e \<Rightarrow> Inl e | Inr i \<Rightarrow> Inr (Some i))) (\<lambda>parent.
       call_service (Auth_SetRoleParent actor role parent) no_reply))"

definition rpc_MountRole :: "grpc_server \<Rightarrow> uuid option \<Rightarrow> string \<Rightarrow> string \<Rightarrow> rpc" where
  "rpc_MountRole g ctx role_id parent_id = actorAndRole g ctx role_id (\<lambda>actor role.
     provided (parseID g ''parent_id'' parent_id) (\<lambda>parent. call_service (Mount actor role parent) no_reply))"

definition rpc_UnmountRole :: "grpc_server \<Rightarrow> uuid option \<Rightarrow> string \<Rightarrow> string \<Rightarrow> rpc" where
  "rpc_UnmountRole g ctx role_id parent_id = actorAndRole g ctx role_id (\<lambda>actor role.
     provided (parseID g ''parent_id'' parent_id) (\<lambda>parent. call_service (Unmount actor role parent) no_reply))"

definition rpc_ListSubgroups :: "grpc_server \<Rightarrow> string \<Rightarrow> bool \<Rightarrow> rpc" where
  "rpc_ListSubgroups g role_id recursive = provided (parseID g ''role_id'' role_id) (\<lambda>role.
     call_service (Subgroups role recursive) (\<lambda>xs. SubgroupsReply (map (pbRole g) xs)))"

definition changeRoleTag :: "grpc_server \<Rightarrow> uuid option \<Rightarrow> string \<Rightarrow> string \<Rightarrow> bool \<Rightarrow> rpc" where
  "changeRoleTag g ctx roleRaw tagRaw add = actorAndRole g ctx roleRaw (\<lambda>actor role.
     provided (pb_normalizeTags [tagRaw]) (\<lambda>tags. call_service (ChangeRoleTag actor role (tags ! 0) add) no_reply))"

definition rpc_AddRoleTag :: "grpc_server \<Rightarrow> uuid option \<Rightarrow> string \<Rightarrow> string \<Rightarrow> rpc" where
  "rpc_AddRoleTag g ctx role_id tag = changeRoleTag g ctx role_id tag True"

definition rpc_DeleteRoleTag :: "grpc_server \<Rightarrow> uuid option \<Rightarrow> string \<Rightarrow> string \<Rightarrow> rpc" where
  "rpc_DeleteRoleTag g ctx role_id tag = changeRoleTag g ctx role_id tag False"

definition rpc_RenameRoleTag :: "grpc_server \<Rightarrow> uuid option \<Rightarrow> string \<Rightarrow> string \<Rightarrow> string \<Rightarrow> rpc" where
  "rpc_RenameRoleTag g ctx role_id old_tag new_tag = actorAndRole g ctx role_id (\<lambda>actor role.
     provided (pb_normalizeTags [old_tag]) (\<lambda>oldTags. provided (pb_normalizeTags [new_tag]) (\<lambda>newTags.
       call_service (Auth_RenameRoleTag actor role (oldTags ! 0) (newTags ! 0)) no_reply)))"

definition rpc_ListUserRoles :: "grpc_server \<Rightarrow> uuid option \<Rightarrow> string \<Rightarrow> rpc" where
  "rpc_ListUserRoles g ctx user_id = provided (actorFromContext ctx) (\<lambda>actor. provided (parseID g ''user_id'' user_id) (\<lambda>target.
     call_service (UserRoles actor target) (\<lambda>ms. UserRolesReply (map (pbUserRole g) ms))))"

definition rpc_ListRoleMembers :: "grpc_server \<Rightarrow> uuid option \<Rightarrow> string \<Rightarrow> rpc" where
  "rpc_ListRoleMembers g ctx role_id = actorAndRole g ctx role_id (\<lambda>actor role.
     call_service (RoleMembers actor role) (\<lambda>ms. MembersReply (map (pbMember g) ms)))"

definition rpc_AssignRole :: "grpc_server \<Rightarrow> uuid option \<Rightarrow> string \<Rightarrow> string \<Rightarrow> pb_level \<Rightarrow> instant option \<Rightarrow> string list \<Rightarrow> rpc" where
  "rpc_AssignRole g ctx role_id user_id level0 until0 tag_grants = actorAndRole g ctx role_id (\<lambda>actor role.
     provided (parseID g ''user_id'' user_id) (\<lambda>target. provided (domainRoleLevel level0) (\<lambda>level.
       provided (optionalTime g until0 ''valid_until'') (\<lambda>validUntil. provided (pb_normalizeTags tag_grants) (\<lambda>tags.
         call_service (AssignRole actor target role level validUntil tags) no_reply)))))"

definition changeMembershipTag :: "grpc_server \<Rightarrow> uuid option \<Rightarrow> string \<Rightarrow> string \<Rightarrow> string \<Rightarrow> bool \<Rightarrow> rpc" where
  "changeMembershipTag g ctx roleRaw userRaw tagRaw add = actorAndRole g ctx roleRaw (\<lambda>actor role.
     provided (parseID g ''user_id'' userRaw) (\<lambda>target. provided (pb_normalizeTags [tagRaw]) (\<lambda>tags.
       call_service (ChangeMembershipTag actor target role (tags ! 0) add) no_reply)))"

definition rpc_GrantMembershipTag :: "grpc_server \<Rightarrow> uuid option \<Rightarrow> string \<Rightarrow> string \<Rightarrow> string \<Rightarrow> rpc" where
  "rpc_GrantMembershipTag g ctx role_id user_id tag = changeMembershipTag g ctx role_id user_id tag True"

definition rpc_RevokeMembershipTag :: "grpc_server \<Rightarrow> uuid option \<Rightarrow> string \<Rightarrow> string \<Rightarrow> string \<Rightarrow> rpc" where
  "rpc_RevokeMembershipTag g ctx role_id user_id tag = changeMembershipTag g ctx role_id user_id tag False"

definition rpc_RemoveRole :: "grpc_server \<Rightarrow> uuid option \<Rightarrow> string \<Rightarrow> string \<Rightarrow> rpc" where
  "rpc_RemoveRole g ctx role_id user_id = actorAndRole g ctx role_id (\<lambda>actor role.
     provided (parseID g ''user_id'' user_id) (\<lambda>target. call_service (RemoveRole actor target role) no_reply))"

definition rpc_RequestRole :: "grpc_server \<Rightarrow> uuid option \<Rightarrow> string \<Rightarrow> string \<Rightarrow> rpc" where
  "rpc_RequestRole g ctx role_id target_user_id = actorAndRole g ctx role_id (\<lambda>actor role.
     provided (if is_blank target_user_id then Inr actor else parseID g ''target_user_id'' target_user_id) (\<lambda>target.
       call_service (RequestRole actor target role)
         (\<lambda>(granted, i). if granted then GrantedReply else PendingReply (uuid_String (gs_lib g) i))))"

definition rpc_ListRoleRequests :: "grpc_server \<Rightarrow> uuid option \<Rightarrow> string \<Rightarrow> rpc" where
  "rpc_ListRoleRequests g ctx role_id = actorAndRole g ctx role_id (\<lambda>actor role.
     call_service (PendingRoleRequests actor role) (\<lambda>qs. RequestsReply (map (pbRoleRequest g) qs)))"

definition rpc_DecideRoleRequest :: "grpc_server \<Rightarrow> uuid option \<Rightarrow> string \<Rightarrow> bool \<Rightarrow> rpc" where
  "rpc_DecideRoleRequest g ctx request_id approve = provided (actorFromContext ctx) (\<lambda>actor.
     provided (parseID g ''request_id'' request_id) (\<lambda>i. call_service (Auth_DecideRoleRequest actor i approve) no_reply))"

end
