(* ===== verification/Grpc_Server.thy ===== *)
theory Grpc_Server
  imports Grpc_Methods
begin

text \<open>
  The gRPC server: the interceptors of \<open>internal/transport/grpc/server.go\<close>, the dispatch to the methods, and
  the manifest of \<open>internal/transport/parity/manifest.go\<close> that ties every method to its HTTP route and to who
  may call it. The health and reflection services are third-party code.
\<close>

section \<open>The manifest\<close>

datatype authPolicy = AuthUnknown | AuthPublic | AuthHuman | AuthActor

text \<open>HTTP method, HTTP path, RPC, CSRF, policy.\<close>

type_synonym manifest_route = "string \<times> string \<times> string \<times> bool \<times> authPolicy"

definition BusinessRoutes :: "manifest_route list" where
  "BusinessRoutes =
    [(''GET'', ''/v1/auth/registration-invite'', ''/auth.v1.AuthService/PreviewRegistrationInvite'', False, AuthPublic),
     (''POST'', ''/v1/auth/register'', ''/auth.v1.AuthService/Register'', False, AuthPublic),
     (''POST'', ''/v1/auth/login'', ''/auth.v1.AuthService/LoginPassword'', False, AuthPublic),
     (''POST'', ''/v1/auth/service-token'', ''/auth.v1.AuthService/IssueServiceToken'', False, AuthPublic),
     (''POST'', ''/v1/auth/has-role'', ''/auth.v1.AuthService/CheckTokenRole'', False, AuthPublic),
     (''POST'', ''/v1/auth/has-role-with-tag'', ''/auth.v1.AuthService/CheckTokenRoleWithTag'', False, AuthPublic),
     (''GET'', ''/v1/auth/token/info'', ''/auth.v1.AuthService/InspectToken'', False, AuthPublic),
     (''GET'', ''/v1/auth/token/verify-access'', ''/auth.v1.AuthService/VerifyAccessToken'', False, AuthPublic),
     (''POST'', ''/v1/auth/login/verify-otp'', ''/auth.v1.AuthService/VerifyLoginOTP'', False, AuthPublic),
     (''POST'', ''/v1/auth/login/magic-link'', ''/auth.v1.AuthService/StartMagicLink'', False, AuthPublic),
     (''POST'', ''/v1/auth/login/magic-link/verify'', ''/auth.v1.AuthService/CompleteMagicLink'', False, AuthPublic),
     (''POST'', ''/v1/auth/password/reset/start'', ''/auth.v1.AuthService/StartPasswordReset'', False, AuthPublic),
     (''POST'', ''/v1/auth/password/reset/complete'', ''/auth.v1.AuthService/CompletePasswordReset'', False, AuthPublic),
     (''POST'', ''/v1/auth/refresh'', ''/auth.v1.AuthService/Refresh'', False, AuthPublic),
     (''POST'', ''/v1/auth/logout'', ''/auth.v1.AuthService/Logout'', False, AuthPublic),
     (''POST'', ''/v1/auth/step-up-2fa/complete'', ''/auth.v1.AuthService/CompleteStepUp2FA'', False, AuthPublic),
     (''GET'', ''/v1/me'', ''/auth.v1.IdentityService/GetMe'', False, AuthHuman),
     (''GET'', ''/v1/me/has-role'', ''/auth.v1.IdentityService/CheckMyRole'', False, AuthHuman),
     (''GET'', ''/v1/me/has-role-with-tag'', ''/auth.v1.IdentityService/CheckMyRoleWithTag'', False, AuthHuman),
     (''GET'', ''/v1/me/role-access'', ''/auth.v1.IdentityService/ListMyRoleAccess'', False, AuthHuman),
     (''POST'', ''/v1/auth/password/2fa'', ''/auth.v1.IdentityService/StartPasswordChangeOTP'', False, AuthHuman),
     (''POST'', ''/v1/auth/password'', ''/auth.v1.IdentityService/ChangePassword'', False, AuthHuman),
     (''POST'', ''/v1/auth/step-up-2fa/start'', ''/auth.v1.IdentityService/StartStepUp2FA'', False, AuthHuman),
     (''GET'', ''/v1/auth/step-up-2fa/status'', ''/auth.v1.IdentityService/GetStepUp2FAStatus'', False, AuthHuman),
     (''POST'', ''/v1/auth/step-up-2fa/expire'', ''/auth.v1.IdentityService/ExpireStepUp2FA'', True, AuthHuman),
     (''GET'', ''/v1/sessions'', ''/auth.v1.SessionService/ListSessions'', False, AuthHuman),
     (''DELETE'', ''/v1/sessions/{sessionID}'', ''/auth.v1.SessionService/RevokeOwnSession'', False, AuthHuman),
     (''POST'', ''/v1/sessions/revoke-otp'', ''/auth.v1.SessionService/StartSessionRevokeOTP'', False, AuthHuman),
     (''POST'', ''/v1/sessions/{sessionID}/revoke'', ''/auth.v1.SessionService/RevokeSessionWithOTP'', False, AuthHuman),
     (''POST'', ''/v1/admin/registration-invites'', ''/auth.v1.AdminService/CreateRegistrationInvite'', True, AuthActor),
     (''POST'', ''/v1/admin/service-accounts'', ''/auth.v1.AdminService/CreateServiceAccount'', True, AuthActor),
     (''POST'', ''/v1/admin/signing-keys/rotate'', ''/auth.v1.AdminService/RotateSigningKey'', True, AuthActor),
     (''GET'', ''/v1/admin/users'', ''/auth.v1.AdminService/ListUsers'', False, AuthActor),
     (''POST'', ''/v1/admin/users/{userID}/ban'', ''/auth.v1.AdminService/BanUser'', True, AuthActor),
     (''DELETE'', ''/v1/admin/users/{userID}/ban'', ''/auth.v1.AdminService/UnbanUser'', True, AuthActor),
     (''GET'', ''/v1/roles'', ''/auth.v1.RoleService/ListRoles'', False, AuthActor),
     (''POST'', ''/v1/roles'', ''/auth.v1.RoleService/CreateRole'', True, AuthActor),
     (''DELETE'', ''/v1/roles/{roleID}'', ''/auth.v1.RoleService/DeleteRole'', True, AuthActor),
     (''PATCH'', ''/v1/roles/{roleID}/description'', ''/auth.v1.RoleService/UpdateRoleDescription'', True, AuthActor),
     (''PATCH'', ''/v1/roles/{roleID}/parent'', ''/auth.v1.RoleService/SetRoleParent'', True, AuthActor),
     (''POST'', ''/v1/roles/{roleID}/mounts'', ''/auth.v1.RoleService/MountRole'', True, AuthActor),
     (''DELETE'', ''/v1/roles/{roleID}/mounts/{parentID}'', ''/auth.v1.RoleService/UnmountRole'', True, AuthActor),
     (''GET'', ''/v1/roles/{roleID}/subgroups'', ''/auth.v1.RoleService/ListSubgroups'', False, AuthActor),
     (''POST'', ''/v1/roles/{roleID}/tags'', ''/auth.v1.RoleService/AddRoleTag'', True, AuthActor),
     (''DELETE'', ''/v1/roles/{roleID}/tags'', ''/auth.v1.RoleService/DeleteRoleTag'', True, AuthActor),
     (''PATCH'', ''/v1/roles/{roleID}/tags'', ''/auth.v1.RoleService/RenameRoleTag'', True, AuthActor),
     (''GET'', ''/v1/users/{userID}/roles'', ''/auth.v1.RoleService/ListUserRoles'', False, AuthActor),
     (''GET'', ''/v1/roles/{roleID}/members'', ''/auth.v1.RoleService/ListRoleMembers'', False, AuthActor),
     (''POST'', ''/v1/roles/{roleID}/members'', ''/auth.v1.RoleService/AssignRole'', True, AuthActor),
     (''POST'', ''/v1/roles/{roleID}/members/{userID}/tags'', ''/auth.v1.RoleService/GrantMembershipTag'', True, AuthActor),
     (''DELETE'', ''/v1/roles/{roleID}/members/{userID}/tags'', ''/auth.v1.RoleService/RevokeMembershipTag'', True, AuthActor),
     (''DELETE'', ''/v1/roles/{roleID}/members/{userID}'', ''/auth.v1.RoleService/RemoveRole'', True, AuthActor),
     (''POST'', ''/v1/roles/{roleID}/requests'', ''/auth.v1.RoleService/RequestRole'', True, AuthActor),
     (''GET'', ''/v1/roles/{roleID}/requests'', ''/auth.v1.RoleService/ListRoleRequests'', False, AuthActor),
     (''POST'', ''/v1/role-requests/{requestID}/decide'', ''/auth.v1.RoleService/DecideRoleRequest'', True, AuthActor)]"

definition TransportOnlyRoutes :: "manifest_route list" where
  "TransportOnlyRoutes =
    [(''GET'', ''/healthz'', [], False, AuthUnknown),
     (''GET'', ''/metrics'', [], False, AuthUnknown),
     (''GET'', ''/swagger/*'', [], False, AuthUnknown)]"

text \<open>\<open>None\<close> is a panic at start-up.\<close>

fun mustRPCPolicies :: "manifest_route list \<Rightarrow> (string \<rightharpoonup> authPolicy) \<Rightarrow> (string \<rightharpoonup> authPolicy) option" where
  "mustRPCPolicies [] policies = Some policies"
| "mustRPCPolicies ((_, _, rpc, _, auth) # rest) policies =
     (if rpc = [] \<or> auth = AuthUnknown then None
      else if policies rpc \<noteq> None then None
      else mustRPCPolicies rest (policies(rpc \<mapsto> auth)))"

definition add_route :: "manifest_route \<Rightarrow> bool \<Rightarrow> (string \<rightharpoonup> manifest_route) \<Rightarrow> (string \<rightharpoonup> manifest_route) option" where
  "add_route r business known =
     (case r of (m, p, rpc, check, auth) \<Rightarrow>
        if m = [] \<or> p = [] then None
        else if business \<and> (rpc = [] \<or> auth = AuthUnknown) then None
        else if \<not> business \<and> (rpc \<noteq> [] \<or> auth \<noteq> AuthUnknown \<or> check) then None
        else let key = m @ '' '' @ p
             in if known key \<noteq> None then None else Some (known(key \<mapsto> r)))"

fun add_routes :: "manifest_route list \<Rightarrow> bool \<Rightarrow> (string \<rightharpoonup> manifest_route) \<Rightarrow> (string \<rightharpoonup> manifest_route) option" where
  "add_routes [] business known = Some known"
| "add_routes (r # rs) business known =
     (case add_route r business known of None \<Rightarrow> None | Some known' \<Rightarrow> add_routes rs business known')"

definition mustHTTPRoutes :: "manifest_route list \<Rightarrow> manifest_route list \<Rightarrow> (string \<rightharpoonup> manifest_route) option" where
  "mustHTTPRoutes business transport =
     (case add_routes business True (\<lambda>_. None) of None \<Rightarrow> None | Some known \<Rightarrow> add_routes transport False known)"

definition RPCPolicies :: "string \<rightharpoonup> authPolicy" where
  "RPCPolicies = (case mustRPCPolicies BusinessRoutes (\<lambda>_. None) of None \<Rightarrow> (\<lambda>_. None) | Some m \<Rightarrow> m)"

section \<open>Requests\<close>

text \<open>One message per method, grouped by the five services.\<close>

datatype auth_request =
    PreviewRegistrationInviteRequest string
  | RegisterRequest string string string string
  | LoginPasswordRequest string string string
  | IssueServiceTokenRequest string string
  | CheckTokenRoleRequest string string
  | CheckTokenRoleWithTagRequest string string string
  | InspectTokenRequest string
  | VerifyAccessTokenRequest string
  | VerifyLoginOTPRequest string string string string
  | StartMagicLinkRequest string
  | CompleteMagicLinkRequest string string string
  | StartPasswordResetRequest string
  | CompletePasswordResetRequest string string string
  | RefreshRequest string string string
  | LogoutRequest string
  | CompleteStepUp2FARequest string string

datatype identity_request =
    GetMeRequest
  | CheckMyRoleRequest string
  | CheckMyRoleWithTagRequest string string
  | ListMyRoleAccessRequest
  | StartPasswordChangeOTPRequest
  | ChangePasswordRequest string string string
  | StartStepUp2FARequest "(int64 \<times> int32) option"
  | GetStepUp2FAStatusRequest string
  | ExpireStepUp2FARequest string

datatype session_request =
    ListSessionsRequest
  | RevokeOwnSessionRequest string
  | StartSessionRevokeOTPRequest
  | RevokeSessionWithOTPRequest string string

datatype admin_request =
    CreateRegistrationInviteRequest "string option" "(int64 \<times> int32) option" bool
  | CreateServiceAccountRequest string string bool
  | RotateSigningKeyRequest
  | ListUsersRequest "(string \<times> string \<times> int32) option"
  | BanUserRequest string string
  | UnbanUserRequest string

datatype role_request =
    ListRolesRequest "(string \<times> string \<times> int32) option"
  | CreateRoleRequest string string "string list"
  | DeleteRoleRequest string
  | UpdateRoleDescriptionRequest string string
  | SetRoleParentRequest string "string option"
  | MountRoleRequest string string
  | UnmountRoleRequest string string
  | ListSubgroupsRequest string bool
  | AddRoleTagRequest string string
  | DeleteRoleTagRequest string string
  | RenameRoleTagRequest string string string
  | ListUserRolesRequest string
  | ListRoleMembersRequest string
  | AssignRoleRequest string string pb_level "instant option" "string list"
  | GrantMembershipTagRequest string string string
  | RevokeMembershipTagRequest string string string
  | RemoveRoleRequest string string
  | RequestRoleRequest string string
  | ListRoleRequestsRequest string
  | DecideRoleRequestRequest string bool

datatype rpc_request = AuthService auth_request | IdentityService identity_request | SessionService session_request | AdminService admin_request | RoleService role_request

fun auth_name :: "auth_request \<Rightarrow> string" where
  "auth_name (PreviewRegistrationInviteRequest x0) = ''/auth.v1.AuthService/PreviewRegistrationInvite''"
| "auth_name (RegisterRequest x0 x1 x2 x3) = ''/auth.v1.AuthService/Register''"
| "auth_name (LoginPasswordRequest x0 x1 x2) = ''/auth.v1.AuthService/LoginPassword''"
| "auth_name (IssueServiceTokenRequest x0 x1) = ''/auth.v1.AuthService/IssueServiceToken''"
| "auth_name (CheckTokenRoleRequest x0 x1) = ''/auth.v1.AuthService/CheckTokenRole''"
| "auth_name (CheckTokenRoleWithTagRequest x0 x1 x2) = ''/auth.v1.AuthService/CheckTokenRoleWithTag''"
| "auth_name (InspectTokenRequest x0) = ''/auth.v1.AuthService/InspectToken''"
| "auth_name (VerifyAccessTokenRequest x0) = ''/auth.v1.AuthService/VerifyAccessToken''"
| "auth_name (VerifyLoginOTPRequest x0 x1 x2 x3) = ''/auth.v1.AuthService/VerifyLoginOTP''"
| "auth_name (StartMagicLinkRequest x0) = ''/auth.v1.AuthService/StartMagicLink''"
| "auth_name (CompleteMagicLinkRequest x0 x1 x2) = ''/auth.v1.AuthService/CompleteMagicLink''"
| "auth_name (StartPasswordResetRequest x0) = ''/auth.v1.AuthService/StartPasswordReset''"
| "auth_name (CompletePasswordResetRequest x0 x1 x2) = ''/auth.v1.AuthService/CompletePasswordReset''"
| "auth_name (RefreshRequest x0 x1 x2) = ''/auth.v1.AuthService/Refresh''"
| "auth_name (LogoutRequest x0) = ''/auth.v1.AuthService/Logout''"
| "auth_name (CompleteStepUp2FARequest x0 x1) = ''/auth.v1.AuthService/CompleteStepUp2FA''"

fun identity_name :: "identity_request \<Rightarrow> string" where
  "identity_name GetMeRequest = ''/auth.v1.IdentityService/GetMe''"
| "identity_name (CheckMyRoleRequest x0) = ''/auth.v1.IdentityService/CheckMyRole''"
| "identity_name (CheckMyRoleWithTagRequest x0 x1) = ''/auth.v1.IdentityService/CheckMyRoleWithTag''"
| "identity_name ListMyRoleAccessRequest = ''/auth.v1.IdentityService/ListMyRoleAccess''"
| "identity_name StartPasswordChangeOTPRequest = ''/auth.v1.IdentityService/StartPasswordChangeOTP''"
| "identity_name (ChangePasswordRequest x0 x1 x2) = ''/auth.v1.IdentityService/ChangePassword''"
| "identity_name (StartStepUp2FARequest x0) = ''/auth.v1.IdentityService/StartStepUp2FA''"
| "identity_name (GetStepUp2FAStatusRequest x0) = ''/auth.v1.IdentityService/GetStepUp2FAStatus''"
| "identity_name (ExpireStepUp2FARequest x0) = ''/auth.v1.IdentityService/ExpireStepUp2FA''"

fun session_name :: "session_request \<Rightarrow> string" where
  "session_name ListSessionsRequest = ''/auth.v1.SessionService/ListSessions''"
| "session_name (RevokeOwnSessionRequest x0) = ''/auth.v1.SessionService/RevokeOwnSession''"
| "session_name StartSessionRevokeOTPRequest = ''/auth.v1.SessionService/StartSessionRevokeOTP''"
| "session_name (RevokeSessionWithOTPRequest x0 x1) = ''/auth.v1.SessionService/RevokeSessionWithOTP''"

fun admin_name :: "admin_request \<Rightarrow> string" where
  "admin_name (CreateRegistrationInviteRequest x0 x1 x2) = ''/auth.v1.AdminService/CreateRegistrationInvite''"
| "admin_name (CreateServiceAccountRequest x0 x1 x2) = ''/auth.v1.AdminService/CreateServiceAccount''"
| "admin_name RotateSigningKeyRequest = ''/auth.v1.AdminService/RotateSigningKey''"
| "admin_name (ListUsersRequest x0) = ''/auth.v1.AdminService/ListUsers''"
| "admin_name (BanUserRequest x0 x1) = ''/auth.v1.AdminService/BanUser''"
| "admin_name (UnbanUserRequest x0) = ''/auth.v1.AdminService/UnbanUser''"

fun role_name :: "role_request \<Rightarrow> string" where
  "role_name (ListRolesRequest x0) = ''/auth.v1.RoleService/ListRoles''"
| "role_name (CreateRoleRequest x0 x1 x2) = ''/auth.v1.RoleService/CreateRole''"
| "role_name (DeleteRoleRequest x0) = ''/auth.v1.RoleService/DeleteRole''"
| "role_name (UpdateRoleDescriptionRequest x0 x1) = ''/auth.v1.RoleService/UpdateRoleDescription''"
| "role_name (SetRoleParentRequest x0 x1) = ''/auth.v1.RoleService/SetRoleParent''"
| "role_name (MountRoleRequest x0 x1) = ''/auth.v1.RoleService/MountRole''"
| "role_name (UnmountRoleRequest x0 x1) = ''/auth.v1.RoleService/UnmountRole''"
| "role_name (ListSubgroupsRequest x0 x1) = ''/auth.v1.RoleService/ListSubgroups''"
| "role_name (AddRoleTagRequest x0 x1) = ''/auth.v1.RoleService/AddRoleTag''"
| "role_name (DeleteRoleTagRequest x0 x1) = ''/auth.v1.RoleService/DeleteRoleTag''"
| "role_name (RenameRoleTagRequest x0 x1 x2) = ''/auth.v1.RoleService/RenameRoleTag''"
| "role_name (ListUserRolesRequest x0) = ''/auth.v1.RoleService/ListUserRoles''"
| "role_name (ListRoleMembersRequest x0) = ''/auth.v1.RoleService/ListRoleMembers''"
| "role_name (AssignRoleRequest x0 x1 x2 x3 x4) = ''/auth.v1.RoleService/AssignRole''"
| "role_name (GrantMembershipTagRequest x0 x1 x2) = ''/auth.v1.RoleService/GrantMembershipTag''"
| "role_name (RevokeMembershipTagRequest x0 x1 x2) = ''/auth.v1.RoleService/RevokeMembershipTag''"
| "role_name (RemoveRoleRequest x0 x1) = ''/auth.v1.RoleService/RemoveRole''"
| "role_name (RequestRoleRequest x0 x1) = ''/auth.v1.RoleService/RequestRole''"
| "role_name (ListRoleRequestsRequest x0) = ''/auth.v1.RoleService/ListRoleRequests''"
| "role_name (DecideRoleRequestRequest x0 x1) = ''/auth.v1.RoleService/DecideRoleRequest''"

fun method_name :: "rpc_request \<Rightarrow> string" where
  "method_name (AuthService r) = auth_name r"
| "method_name (IdentityService r) = identity_name r"
| "method_name (SessionService r) = session_name r"
| "method_name (AdminService r) = admin_name r"
| "method_name (RoleService r) = role_name r"

text \<open>The generated dispatch. Two methods put a job into the mail queue, which may panic; the others leave it
  alone.\<close>

definition unqueued :: "publicMailQueue \<Rightarrow> rpc \<Rightarrow> ((rpc_error + reply) \<times> publicMailQueue option) prog" where
  "unqueued q m = State_Monad.bind m (\<lambda>res. State_Monad.return (res, Some q))"

fun run_auth :: "grpc_server \<Rightarrow> uuid option \<Rightarrow> publicMailQueue \<Rightarrow> auth_request \<Rightarrow>
    ((rpc_error + reply) \<times> publicMailQueue option) prog" where
  "run_auth g ctx q (PreviewRegistrationInviteRequest x0) = unqueued q (rpc_PreviewRegistrationInvite g x0)"
| "run_auth g ctx q (RegisterRequest x0 x1 x2 x3) = unqueued q (rpc_Register g x0 x1 x2 x3)"
| "run_auth g ctx q (LoginPasswordRequest x0 x1 x2) = unqueued q (rpc_LoginPassword g x0 x1 x2)"
| "run_auth g ctx q (IssueServiceTokenRequest x0 x1) = unqueued q (rpc_IssueServiceToken g x0 x1)"
| "run_auth g ctx q (CheckTokenRoleRequest x0 x1) = unqueued q (rpc_CheckTokenRole g x0 x1)"
| "run_auth g ctx q (CheckTokenRoleWithTagRequest x0 x1 x2) = unqueued q (rpc_CheckTokenRoleWithTag g x0 x1 x2)"
| "run_auth g ctx q (InspectTokenRequest x0) = unqueued q (rpc_InspectToken g x0)"
| "run_auth g ctx q (VerifyAccessTokenRequest x0) = unqueued q (rpc_VerifyAccessToken g x0)"
| "run_auth g ctx q (VerifyLoginOTPRequest x0 x1 x2 x3) = unqueued q (rpc_VerifyLoginOTP g x0 x1 x2 x3)"
| "run_auth g ctx q (StartMagicLinkRequest x0) = State_Monad.return (rpc_StartMagicLink x0 q)"
| "run_auth g ctx q (CompleteMagicLinkRequest x0 x1 x2) = unqueued q (rpc_CompleteMagicLink g x0 x1 x2)"
| "run_auth g ctx q (StartPasswordResetRequest x0) = State_Monad.return (rpc_StartPasswordReset x0 q)"
| "run_auth g ctx q (CompletePasswordResetRequest x0 x1 x2) = unqueued q (rpc_CompletePasswordReset g x0 x1 x2)"
| "run_auth g ctx q (RefreshRequest x0 x1 x2) = unqueued q (rpc_Refresh g x0 x1 x2)"
| "run_auth g ctx q (LogoutRequest x0) = unqueued q (rpc_Logout g x0)"
| "run_auth g ctx q (CompleteStepUp2FARequest x0 x1) = unqueued q (rpc_CompleteStepUp2FA g x0 x1)"

fun run_identity :: "grpc_server \<Rightarrow> uuid option \<Rightarrow> publicMailQueue \<Rightarrow> identity_request \<Rightarrow>
    ((rpc_error + reply) \<times> publicMailQueue option) prog" where
  "run_identity g ctx q GetMeRequest = unqueued q (rpc_GetMe g ctx)"
| "run_identity g ctx q (CheckMyRoleRequest x0) = unqueued q (rpc_CheckMyRole ctx x0)"
| "run_identity g ctx q (CheckMyRoleWithTagRequest x0 x1) = unqueued q (rpc_CheckMyRoleWithTag ctx x0 x1)"
| "run_identity g ctx q ListMyRoleAccessRequest = unqueued q (rpc_ListMyRoleAccess g ctx)"
| "run_identity g ctx q StartPasswordChangeOTPRequest = unqueued q (rpc_StartPasswordChangeOTP g ctx)"
| "run_identity g ctx q (ChangePasswordRequest x0 x1 x2) = unqueued q (rpc_ChangePassword g ctx x0 x1 x2)"
| "run_identity g ctx q (StartStepUp2FARequest x0) = unqueued q (rpc_StartStepUp2FA g ctx x0)"
| "run_identity g ctx q (GetStepUp2FAStatusRequest x0) = unqueued q (rpc_GetStepUp2FAStatus ctx x0)"
| "run_identity g ctx q (ExpireStepUp2FARequest x0) = unqueued q (rpc_ExpireStepUp2FA ctx x0)"

fun run_session :: "grpc_server \<Rightarrow> uuid option \<Rightarrow> publicMailQueue \<Rightarrow> session_request \<Rightarrow>
    ((rpc_error + reply) \<times> publicMailQueue option) prog" where
  "run_session g ctx q ListSessionsRequest = unqueued q (rpc_ListSessions g ctx)"
| "run_session g ctx q (RevokeOwnSessionRequest x0) = unqueued q (rpc_RevokeOwnSession g ctx x0)"
| "run_session g ctx q StartSessionRevokeOTPRequest = unqueued q (rpc_StartSessionRevokeOTP g ctx)"
| "run_session g ctx q (RevokeSessionWithOTPRequest x0 x1) = unqueued q (rpc_RevokeSessionWithOTP g ctx x0 x1)"

fun run_admin :: "grpc_server \<Rightarrow> uuid option \<Rightarrow> publicMailQueue \<Rightarrow> admin_request \<Rightarrow>
    ((rpc_error + reply) \<times> publicMailQueue option) prog" where
  "run_admin g ctx q (CreateRegistrationInviteRequest x0 x1 x2) = unqueued q (rpc_CreateRegistrationInvite g ctx x0 x1 x2)"
| "run_admin g ctx q (CreateServiceAccountRequest x0 x1 x2) = unqueued q (rpc_CreateServiceAccount g ctx x0 x1 x2)"
| "run_admin g ctx q RotateSigningKeyRequest = unqueued q (rpc_RotateSigningKey g ctx)"
| "run_admin g ctx q (ListUsersRequest x0) = unqueued q (rpc_ListUsers g ctx x0)"
| "run_admin g ctx q (BanUserRequest x0 x1) = unqueued q (rpc_BanUser g ctx x0 x1)"
| "run_admin g ctx q (UnbanUserRequest x0) = unqueued q (rpc_UnbanUser g ctx x0)"

fun run_role :: "grpc_server \<Rightarrow> uuid option \<Rightarrow> publicMailQueue \<Rightarrow> role_request \<Rightarrow>
    ((rpc_error + reply) \<times> publicMailQueue option) prog" where
  "run_role g ctx q (ListRolesRequest x0) = unqueued q (rpc_ListRoles g x0)"
| "run_role g ctx q (CreateRoleRequest x0 x1 x2) = unqueued q (rpc_CreateRole g ctx x0 x1 x2)"
| "run_role g ctx q (DeleteRoleRequest x0) = unqueued q (rpc_DeleteRole g ctx x0)"
| "run_role g ctx q (UpdateRoleDescriptionRequest x0 x1) = unqueued q (rpc_UpdateRoleDescription g ctx x0 x1)"
| "run_role g ctx q (SetRoleParentRequest x0 x1) = unqueued q (rpc_SetRoleParent g ctx x0 x1)"
| "run_role g ctx q (MountRoleRequest x0 x1) = unqueued q (rpc_MountRole g ctx x0 x1)"
| "run_role g ctx q (UnmountRoleRequest x0 x1) = unqueued q (rpc_UnmountRole g ctx x0 x1)"
| "run_role g ctx q (ListSubgroupsRequest x0 x1) = unqueued q (rpc_ListSubgroups g x0 x1)"
| "run_role g ctx q (AddRoleTagRequest x0 x1) = unqueued q (rpc_AddRoleTag g ctx x0 x1)"
| "run_role g ctx q (DeleteRoleTagRequest x0 x1) = unqueued q (rpc_DeleteRoleTag g ctx x0 x1)"
| "run_role g ctx q (RenameRoleTagRequest x0 x1 x2) = unqueued q (rpc_RenameRoleTag g ctx x0 x1 x2)"
| "run_role g ctx q (ListUserRolesRequest x0) = unqueued q (rpc_ListUserRoles g ctx x0)"
| "run_role g ctx q (ListRoleMembersRequest x0) = unqueued q (rpc_ListRoleMembers g ctx x0)"
| "run_role g ctx q (AssignRoleRequest x0 x1 x2 x3 x4) = unqueued q (rpc_AssignRole g ctx x0 x1 x2 x3 x4)"
| "run_role g ctx q (GrantMembershipTagRequest x0 x1 x2) = unqueued q (rpc_GrantMembershipTag g ctx x0 x1 x2)"
| "run_role g ctx q (RevokeMembershipTagRequest x0 x1 x2) = unqueued q (rpc_RevokeMembershipTag g ctx x0 x1 x2)"
| "run_role g ctx q (RemoveRoleRequest x0 x1) = unqueued q (rpc_RemoveRole g ctx x0 x1)"
| "run_role g ctx q (RequestRoleRequest x0 x1) = unqueued q (rpc_RequestRole g ctx x0 x1)"
| "run_role g ctx q (ListRoleRequestsRequest x0) = unqueued q (rpc_ListRoleRequests g ctx x0)"
| "run_role g ctx q (DecideRoleRequestRequest x0 x1) = unqueued q (rpc_DecideRoleRequest g ctx x0 x1)"

fun run_method :: "grpc_server \<Rightarrow> uuid option \<Rightarrow> publicMailQueue \<Rightarrow> rpc_request \<Rightarrow>
    ((rpc_error + reply) \<times> publicMailQueue option) prog" where
  "run_method g ctx q (AuthService r) = run_auth g ctx q r"
| "run_method g ctx q (IdentityService r) = run_identity g ctx q r"
| "run_method g ctx q (SessionService r) = run_session g ctx q r"
| "run_method g ctx q (AdminService r) = run_admin g ctx q r"
| "run_method g ctx q (RoleService r) = run_role g ctx q r"

section \<open>Errors\<close>

fun mapError :: "grpc_server \<Rightarrow> rpc_error \<Rightarrow> grpc_status" where
  "mapError g (Status st) = st"
| "mapError g (Service e) = (case e of
     RepoError r \<Rightarrow> (case r of
       UniqueViolation \<Rightarrow> grpcError AlreadyExists ''ALREADY_EXISTS'' ''resource already exists''
     | ForeignKeyViolation \<Rightarrow> grpcError FailedPrecondition ''RELATED_RESOURCE_REQUIRED'' ''related resource does not exist''
     | CheckViolation \<Rightarrow> grpcError InvalidArgument ''INVALID_ARGUMENT'' ''value violates a database constraint''
     | _ \<Rightarrow> grpcError Code_Internal ''INTERNAL'' ''internal error'')
   | ErrInvalidCredentials \<Rightarrow> grpcError Unauthenticated ''INVALID_CREDENTIAL'' ''authentication failed''
   | ErrOTPInvalid \<Rightarrow> grpcError Unauthenticated ''INVALID_CREDENTIAL'' ''authentication failed''
   | ErrStaleSigningKey \<Rightarrow> grpcError Unauthenticated ''INVALID_CREDENTIAL'' ''authentication failed''
   | ErrWrongTokenType \<Rightarrow> grpcError Unauthenticated ''INVALID_CREDENTIAL'' ''authentication failed''
   | ErrBanned \<Rightarrow> grpcError PermissionDenied ''FORBIDDEN'' ''operation is forbidden''
   | ErrForbidden \<Rightarrow> grpcError PermissionDenied ''FORBIDDEN'' ''operation is forbidden''
   | ErrLocked \<Rightarrow> grpcError FailedPrecondition ''ACCOUNT_LOCKED'' ''account is locked''
   | ErrNotFound \<Rightarrow> grpcError Code_NotFound ''NOT_FOUND'' ''resource not found''
   | ErrTagNotConfigured \<Rightarrow> grpcError FailedPrecondition ''TAG_NOT_CONFIGURED'' (err_Error (gs_server g) e)
   | ErrRequestNotPending \<Rightarrow> grpcError FailedPrecondition ''REQUEST_NOT_PENDING'' (err_Error (gs_server g) e)
   | ErrInvalidInvite \<Rightarrow> grpcError FailedPrecondition ''INVALID_INVITE'' ''registration invite is invalid or expired''
   | ErrInvalidArgument _ \<Rightarrow> grpcError InvalidArgument ''INVALID_ARGUMENT'' (err_Error (gs_server g) e)
   | ErrPasswordPolicy _ \<Rightarrow> grpcError InvalidArgument ''INVALID_ARGUMENT'' (err_Error (gs_server g) e)
   | ErrCannotBanSelf \<Rightarrow> grpcError InvalidArgument ''INVALID_ARGUMENT'' (err_Error (gs_server g) e)
   | ErrCannotBanSuperuser \<Rightarrow> grpcError InvalidArgument ''INVALID_ARGUMENT'' (err_Error (gs_server g) e)
   | ErrOther _ \<Rightarrow> grpcError Code_Internal ''INTERNAL'' ''internal error'')"

section \<open>Authentication\<close>

definition health_methods :: "string list" where
  "health_methods = [''/grpc.health.v1.Health/Check'', ''/grpc.health.v1.Health/Watch'']"

definition reflection_methods :: "string list" where
  "reflection_methods = [''/grpc.reflection.v1.ServerReflection/ServerReflectionInfo'',
     ''/grpc.reflection.v1alpha.ServerReflection/ServerReflectionInfo'']"

definition policy_of :: "bool \<Rightarrow> string \<Rightarrow> authPolicy option" where
  "policy_of reflectionEnabled method =
     (if reflectionEnabled \<and> method \<in> set reflection_methods then Some AuthPublic
      else if method \<in> set health_methods then Some AuthPublic
      else RPCPolicies method)"

text \<open>The \<open>authorization\<close> values of the metadata, if there is any metadata.\<close>

definition bearer_value :: "string list option \<Rightarrow> grpc_status + string" where
  "bearer_value md =
     (case md of
        None \<Rightarrow> Inl (grpcError Unauthenticated ''MISSING_BEARER'' ''authorization metadata is required'')
      | Some vs \<Rightarrow>
          if length vs \<noteq> 1
          then Inl (grpcError Unauthenticated ''INVALID_BEARER'' ''exactly one Bearer authorization value is required'')
          else let raw = vs ! 0
            in if take (length bearer) raw \<noteq> bearer
               then Inl (grpcError Unauthenticated ''INVALID_BEARER'' ''authorization must use the Bearer scheme'')
               else let t = drop (length bearer) raw
                 in if t = [] \<or> t \<noteq> TrimSpace t \<or> list_ex (\<lambda>c. code c \<in> {32, 9, 13, 10}) t
                    then Inl (grpcError Unauthenticated ''INVALID_BEARER'' ''bearer token is empty or malformed'')
                    else Inr t)"

definition authenticate :: "grpc_server \<Rightarrow> string \<Rightarrow> bool \<Rightarrow> string list option \<Rightarrow> (grpc_status + uuid option) prog" where
  "authenticate g method reflectionEnabled md =
     (case policy_of reflectionEnabled method of
        None \<Rightarrow> State_Monad.return (Inl (grpcError PermissionDenied ''RPC_DENIED'' ''rpc is not classified''))
      | Some policy \<Rightarrow>
          if policy = AuthPublic then State_Monad.return (Inr None)
          else if policy \<noteq> AuthHuman \<and> policy \<noteq> AuthActor
          then State_Monad.return (Inl (grpcError PermissionDenied ''RPC_DENIED'' ''rpc is not classified''))
          else case bearer_value md of
            Inl st \<Rightarrow> State_Monad.return (Inl st)
          | Inr t \<Rightarrow> State_Monad.bind (if policy = AuthHuman then VerifyAccessToken (gs_auth g) t TypeAccess
                else VerifyAccessOrServiceToken (gs_auth g) t) (\<lambda>res. State_Monad.return (case res of
              Inl e \<Rightarrow> Inl (mapError g (Service e))
            | Inr cl \<Rightarrow>
                (case uuid_Parse (gs_lib g) (c_subject cl) of
                   None \<Rightarrow> Inl (grpcError Unauthenticated ''INVALID_SUBJECT'' ''access token subject is invalid'')
                 | Some actor \<Rightarrow> Inr (Some actor)))))"

section \<open>Serving a call\<close>

definition errorInterceptor :: "grpc_server \<Rightarrow> rpc_error + reply \<Rightarrow> grpc_status + reply" where
  "errorInterceptor g res = (case res of Inl e \<Rightarrow> Inl (mapError g e) | Inr x \<Rightarrow> Inr x)"

text \<open>The recovery interceptor answers a panic.\<close>

definition recovered :: "grpc_server \<Rightarrow> publicMailQueue \<Rightarrow> (rpc_error + reply) \<times> publicMailQueue option \<Rightarrow>
    (grpc_status + reply) \<times> publicMailQueue" where
  "recovered g q out =
     (case out of
        (res, Some q') \<Rightarrow> (errorInterceptor g res, q')
      | (_, None) \<Rightarrow> (Inl \<lparr>st_code = Code_Internal, st_reason = [], st_message = ''internal error''\<rparr>, q))"

definition serve_rpc :: "grpc_server \<Rightarrow> bool \<Rightarrow> string list option \<Rightarrow> rpc_request \<Rightarrow> publicMailQueue \<Rightarrow>
    ((grpc_status + reply) \<times> publicMailQueue) prog" where
  "serve_rpc g reflectionEnabled md req q = State_Monad.bind (authenticate g (method_name req) reflectionEnabled md) (\<lambda>res.
     case res of
       Inl st \<Rightarrow> State_Monad.return (Inl st, q)
     | Inr ctx \<Rightarrow> State_Monad.bind (run_method g ctx q req) (\<lambda>out. State_Monad.return (recovered g q out)))"

end
