(* ===== verification/Grpc_Properties.thy ===== *)
theory Grpc_Properties
  imports Grpc_Server
begin

text \<open>
  Properties of the gRPC server: every call is a sequence of steps of the store, the manifest agrees with the
  HTTP routes, a method that is not public needs a token, and an actor without authority changes nothing.
\<close>

section \<open>Calls as steps of the store\<close>

lemma rpc_shape_moves [step_moves]:
  "moves db_steps m \<Longrightarrow> moves db_steps (call_service m k)"
  "(\<And>y. moves db_steps (h y)) \<Longrightarrow> moves db_steps (provided x h)"
  "(\<And>i. moves db_steps (f i)) \<Longrightarrow> moves db_steps (rpc_tokenSubject g tok f)"
  unfolding call_service_def provided_def rpc_tokenSubject_def by (auto intro!: preserves_intros step_moves)

lemma actorAndRole_moves [step_moves]:
  "(\<And>i j. moves db_steps (p i j)) \<Longrightarrow> moves db_steps (actorAndRole g ctx raw p)"
  unfolding actorAndRole_def by (auto intro!: step_moves)

lemma auth_method_moves [step_moves]:
  "moves db_steps (rpc_PreviewRegistrationInvite g a0)"
  "moves db_steps (rpc_Register g a1 b1 c1 d1)"
  "moves db_steps (rpc_LoginPassword g a2 b2 c2)"
  "moves db_steps (rpc_IssueServiceToken g a3 b3)"
  "moves db_steps (rpc_CheckTokenRole g a4 b4)"
  "moves db_steps (rpc_CheckTokenRoleWithTag g a5 b5 c5)"
  "moves db_steps (rpc_InspectToken g a6)"
  "moves db_steps (rpc_VerifyAccessToken g a7)"
  "moves db_steps (rpc_VerifyLoginOTP g a8 b8 c8 d8)"
  "moves db_steps (rpc_CompleteMagicLink g a9 b9 c9)"
  "moves db_steps (rpc_CompletePasswordReset g a10 b10 c10)"
  "moves db_steps (rpc_Refresh g a11 b11 c11)"
  "moves db_steps (rpc_Logout g a12)"
  "moves db_steps (rpc_CompleteStepUp2FA g a13 b13)"
  unfolding rpc_PreviewRegistrationInvite_def rpc_Register_def rpc_LoginPassword_def rpc_IssueServiceToken_def rpc_CheckTokenRole_def rpc_CheckTokenRoleWithTag_def rpc_InspectToken_def rpc_VerifyAccessToken_def rpc_VerifyLoginOTP_def rpc_CompleteMagicLink_def rpc_CompletePasswordReset_def rpc_Refresh_def rpc_Logout_def rpc_CompleteStepUp2FA_def Let_def
  by (intro preserves_intros step_moves)+

lemma tag_method_moves [step_moves]:
  "moves db_steps (changeRoleTag g ctx a0 b0 c0)"
  "moves db_steps (changeMembershipTag g ctx a1 b1 c1 d1)"
  unfolding changeRoleTag_def changeMembershipTag_def Let_def
  by (intro preserves_intros step_moves)+

lemma actor_method_moves [step_moves]:
  "moves db_steps (rpc_GetMe g ctx)"
  "moves db_steps (rpc_CheckMyRole ctx a1)"
  "moves db_steps (rpc_CheckMyRoleWithTag ctx a2 b2)"
  "moves db_steps (rpc_ListMyRoleAccess g ctx)"
  "moves db_steps (rpc_StartPasswordChangeOTP g ctx)"
  "moves db_steps (rpc_ChangePassword g ctx a5 b5 c5)"
  "moves db_steps (rpc_StartStepUp2FA g ctx a6)"
  "moves db_steps (rpc_GetStepUp2FAStatus ctx a7)"
  "moves db_steps (rpc_ExpireStepUp2FA ctx a8)"
  "moves db_steps (rpc_ListSessions g ctx)"
  "moves db_steps (rpc_RevokeOwnSession g ctx a10)"
  "moves db_steps (rpc_StartSessionRevokeOTP g ctx)"
  "moves db_steps (rpc_RevokeSessionWithOTP g ctx a12 b12)"
  "moves db_steps (rpc_CreateRegistrationInvite g ctx a13 b13 c13)"
  "moves db_steps (rpc_CreateServiceAccount g ctx a14 b14 c14)"
  "moves db_steps (rpc_RotateSigningKey g ctx)"
  "moves db_steps (rpc_ListUsers g ctx a16)"
  "moves db_steps (rpc_BanUser g ctx a17 b17)"
  "moves db_steps (rpc_UnbanUser g ctx a18)"
  "moves db_steps (rpc_ListRoles g a19)"
  "moves db_steps (rpc_CreateRole g ctx a20 b20 c20)"
  "moves db_steps (rpc_DeleteRole g ctx a21)"
  "moves db_steps (rpc_UpdateRoleDescription g ctx a22 b22)"
  "moves db_steps (rpc_SetRoleParent g ctx a23 b23)"
  "moves db_steps (rpc_MountRole g ctx a24 b24)"
  "moves db_steps (rpc_UnmountRole g ctx a25 b25)"
  "moves db_steps (rpc_ListSubgroups g a26 b26)"
  "moves db_steps (rpc_AddRoleTag g ctx a27 b27)"
  "moves db_steps (rpc_DeleteRoleTag g ctx a28 b28)"
  "moves db_steps (rpc_RenameRoleTag g ctx a29 b29 c29)"
  "moves db_steps (rpc_ListUserRoles g ctx a30)"
  "moves db_steps (rpc_ListRoleMembers g ctx a31)"
  "moves db_steps (rpc_AssignRole g ctx a32 b32 c32 d32 e32)"
  "moves db_steps (rpc_GrantMembershipTag g ctx a33 b33 c33)"
  "moves db_steps (rpc_RevokeMembershipTag g ctx a34 b34 c34)"
  "moves db_steps (rpc_RemoveRole g ctx a35 b35)"
  "moves db_steps (rpc_RequestRole g ctx a36 b36)"
  "moves db_steps (rpc_ListRoleRequests g ctx a37)"
  "moves db_steps (rpc_DecideRoleRequest g ctx a38 b38)"
  unfolding rpc_GetMe_def rpc_CheckMyRole_def rpc_CheckMyRoleWithTag_def rpc_ListMyRoleAccess_def rpc_StartPasswordChangeOTP_def rpc_ChangePassword_def rpc_StartStepUp2FA_def rpc_GetStepUp2FAStatus_def rpc_ExpireStepUp2FA_def rpc_ListSessions_def rpc_RevokeOwnSession_def rpc_StartSessionRevokeOTP_def rpc_RevokeSessionWithOTP_def rpc_CreateRegistrationInvite_def rpc_CreateServiceAccount_def rpc_RotateSigningKey_def rpc_ListUsers_def rpc_BanUser_def rpc_UnbanUser_def rpc_ListRoles_def rpc_CreateRole_def rpc_DeleteRole_def rpc_UpdateRoleDescription_def rpc_SetRoleParent_def rpc_MountRole_def rpc_UnmountRole_def rpc_ListSubgroups_def rpc_AddRoleTag_def rpc_DeleteRoleTag_def rpc_RenameRoleTag_def rpc_ListUserRoles_def rpc_ListRoleMembers_def rpc_AssignRole_def rpc_GrantMembershipTag_def rpc_RevokeMembershipTag_def rpc_RemoveRole_def rpc_RequestRole_def rpc_ListRoleRequests_def rpc_DecideRoleRequest_def Let_def
  by (intro preserves_intros step_moves)+

lemma unqueued_moves: "moves db_steps m \<Longrightarrow> moves db_steps (unqueued q m)"
  unfolding unqueued_def by (intro preserves_intros)

lemma service_moves:
  "moves db_steps (run_auth g ctx q r1)" "moves db_steps (run_identity g ctx q r2)" "moves db_steps (run_session g ctx q r3)"
  "moves db_steps (run_admin g ctx q r4)" "moves db_steps (run_role g ctx q r5)"
      apply (cases r1; simp add: unqueued_moves step_moves stepping.moves_return)
     apply (cases r2; simp add: unqueued_moves step_moves)
    apply (cases r3; simp add: unqueued_moves step_moves)
   apply (cases r4; simp add: unqueued_moves step_moves)
  apply (cases r5; simp add: unqueued_moves step_moves)
  done

lemma method_moves [step_moves]: "moves db_steps (run_method g ctx q req)"
  by (cases req) (simp_all add: service_moves)

lemma authenticate_moves [step_moves]: "moves db_steps (authenticate g method reflect md)"
  unfolding authenticate_def by (intro preserves_intros step_moves)

lemma serve_rpc_moves: "moves db_steps (serve_rpc g reflect md req q)"
  unfolding serve_rpc_def by (intro preserves_intros step_moves)

text \<open>What a method leaves of the queue: nothing, or the queue itself, or the queue after one step.\<close>

definition left :: "publicMailQueue \<Rightarrow> publicMailQueue option \<Rightarrow> bool" where
  "left q out \<longleftrightarrow> (\<forall>q'. out = Some q' \<longrightarrow> q' = q \<or> queue_step q q')"

lemma unqueued_left: "left q (snd (fst (run_state (unqueued q m) w)))"
  by (simp add: left_def unqueued_def split: prod.split)

lemma queue_methods_left: "left q (snd (rpc_StartMagicLink lg q))" "left q (snd (rpc_StartPasswordReset lg q))"
  by (auto simp: left_def rpc_StartMagicLink_def rpc_StartPasswordReset_def StartMagicLink_def StartPasswordReset_def
      intro: step_enqueue split: sum.splits)

lemma service_left:
  "left q (snd (fst (run_state (run_auth g ctx q r1) w)))" "left q (snd (fst (run_state (run_identity g ctx q r2) w)))"
  "left q (snd (fst (run_state (run_session g ctx q r3) w)))" "left q (snd (fst (run_state (run_admin g ctx q r4) w)))"
  "left q (snd (fst (run_state (run_role g ctx q r5) w)))"
      apply (cases r1; simp add: unqueued_left queue_methods_left)
     apply (cases r2; simp add: unqueued_left)
    apply (cases r3; simp add: unqueued_left)
   apply (cases r4; simp add: unqueued_left)
  apply (cases r5; simp add: unqueued_left)
  done

lemma method_left: "left q (snd (fst (run_state (run_method g ctx q req) w)))"
  by (cases req) (simp_all add: service_left)

text \<open>
  The gRPC server refines the store and the mail queue: whatever call it serves, whichever of the
  effects are refused or lost and whatever other requests do in between, the database has moved by
  steps of the store's transition system and the queue by at most one of its own steps.
\<close>

lemma grpc_refines_store:
  assumes "others db_steps w" "run_state (serve_rpc g reflect md req q) w = ((out, q'), w')"
  shows "db_steps (w_db w) (w_db w') \<and> (q' = q \<or> queue_step q q')"
proof -
  have "db_steps (w_db w) (w_db w')" using movesD(1) [OF serve_rpc_moves assms(2,1)] .
  moreover have "q' = q \<or> queue_step q q'"
    using assms(2) method_left [of q g _ req]
    by (auto simp: serve_rpc_def recovered_def left_def split: prod.splits sum.splits option.splits) (metis fst_conv snd_conv)+
  ultimately show ?thesis by blast
qed

section \<open>The manifest and the two transports\<close>

abbreviation (input) route_rpc :: "manifest_route \<Rightarrow> string" where "route_rpc r \<equiv> fst (snd (snd r))"
abbreviation (input) route_auth :: "manifest_route \<Rightarrow> authPolicy" where "route_auth r \<equiv> snd (snd (snd (snd r)))"

lemma policies_built:
  assumes "list_all (\<lambda>r. route_rpc r \<noteq> [] \<and> route_auth r \<noteq> AuthUnknown) rs" "distinct (map route_rpc rs)"
    and "\<And>r. r \<in> set rs \<Longrightarrow> known (route_rpc r) = None"
  shows "mustRPCPolicies rs known = Some (known ++ map_of (map (\<lambda>r. (route_rpc r, route_auth r)) rs))"
  using assms
proof (induction rs arbitrary: known)
  case (Cons r rest)
  obtain m p rpc c auth where r: "r = (m, p, rpc, c, auth)" by (cases r)
  have new: "known rpc = None" "rpc \<notin> set (map route_rpc rest)" using Cons.prems(3) [of r] Cons.prems(2) by (simp_all add: r)
  have "(known(rpc \<mapsto> auth)) (route_rpc x) = None" if "x \<in> set rest" for x
  proof -
    have "route_rpc x \<noteq> rpc" using new(2) that by auto
    then show ?thesis using Cons.prems(3) [of x] that by simp
  qed
  moreover have "list_all (\<lambda>r. route_rpc r \<noteq> [] \<and> route_auth r \<noteq> AuthUnknown) rest" "distinct (map route_rpc rest)"
    using Cons.prems(1,2) by simp_all
  ultimately have "mustRPCPolicies rest (known(rpc \<mapsto> auth))
      = Some (known(rpc \<mapsto> auth) ++ map_of (map (\<lambda>r. (route_rpc r, route_auth r)) rest))"
    using Cons.IH by blast
  moreover have "map_of (map (\<lambda>r. (route_rpc r, route_auth r)) rest) rpc = None"
    using new(2) by (simp add: map_of_eq_None_iff image_image)
  ultimately show ?case using Cons.prems(1) new(1) by (simp add: r fun_eq_iff map_add_def split: option.split)
qed simp

lemma manifest_ok:
  "list_all (\<lambda>r. route_rpc r \<noteq> [] \<and> route_auth r \<noteq> AuthUnknown) BusinessRoutes" "distinct (map route_rpc BusinessRoutes)"
  by code_simp+

lemma RPCPolicies_map: "RPCPolicies = map_of (map (\<lambda>r. (route_rpc r, route_auth r)) BusinessRoutes)"
  using policies_built [OF manifest_ok, of "\<lambda>_. None"] by (simp add: RPCPolicies_def)

definition endpoint_policy :: "endpoint \<Rightarrow> bool \<times> authPolicy" where
  "endpoint_policy e = (case e of
     Public _ \<Rightarrow> (False, AuthPublic)
   | MailStart _ \<Rightarrow> (False, AuthPublic)
   | Guarded g checks _ \<Rightarrow> (checks, case g of AccessJWT \<Rightarrow> AuthHuman | ActorJWT \<Rightarrow> AuthActor))"

lemma http_parity:
  "map (\<lambda>(m, p, e). (m, p, endpoint_policy e)) (tl routes) = map (\<lambda>(m, p, rpc, checks, auth). (m, p, checks, auth)) BusinessRoutes"
  by (simp add: routes_def BusinessRoutes_def endpoint_policy_def)

lemma http_manifest: "mustHTTPRoutes BusinessRoutes TransportOnlyRoutes \<noteq> None"
  by code_simp

lemma names_classified:
  "auth_name r1 \<in> set (map route_rpc BusinessRoutes)" "identity_name r2 \<in> set (map route_rpc BusinessRoutes)"
  "session_name r3 \<in> set (map route_rpc BusinessRoutes)" "admin_name r4 \<in> set (map route_rpc BusinessRoutes)"
  "role_name r5 \<in> set (map route_rpc BusinessRoutes)"
      apply (cases r1; simp add: BusinessRoutes_def)
     apply (cases r2; simp add: BusinessRoutes_def)
    apply (cases r3; simp add: BusinessRoutes_def)
   apply (cases r4; simp add: BusinessRoutes_def)
  apply (cases r5; simp add: BusinessRoutes_def)
  done

lemma method_listed: "method_name req \<in> set (map route_rpc BusinessRoutes)"
  by (cases req) (simp_all only: method_name.simps names_classified)

lemma methods_classified: "\<exists>a. RPCPolicies (method_name req) = Some a \<and> a \<noteq> AuthUnknown"
proof -
  obtain r where "r \<in> set BusinessRoutes" "method_name req = route_rpc r" using method_listed [of req] by auto
  then have "RPCPolicies (method_name req) = Some (route_auth r)"
    unfolding RPCPolicies_map using manifest_ok(2) by (intro map_of_is_SomeI) (auto simp: comp_def)
  with \<open>r \<in> set BusinessRoutes\<close> manifest_ok(1) show ?thesis by (auto simp: list_all_iff)
qed

text \<open>
  C8. The two transports agree with the manifest that ties them together: building its tables does not
  panic, the HTTP routes are exactly its business routes, in order, with the same authentication and
  the same CSRF protection, no RPC is listed twice, and every method of the five services has a
  policy.
\<close>

theorem transports_match_manifest:
  "mustRPCPolicies BusinessRoutes (\<lambda>_. None) \<noteq> None \<and> mustHTTPRoutes BusinessRoutes TransportOnlyRoutes \<noteq> None
   \<and> map (\<lambda>(m, p, e). (m, p, endpoint_policy e)) (tl routes) = map (\<lambda>(m, p, rpc, checks, auth). (m, p, checks, auth)) BusinessRoutes
   \<and> distinct (map route_rpc BusinessRoutes)
   \<and> (\<exists>a. RPCPolicies (method_name req) = Some a \<and> a \<noteq> AuthUnknown)"
  using policies_built [OF manifest_ok, of "\<lambda>_. None"] http_manifest http_parity manifest_ok(2) methods_classified by simp

section \<open>Tokens\<close>

lemma manifest_names: "list_all (\<lambda>r. route_rpc r \<notin> set (reflection_methods @ health_methods)) BusinessRoutes"
  by code_simp

lemma business_policy: "policy_of reflect (method_name req) = RPCPolicies (method_name req)"
  using method_listed [of req] manifest_names by (auto simp: policy_of_def list_all_iff)

lemma authenticated:
  assumes "run_state (authenticate g method reflect md) w = (Inr ctx, w')"
  shows "(policy_of reflect method = Some AuthPublic \<and> ctx = None)
    \<or> (\<exists>t key now c actor. bearer_value md = Inr t \<and> jwt_ParseWithClaims (gs_lib g) key now t = Some c
         \<and> uuid_Parse (gs_lib g) (c_subject c) = Some actor \<and> ctx = Some actor)"
  using assms by (auto simp: authenticate_def split: option.splits if_splits sum.splits prod.splits dest!: verified_claims) metis+

lemma serve_rpc_cases:
  assumes "run_state (serve_rpc g reflect md req q) w = ((out, q'), w')"
  obtains (denied) st where "run_state (authenticate g (method_name req) reflect md) w = (Inl st, w')" "out = Inl st" "q' = q"
  | (allowed) ctx w1 where "run_state (authenticate g (method_name req) reflect md) w = (Inr ctx, w1)"
      "run_state (State_Monad.bind (run_method g ctx q req) (\<lambda>x. State_Monad.return (recovered g q x))) w1 = ((out, q'), w')"
proof -
  obtain res w1 where 1: "run_state (authenticate g (method_name req) reflect md) w = (res, w1)"
    "run_state (case res of Inl st \<Rightarrow> State_Monad.return (Inl st, q)
       | Inr ctx \<Rightarrow> State_Monad.bind (run_method g ctx q req) (\<lambda>x. State_Monad.return (recovered g q x))) w1 = ((out, q'), w')"
    using assms unfolding serve_rpc_def by (rule bindE)
  show thesis
  proof (cases res)
    case (Inl st)
    with 1 denied show ?thesis by simp
  next
    case (Inr ctx)
    show ?thesis by (rule allowed [OF 1(1) [unfolded Inr]]) (use 1(2) Inr in simp)
  qed
qed

context database_moves
begin

lemma authenticate_moves_nothing: "moves R (authenticate g method reflect md)"
  unfolding authenticate_def
  by (intro preserves_intros moves_return moves_bind moves_if moves_case_option moves_case_sum checks_move_nothing)

end

text \<open>
  C7. A method that the manifest does not make public is closed to a call without a token and to one
  whose token no key verifies at any time: the answer is an error, the mail queue is as it was, and
  the database has changed only by what other requests did.
\<close>

theorem rpc_needs_token:
  assumes "run_state (serve_rpc g reflect md req q) w = ((out, q'), w')"
    and "RPCPolicies (method_name req) \<noteq> Some AuthPublic"
    and "\<And>t key now. bearer_value md = Inr t \<Longrightarrow> jwt_ParseWithClaims (gs_lib g) key now t = None"
  shows "(\<exists>st. out = Inl st) \<and> q' = q \<and> by_others w (w_db w) (w_db w')"
  using assms(1)
proof (cases rule: serve_rpc_cases)
  case (denied st)
  then show ?thesis using movesD(1) [OF idle_request.authenticate_moves_nothing denied(1) others_by_others] by blast
next
  case (allowed ctx w1)
  then show ?thesis using authenticated [OF allowed(1)] assms(2,3) by (auto simp: business_policy)
qed

text \<open>
  A bearer token that is not a token at all is an internal error to the gRPC server: on every method
  that is not public the answer to a malformed token has the code of an internal error, where the
  HTTP server answers 401.
\<close>

theorem malformed_token_internal:
  assumes "run_state (serve_rpc g reflect md req q) w = ((out, q'), w')"
    and "RPCPolicies (method_name req) \<noteq> Some AuthPublic"
    and "bearer_value md = Inr t" "jwt_ParseUnverified (gs_lib g) t = None"
  shows "out = Inl (grpcError Code_Internal ''INTERNAL'' ''internal error'')"
proof -
  obtain a where a: "RPCPolicies (method_name req) = Some a" "a = AuthHuman \<or> a = AuthActor"
    using methods_classified [of req] assms(2) by (metis authPolicy.exhaust)
  have "run_state (authenticate g (method_name req) reflect md) w = (Inl (grpcError Code_Internal ''INTERNAL'' ''internal error''), w)"
    using a(2) assms(3,4)
    by (auto simp: authenticate_def business_policy a(1) VerifyAccessToken_def VerifyAccessOrServiceToken_def ParseUnverifiedClaims_def
        run_checked)
  then show ?thesis using assms(1) by (simp add: serve_rpc_def)
qed

section \<open>Actors without authority\<close>

abbreviation (input) failed :: "'e + 'a \<Rightarrow> bool" where "failed res \<equiv> \<exists>e. res = Inl e"

lemma stays_rpc_shapes:
  "stays J m failed \<Longrightarrow> stays J (call_service m k) failed"
  "(\<And>y. x = Inr y \<Longrightarrow> stays J (h y) failed) \<Longrightarrow> stays J (provided x h) failed"
  unfolding call_service_def provided_def
  by (auto intro!: stays_return elim!: stays_bind split: sum.split)

lemma actor_known: "actorFromContext (Some i) = Inr j \<Longrightarrow> j = i"
  by (simp add: actorFromContext_def split: if_splits)

lemma stays_actorAndRole:
  assumes "\<And>x. stays J (k i x) failed"
  shows "stays J (actorAndRole g (Some i) raw k) failed"
  unfolding actorAndRole_def by (intro stays_rpc_shapes) (auto dest!: actor_known intro: assms)

context powerless_actor
begin

lemma tag_methods_refused:
  "stays J (changeRoleTag g (Some actor) x tag add) failed" "stays J (changeMembershipTag g (Some actor) x i tag add) failed"
  unfolding changeRoleTag_def changeMembershipTag_def
  by (intro stays_actorAndRole stays_rpc_shapes managing_methods)+

lemma rpcs_refused:
  "stays J (rpc_CreateRegistrationInvite g (Some actor) a0 b0 c0) failed"
  "stays J (rpc_CreateServiceAccount g (Some actor) a1 b1 c1) failed"
  "stays J (rpc_RotateSigningKey g (Some actor)) failed"
  "stays J (rpc_ListUsers g (Some actor) a3) failed"
  "stays J (rpc_BanUser g (Some actor) a4 b4) failed"
  "stays J (rpc_UnbanUser g (Some actor) a5) failed"
  "stays J (rpc_CreateRole g (Some actor) a6 b6 c6) failed"
  "stays J (rpc_DeleteRole g (Some actor) a7) failed"
  "stays J (rpc_UpdateRoleDescription g (Some actor) a8 b8) failed"
  "stays J (rpc_SetRoleParent g (Some actor) a9 b9) failed"
  "stays J (rpc_MountRole g (Some actor) a10 b10) failed"
  "stays J (rpc_UnmountRole g (Some actor) a11 b11) failed"
  "stays J (rpc_AddRoleTag g (Some actor) a12 b12) failed"
  "stays J (rpc_DeleteRoleTag g (Some actor) a13 b13) failed"
  "stays J (rpc_RenameRoleTag g (Some actor) a14 b14 c14) failed"
  "stays J (rpc_ListRoleMembers g (Some actor) a15) failed"
  "stays J (rpc_AssignRole g (Some actor) a16 b16 c16 d16 e16) failed"
  "stays J (rpc_GrantMembershipTag g (Some actor) a17 b17 c17) failed"
  "stays J (rpc_RevokeMembershipTag g (Some actor) a18 b18 c18) failed"
  "stays J (rpc_RemoveRole g (Some actor) a19 b19) failed"
  "stays J (rpc_ListRoleRequests g (Some actor) a20) failed"
  "stays J (rpc_DecideRoleRequest g (Some actor) a21 b21) failed"
  unfolding rpc_CreateRegistrationInvite_def rpc_CreateServiceAccount_def rpc_RotateSigningKey_def rpc_ListUsers_def rpc_BanUser_def rpc_UnbanUser_def rpc_CreateRole_def rpc_DeleteRole_def rpc_UpdateRoleDescription_def rpc_SetRoleParent_def rpc_MountRole_def rpc_UnmountRole_def rpc_AddRoleTag_def rpc_DeleteRoleTag_def rpc_RenameRoleTag_def rpc_ListRoleMembers_def rpc_AssignRole_def rpc_GrantMembershipTag_def rpc_RevokeMembershipTag_def rpc_RemoveRole_def rpc_ListRoleRequests_def rpc_DecideRoleRequest_def
  by (auto intro!: stays_actorAndRole stays_rpc_shapes managing_methods tag_methods_refused dest!: actor_known)

end

text \<open>The calls that need authority: all of the administration service, and of the role service all but the
  three listings open to members and the request for membership.\<close>

fun managing_request :: "rpc_request \<Rightarrow> bool" where
  "managing_request (AdminService r) = True"
| "managing_request (RoleService r) =
     (case r of ListRolesRequest _ \<Rightarrow> False | ListSubgroupsRequest _ _ \<Rightarrow> False | ListUserRolesRequest _ \<Rightarrow> False
      | RequestRoleRequest _ _ \<Rightarrow> False | _ \<Rightarrow> True)"
| "managing_request _ = False"

text \<open>What such a method leaves: an error and the queue.\<close>

definition refusal_out :: "publicMailQueue \<Rightarrow> (rpc_error + reply) \<times> publicMailQueue option \<Rightarrow> bool" where
  "refusal_out q out \<longleftrightarrow> failed (fst out) \<and> snd out = Some q"

lemma stays_unqueued: "stays J m failed \<Longrightarrow> stays J (unqueued q m) (refusal_out q)"
  unfolding unqueued_def by (erule stays_bind) (auto simp: refusal_out_def intro: stays_return)

lemma managing_services_refused:
  "stays (confined R d0 actor b) (run_admin g (Some actor) q r1) (refusal_out q)"
  "managing_request (RoleService r2) \<Longrightarrow> stays (confined R d0 actor b) (run_role g (Some actor) q r2) (refusal_out q)"
  by (cases r1; simp add: stays_unqueued confined.rpcs_refused) (cases r2; simp add: stays_unqueued confined.rpcs_refused)

lemma managing_request_refused:
  "managing_request req \<Longrightarrow> stays (confined R d0 actor b) (run_method g (Some actor) q req) (refusal_out q)"
  by (cases req) (simp_all add: managing_services_refused)

text \<open>The public methods are methods of the authentication service.\<close>

lemma public_methods: "list_all (\<lambda>r. route_auth r = AuthPublic \<longrightarrow> take 20 (route_rpc r) = ''/auth.v1.AuthService'') BusinessRoutes"
  by code_simp

lemma managing_names:
  "take 20 (admin_name r1) \<noteq> ''/auth.v1.AuthService''" "take 20 (role_name r2) \<noteq> ''/auth.v1.AuthService''"
  by (cases r1; simp) (cases r2; simp)

lemma managing_not_public:
  assumes "managing_request req"
  shows "RPCPolicies (method_name req) \<noteq> Some AuthPublic"
proof
  assume "RPCPolicies (method_name req) = Some AuthPublic"
  then obtain r where r: "r \<in> set BusinessRoutes" "route_rpc r = method_name req" "route_auth r = AuthPublic"
    unfolding RPCPolicies_map by (auto dest!: map_of_SomeD)
  have "take 20 (method_name req) = ''/auth.v1.AuthService''"
    using bspec [OF public_methods [unfolded list_all_iff] r(1)] r(2,3) by simp
  then show False using assms managing_names by (cases req) auto
qed

text \<open>
  C6. No authority over gRPC: a call of the administration service, or of the role service where it needs a
  manager, whose token names an account that is banned, or is neither a superuser nor the administrator
  of any role, is answered with an error, and the database has changed only by what other requests
  did, as long as these give the account no authority.
\<close>

theorem powerless_rpc_refused:
  assumes "run_state (serve_rpc g reflect md req q) w = ((out, q'), w')"
    and "managing_request req"
    and "\<And>t key now c. bearer_value md = Inr t \<Longrightarrow> jwt_ParseWithClaims (gs_lib g) key now t = Some c \<Longrightarrow>
      uuid_Parse (gs_lib g) (c_subject c) = Some actor"
    and "powerless actor (w_db w)"
    and "\<And>e d. e \<in> set (w_schedule w) \<Longrightarrow> powerless actor d \<Longrightarrow>
      powerless actor (e_other e d) \<and> is_banned actor (e_other e d) = is_banned actor d"
  shows "(\<exists>st. out = Inl st) \<and> q' = q \<and> by_others w (w_db w) (w_db w')"
  using assms(1)
proof (cases rule: serve_rpc_cases)
  case (denied st)
  then show ?thesis using movesD(1) [OF idle_request.authenticate_moves_nothing denied(1) others_by_others] by blast
next
  case (allowed ctx w1)
  let ?J = "confined (by_others w) (w_db w) actor (is_banned actor (w_db w))"
  have ctx: "ctx = Some actor" using authenticated [OF allowed(1)] managing_not_public [OF assms(2)] assms(3) by (auto simp: business_policy)
  have "under ?J w" by (rule confined_under [OF assms(4,5)])
  then have "under ?J w1" using staysD [OF stays_moves [OF keeping.authenticate_moves_nothing] allowed(1)] by blast
  obtain x where x: "run_state (run_method g ctx q req) w1 = (x, w')" "(out, q') = recovered g q x"
    using allowed(2) by (auto split: prod.splits)
  from staysD [OF managing_request_refused [OF assms(2)] x(1) [unfolded ctx] \<open>under ?J w1\<close>]
  have "under ?J w'" "refusal_out q x" by blast+
  then show ?thesis
    using x(2) by (cases x) (auto simp: under_def confined_def refusal_out_def recovered_def errorInterceptor_def)
qed

section \<open>Examples\<close>

definition sample_grpc :: grpc_server where
  "sample_grpc = \<lparr>gs_server = sample_server, duration_CheckValid = (\<lambda>_ _. True), timestamp_CheckValid = (\<lambda>_. True)\<rparr>"

abbreviation (input) rotate_call :: rpc_request where "rotate_call \<equiv> AdminService RotateSigningKeyRequest"

abbreviation (input) answered :: "string \<Rightarrow> world \<Rightarrow> ((grpc_status + reply) \<times> publicMailQueue) \<times> world" where
  "answered t w \<equiv> run_state (serve_rpc sample_grpc False (Some [''Bearer '' @ t]) rotate_call sample_queue) w"

lemma sample_call: "answered t w = ((fst (fst (answered t w)), snd (fst (answered t w))), snd (answered t w))"
  by simp

lemma rotate_not_public: "RPCPolicies (method_name rotate_call) \<noteq> Some AuthPublic"
  by (rule managing_not_public) simp

lemma forged_bearer: "bearer_value (Some [''Bearer '' @ ''forged'']) = Inr ''forged''"
  by code_simp

lemma forged_parse: "sample_parse ''forged'' = None"
  by code_simp

theorem rpc_needs_token_witness:
  "(\<exists>st. fst (fst (answered ''forged'' sample_world)) = Inl st)
    \<and> by_others sample_world (w_db sample_world) (w_db (snd (answered ''forged'' sample_world)))"
proof -
  have "jwt_ParseWithClaims (gs_lib sample_grpc) key now t = None"
    if "bearer_value (Some [''Bearer '' @ ''forged'']) = Inr t" for t key now
    using that forged_bearer forged_parse by (simp add: sample_grpc_def sample_server_def sample_auth_def sample_lib_def)
  from rpc_needs_token [OF sample_call [where w = sample_world] rotate_not_public this] show ?thesis by simp
qed

theorem malformed_token_internal_witness:
  "fst (fst (answered ''forged'' sample_world)) = Inl (grpcError Code_Internal ''INTERNAL'' ''internal error'')"
proof -
  have "jwt_ParseUnverified (gs_lib sample_grpc) ''forged'' = None"
    using forged_parse by (simp add: sample_grpc_def sample_server_def sample_auth_def sample_lib_def)
  from malformed_token_internal [OF sample_call [where w = sample_world] rotate_not_public forged_bearer this] show ?thesis .
qed

lemma sample_bearer_value: "bearer_value (Some [''Bearer '' @ sample_token]) = Inr sample_token"
  by code_simp

theorem powerless_rpc_refused_witness:
  "(\<exists>st. fst (fst (answered sample_token sample_member_world)) = Inl st)
    \<and> w_db (snd (answered sample_token sample_member_world)) = sample_member_db"
proof -
  have "uuid_Parse (gs_lib sample_grpc) (c_subject c) = Some 2"
    if "bearer_value (Some [''Bearer '' @ sample_token]) = Inr t" "jwt_ParseWithClaims (gs_lib sample_grpc) key now t = Some c" for t key now c
    using that sample_bearer_value
    by (auto simp: sample_grpc_def sample_server_def sample_auth_def sample_lib_def sample_token_def sample_parse_sign split: if_splits)
  moreover have "powerless 2 (w_db sample_member_world)" by (simp add: sample_member_world_def sample_powerless)
  moreover have "e_other e d = d" if "e \<in> set (w_schedule sample_member_world)" for e d
    using that by (auto simp: sample_member_world_def quiet_def)
  ultimately have "\<exists>st. fst (fst (answered sample_token sample_member_world)) = Inl st"
    "by_others sample_member_world (w_db sample_member_world) (w_db (snd (answered sample_token sample_member_world)))"
    using powerless_rpc_refused [OF sample_call [where w = sample_member_world], where actor = 2] by simp_all
  then show ?thesis unfolding sample_member_quiet sample_member_start by simp
qed

end
