(* ===== verification/Migration.thy ===== *)
theory Migration
  imports Store Primitives
begin

text \<open>
  The schema migration that every start of the process runs: \<open>internal/repository/schema_migrate.go\<close>.
  \<open>MigrateDB\<close> is a list of statements, each of them atomic; an error stops the list and keeps what the
  earlier statements did. The texts of the two reports of ambiguous legacy data are modelled by the values
  they print.

  Main results: a database on which the migration went through satisfies the invariant of the store, after
  any number of interrupted runs; a second run changes nothing; the identity check refuses exactly the
  ambiguous account tables; and a legacy parent is mounted again by every start.
\<close>

section \<open>The schema\<close>

text \<open>
  The catalogue of the database beside its rows: extensions, enum types, whether \<open>AutoMigrate\<close> has brought
  the tables to the models of \<open>models.go\<close>, whether the identity keys and their triggers are there, the
  indexes and the constraints. \<open>sc_parent_id\<close> is the legacy column \<open>roles.parent_id\<close>, which nothing but the
  migration reads and nothing writes.
\<close>

datatype index =
    Signing_keys_one_current | Role_requests_one_pending | Users_keyset_order | Users_login_ci_unique
  | Users_email_ci_unique | Roles_keyset_order | Users_login_trgm | Users_email_trgm | Roles_name_trgm
  | Email_otp_one_active_password_reset | Roles_name_ci_unique

datatype constraint =
    Users_human_email | Users_service_secret | Role_mounts_child_fk | Role_mounts_parent_fk | Role_tags_role_fk
  | User_roles_user_fk | User_roles_role_fk | User_role_tags_membership_fk | Email_otp_delivery_state_check
  | Role_requests_requester_fk | Role_requests_target_fk | Role_requests_role_fk | Roles_name_not_blank

record schema =
  sc_db :: db
  sc_parent_id :: "uuid \<Rightarrow> uuid option"
  sc_extensions :: "string list"
  sc_types :: "(string \<times> string list) list"
  sc_tables :: bool
  sc_identity_installed :: bool
  sc_indexes :: "index list"
  sc_constraints :: "constraint list"

text \<open>What an index or a constraint demands of the rows; one that is not unique demands nothing.\<close>

definition key_of :: "string \<Rightarrow> string" where
  "key_of s = ToLower (BTRIM s)"

fun index_holds :: "index \<Rightarrow> db \<Rightarrow> bool" where
  "index_holds Signing_keys_one_current d = (count_rows k_is_current (signing_keys d) \<le> 1)"
| "index_holds Role_requests_one_pending d =
     distinct (map (\<lambda>q. (q_target q, q_role q)) (filter (\<lambda>q. q_status q = RoleRequestPending) (role_requests d)))"
| "index_holds Users_login_ci_unique d = distinct (map (\<lambda>u. key_of (u_login u)) (users d))"
| "index_holds Users_email_ci_unique d = distinct (map key_of (List.map_filter u_email (users d)))"
| "index_holds Email_otp_one_active_password_reset d =
     distinct (map o_user (filter (\<lambda>r. o_purpose r = OTPPasswordReset \<and> o_delivery_state r = DeliveryActive
       \<and> o_consumed_at r = None) (email_otps d)))"
| "index_holds Roles_name_ci_unique d = distinct (map (\<lambda>r. key_of (r_name r)) (roles d))"
| "index_holds _ d = True"

definition user_known :: "db \<Rightarrow> uuid \<Rightarrow> bool" where
  "user_known d i = exists_row (\<lambda>u. u_id u = i) (users d)"

definition role_known :: "db \<Rightarrow> uuid \<Rightarrow> bool" where
  "role_known d i = exists_row (\<lambda>r. r_id r = i) (roles d)"

fun constraint_holds :: "constraint \<Rightarrow> db \<Rightarrow> bool" where
  "constraint_holds Users_human_email d = list_all (\<lambda>u. u_kind u \<noteq> UserHuman \<or> u_email u \<noteq> None) (users d)"
| "constraint_holds Users_service_secret d = list_all (\<lambda>u. u_kind u \<noteq> UserService \<or> u_service_secret_hash u \<noteq> None) (users d)"
| "constraint_holds Role_mounts_child_fk d = list_all (\<lambda>m. role_known d (m_child m)) (role_mounts d)"
| "constraint_holds Role_mounts_parent_fk d = list_all (\<lambda>m. role_known d (m_parent m)) (role_mounts d)"
| "constraint_holds Role_tags_role_fk d = list_all (\<lambda>t. role_known d (rt_role t)) (role_tags d)"
| "constraint_holds User_roles_user_fk d = list_all (\<lambda>m. user_known d (ur_user m)) (user_roles d)"
| "constraint_holds User_roles_role_fk d = list_all (\<lambda>m. role_known d (ur_role m)) (user_roles d)"
| "constraint_holds User_role_tags_membership_fk d =
     list_all (\<lambda>t. exists_row (\<lambda>m. ur_id m = urt_user_role t) (user_roles d)) (user_role_tags d)"
| "constraint_holds Email_otp_delivery_state_check d = True"
| "constraint_holds Role_requests_requester_fk d = list_all (\<lambda>q. user_known d (q_requester q)) (role_requests d)"
| "constraint_holds Role_requests_target_fk d = list_all (\<lambda>q. user_known d (q_target q)) (role_requests d)"
| "constraint_holds Role_requests_role_fk d = list_all (\<lambda>q. role_known d (q_role q)) (role_requests d)"
| "constraint_holds Roles_name_not_blank d = list_all (\<lambda>r. BTRIM (r_name r) \<noteq> []) (roles d)"

definition violation :: "constraint \<Rightarrow> repo_error" where
  "violation c = (if c \<in> {Users_human_email, Users_service_secret, Email_otp_delivery_state_check, Roles_name_not_blank}
     then CheckViolation else ForeignKeyViolation)"

section \<open>Account identities\<close>

datatype migrate_error =
    AtStage string repo_error
  | IdentityBlocked "uuid list" "uuid list" "string list"
  | RoleNamesBlocked "(uuid \<times> string) list" "(string \<times> (uuid \<times> string) list) list"

text \<open>The map \<open>owners\<close>, from a key to the set of the accounts that claim it.\<close>

type_synonym owners = "(string \<times> uuid list) list"

fun add_owner :: "string \<Rightarrow> uuid \<Rightarrow> owners \<Rightarrow> owners" where
  "add_owner key i [] = [(key, [i])]"
| "add_owner key i ((k, ids) # rest) =
     (if k = key then (k, if i \<in> set ids then ids else ids @ [i]) # rest else (k, ids) # add_owner key i rest)"

record identity_scan =
  sn_owners :: owners
  sn_blanks :: "uuid list"
  sn_blank_emails :: "uuid list"

definition normalized :: "string \<Rightarrow> string" where
  "normalized s = ToLower (TrimSpace s)"

text \<open>The body of the loop over the rows.\<close>

definition scan_login :: "user \<Rightarrow> identity_scan \<Rightarrow> identity_scan" where
  "scan_login row a =
     (let login = normalized (u_login row)
      in if login = [] then a\<lparr>sn_blanks := sn_blanks a @ [u_id row]\<rparr>
         else let a1 = a\<lparr>sn_owners := add_owner (''login:'' @ login) (u_id row) (sn_owners a)\<rparr>
              in if u_kind row = UserHuman
                 then a1\<lparr>sn_owners := add_owner (''human:'' @ login) (u_id row) (sn_owners a1)\<rparr> else a1)"

definition scan_email :: "user \<Rightarrow> identity_scan \<Rightarrow> identity_scan" where
  "scan_email row a =
     (let a1 = (if u_kind row = UserHuman \<and> (u_email row = None \<or> TrimSpace (the (u_email row)) = [])
                then a\<lparr>sn_blank_emails := sn_blank_emails a @ [u_id row]\<rparr> else a)
      in case u_email row of
           None \<Rightarrow> a1
         | Some e \<Rightarrow>
             if TrimSpace e = [] then a1
             else let email = normalized e;
                      a2 = a1\<lparr>sn_owners := add_owner (''email:'' @ email) (u_id row) (sn_owners a1)\<rparr>
                  in if u_kind row = UserHuman
                     then a2\<lparr>sn_owners := add_owner (''human:'' @ email) (u_id row) (sn_owners a2)\<rparr> else a2)"

fun scan_rows :: "user list \<Rightarrow> identity_scan \<Rightarrow> identity_scan" where
  "scan_rows [] a = a"
| "scan_rows (row # rest) a = scan_rows rest (scan_email row (scan_login row a))"

definition scan_identities :: "user list \<Rightarrow> identity_scan" where
  "scan_identities us = scan_rows (order_asc u_id us) \<lparr>sn_owners = [], sn_blanks = [], sn_blank_emails = []\<rparr>"

definition identity_collisions :: "lib \<Rightarrow> owners \<Rightarrow> string list" where
  "identity_collisions L ow =
     sort (map (\<lambda>(key, ids). key @ ''=['' @ strings_Join (sort (map (uuid_String L) ids)) '','' @ '']'')
       (filter (\<lambda>(key, ids). length ids > 1) ow))"

text \<open>The statements after the check: the update of the columns, and the rows of the key table.\<close>

definition normalize_user :: "user \<Rightarrow> user" where
  "normalize_user u = u\<lparr>u_login := key_of (u_login u), u_email := map_option key_of (u_email u)\<rparr>"

definition normalize_users :: "db \<Rightarrow> repo_error + db" where
  "normalize_users d =
     (let us = map normalize_user (users d)
      in if distinct (map u_login us) \<and> distinct (List.map_filter u_email us) then Inr (d\<lparr>users := us\<rparr>) else Inl UniqueViolation)"

definition human_keys :: "user \<Rightarrow> identity_key list" where
  "human_keys u =
     (if u_kind u = UserHuman
      then \<lparr>ik_identity = key_of (u_login u), ik_user = u_id u\<rparr>
        # (case u_email u of None \<Rightarrow> [] | Some e \<Rightarrow> [\<lparr>ik_identity = key_of e, ik_user = u_id u\<rparr>])
      else [])"

definition populate_keys :: "db \<Rightarrow> repo_error + db" where
  "populate_keys d =
     (let new = filter (\<lambda>k. k \<notin> set (identity_keys d)) (remdups (concat (map human_keys (users d))));
          ks = identity_keys d @ new
      in if distinct (map ik_identity ks) then Inr (d\<lparr>identity_keys := ks\<rparr>) else Inl UniqueViolation)"

definition migrateUserIdentityKeys :: "lib \<Rightarrow> schema \<Rightarrow> migrate_error + schema" where
  "migrateUserIdentityKeys L s =
     (if sc_identity_installed s then Inr s
      else let a = scan_identities (users (sc_db s));
               collisions = identity_collisions L (sn_owners a)
        in if sn_blanks a \<noteq> [] \<or> sn_blank_emails a \<noteq> [] \<or> collisions \<noteq> []
           then Inl (IdentityBlocked (sn_blanks a) (sn_blank_emails a) collisions)
           else case normalize_users (sc_db s) of
             Inl e \<Rightarrow> Inl (AtStage ''user identity migration normalize'' e)
           | Inr d \<Rightarrow>
               (case populate_keys d of
                  Inl e \<Rightarrow> Inl (AtStage ''populate user identity keys'' e)
                | Inr d' \<Rightarrow> Inr (s\<lparr>sc_db := d', sc_identity_installed := True\<rparr>)))"

section \<open>Role names, token versions, parents\<close>

text \<open>The map \<open>groups\<close>, from a normalised name to the rows that have it.\<close>

type_synonym groups = "(string \<times> (uuid \<times> string) list) list"

fun add_group :: "string \<Rightarrow> uuid \<times> string \<Rightarrow> groups \<Rightarrow> groups" where
  "add_group key row [] = [(key, [row])]"
| "add_group key row ((k, rows) # rest) =
     (if k = key then (k, rows @ [row]) # rest else (k, rows) # add_group key row rest)"

fun group_names :: "role list \<Rightarrow> (uuid \<times> string) list \<times> groups \<Rightarrow> (uuid \<times> string) list \<times> groups" where
  "group_names [] acc = acc"
| "group_names (r # rest) (blanks, groups) =
     (if normalized (r_name r) = [] then group_names rest (blanks @ [(r_id r, r_name r)], groups)
      else group_names rest (blanks, add_group (normalized (r_name r)) (r_id r, r_name r) groups))"

definition colliding_names :: "groups \<Rightarrow> groups" where
  "colliding_names gs = sort_key fst (filter (\<lambda>(key, rows). length rows > 1) gs)"

definition trim_names :: "role list \<Rightarrow> role list" where
  "trim_names rs = map (\<lambda>r. r\<lparr>r_name := BTRIM (r_name r)\<rparr>) rs"

definition migrateLegacyRoleNames :: "schema \<Rightarrow> migrate_error + schema" where
  "migrateLegacyRoleNames s =
     (case group_names (order_asc r_id (roles (sc_db s))) ([], []) of (blanks, groups) \<Rightarrow>
        let colliding = colliding_names groups
        in if blanks \<noteq> [] \<or> colliding \<noteq> [] then Inl (RoleNamesBlocked blanks colliding)
           else let d = (sc_db s)\<lparr>roles := trim_names (roles (sc_db s))\<rparr>
             in if \<not> distinct (map r_name (roles d)) then Inl (AtStage ''role-name migration trim'' UniqueViolation)
                else if Roles_name_ci_unique \<notin> set (sc_indexes s) \<and> \<not> index_holds Roles_name_ci_unique d
                then Inl (AtStage ''role-name migration unique index'' UniqueViolation)
                else if Roles_name_not_blank \<notin> set (sc_constraints s) \<and> \<not> constraint_holds Roles_name_not_blank d
                then Inl (AtStage ''role-name migration blank constraint'' CheckViolation)
                else Inr (s\<lparr>sc_db := d, sc_indexes := List.insert Roles_name_ci_unique (sc_indexes s),
                  sc_constraints := List.insert Roles_name_not_blank (sc_constraints s)\<rparr>))"

text \<open>Accounts that an older version banned get version 1 and lose their sessions.\<close>

definition legacy_banned :: "user \<Rightarrow> bool" where
  "legacy_banned u \<longleftrightarrow> u_banned_at u \<noteq> None \<and> u_token_version u = 0"

definition migrate_token_versions :: "instant \<Rightarrow> db \<Rightarrow> db" where
  "migrate_token_versions now d =
     (let migrated = map u_id (filter legacy_banned (users d))
      in d\<lparr>users := update_rows legacy_banned (\<lambda>u. u\<lparr>u_token_version := 1\<rparr>) (users d),
           refresh_sessions := update_rows (\<lambda>x. s_user x \<in> set migrated \<and> s_revoked_at x = None)
             (\<lambda>x. x\<lparr>s_revoked_at := Some now\<rparr>) (refresh_sessions d)\<rparr>)"

definition legacy_mounts :: "schema \<Rightarrow> role_mount list" where
  "legacy_mounts s = List.map_filter (\<lambda>r. map_option (\<lambda>p. \<lparr>m_child = r_id r, m_parent = p\<rparr>) (sc_parent_id s (r_id r)))
     (roles (sc_db s))"

definition copy_parent_ids :: "schema \<Rightarrow> migrate_error + schema" where
  "copy_parent_ids s =
     (let d = sc_db s; new = filter (\<lambda>m. m \<notin> set (role_mounts d)) (legacy_mounts s);
          d' = d\<lparr>role_mounts := role_mounts d @ new\<rparr>
      in if (Role_mounts_parent_fk \<in> set (sc_constraints s) \<and> \<not> constraint_holds Role_mounts_parent_fk d')
         then Inl (AtStage ''index'' ForeignKeyViolation) else Inr (s\<lparr>sc_db := d'\<rparr>))"

section \<open>The list of statements\<close>

datatype ddl =
    CreateExtension string
  | CreateType string "string list"
  | AddValue string string
  | AutoMigrate
  | MigrateUserIdentityKeys
  | MigrateTokenVersions
  | MigrateLegacyRoleNames
  | CopyParentIDs
  | CreateIndex index
  | AddConstraint constraint

definition enum_statements :: "ddl list" where
  "enum_statements =
    [CreateExtension ''pg_trgm'',
     CreateType ''user_kind'' [''human'', ''service''],
     CreateType ''role_level'' [''direct_member'', ''member'', ''role_admin''],
     AddValue ''role_level'' ''direct_member'',
     CreateType ''otp_purpose'' [''login'', ''session_revoke'', ''password_change'', ''password_reset'', ''grpc_2fa'', ''generic''],
     AddValue ''otp_purpose'' ''password_reset'',
     CreateType ''role_request_status'' [''pending'', ''approved'', ''rejected'']]"

definition index_statements :: "ddl list" where
  "index_statements = CopyParentIDs # map CreateIndex
    [Signing_keys_one_current, Role_requests_one_pending, Users_keyset_order, Users_login_ci_unique, Users_email_ci_unique,
     Roles_keyset_order, Users_login_trgm, Users_email_trgm, Roles_name_trgm, Email_otp_one_active_password_reset]"

definition constraint_statements :: "ddl list" where
  "constraint_statements = map AddConstraint
    [Users_human_email, Users_service_secret, Role_mounts_child_fk, Role_mounts_parent_fk, Role_tags_role_fk,
     User_roles_user_fk, User_roles_role_fk, User_role_tags_membership_fk, Email_otp_delivery_state_check,
     Role_requests_requester_fk, Role_requests_target_fk, Role_requests_role_fk]"

definition table_statements :: "ddl list" where
  "table_statements = [MigrateUserIdentityKeys, MigrateTokenVersions, MigrateLegacyRoleNames] @ index_statements @ constraint_statements"

definition migration :: "ddl list" where
  "migration = enum_statements @ AutoMigrate # table_statements"

text \<open>GORM's \<open>AutoMigrate\<close> is a parameter.\<close>

record migrator =
  mg_lib :: lib
  gorm_AutoMigrate :: "schema \<Rightarrow> repo_error + schema"

definition exec :: "migrator \<Rightarrow> instant \<Rightarrow> ddl \<Rightarrow> schema \<Rightarrow> migrate_error + schema" where
  "exec G now q s = (case q of
     CreateExtension e \<Rightarrow> Inr (s\<lparr>sc_extensions := List.insert e (sc_extensions s)\<rparr>)
   | CreateType t vs \<Rightarrow>
       if map_of (sc_types s) t = None then Inr (s\<lparr>sc_types := sc_types s @ [(t, vs)]\<rparr>) else Inr s
   | AddValue t v \<Rightarrow>
       (case map_of (sc_types s) t of
          None \<Rightarrow> Inl (AtStage ''enum'' (RepoMessage ''type does not exist''))
        | Some vs \<Rightarrow>
            if v \<in> set vs then Inr s
            else Inr (s\<lparr>sc_types := map (\<lambda>(t', ws). if t' = t then (t', ws @ [v]) else (t', ws)) (sc_types s)\<rparr>))
   | AutoMigrate \<Rightarrow> (case gorm_AutoMigrate G s of Inl e \<Rightarrow> Inl (AtStage ''automigrate'' e) | Inr s' \<Rightarrow> Inr s')
   | MigrateUserIdentityKeys \<Rightarrow> migrateUserIdentityKeys (mg_lib G) s
   | MigrateTokenVersions \<Rightarrow> Inr (s\<lparr>sc_db := migrate_token_versions now (sc_db s)\<rparr>)
   | MigrateLegacyRoleNames \<Rightarrow> migrateLegacyRoleNames s
   | CopyParentIDs \<Rightarrow> copy_parent_ids s
   | CreateIndex ix \<Rightarrow>
       if ix \<in> set (sc_indexes s) then Inr s
       else if index_holds ix (sc_db s) then Inr (s\<lparr>sc_indexes := sc_indexes s @ [ix]\<rparr>)
       else Inl (AtStage ''index'' UniqueViolation)
   | AddConstraint c \<Rightarrow>
       if c \<in> set (sc_constraints s) then Inr s
       else if constraint_holds c (sc_db s) then Inr (s\<lparr>sc_constraints := sc_constraints s @ [c]\<rparr>)
       else Inl (AtStage ''constraint'' (violation c)))"

fun run_statements :: "migrator \<Rightarrow> instant \<Rightarrow> ddl list \<Rightarrow> schema \<Rightarrow> migrate_error option \<times> schema" where
  "run_statements G now [] s = (None, s)"
| "run_statements G now (q # qs) s =
     (case exec G now q s of Inl e \<Rightarrow> (Some e, s) | Inr s' \<Rightarrow> run_statements G now qs s')"

definition MigrateDB :: "migrator \<Rightarrow> instant \<Rightarrow> schema \<Rightarrow> migrate_error option \<times> schema" where
  "MigrateDB G now s = run_statements G now migration s"

end
