(* ===== verification/Migration_Properties.thy ===== *)
theory Migration_Properties
  imports Migration
begin

text \<open>
  Properties of the schema migration: what a finished run establishes, that a second run changes nothing,
  what the identity check decides, and what becomes of a legacy parent.
\<close>

section \<open>Trimming twice\<close>

lemma trim_with_trim_with:
  assumes "\<And>c. q c \<Longrightarrow> p c"
  shows "trim_with p (trim_with q s) = trim_with p s"
proof -
  have left: "dropWhile p (dropWhile q t) = dropWhile p t" for t using assms by (induction t) auto
  have right: "rev (dropWhile p (rev (a @ z))) = rev (dropWhile p (rev a))" if "\<forall>c\<in>set z. q c" for a z
    unfolding rev_append by (subst dropWhile_append2) (use that assms in auto)
  let ?x = "dropWhile q s"
  obtain z where z: "?x = trim_with q s @ z" "\<forall>c\<in>set z. q c"
    using takeWhile_dropWhile_id [of q "rev ?x"] set_takeWhileD [of _ q "rev ?x"]
    by (metis rev_append rev_rev_ident set_rev trim_with_def)
  show ?thesis
  proof (cases "\<forall>c\<in>set (trim_with q s). p c")
    case True
    then have "dropWhile p ?x = []" using z assms by (auto simp: dropWhile_eq_Nil_conv)
    moreover have "dropWhile p (trim_with q s) = []" using True by (simp add: dropWhile_eq_Nil_conv)
    ultimately show ?thesis unfolding trim_with_def [of p] by (simp only: left)
  next
    case False
    then have "dropWhile p ?x = dropWhile p (trim_with q s) @ z" unfolding z(1) by (auto intro: dropWhile_append1)
    then show ?thesis using right [OF z(2)] left [of s] by (simp add: trim_with_def [of p])
  qed
qed

lemma TrimSpace_BTRIM [simp]: "TrimSpace (BTRIM s) = TrimSpace s"
  unfolding TrimSpace_def BTRIM_def by (rule trim_with_trim_with) auto

lemma key_of_idem [simp]: "key_of (key_of s) = key_of s"
  by (simp add: key_of_def BTRIM_ToLower)

lemma normalized_key_of [simp]: "normalized (key_of s) = normalized s"
  by (simp add: normalized_def key_of_def TrimSpace_ToLower)

lemma normalized_eq_Nil [simp]: "normalized s = [] \<longleftrightarrow> TrimSpace s = []"
  by (simp add: normalized_def)

lemma key_of_cong: "key_of s = key_of t \<Longrightarrow> normalized s = normalized t"
  by (metis normalized_key_of)

lemma TrimSpace_Nil: "TrimSpace [] = []"
  by (simp add: TrimSpace_def trim_with_def)

lemma key_of_canonical: "TrimSpace s \<noteq> [] \<Longrightarrow> canonical (key_of s)"
  using key_of_idem [of s] TrimSpace_BTRIM [of s]
  by (auto simp: canonical_def key_of_def TrimSpace_Nil simp del: TrimSpace_BTRIM key_of_idem)

section \<open>What the scan finds\<close>

lemma scan_login_blanks:
  "sn_blanks (scan_login u a) = sn_blanks a @ (if TrimSpace (u_login u) = [] then [u_id u] else [])"
  "sn_blank_emails (scan_login u a) = sn_blank_emails a"
  by (simp_all add: scan_login_def Let_def)

definition lacks_email :: "user \<Rightarrow> bool" where
  "lacks_email u \<longleftrightarrow> u_kind u = UserHuman \<and> (case u_email u of None \<Rightarrow> True | Some e \<Rightarrow> TrimSpace e = [])"

lemma scan_email_blanks:
  "sn_blanks (scan_email u a) = sn_blanks a"
  "sn_blank_emails (scan_email u a) = sn_blank_emails a @ (if lacks_email u then [u_id u] else [])"
  by (auto simp: scan_email_def lacks_email_def Let_def split: option.split)

lemma scan_rows_blanks:
  "sn_blanks (scan_rows us a) = sn_blanks a @ map u_id (filter (\<lambda>u. TrimSpace (u_login u) = []) us)"
  "sn_blank_emails (scan_rows us a) = sn_blank_emails a @ map u_id (filter lacks_email us)"
  by (induction us arbitrary: a) (simp_all add: scan_login_blanks scan_email_blanks)

text \<open>The keys an account claims.\<close>

definition login_claims :: "user \<Rightarrow> string list" where
  "login_claims u = (if TrimSpace (u_login u) = [] then [] else
     (''login:'' @ normalized (u_login u)) # (if u_kind u = UserHuman then [''human:'' @ normalized (u_login u)] else []))"

definition email_claims :: "user \<Rightarrow> string list" where
  "email_claims u = (case u_email u of None \<Rightarrow> [] | Some e \<Rightarrow> if TrimSpace e = [] then [] else
     (''email:'' @ normalized e) # (if u_kind u = UserHuman then [''human:'' @ normalized e] else []))"

abbreviation (input) add_claims :: "uuid \<Rightarrow> string list \<Rightarrow> owners \<Rightarrow> owners" where
  "add_claims i ks ow \<equiv> foldl (\<lambda>ow k. add_owner k i ow) ow ks"

lemma scan_owners:
  "sn_owners (scan_login u a) = add_claims (u_id u) (login_claims u) (sn_owners a)"
  "sn_owners (scan_email u a) = add_claims (u_id u) (email_claims u) (sn_owners a)"
  by (auto simp: scan_login_def scan_email_def login_claims_def email_claims_def Let_def split: option.split)

definition claimed :: "owners \<Rightarrow> string \<Rightarrow> uuid \<Rightarrow> bool" where
  "claimed ow k i \<longleftrightarrow> (\<exists>ids. (k, ids) \<in> set ow \<and> i \<in> set ids)"

definition owners_ok :: "owners \<Rightarrow> bool" where
  "owners_ok ow \<longleftrightarrow> distinct (map fst ow) \<and> (\<forall>(k, ids)\<in>set ow. distinct ids)"

lemma claimed_Cons: "claimed ((k, ids) # ow) k' j \<longleftrightarrow> (k' = k \<and> j \<in> set ids) \<or> claimed ow k' j"
  by (auto simp: claimed_def)

lemma claimed_add_owner: "claimed (add_owner k i ow) k' j \<longleftrightarrow> claimed ow k' j \<or> (k' = k \<and> j = i)"
proof (induction ow)
  case Nil
  then show ?case by (auto simp: claimed_def)
next
  case (Cons x ow)
  then show ?case by (cases x) (auto simp: claimed_Cons)
qed

lemma fst_add_owner: "fst ` set (add_owner k i ow) = insert k (fst ` set ow)"
  by (induction k i ow rule: add_owner.induct) auto

lemma owners_ok_add_owner: "owners_ok ow \<Longrightarrow> owners_ok (add_owner k i ow)"
proof (induction k i ow rule: add_owner.induct)
  case (2 key i k ids rest)
  then show ?case using fst_add_owner [of key i rest] by (auto simp: owners_ok_def)
qed (simp add: owners_ok_def)

lemma add_claims_facts:
  "claimed (add_claims i ks ow) k j \<longleftrightarrow> claimed ow k j \<or> (k \<in> set ks \<and> j = i)"
  "owners_ok ow \<Longrightarrow> owners_ok (add_claims i ks ow)"
  by (induction ks arbitrary: ow) (auto simp: claimed_add_owner owners_ok_add_owner)

definition claims_of :: "user \<Rightarrow> string set" where
  "claims_of u = set (login_claims u) \<union> set (email_claims u)"

lemma scan_rows_owners:
  "claimed (sn_owners (scan_rows us a)) k j \<longleftrightarrow> claimed (sn_owners a) k j \<or> (\<exists>u\<in>set us. k \<in> claims_of u \<and> j = u_id u)"
  "owners_ok (sn_owners a) \<Longrightarrow> owners_ok (sn_owners (scan_rows us a))"
  by (induction us arbitrary: a) (auto simp: scan_owners add_claims_facts claims_of_def)

lemma shared_key_iff:
  assumes "owners_ok ow"
  shows "(\<exists>(k, ids)\<in>set ow. length ids > 1) \<longleftrightarrow> (\<exists>k i j. i \<noteq> j \<and> claimed ow k i \<and> claimed ow k j)"
proof
  assume "\<exists>(k, ids)\<in>set ow. length ids > 1"
  then obtain k ids where k: "(k, ids) \<in> set ow" "length ids > 1" by auto
  then have "distinct ids" using assms by (auto simp: owners_ok_def)
  then have "ids ! 0 \<noteq> ids ! 1" using k(2) by (cases ids; cases "tl ids") auto
  moreover have "ids ! 0 \<in> set ids" "ids ! 1 \<in> set ids" using k(2) by (intro nth_mem; linarith)+
  ultimately show "\<exists>k i j. i \<noteq> j \<and> claimed ow k i \<and> claimed ow k j" using k(1) unfolding claimed_def by blast
next
  assume "\<exists>k i j. i \<noteq> j \<and> claimed ow k i \<and> claimed ow k j"
  then obtain k i j ids ids' where k: "i \<noteq> j" "(k, ids) \<in> set ow" "i \<in> set ids" "(k, ids') \<in> set ow" "j \<in> set ids'"
    by (auto simp: claimed_def)
  then have "ids' = ids" using assms by (auto simp: owners_ok_def dest: eq_key_imp_eq_value)
  with k have "length ids > 1" by (cases ids; cases "tl ids") auto
  with k(2) show "\<exists>(k, ids)\<in>set ow. length ids > 1" by auto
qed

section \<open>Which account tables are refused\<close>

text \<open>
  Two accounts collide when they have the same login, or the same address, or are both human and the login of
  one is the login or the address of the other, after trimming and lower-casing.
\<close>

definition addressed :: "user \<Rightarrow> string option" where
  "addressed u = (case u_email u of None \<Rightarrow> None | Some e \<Rightarrow> if TrimSpace e = [] then None else Some (normalized e))"

definition collide :: "user \<Rightarrow> user \<Rightarrow> bool" where
  "collide u v \<longleftrightarrow> normalized (u_login u) = normalized (u_login v)
     \<or> (addressed u \<noteq> None \<and> addressed u = addressed v)
     \<or> (u_kind u = UserHuman \<and> u_kind v = UserHuman
        \<and> (addressed u = Some (normalized (u_login v)) \<or> addressed v = Some (normalized (u_login u))))"

definition unambiguous :: "user list \<Rightarrow> bool" where
  "unambiguous us \<longleftrightarrow> (\<forall>u\<in>set us. TrimSpace (u_login u) \<noteq> [] \<and> \<not> lacks_email u)
     \<and> (\<forall>u\<in>set us. \<forall>v\<in>set us. collide u v \<longrightarrow> u_id u = u_id v)"

lemma claims_iff:
  assumes "TrimSpace (u_login u) \<noteq> []"
  shows "k \<in> claims_of u \<longleftrightarrow> k = ''login:'' @ normalized (u_login u) \<or> (\<exists>a. addressed u = Some a \<and> k = ''email:'' @ a)
    \<or> (u_kind u = UserHuman \<and> (k = ''human:'' @ normalized (u_login u) \<or> (\<exists>a. addressed u = Some a \<and> k = ''human:'' @ a)))"
  using assms unfolding claims_of_def login_claims_def email_claims_def addressed_def
  by (cases "u_email u"; cases "u_kind u") auto

lemma claims_collide:
  assumes "TrimSpace (u_login u) \<noteq> []" "TrimSpace (u_login v) \<noteq> []"
  shows "(\<exists>k. k \<in> claims_of u \<and> k \<in> claims_of v) \<longleftrightarrow> collide u v"
  unfolding claims_iff [OF assms(1)] claims_iff [OF assms(2)] collide_def
  by (cases "addressed u"; cases "addressed v"; cases "u_kind u"; cases "u_kind v"; simp; (blast | metis)?)

lemma scan_blanks_iff:
  "sn_blanks (scan_identities us) = [] \<longleftrightarrow> (\<forall>u\<in>set us. TrimSpace (u_login u) \<noteq> [])"
  "sn_blank_emails (scan_identities us) = [] \<longleftrightarrow> (\<forall>u\<in>set us. \<not> lacks_email u)"
  unfolding scan_identities_def scan_rows_blanks by (simp_all only: set_order filter_empty_conv simp_thms identity_scan.simps
      append_Nil list.map_disc_iff)

lemma scan_claims: "claimed (sn_owners (scan_identities us)) k i \<longleftrightarrow> (\<exists>u\<in>set us. k \<in> claims_of u \<and> i = u_id u)"
  unfolding scan_identities_def scan_rows_owners(1) set_order by (simp add: claimed_def)

lemma scan_collisions_iff:
  "identity_collisions L (sn_owners (scan_identities us)) = []
     \<longleftrightarrow> (\<forall>u\<in>set us. \<forall>v\<in>set us. (\<exists>k. k \<in> claims_of u \<and> k \<in> claims_of v) \<longrightarrow> u_id u = u_id v)"
proof -
  let ?ow = "sn_owners (scan_identities us)"
  have ok: "owners_ok ?ow" unfolding scan_identities_def by (rule scan_rows_owners(2)) (simp add: owners_ok_def)
  have "identity_collisions L ?ow = [] \<longleftrightarrow> filter (\<lambda>(key, ids). length ids > 1) ?ow = []"
    unfolding identity_collisions_def sort_key_eq_Nil by (simp only: list.map_disc_iff)
  also have "\<dots> \<longleftrightarrow> \<not> (\<exists>(k, ids)\<in>set ?ow. length ids > 1)" by (auto simp: filter_empty_conv)
  also have "\<dots> \<longleftrightarrow> \<not> (\<exists>k i j. i \<noteq> j \<and> claimed ?ow k i \<and> claimed ?ow k j)" unfolding shared_key_iff [OF ok] ..
  finally show ?thesis unfolding scan_claims by blast
qed

lemmas scan_identities_facts = scan_blanks_iff scan_collisions_iff

lemma scan_clean_iff:
  "sn_blanks (scan_identities us) = [] \<and> sn_blank_emails (scan_identities us) = []
     \<and> identity_collisions L (sn_owners (scan_identities us)) = [] \<longleftrightarrow> unambiguous us"
  unfolding scan_identities_facts unambiguous_def using claims_collide by blast

section \<open>What the identity migration does\<close>

lemma identity_InrE:
  assumes "migrateUserIdentityKeys L s = Inr s'" "\<not> sc_identity_installed s"
  obtains d ks where "normalize_users (sc_db s) = Inr d" "populate_keys d = Inr (d\<lparr>identity_keys := ks\<rparr>)" "unambiguous (users (sc_db s))"
    "s' = s\<lparr>sc_db := d\<lparr>identity_keys := ks\<rparr>, sc_identity_installed := True\<rparr>"
proof -
  let ?a = "scan_identities (users (sc_db s))"
  have clean: "\<not> (sn_blanks ?a \<noteq> [] \<or> sn_blank_emails ?a \<noteq> [] \<or> identity_collisions L (sn_owners ?a) \<noteq> [])"
    using assms by (auto simp: migrateUserIdentityKeys_def Let_def split: if_splits)
  then have "unambiguous (users (sc_db s))" using scan_clean_iff [of "users (sc_db s)" L] by blast
  moreover obtain d d' where "normalize_users (sc_db s) = Inr d" "populate_keys d = Inr d'"
    "s' = s\<lparr>sc_db := d', sc_identity_installed := True\<rparr>"
    using assms clean by (auto simp: migrateUserIdentityKeys_def Let_def split: if_splits sum.splits)
  ultimately show thesis using that by (auto simp: populate_keys_def Let_def split: if_splits)
qed

lemma normalize_users_Inr:
  "normalize_users d = Inr d' \<Longrightarrow> d' = d\<lparr>users := map normalize_user (users d)\<rparr>
    \<and> distinct (map u_login (users d')) \<and> distinct (List.map_filter u_email (users d'))"
  by (auto simp: normalize_users_def Let_def split: if_splits)

lemma normalize_user_simps [simp]:
  "u_id (normalize_user u) = u_id u" "u_kind (normalize_user u) = u_kind u" "u_login (normalize_user u) = key_of (u_login u)"
  "u_email (normalize_user u) = map_option key_of (u_email u)" "u_banned_at (normalize_user u) = u_banned_at u"
  "u_token_version (normalize_user u) = u_token_version u" "u_service_secret_hash (normalize_user u) = u_service_secret_hash u"
  by (simp_all add: normalize_user_def)

lemma human_keysD:
  "k \<in> set (human_keys u) \<Longrightarrow> u_kind u = UserHuman \<and> ik_user k = u_id u
    \<and> (ik_identity k = key_of (u_login u) \<or> (\<exists>e. u_email u = Some e \<and> ik_identity k = key_of e))"
  by (cases "u_email u") (auto simp: human_keys_def split: if_splits)

lemma populate_keys_set:
  "populate_keys d = Inr d' \<Longrightarrow> set (identity_keys d') = set (identity_keys d) \<union> (\<Union>u\<in>set (users d). set (human_keys u))
    \<and> distinct (map ik_identity (identity_keys d')) \<and> d'\<lparr>identity_keys := identity_keys d\<rparr> = d"
  by (auto simp: populate_keys_def Let_def split: if_splits)

lemma unambiguous_keyed:
  assumes "unambiguous us" "u \<in> set us" "\<Union> (set ` human_keys ` normalize_user ` set us) \<subseteq> set ks"
  shows "ident_keyed ks (ident (normalize_user u))"
proof (cases "u_kind u")
  case UserHuman
  then obtain e where e: "u_email u = Some e" "TrimSpace e \<noteq> []" "TrimSpace (u_login u) \<noteq> []"
    using assms(1,2) by (auto simp: unambiguous_def lacks_email_def split: option.splits)
  have "set (human_keys (normalize_user u)) \<subseteq> set ks" using assms(2,3) by blast
  then show ?thesis using e UserHuman key_of_canonical by (simp add: ident_keyed_def ident_def human_keys_def)
qed (simp add: ident_keyed_def ident_def)

lemma identity_migration_ok:
  assumes "migrateUserIdentityKeys L s = Inr s'" "\<not> sc_identity_installed s" "distinct (map u_id (users (sc_db s)))"
    and "\<forall>k\<in>set (identity_keys (sc_db s)). ik_user k \<in> u_id ` set (users (sc_db s))"
  shows "identity_ok (sc_db s')"
proof -
  obtain d ks where 1: "normalize_users (sc_db s) = Inr d" "populate_keys d = Inr (d\<lparr>identity_keys := ks\<rparr>)" "unambiguous (users (sc_db s))"
    "s' = s\<lparr>sc_db := d\<lparr>identity_keys := ks\<rparr>, sc_identity_installed := True\<rparr>"
    using assms(1,2) by (rule identity_InrE)
  let ?us = "users (sc_db s)"
  have d: "d = (sc_db s)\<lparr>users := map normalize_user ?us\<rparr>" using normalize_users_Inr [OF 1(1)] by blast
  have ks: "set ks = set (identity_keys (sc_db s)) \<union> (\<Union>u\<in>set ?us. set (human_keys (normalize_user u)))"
    "distinct (map ik_identity ks)"
    using populate_keys_set [OF 1(2)] by (simp_all add: d)
  have "\<forall>k\<in>set ks. ik_user k \<in> u_id ` set ?us" unfolding ks(1) using assms(4) by (auto dest: human_keysD)
  moreover have "ident_keyed ks (ident (normalize_user u))" if "u \<in> set ?us" for u
    by (rule unambiguous_keyed [OF 1(3) that]) (auto simp: ks(1))
  moreover have "map fst (map ident (map normalize_user ?us)) = map u_id ?us" by (simp add: ident_def)
  ultimately show ?thesis
    using ks(2) assms(3) unfolding identity_ok_def identity_ok_on_def 1(4) d by (auto simp: image_image ident_def comp_def)
qed

text \<open>
  An unambiguous table goes through: the update cannot meet a duplicate, and no two accounts get the same key.
\<close>

lemma key_of_distinct:
  assumes "distinct (map f us)" "\<And>u v. u \<in> set us \<Longrightarrow> v \<in> set us \<Longrightarrow> key_of (g u) = key_of (g v) \<Longrightarrow> f u = f v"
  shows "distinct (map (\<lambda>u. key_of (g u)) us)"
proof -
  have "inj_on (\<lambda>u. key_of (g u)) (set us)" by (rule inj_onI) (metis assms distinct_key_eq)
  then show ?thesis using assms(1) by (simp add: distinct_map)
qed

lemma map_filter_email:
  "List.map_filter u_email (map normalize_user us) = map (\<lambda>u. key_of (the (u_email u))) (filter (\<lambda>u. u_email u \<noteq> None) us)"
  by (induction us) (auto simp: List.map_filter_simps split: option.split)

lemma normalize_unambiguous:
  assumes "unambiguous us" "distinct (map u_id us)" "\<And>u e. u \<in> set us \<Longrightarrow> u_email u = Some e \<Longrightarrow> TrimSpace e \<noteq> []"
  shows "distinct (map u_login (map normalize_user us)) \<and> distinct (List.map_filter u_email (map normalize_user us))"
proof
  have "distinct (map (\<lambda>u. key_of (u_login u)) us)"
  proof (rule key_of_distinct [OF assms(2)])
    fix u v assume uv: "u \<in> set us" "v \<in> set us" "key_of (u_login u) = key_of (u_login v)"
    then have "collide u v" using key_of_cong [OF uv(3)] by (simp add: collide_def)
    with uv(1,2) assms(1) show "u_id u = u_id v" by (simp add: unambiguous_def)
  qed
  then show "distinct (map u_login (map normalize_user us))" by (simp add: comp_def)
  let ?vs = "filter (\<lambda>u. u_email u \<noteq> None) us"
  have "distinct (map (\<lambda>u. key_of (the (u_email u))) ?vs)"
  proof (rule key_of_distinct)
    show "distinct (map u_id ?vs)" using assms(2) by (simp add: distinct_map_filter)
    fix u v assume uv: "u \<in> set ?vs" "v \<in> set ?vs" "key_of (the (u_email u)) = key_of (the (u_email v))"
    then obtain e f where "u_email u = Some e" "u_email v = Some f" "normalized e = normalized f"
      using key_of_cong [OF uv(3)] by auto
    then have "collide u v" using assms(3) uv(1,2) by (simp add: collide_def addressed_def)
    with uv(1,2) assms(1) show "u_id u = u_id v" by (simp add: unambiguous_def)
  qed
  then show "distinct (List.map_filter u_email (map normalize_user us))" unfolding map_filter_email .
qed

lemma human_keys_owner:
  assumes "unambiguous us" "u \<in> set us" "v \<in> set us" "k \<in> set (human_keys (normalize_user u))" "l \<in> set (human_keys (normalize_user v))"
    and "ik_identity k = ik_identity l"
  shows "k = l"
proof -
  have names: "\<exists>s. (s = u_login x \<or> u_email x = Some s) \<and> ik_identity m = key_of s \<and> u_kind x = UserHuman \<and> ik_user m = u_id x"
    if "m \<in> set (human_keys (normalize_user x))" for m x
    using human_keysD [OF that] by auto
  have mail: "addressed x = Some (normalized e)" if "x \<in> set us" "u_email x = Some e" "u_kind x = UserHuman" for x e
    using assms(1) that by (auto simp: unambiguous_def lacks_email_def addressed_def)
  obtain s t where st: "s = u_login u \<or> u_email u = Some s" "ik_identity k = key_of s" "u_kind u = UserHuman" "ik_user k = u_id u"
    "t = u_login v \<or> u_email v = Some t" "ik_identity l = key_of t" "u_kind v = UserHuman" "ik_user l = u_id v"
    using names [OF assms(4)] names [OF assms(5)] by blast
  have "normalized s = normalized t" using st assms(6) key_of_cong by metis
  then have "collide u v" using st mail [OF assms(2)] mail [OF assms(3)] by (auto simp: collide_def)
  then have "u_id u = u_id v" using assms(1-3) by (simp add: unambiguous_def)
  with st assms(6) show ?thesis by (cases k; cases l) simp
qed

lemma distinct_map_key:
  assumes "distinct xs" "\<And>x y. x \<in> set xs \<Longrightarrow> y \<in> set xs \<Longrightarrow> f x = f y \<Longrightarrow> x = y"
  shows "distinct (map f xs)"
  using assms by (auto simp: distinct_map inj_on_def)

lemma human_keys_iff:
  "\<lparr>ik_identity = k, ik_user = i\<rparr> \<in> set (human_keys (normalize_user u)) \<longleftrightarrow>
     u_kind u = UserHuman \<and> u_id u = i \<and> (k = key_of (u_login u) \<or> (\<exists>e. u_email u = Some e \<and> k = key_of e))"
  by (cases "u_email u") (auto simp: human_keys_def normalize_user_def)

text \<open>The key table an unambiguous table of accounts gets: the two names of each person, each with one owner.\<close>

definition keys_of_humans :: "user list \<Rightarrow> identity_key list \<Rightarrow> bool" where
  "keys_of_humans us ks \<longleftrightarrow> distinct (map ik_identity ks) \<and> (\<forall>k i. \<lparr>ik_identity = k, ik_user = i\<rparr> \<in> set ks \<longleftrightarrow>
     (\<exists>u\<in>set us. u_kind u = UserHuman \<and> u_id u = i \<and> (k = key_of (u_login u) \<or> (\<exists>e. u_email u = Some e \<and> k = key_of e))))"

lemma populate_unambiguous:
  assumes "unambiguous us"
  shows "\<exists>ks. populate_keys (d\<lparr>users := map normalize_user us, identity_keys := []\<rparr>)
    = Inr (d\<lparr>users := map normalize_user us, identity_keys := ks\<rparr>) \<and> keys_of_humans us ks"
proof -
  let ?ks = "remdups (concat (map human_keys (map normalize_user us)))"
  have "distinct (map ik_identity ?ks)"
    by (rule distinct_map_key) (auto dest: human_keys_owner [OF assms])
  moreover from this have "keys_of_humans us ?ks" by (simp add: keys_of_humans_def human_keys_iff)
  ultimately show ?thesis by (intro exI [of _ ?ks]) (simp add: populate_keys_def Let_def)
qed


end
