(* ===== verification/Migration_Runs.thy ===== *)
theory Migration_Runs
  imports Migration_Properties
begin

text \<open>
  Runs of the schema migration: what every statement keeps, what a finished run establishes, and that
  statements already done do nothing when they are run again.
\<close>

section \<open>Laws\<close>

text \<open>The primary keys and the unique indexes that the tags of \<open>models.go\<close> declare.\<close>

definition model_ok :: "db \<Rightarrow> bool" where
  "model_ok d \<longleftrightarrow>
     distinct (map u_id (users d)) \<and> distinct (map u_login (users d)) \<and> distinct (List.map_filter u_email (users d))
     \<and> distinct (map r_id (roles d)) \<and> distinct (map r_name (roles d)) \<and> distinct (map mount_pair (role_mounts d))
     \<and> distinct (map (\<lambda>t. (rt_role t, rt_tag t)) (role_tags d))
     \<and> distinct (map ur_id (user_roles d)) \<and> distinct (map (\<lambda>m. (ur_user m, ur_role m)) (user_roles d))
     \<and> distinct (map (\<lambda>t. (urt_user_role t, urt_tag t)) (user_role_tags d))
     \<and> distinct (map k_kid (signing_keys d)) \<and> sessions_ok d \<and> distinct (map ph_id (password_histories d))
     \<and> distinct (map o_id (email_otps d)) \<and> step_ups_ok d \<and> distinct (map q_id (role_requests d)) \<and> invites_ok d \<and> links_ok d"

text \<open>
  The documentation of \<open>AutoMigrate\<close>: it creates what the models declare and is missing (so it fails when the
  rows violate a declared key) and deletes nothing; on tables that are as declared it does nothing.
\<close>

definition automigrate_ok :: "migrator \<Rightarrow> bool" where
  "automigrate_ok G \<longleftrightarrow>
     (\<forall>s s'. gorm_AutoMigrate G s = Inr s' \<longrightarrow> model_ok (sc_db s) \<and> s' = s\<lparr>sc_tables := True\<rparr>)
     \<and> (\<forall>s. sc_tables s \<longrightarrow> model_ok (sc_db s) \<longrightarrow> gorm_AutoMigrate G s = Inr s)"

text \<open>
  The databases a migration may find: whatever the catalogue has is enforced; an account banned by a version
  of the program that counts token versions has no live session; and the signing keys are as the program
  leaves them.
\<close>

definition versioned_bans :: "db \<Rightarrow> bool" where
  "versioned_bans d \<longleftrightarrow> (\<forall>u\<in>set (users d). \<forall>x\<in>set (refresh_sessions d).
     u_banned_at u \<noteq> None \<and> u_token_version u \<noteq> 0 \<and> s_user x = u_id u \<longrightarrow> s_revoked_at x \<noteq> None)"

definition legacy_ok :: "schema \<Rightarrow> bool" where
  "legacy_ok s \<longleftrightarrow>
     (\<forall>ix\<in>set (sc_indexes s). index_holds ix (sc_db s)) \<and> (\<forall>c\<in>set (sc_constraints s). constraint_holds c (sc_db s))
     \<and> (sc_tables s \<longrightarrow> model_ok (sc_db s)) \<and> (sc_identity_installed s \<longrightarrow> identity_ok (sc_db s))
     \<and> distinct (map ik_identity (identity_keys (sc_db s)))
     \<and> (\<forall>k\<in>set (identity_keys (sc_db s)). ik_user k \<in> u_id ` set (users (sc_db s)))
     \<and> versioned_bans (sc_db s) \<and> keys_ok (sc_db s)"

section \<open>What the changes of rows keep\<close>

text \<open>Outside the columns a change writes, the tables of the two databases agree.\<close>

lemma map_filter_normalize: "map key_of (List.map_filter u_email (map normalize_user us)) = map key_of (List.map_filter u_email us)"
  by (induction us) (auto simp: List.map_filter_simps split: option.split)

lemma normalize_keeps:
  "index_holds ix (d\<lparr>users := map normalize_user (users d)\<rparr>) = index_holds ix d"
  "constraint_holds c (d\<lparr>users := map normalize_user (users d)\<rparr>) = constraint_holds c d"
  by (cases ix; simp add: comp_def map_filter_normalize)
    (cases c; simp add: comp_def user_known_def role_known_def exists_row_def list_all_iff list_ex_iff)

lemma keys_keep_indexes: "index_holds ix (d\<lparr>identity_keys := ks\<rparr>) = index_holds ix d"
  by (cases ix) simp_all

lemma keys_keep_constraints: "constraint_holds c (d\<lparr>identity_keys := ks\<rparr>) = constraint_holds c d"
  by (cases c) (simp_all add: user_known_def role_known_def)

lemma keys_keep_model: "model_ok (d\<lparr>identity_keys := ks\<rparr>) = model_ok d"
  by (simp add: model_ok_def sessions_ok_def step_ups_ok_def invites_ok_def links_ok_def)

lemma normalize_model:
  assumes "model_ok d" "normalize_users d = Inr d'"
  shows "model_ok d'"
proof -
  have d': "d' = d\<lparr>users := map normalize_user (users d)\<rparr>" and "distinct (map u_login (users d'))" "distinct (List.map_filter u_email (users d'))"
    using normalize_users_Inr [OF assms(2)] by blast+
  moreover have "map u_id (users d') = map u_id (users d)" by (simp add: d')
  ultimately show ?thesis using assms(1) unfolding model_ok_def by (simp add: comp_def sessions_ok_def step_ups_ok_def invites_ok_def links_ok_def)
qed

text \<open>A change of token versions and sessions.\<close>

lemma versions_columns:
  "map (\<lambda>u. (ident u, u_service_secret_hash u)) (users (migrate_token_versions now d)) = map (\<lambda>u. (ident u, u_service_secret_hash u)) (users d)"
  "map s_id (refresh_sessions (migrate_token_versions now d)) = map s_id (refresh_sessions d)"
  "map session_key (refresh_sessions (migrate_token_versions now d)) = map session_key (refresh_sessions d)"
  "(migrate_token_versions now d)\<lparr>users := [], refresh_sessions := []\<rparr> = d\<lparr>users := [], refresh_sessions := []\<rparr>"
  by (simp_all add: migrate_token_versions_def Let_def update_rows_def comp_def ident_def session_key_def)

lemma versions_tables:
  "roles (migrate_token_versions now d) = roles d" "role_mounts (migrate_token_versions now d) = role_mounts d"
  "role_tags (migrate_token_versions now d) = role_tags d" "user_roles (migrate_token_versions now d) = user_roles d"
  "user_role_tags (migrate_token_versions now d) = user_role_tags d" "signing_keys (migrate_token_versions now d) = signing_keys d"
  "password_histories (migrate_token_versions now d) = password_histories d" "email_otps (migrate_token_versions now d) = email_otps d"
  "step_ups (migrate_token_versions now d) = step_ups d" "role_requests (migrate_token_versions now d) = role_requests d"
  "invites (migrate_token_versions now d) = invites d" "magic_links (migrate_token_versions now d) = magic_links d"
  "identity_keys (migrate_token_versions now d) = identity_keys d"
  by (simp_all add: migrate_token_versions_def Let_def)

lemma versions_user_columns:
  "map ident (users (migrate_token_versions now d)) = map ident (users d)"
  "map u_id (users (migrate_token_versions now d)) = map u_id (users d)"
  "map u_login (users (migrate_token_versions now d)) = map u_login (users d)"
  "map u_email (users (migrate_token_versions now d)) = map u_email (users d)"
  by (simp_all add: migrate_token_versions_def Let_def update_rows_def comp_def ident_def)

lemma map_filter_column: "List.map_filter f xs = map the (filter (\<lambda>y. y \<noteq> None) (map f xs))"
  by (induction xs) (auto simp: List.map_filter_simps split: option.split)

lemma versions_indexes: "index_holds ix (migrate_token_versions now d) = index_holds ix d"
proof (cases ix)
  case Users_login_ci_unique
  have split: "map (\<lambda>u. key_of (u_login u)) us = map key_of (map u_login us)" for us by simp
  show ?thesis unfolding Users_login_ci_unique index_holds.simps split versions_user_columns ..
qed (simp_all add: versions_tables versions_user_columns map_filter_column)

lemma list_ex_map: "list_ex P (map f xs) = list_ex (\<lambda>x. P (f x)) xs"
  by (induction xs) auto

lemma versions_rows:
  assumes "\<And>u. P (u\<lparr>u_token_version := 1\<rparr>) = P u"
  shows "list_all P (users (migrate_token_versions now d)) = list_all P (users d)"
    "list_ex P (users (migrate_token_versions now d)) = list_ex P (users d)"
proof -
  have same: "P (if legacy_banned u then u\<lparr>u_token_version := 1\<rparr> else u) = P u" for u using assms by simp
  show "list_all P (users (migrate_token_versions now d)) = list_all P (users d)"
    by (simp add: migrate_token_versions_def Let_def update_rows_def list.pred_map comp_def same)
  show "list_ex P (users (migrate_token_versions now d)) = list_ex P (users d)"
    by (simp add: migrate_token_versions_def Let_def update_rows_def list_ex_map same)
qed

lemma versions_known: "user_known (migrate_token_versions now d) i = user_known d i"
  "role_known (migrate_token_versions now d) j = role_known d j"
  by (simp_all add: user_known_def role_known_def exists_row_def versions_rows versions_tables)

lemma versions_constraints: "constraint_holds c (migrate_token_versions now d) = constraint_holds c d"
  by (cases c) (simp_all add: versions_tables versions_rows versions_known)

lemma versions_model: "model_ok (migrate_token_versions now d) = model_ok d"
  by (simp add: model_ok_def versions_tables versions_user_columns versions_columns map_filter_column
      sessions_ok_def sessions_ok_on_def step_ups_ok_def invites_ok_def links_ok_def)

lemma versions_bans:
  assumes "versioned_bans d" "distinct (map u_id (users d))"
  shows "ban_ok (migrate_token_versions now d) \<and> versioned_bans (migrate_token_versions now d)"
proof -
  let ?m = "set (map u_id (filter legacy_banned (users d)))"
  have "s_revoked_at x \<noteq> None"
    if x: "x \<in> set (refresh_sessions (migrate_token_versions now d))" and u: "u \<in> set (users d)" "u_banned_at u \<noteq> None" "s_user x = u_id u"
    for x u
  proof -
    obtain y where y: "y \<in> set (refresh_sessions d)"
      "x = (if s_user y \<in> ?m \<and> s_revoked_at y = None then y\<lparr>s_revoked_at := Some now\<rparr> else y)"
      using x by (auto simp: migrate_token_versions_def Let_def update_rows_def)
    have mine: "s_user y = u_id u" using y(2) u(3) by (simp split: if_splits)
    have "u_id u \<in> ?m" if "u_token_version u = 0" using that u by (auto simp: legacy_banned_def)
    moreover have "s_revoked_at y \<noteq> None" if "u_token_version u \<noteq> 0"
      using that assms(1) u(1,2) y(1) mine unfolding versioned_bans_def by blast
    ultimately show ?thesis using y(2) mine by auto
  qed
  moreover have "\<exists>u\<in>set (users d). u_banned_at v = u_banned_at u \<and> u_id v = u_id u"
    if "v \<in> set (users (migrate_token_versions now d))" for v
    using that by (auto simp: migrate_token_versions_def Let_def update_rows_def)
  ultimately show ?thesis unfolding ban_ok_def versioned_bans_def banned_ids_def by (auto; metis)
qed

section \<open>Every statement keeps what a database enforces\<close>

lemma identity_keeps:
  assumes "migrateUserIdentityKeys L s = Inr s'" "legacy_ok s" "sc_tables s"
  shows "legacy_ok s' \<and> sc_tables s'"
proof (cases "sc_identity_installed s")
  case True
  then show ?thesis using assms by (simp add: migrateUserIdentityKeys_def)
next
  case False
  obtain d ks where 1: "normalize_users (sc_db s) = Inr d" "populate_keys d = Inr (d\<lparr>identity_keys := ks\<rparr>)"
    "s' = s\<lparr>sc_db := d\<lparr>identity_keys := ks\<rparr>, sc_identity_installed := True\<rparr>"
    using assms(1) False by (rule identity_InrE)
  have m: "model_ok (sc_db s)" using assms(2,3) by (simp add: legacy_ok_def)
  have ok: "identity_ok (sc_db s')"
    by (rule identity_migration_ok [OF assms(1) False]) (use m assms(2) in \<open>simp_all add: model_ok_def legacy_ok_def\<close>)
  have d: "d = (sc_db s)\<lparr>users := map normalize_user (users (sc_db s))\<rparr>" using normalize_users_Inr [OF 1(1)] by blast
  have "versioned_bans (sc_db s')" using assms(2) by (auto simp: 1(3) d versioned_bans_def legacy_ok_def)
  moreover have "\<forall>k\<in>set ks. ik_user k \<in> u_id ` set (users (sc_db s'))"
    using ok by (auto simp: identity_ok_def identity_ok_on_def 1(3) ident_def image_iff)
  moreover have "distinct (map ik_identity ks)" using ok by (simp add: identity_ok_def identity_ok_on_def 1(3))
  ultimately show ?thesis
    using assms(2,3) ok normalize_model [OF m 1(1)]
    by (simp add: legacy_ok_def 1(3) keys_keep_indexes keys_keep_constraints keys_keep_model normalize_keeps d keys_ok_def)
qed

lemma versions_keep:
  assumes "legacy_ok s" "sc_tables s"
  shows "legacy_ok (s\<lparr>sc_db := migrate_token_versions now (sc_db s)\<rparr>)"
proof -
  have "distinct (map u_id (users (sc_db s)))" using assms by (simp add: legacy_ok_def model_ok_def)
  then have "versioned_bans (migrate_token_versions now (sc_db s))" using versions_bans assms(1) by (simp add: legacy_ok_def)
  moreover have "u_id ` set (users (migrate_token_versions now (sc_db s))) = u_id ` set (users (sc_db s))"
    by (metis list.set_map versions_user_columns(2))
  moreover have "identity_ok (migrate_token_versions now (sc_db s)) = identity_ok (sc_db s)"
    by (simp add: identity_ok_def versions_user_columns versions_tables)
  ultimately show ?thesis
    using assms by (simp add: legacy_ok_def versions_indexes versions_constraints versions_model versions_tables keys_ok_def)
qed

lemma roles_trimmed:
  assumes "migrateLegacyRoleNames s = Inr s'"
  shows "s' = s\<lparr>sc_db := (sc_db s)\<lparr>roles := trim_names (roles (sc_db s))\<rparr>,
      sc_indexes := List.insert Roles_name_ci_unique (sc_indexes s), sc_constraints := List.insert Roles_name_not_blank (sc_constraints s)\<rparr>
    \<and> distinct (map r_name (trim_names (roles (sc_db s))))
    \<and> (Roles_name_ci_unique \<in> set (sc_indexes s) \<or> index_holds Roles_name_ci_unique (sc_db s'))
    \<and> (Roles_name_not_blank \<in> set (sc_constraints s) \<or> constraint_holds Roles_name_not_blank (sc_db s'))"
  using assms unfolding migrateLegacyRoleNames_def by (auto simp: Let_def split: prod.splits if_splits)

lemma trim_names_columns:
  "map r_id (trim_names rs) = map r_id rs" "map (\<lambda>r. key_of (r_name r)) (trim_names rs) = map (\<lambda>r. key_of (r_name r)) rs"
  "map (\<lambda>r. BTRIM (r_name r)) (trim_names rs) = map (\<lambda>r. BTRIM (r_name r)) rs"
  by (simp_all add: trim_names_def comp_def key_of_def)

lemma trim_names_keep:
  "index_holds ix (d\<lparr>roles := trim_names (roles d)\<rparr>) = index_holds ix d"
  "constraint_holds c (d\<lparr>roles := trim_names (roles d)\<rparr>) = constraint_holds c d"
proof -
  show "index_holds ix (d\<lparr>roles := trim_names (roles d)\<rparr>) = index_holds ix d" by (cases ix) (simp_all add: trim_names_columns)
  have known: "role_known (d\<lparr>roles := trim_names (roles d)\<rparr>) i = role_known d i" "user_known (d\<lparr>roles := trim_names (roles d)\<rparr>) i = user_known d i" for i
    by (simp_all add: role_known_def user_known_def exists_row_def trim_names_def list_ex_map)
  have blank: "list_all (\<lambda>r. BTRIM (r_name r) \<noteq> []) (trim_names rs) = list_all (\<lambda>r. BTRIM (r_name r) \<noteq> []) rs" for rs
    by (simp add: trim_names_def list.pred_map comp_def)
  show "constraint_holds c (d\<lparr>roles := trim_names (roles d)\<rparr>) = constraint_holds c d"
    by (cases c) (simp_all add: known blank)
qed

lemma roles_keep:
  assumes "migrateLegacyRoleNames s = Inr s'" "legacy_ok s" "sc_tables s"
  shows "legacy_ok s' \<and> sc_tables s'"
proof -
  note t = roles_trimmed [OF assms(1)]
  have "model_ok (sc_db s')"
    using t assms(2,3) by (simp add: legacy_ok_def model_ok_def trim_names_columns sessions_ok_def step_ups_ok_def invites_ok_def links_ok_def)
  moreover have "identity_ok (sc_db s') = identity_ok (sc_db s)" "versioned_bans (sc_db s') = versioned_bans (sc_db s)"
    "keys_ok (sc_db s') = keys_ok (sc_db s)"
    using t by (simp_all add: identity_ok_def versioned_bans_def keys_ok_def)
  moreover have same: "index_holds ix (sc_db s') = index_holds ix (sc_db s)" "constraint_holds c (sc_db s') = constraint_holds c (sc_db s)" for ix c
    using t trim_names_keep [of _ "sc_db s"] by simp_all
  moreover have "\<forall>ix\<in>set (sc_indexes s'). index_holds ix (sc_db s)" "\<forall>c\<in>set (sc_constraints s'). constraint_holds c (sc_db s)"
    using t assms(2) unfolding same legacy_ok_def by (auto simp del: index_holds.simps constraint_holds.simps)
  ultimately show ?thesis
    using t assms(2,3) unfolding legacy_ok_def by simp
qed

lemma copy_parent_ids_Inr:
  assumes "copy_parent_ids s = Inr s'"
  shows "s' = s\<lparr>sc_db := (sc_db s)\<lparr>role_mounts := role_mounts (sc_db s) @ filter (\<lambda>m. m \<notin> set (role_mounts (sc_db s))) (legacy_mounts s)\<rparr>\<rparr>
    \<and> (Role_mounts_parent_fk \<in> set (sc_constraints s) \<longrightarrow> constraint_holds Role_mounts_parent_fk (sc_db s'))"
  using assms by (auto simp: copy_parent_ids_def Let_def split: if_splits)

lemma legacy_mounts_facts:
  assumes "distinct (map r_id (roles (sc_db s)))"
  shows "distinct (map mount_pair (legacy_mounts s))" "m \<in> set (legacy_mounts s) \<Longrightarrow> role_known (sc_db s) (m_child m)"
proof -
  have columns: "map m_child (List.map_filter (\<lambda>r. map_option (\<lambda>p. \<lparr>m_child = r_id r, m_parent = p\<rparr>) (f (r_id r))) rs)
      = map r_id (filter (\<lambda>r. f (r_id r) \<noteq> None) rs)" for f rs
    by (induction rs) (auto simp: List.map_filter_simps split: option.split)
  have "distinct (map m_child (legacy_mounts s))"
    unfolding legacy_mounts_def columns [of "sc_parent_id s" "roles (sc_db s)"] using assms by (rule distinct_map_filter)
  then show "distinct (map mount_pair (legacy_mounts s))" by (auto simp: distinct_map inj_on_def mount_pair_def)
  show "role_known (sc_db s) (m_child m)" if "m \<in> set (legacy_mounts s)"
    using that by (auto simp: legacy_mounts_def map_filter_def role_known_def table_simps)
qed

lemma known_mounts [simp]:
  "role_known (d\<lparr>role_mounts := ms\<rparr>) i = role_known d i" "user_known (d\<lparr>role_mounts := ms\<rparr>) i = user_known d i"
  by (simp_all add: role_known_def user_known_def)

lemma copy_keeps:
  assumes "copy_parent_ids s = Inr s'" "legacy_ok s" "sc_tables s"
  shows "legacy_ok s' \<and> sc_tables s'"
proof -
  define new where "new = filter (\<lambda>m. m \<notin> set (role_mounts (sc_db s))) (legacy_mounts s)"
  note c = copy_parent_ids_Inr [OF assms(1), folded new_def]
  have m: "model_ok (sc_db s)" using assms(2,3) by (simp add: legacy_ok_def)
  then have ids: "distinct (map r_id (roles (sc_db s)))" by (simp add: model_ok_def)
  have "distinct (map mount_pair new)" unfolding new_def by (rule distinct_map_filter) (rule legacy_mounts_facts [OF ids])
  moreover have "mount_pair ` set new \<inter> mount_pair ` set (role_mounts (sc_db s)) = {}"
    by (auto simp: new_def mount_pair_def) (metis role_mount.surjective old.unit.exhaust)
  ultimately have "model_ok (sc_db s')"
    using m c by (simp add: model_ok_def sessions_ok_def step_ups_ok_def invites_ok_def links_ok_def Int_commute)
  moreover have "index_holds ix (sc_db s') = index_holds ix (sc_db s)" for ix using c by (cases ix) simp_all
  moreover have "constraint_holds k (sc_db s')" if "k \<in> set (sc_constraints s)" for k
  proof -
    have old: "constraint_holds k (sc_db s)" using assms(2) that unfolding legacy_ok_def by blast
    show ?thesis
    proof (cases k)
      case Role_mounts_child_fk
      have "list_all (\<lambda>m. role_known (sc_db s) (m_child m)) new"
        unfolding list_all_iff using legacy_mounts_facts(2) [OF ids] by (auto simp: new_def)
      then show ?thesis using old c by (simp add: Role_mounts_child_fk)
    next
      case Role_mounts_parent_fk
      then show ?thesis using c that by blast
    qed (use old c in simp_all)
  qed
  moreover have "identity_ok (sc_db s') = identity_ok (sc_db s)" "versioned_bans (sc_db s') = versioned_bans (sc_db s)"
    "keys_ok (sc_db s') = keys_ok (sc_db s)"
    using c by (simp_all add: identity_ok_def versioned_bans_def keys_ok_def)
  ultimately show ?thesis using c assms(2,3) unfolding legacy_ok_def by simp
qed

text \<open>The statements that change the catalogue only.\<close>

fun catalogue :: "ddl \<Rightarrow> bool" where
  "catalogue (CreateExtension e) = True"
| "catalogue (CreateType t vs) = True"
| "catalogue (AddValue t v) = True"
| "catalogue (CreateIndex ix) = True"
| "catalogue (AddConstraint c) = True"
| "catalogue _ = False"

lemma legacy_ok_catalogue:
  "legacy_ok (s\<lparr>sc_extensions := es\<rparr>) = legacy_ok s" "legacy_ok (s\<lparr>sc_types := ts\<rparr>) = legacy_ok s"
  "legacy_ok s \<Longrightarrow> index_holds ix (sc_db s) \<Longrightarrow> legacy_ok (s\<lparr>sc_indexes := sc_indexes s @ [ix]\<rparr>)"
  "legacy_ok s \<Longrightarrow> constraint_holds c (sc_db s) \<Longrightarrow> legacy_ok (s\<lparr>sc_constraints := sc_constraints s @ [c]\<rparr>)"
  by (auto simp: legacy_ok_def)

lemma catalogue_keeps:
  assumes "exec G now q s = Inr s'" "legacy_ok s" "catalogue q"
  shows "legacy_ok s' \<and> sc_tables s' = sc_tables s"
  using assms by (cases q) (auto simp: exec_def legacy_ok_catalogue split: if_splits option.splits)

lemma automigrated:
  "automigrate_ok G \<Longrightarrow> exec G now AutoMigrate s = Inr s' \<Longrightarrow> model_ok (sc_db s) \<and> s' = s\<lparr>sc_tables := True\<rparr>"
  unfolding automigrate_ok_def by (cases "gorm_AutoMigrate G s") (simp_all add: exec_def)

lemma exec_keeps:
  assumes "automigrate_ok G" "exec G now q s = Inr s'" "legacy_ok s" "sc_tables s \<or> q \<in> set enum_statements \<or> q = AutoMigrate"
  shows "legacy_ok s' \<and> (sc_tables s \<or> q = AutoMigrate \<longrightarrow> sc_tables s')"
proof (cases "sc_tables s \<or> q = AutoMigrate")
  case True
  then show ?thesis
  proof (cases q)
    case AutoMigrate
    then have "model_ok (sc_db s)" "s' = s\<lparr>sc_tables := True\<rparr>" using automigrated assms(1,2) by blast+
    then show ?thesis using assms(3) by (simp add: legacy_ok_def)
  next
    case MigrateUserIdentityKeys
    then show ?thesis using assms True identity_keeps by (simp add: exec_def)
  next
    case MigrateTokenVersions
    then show ?thesis using assms True versions_keep by (auto simp: exec_def)
  next
    case MigrateLegacyRoleNames
    then show ?thesis using assms True roles_keep by (simp add: exec_def)
  next
    case CopyParentIDs
    then show ?thesis using assms True copy_keeps by (simp add: exec_def)
  qed (use catalogue_keeps [OF assms(2,3)] True in simp_all)
next
  case False
  then have "q \<in> set enum_statements" using assms(4) by blast
  then show ?thesis using catalogue_keeps [OF assms(2,3)] False by (auto simp: enum_statements_def)
qed

section \<open>A statement that is done stays done\<close>

definition names_settled :: "role list \<Rightarrow> bool" where
  "names_settled rs \<longleftrightarrow> fst (group_names (order_asc r_id rs) ([], [])) = []
     \<and> colliding_names (snd (group_names (order_asc r_id rs) ([], []))) = [] \<and> trim_names rs = rs \<and> distinct (map r_name rs)"

fun settled :: "ddl \<Rightarrow> schema \<Rightarrow> bool" where
  "settled (CreateExtension e) s = (e \<in> set (sc_extensions s))"
| "settled (CreateType t vs) s = (map_of (sc_types s) t \<noteq> None)"
| "settled (AddValue t v) s = (case map_of (sc_types s) t of None \<Rightarrow> False | Some vs \<Rightarrow> v \<in> set vs)"
| "settled AutoMigrate s = sc_tables s"
| "settled MigrateUserIdentityKeys s = sc_identity_installed s"
| "settled MigrateTokenVersions s = (filter legacy_banned (users (sc_db s)) = [])"
| "settled MigrateLegacyRoleNames s = (names_settled (roles (sc_db s)) \<and> Roles_name_ci_unique \<in> set (sc_indexes s)
     \<and> Roles_name_not_blank \<in> set (sc_constraints s))"
| "settled CopyParentIDs s = (set (legacy_mounts s) \<subseteq> set (role_mounts (sc_db s)))"
| "settled (CreateIndex ix) s = (ix \<in> set (sc_indexes s))"
| "settled (AddConstraint c) s = (c \<in> set (sc_constraints s))"

lemma versions_settled:
  assumes "filter legacy_banned (users d) = []"
  shows "migrate_token_versions now d = d"
proof -
  have "update_rows legacy_banned f (users d) = users d" for f by (rule update_rows_id) (use assms in \<open>auto simp: filter_empty_conv\<close>)
  moreover have "update_rows (\<lambda>x. s_user x \<in> set [] \<and> s_revoked_at x = None) g ss = ss" for g ss by (rule update_rows_id) simp
  ultimately show ?thesis using assms by (cases d) (simp add: migrate_token_versions_def Let_def)
qed

lemma settled_idle:
  assumes "automigrate_ok G" "settled q s" "legacy_ok s"
  shows "exec G now q s = Inr s"
proof (cases q)
  case AutoMigrate
  then have "sc_tables s" "model_ok (sc_db s)" using assms(2,3) by (simp_all add: legacy_ok_def)
  then have "gorm_AutoMigrate G s = Inr s" using assms(1) unfolding automigrate_ok_def by blast
  then show ?thesis by (simp add: AutoMigrate exec_def)
next
  case MigrateUserIdentityKeys
  then show ?thesis using assms(2) by (simp add: exec_def migrateUserIdentityKeys_def)
next
  case MigrateTokenVersions
  then show ?thesis using assms(2) versions_settled by (simp add: exec_def)
next
  case MigrateLegacyRoleNames
  then obtain gs where "group_names (order_asc r_id (roles (sc_db s))) ([], []) = ([], gs)" "colliding_names gs = []"
    using assms(2) by (cases "group_names (order_asc r_id (roles (sc_db s))) ([], [])") (simp add: names_settled_def)
  moreover have "(sc_db s)\<lparr>roles := trim_names (roles (sc_db s))\<rparr> = sc_db s"
    using MigrateLegacyRoleNames assms(2) by (simp add: names_settled_def)
  ultimately show ?thesis using MigrateLegacyRoleNames assms(2)
    by (simp add: exec_def migrateLegacyRoleNames_def names_settled_def Let_def)
next
  case CopyParentIDs
  then have "filter (\<lambda>m. m \<notin> set (role_mounts (sc_db s))) (legacy_mounts s) = []" using assms(2) by (auto simp: filter_empty_conv)
  moreover have "Role_mounts_parent_fk \<in> set (sc_constraints s) \<Longrightarrow> constraint_holds Role_mounts_parent_fk (sc_db s)"
    using assms(3) unfolding legacy_ok_def by blast
  ultimately show ?thesis by (simp add: CopyParentIDs exec_def copy_parent_ids_def Let_def)
qed (use assms(2) in \<open>auto simp: exec_def split: option.splits\<close>)

lemma trim_names_idem: "trim_names (trim_names rs) = trim_names rs"
  by (simp add: trim_names_def comp_def)

lemma trim_names_Cons: "trim_names (r # rs) = r\<lparr>r_name := BTRIM (r_name r)\<rparr> # trim_names rs"
  by (simp add: trim_names_def)

text \<open>Trimming does not change what the check of the names sees.\<close>

lemma add_group_columns:
  "map (\<lambda>(k, rows). (k, map fst rows)) (add_group k (i, n) gs) = map (\<lambda>(k, rows). (k, map fst rows)) (add_group k (i, n') hs)"
  if "map (\<lambda>(k, rows). (k, map fst rows)) gs = map (\<lambda>(k, rows). (k, map fst rows)) hs"
  using that
proof (induction gs arbitrary: hs)
  case (Cons g gs)
  then obtain h hs' where "hs = h # hs'" by (cases hs) auto
  with Cons show ?case by (cases g; cases h) auto
qed simp

definition ids_of :: "groups \<Rightarrow> (string \<times> uuid list) list" where
  "ids_of gs = map (\<lambda>(k, rows). (k, map fst rows)) gs"

lemma group_names_trimmed:
  assumes "ids_of gs = ids_of hs" "map fst bs = map fst cs"
  shows "map fst (fst (group_names (trim_names rs) (bs, gs))) = map fst (fst (group_names rs (cs, hs)))
    \<and> ids_of (snd (group_names (trim_names rs) (bs, gs))) = ids_of (snd (group_names rs (cs, hs)))"
  using assms
proof (induction rs arbitrary: bs cs gs hs)
  case (Cons r rs)
  have "normalized (BTRIM (r_name r)) = normalized (r_name r)" by (simp add: normalized_def)
  moreover have "ids_of (add_group k (i, n) gs) = ids_of (add_group k (i, n') hs)" for k i n n'
    using Cons.prems(1) unfolding ids_of_def by (rule add_group_columns)
  ultimately show ?case
    using Cons.prems(2) Cons.IH [OF Cons.prems(1), of "bs @ [(r_id r, BTRIM (r_name r))]" "cs @ [(r_id r, r_name r)]"]
      Cons.IH [of "add_group (normalized (r_name r)) (r_id r, BTRIM (r_name r)) gs" "add_group (normalized (r_name r)) (r_id r, r_name r) hs" bs cs]
    by (simp add: trim_names_Cons)
qed (simp add: trim_names_def)

lemma colliding_ids: "colliding_names gs = [] \<longleftrightarrow> (\<forall>(k, ids)\<in>set (ids_of gs). length ids \<le> 1)"
  unfolding colliding_names_def sort_key_eq_Nil filter_empty_conv by (auto simp: ids_of_def)

lemma order_asc_trim_names: "order_asc r_id (trim_names rs) = trim_names (order_asc r_id rs)"
proof -
  have move: "sort_key r_id (map f xs) = map f (sort_key r_id xs)" if "\<And>r. r_id (f r) = r_id r" for f and xs :: "role list"
  proof -
    have ins: "insort_key r_id (f x) (map f ys) = map f (insort_key r_id x ys)" for x ys by (induction ys) (simp_all add: that)
    show ?thesis by (induction xs) (simp_all add: ins)
  qed
  show ?thesis unfolding order_asc_def trim_names_def by (rule move) simp
qed

lemma names_settled_after:
  assumes "migrateLegacyRoleNames s = Inr s'"
  shows "settled MigrateLegacyRoleNames s'"
proof -
  let ?rs = "roles (sc_db s)"
  obtain bs gs where g: "group_names (order_asc r_id ?rs) ([], []) = (bs, gs)" by fastforce
  then have clean: "bs = []" "colliding_names gs = []"
    using assms by (auto simp: migrateLegacyRoleNames_def Let_def split: if_splits)
  note t = roles_trimmed [OF assms]
  obtain bs' gs' where g': "group_names (order_asc r_id (trim_names ?rs)) ([], []) = (bs', gs')" by fastforce
  have "map fst bs' = map fst bs" "ids_of gs' = ids_of gs"
    using group_names_trimmed [of "[]" "[]" "[]" "[]" "order_asc r_id ?rs"] g g' by (simp_all add: order_asc_trim_names)
  then have "bs' = []" "colliding_names gs' = []" using clean by (simp_all add: colliding_ids)
  then show ?thesis using t g' by (simp add: names_settled_def trim_names_idem)
qed

lemma settled_after:
  assumes "automigrate_ok G" "exec G now q s = Inr s'"
  shows "settled q s'"
proof (cases q)
  case AutoMigrate
  then show ?thesis using automigrated assms by fastforce
next
  case MigrateUserIdentityKeys
  then show ?thesis using assms(2) by (cases "sc_identity_installed s")
      (auto simp: exec_def migrateUserIdentityKeys_def Let_def split: if_splits sum.splits)
next
  case MigrateTokenVersions
  then show ?thesis using assms(2)
    by (auto simp: exec_def migrate_token_versions_def Let_def filter_empty_conv table_simps legacy_banned_def)
next
  case MigrateLegacyRoleNames
  then show ?thesis using assms(2) names_settled_after by (simp add: exec_def)
next
  case CopyParentIDs
  then show ?thesis using assms(2) copy_parent_ids_Inr [of s s'] by (auto simp: exec_def legacy_mounts_def)
next
  case (AddValue t v)
  have "map_of (map (\<lambda>(t', ws). if t' = t then (t', ws @ [v]) else (t', ws)) ts) t = map_option (\<lambda>ws. ws @ [v]) (map_of ts t)" for ts
    by (induction ts) auto
  then show ?thesis using assms(2) AddValue by (auto simp: exec_def split: option.splits if_splits)
next
  case (CreateType t vs)
  then show ?thesis using assms(2) by (auto simp: exec_def map_add_def split: if_splits option.splits)
qed (use assms(2) in \<open>auto simp: exec_def split: if_splits\<close>)

text \<open>What a statement leaves of the columns the others are about.\<close>

lemma exec_frame:
  assumes "automigrate_ok G" "exec G now q s = Inr s'"
  shows "map r_id (roles (sc_db s')) = map r_id (roles (sc_db s))" "sc_parent_id s' = sc_parent_id s"
    "set (role_mounts (sc_db s)) \<subseteq> set (role_mounts (sc_db s'))" "sc_identity_installed s \<longrightarrow> sc_identity_installed s'"
    "set (sc_indexes s) \<subseteq> set (sc_indexes s')" "set (sc_constraints s) \<subseteq> set (sc_constraints s')"
    "set (sc_extensions s) \<subseteq> set (sc_extensions s')" "sc_tables s \<longrightarrow> sc_tables s'"
proof -
  have "map r_id (roles (sc_db s')) = map r_id (roles (sc_db s)) \<and> sc_parent_id s' = sc_parent_id s
    \<and> set (role_mounts (sc_db s)) \<subseteq> set (role_mounts (sc_db s')) \<and> (sc_identity_installed s \<longrightarrow> sc_identity_installed s')
    \<and> set (sc_indexes s) \<subseteq> set (sc_indexes s') \<and> set (sc_constraints s) \<subseteq> set (sc_constraints s')
    \<and> set (sc_extensions s) \<subseteq> set (sc_extensions s') \<and> (sc_tables s \<longrightarrow> sc_tables s')"
  proof (cases q)
    case AutoMigrate
    then have "s' = s\<lparr>sc_tables := True\<rparr>" using automigrated assms by blast
    then show ?thesis by simp
  next
    case MigrateUserIdentityKeys
    show ?thesis
    proof (cases "sc_identity_installed s")
      case True
      then show ?thesis using assms(2) MigrateUserIdentityKeys by (simp add: exec_def migrateUserIdentityKeys_def)
    next
      case False
      with assms(2) MigrateUserIdentityKeys show ?thesis
        by (auto simp: exec_def elim!: identity_InrE dest!: normalize_users_Inr)
    qed
  next
    case MigrateTokenVersions
    then show ?thesis using assms(2) by (auto simp: exec_def versions_tables)
  next
    case MigrateLegacyRoleNames
    then show ?thesis using assms(2) roles_trimmed [of s s'] by (auto simp: exec_def trim_names_columns)
  next
    case CopyParentIDs
    then show ?thesis using assms(2) copy_parent_ids_Inr [of s s'] by (auto simp: exec_def)
  qed (use assms(2) in \<open>auto simp: exec_def split: if_splits option.splits\<close>)
  then show "map r_id (roles (sc_db s')) = map r_id (roles (sc_db s))" "sc_parent_id s' = sc_parent_id s"
    "set (role_mounts (sc_db s)) \<subseteq> set (role_mounts (sc_db s'))" "sc_identity_installed s \<longrightarrow> sc_identity_installed s'"
    "set (sc_indexes s) \<subseteq> set (sc_indexes s')" "set (sc_constraints s) \<subseteq> set (sc_constraints s')"
    "set (sc_extensions s) \<subseteq> set (sc_extensions s')" "sc_tables s \<longrightarrow> sc_tables s'"
    by blast+
qed

text \<open>Types only grow.\<close>

lemma exec_types:
  assumes "automigrate_ok G" "exec G now q s = Inr s'" "map_of (sc_types s) t = Some vs"
  shows "\<exists>ws. map_of (sc_types s') t = Some ws \<and> set vs \<subseteq> set ws"
proof (cases q)
  case (CreateType t' vs')
  then show ?thesis using assms(2,3) by (auto simp: exec_def map_add_def split: if_splits)
next
  case (AddValue t' v)
  have "map_of (map (\<lambda>(u, ws). if u = t' then (u, ws @ [v]) else (u, ws)) ts) t
      = map_option (\<lambda>ws. if t = t' then ws @ [v] else ws) (map_of ts t)" for ts
    by (induction ts) auto
  then show ?thesis using assms(2,3) AddValue by (auto simp: exec_def split: option.splits if_splits)
next
  case AutoMigrate
  then have "s' = s\<lparr>sc_tables := True\<rparr>" using automigrated assms(1,2) by blast
  then show ?thesis using assms(3) by simp
next
  case MigrateUserIdentityKeys
  then have "sc_types s' = sc_types s"
    using assms(2) by (cases "sc_identity_installed s") (auto simp: exec_def migrateUserIdentityKeys_def Let_def split: if_splits sum.splits)
  then show ?thesis using assms(3) by simp
next
  case MigrateLegacyRoleNames
  then show ?thesis using assms(2,3) roles_trimmed [of s s'] by (simp add: exec_def)
next
  case CopyParentIDs
  then show ?thesis using assms(2,3) copy_parent_ids_Inr [of s s'] by (simp add: exec_def)
qed (use assms(2,3) in \<open>auto simp: exec_def split: if_splits\<close>)

text \<open>No statement but its own touches the versions of banned accounts or the names of roles.\<close>

lemma identity_frame:
  assumes "migrateUserIdentityKeys L s = Inr s'"
  shows "users (sc_db s') = users (sc_db s) \<or> users (sc_db s') = map normalize_user (users (sc_db s))" "roles (sc_db s') = roles (sc_db s)"
proof -
  have "(users (sc_db s') = users (sc_db s) \<or> users (sc_db s') = map normalize_user (users (sc_db s))) \<and> roles (sc_db s') = roles (sc_db s)"
  proof (cases "sc_identity_installed s")
    case True
    then show ?thesis using assms by (simp add: migrateUserIdentityKeys_def)
  next
    case False
    obtain d ks where "normalize_users (sc_db s) = Inr d" "s' = s\<lparr>sc_db := d\<lparr>identity_keys := ks\<rparr>, sc_identity_installed := True\<rparr>"
      using assms False by (rule identity_InrE)
    then show ?thesis using normalize_users_Inr by fastforce
  qed
  then show "users (sc_db s') = users (sc_db s) \<or> users (sc_db s') = map normalize_user (users (sc_db s))" "roles (sc_db s') = roles (sc_db s)"
    by blast+
qed

lemma exec_rows:
  assumes "automigrate_ok G" "exec G now q s = Inr s'"
  shows "q \<noteq> MigrateTokenVersions \<Longrightarrow> filter legacy_banned (users (sc_db s)) = [] \<Longrightarrow> filter legacy_banned (users (sc_db s')) = []"
    "q \<noteq> MigrateLegacyRoleNames \<Longrightarrow> roles (sc_db s') = roles (sc_db s)"
proof -
  show "filter legacy_banned (users (sc_db s')) = []" if "q \<noteq> MigrateTokenVersions" "filter legacy_banned (users (sc_db s)) = []"
  proof (cases q)
    case MigrateUserIdentityKeys
    then have "users (sc_db s') = users (sc_db s) \<or> users (sc_db s') = map normalize_user (users (sc_db s))"
      using assms(2) identity_frame(1) by (simp add: exec_def)
    moreover have "legacy_banned (normalize_user u) = legacy_banned u" for u by (simp add: legacy_banned_def)
    ultimately show ?thesis using that(2) by (auto simp: filter_empty_conv)
  next
    case AutoMigrate
    then show ?thesis using automigrated assms that(2) by fastforce
  next
    case MigrateLegacyRoleNames
    then show ?thesis using assms(2) that(2) roles_trimmed [of s s'] by (simp add: exec_def)
  next
    case CopyParentIDs
    then show ?thesis using assms(2) that(2) copy_parent_ids_Inr [of s s'] by (simp add: exec_def)
  qed (use assms(2) that in \<open>auto simp: exec_def split: if_splits option.splits\<close>)
  show "roles (sc_db s') = roles (sc_db s)" if "q \<noteq> MigrateLegacyRoleNames"
  proof (cases q)
    case MigrateUserIdentityKeys
    then show ?thesis using assms(2) identity_frame(2) by (simp add: exec_def)
  next
    case AutoMigrate
    then show ?thesis using automigrated assms by fastforce
  next
    case MigrateTokenVersions
    then show ?thesis using assms(2) by (auto simp: exec_def versions_tables)
  next
    case CopyParentIDs
    then show ?thesis using assms(2) copy_parent_ids_Inr [of s s'] by (simp add: exec_def)
  qed (use assms(2) that in \<open>auto simp: exec_def split: if_splits option.splits\<close>)
qed

lemma settled_stays:
  assumes "automigrate_ok G" "exec G now q s = Inr s'" "settled r s"
  shows "settled r s'"
proof (cases "r = q")
  case True
  then show ?thesis using settled_after [OF assms(1,2)] by simp
next
  case False
  note f = exec_frame [OF assms(1,2)]
  show ?thesis
  proof (cases r)
    case CopyParentIDs
    have pairs: "legacy_mounts x = List.map_filter (\<lambda>i. map_option (\<lambda>p. \<lparr>m_child = i, m_parent = p\<rparr>) (sc_parent_id x i)) (map r_id (roles (sc_db x)))" for x
      by (simp add: legacy_mounts_def map_filter_def filter_map comp_def)
    have "legacy_mounts s' = legacy_mounts s" unfolding pairs f(1,2) ..
    then show ?thesis using assms(3) f(3) CopyParentIDs by auto
  next
    case (AddValue t v)
    then show ?thesis using assms(3) exec_types [OF assms(1,2), of t] by (fastforce split: option.splits)
  next
    case (CreateType t vs)
    then show ?thesis using assms(3) exec_types [OF assms(1,2), of t] by fastforce
  next
    case MigrateTokenVersions
    then show ?thesis using assms(3) exec_rows(1) [OF assms(1,2)] False by simp
  next
    case MigrateLegacyRoleNames
    then show ?thesis using assms(3) exec_rows(2) [OF assms(1,2)] False f(5,6) by auto
  qed (use assms(3) f in auto)
qed

section \<open>Runs\<close>

lemma run_append:
  "run_statements G now (qs @ rs) s =
     (case run_statements G now qs s of (None, s') \<Rightarrow> run_statements G now rs s' | (Some e, s') \<Rightarrow> (Some e, s'))"
  by (induction qs arbitrary: s) (auto split: sum.split)

lemma run_settles:
  assumes "automigrate_ok G" "run_statements G now qs s = (None, s')"
  shows "(\<forall>r. settled r s \<longrightarrow> settled r s') \<and> (\<forall>q\<in>set qs. settled q s')"
  using assms(2)
proof (induction qs arbitrary: s)
  case (Cons q qs)
  then obtain s1 where 1: "exec G now q s = Inr s1" "run_statements G now qs s1 = (None, s')" by (auto split: sum.splits)
  then show ?case using Cons.IH [OF 1(2)] settled_after [OF assms(1) 1(1)] settled_stays [OF assms(1) 1(1)] by auto
qed simp

lemma run_settled_idle:
  assumes "automigrate_ok G" "legacy_ok s" "\<forall>q\<in>set qs. settled q s"
  shows "run_statements G now qs s = (None, s)"
  using assms(3) by (induction qs) (auto simp: settled_idle [OF assms(1) _ assms(2)])

text \<open>A list of statements may run when the tables are there, or when it makes them before it needs them.\<close>

fun ordered :: "bool \<Rightarrow> ddl list \<Rightarrow> bool" where
  "ordered tables [] = True"
| "ordered tables (q # qs) = ((tables \<or> q \<in> set enum_statements \<or> q = AutoMigrate) \<and> ordered (tables \<or> q = AutoMigrate) qs)"

lemma ordered_tables: "ordered True qs"
  by (induction qs) auto

lemma ordered_append: "ordered b (qs @ rs) \<Longrightarrow> ordered b qs"
  by (induction qs arbitrary: b) auto

lemma migration_ordered: "ordered b migration"
proof -
  have "ordered b (qs @ AutoMigrate # rs)" if "set qs \<subseteq> set enum_statements" for b qs rs
    using that by (induction qs arbitrary: b) (auto simp: ordered_tables)
  then show ?thesis unfolding migration_def by blast
qed

lemma ordered_mono: "ordered b qs \<Longrightarrow> b \<longrightarrow> b' \<Longrightarrow> ordered b' qs"
  by (cases b') (auto simp: ordered_tables)

lemma run_keeps:
  assumes "automigrate_ok G" "run_statements G now qs s = (e, s')" "legacy_ok s" "ordered (sc_tables s) qs"
  shows "legacy_ok s'"
  using assms(2-4)
proof (induction qs arbitrary: s)
  case (Cons q qs)
  show ?case
  proof (cases "exec G now q s")
    case (Inr s1)
    have "legacy_ok s1" "sc_tables s \<or> q = AutoMigrate \<longrightarrow> sc_tables s1"
      using exec_keeps [OF assms(1) Inr] Cons.prems by auto
    then show ?thesis using Cons.IH [of s1] Cons.prems ordered_mono [of "sc_tables s \<or> q = AutoMigrate" qs "sc_tables s1"] by (simp add: Inr)
  qed (use Cons.prems in simp)
qed simp

text \<open>A run may be cut off after any number of statements, and started again.\<close>

inductive interrupted :: "migrator \<Rightarrow> schema \<Rightarrow> schema \<Rightarrow> bool" for G where
  not_yet: "interrupted G s s"
| cut_off: "interrupted G s s1 \<Longrightarrow> run_statements G now (take k migration) s1 = (e, s2) \<Longrightarrow> interrupted G s s2"

lemma interrupted_keeps:
  assumes "automigrate_ok G" "interrupted G s s'" "legacy_ok s"
  shows "legacy_ok s'"
  using assms(2,3)
proof (induction rule: interrupted.induct)
  case (cut_off s s1 now k e s2)
  have "ordered (sc_tables s1) (take k migration)" by (metis append_take_drop_id migration_ordered ordered_append)
  then show ?case using run_keeps [OF assms(1) cut_off.hyps(2)] cut_off by blast
qed

section \<open>What a finished migration establishes\<close>

lemma count_filter: "count_rows (\<lambda>r. P r \<and> Q r) t = count_rows Q (filter P t)"
  by (induction t) (auto simp: count_rows_Cons)

lemma migrated_challenges:
  assumes "model_ok d" "index_holds Email_otp_one_active_password_reset d"
  shows "otps_ok d"
proof -
  have "live_reset i = (\<lambda>r. (o_purpose r = OTPPasswordReset \<and> o_delivery_state r = DeliveryActive \<and> o_consumed_at r = None) \<and> o_user r = i)" for i
    by (auto simp: otp_row_defs)
  then have "count_rows (live_reset i) (email_otps d) \<le> 1" for i
    using count_rows_key_le_1 [OF assms(2) [unfolded index_holds.simps], of i] by (simp add: count_filter)
  then show ?thesis using assms(1) by (simp add: otps_ok_def otps_ok_on_def model_ok_def)
qed

lemma migrated_requests:
  assumes "model_ok d" "index_holds Role_requests_one_pending d"
  shows "requests_ok d"
proof -
  have "pending_for i x = (\<lambda>q. q_status q = RoleRequestPending \<and> (q_target q, q_role q) = (i, x))" for i x
    by (auto simp: pending_for_def)
  then have "count_rows (pending_for i x) (role_requests d) \<le> 1" for i x
    using count_rows_key_le_1 [OF assms(2) [unfolded index_holds.simps], of "(i, x)"] by (simp add: count_filter)
  then show ?thesis using assms(1) by (simp add: requests_ok_def model_ok_def)
qed

lemma role_known_iff: "role_known d i \<longleftrightarrow> i \<in> r_id ` set (roles d)"
  by (auto simp: role_known_def table_simps)

lemma migrated_hierarchy:
  assumes "model_ok d" "constraint_holds Role_mounts_child_fk d" "constraint_holds Role_mounts_parent_fk d" "constraint_holds User_roles_role_fk d"
  shows "roles_ok d"
proof -
  have "edges d \<subseteq> r_id ` set (roles d) \<times> r_id ` set (roles d)"
    using assms(2,3) by (auto simp: edges_def list_all_iff role_known_iff)
  moreover have "\<forall>m\<in>set (user_roles d). ur_role m \<in> r_id ` set (roles d)"
    using assms(4) by (simp add: list_all_iff role_known_iff)
  ultimately show ?thesis using assms(1) by (simp add: roles_ok_def roles_ok_on_def member_key_def model_ok_def comp_def)
qed

lemma migrated_bans:
  assumes "versioned_bans d" "filter legacy_banned (users d) = []"
  shows "ban_ok d"
  using assms unfolding ban_ok_def versioned_bans_def banned_ids_def by (fastforce simp: filter_empty_conv legacy_banned_def)

lemma migrated_store_ok:
  assumes "legacy_ok s" "\<forall>q\<in>set migration. settled q s"
  shows "store_ok (sc_db s)"
proof -
  have q: "settled AutoMigrate s" "settled MigrateUserIdentityKeys s" "settled MigrateTokenVersions s"
    "settled (CreateIndex Role_requests_one_pending) s" "settled (CreateIndex Email_otp_one_active_password_reset) s"
    "settled (AddConstraint Role_mounts_child_fk) s" "settled (AddConstraint Role_mounts_parent_fk) s" "settled (AddConstraint User_roles_role_fk) s"
    using assms(2) by (simp_all add: migration_def table_statements_def index_statements_def constraint_statements_def)
  have m: "model_ok (sc_db s)" using assms(1) q(1) by (simp add: legacy_ok_def)
  have ix: "index_holds Role_requests_one_pending (sc_db s)" "index_holds Email_otp_one_active_password_reset (sc_db s)"
    and fk: "constraint_holds Role_mounts_child_fk (sc_db s)" "constraint_holds Role_mounts_parent_fk (sc_db s)" "constraint_holds User_roles_role_fk (sc_db s)"
    using assms(1) q(4-8) unfolding legacy_ok_def settled.simps by blast+
  have "account_inv (sc_db s)"
    using assms(1) q(2,3) m migrated_bans by (simp add: account_inv_def legacy_ok_def model_ok_def)
  then show ?thesis
    using migrated_challenges [OF m ix(2)] migrated_requests [OF m ix(1)] migrated_hierarchy [OF m fk] m assms(1)
    by (simp add: store_ok_def legacy_ok_def model_ok_def)
qed

lemma migration_ok:
  assumes "automigrate_ok G" "legacy_ok s" "MigrateDB G now s = (None, s')"
  shows "store_ok (sc_db s')"
proof -
  have "legacy_ok s'" using run_keeps [OF assms(1) assms(3) [unfolded MigrateDB_def] assms(2)] migration_ordered by blast
  moreover have "\<forall>q\<in>set migration. settled q s'" using run_settles [OF assms(1) assms(3) [unfolded MigrateDB_def]] by blast
  ultimately show ?thesis by (rule migrated_store_ok)
qed

text \<open>
  C13. A start of the process leaves a database that the service can rely on. From a legacy database that
  satisfies \<open>legacy_ok\<close>: after any number of migrations cut off at any statement, one that goes through leaves rows that satisfy the invariant of the store:
  unambiguous identities, no live session of a banned account, one usable reset code, one membership and one
  pending request per role, mounts and memberships of existing roles.
\<close>

theorem migration_establishes_store:
  assumes "automigrate_ok G" "legacy_ok s" "interrupted G s s1" "MigrateDB G now s1 = (None, s')"
  shows "store_ok (sc_db s')"
  using migration_ok [OF assms(1) _ assms(4)] interrupted_keeps assms(1-3) by blast

text \<open>
  C15. The migration is idempotent: run again at any later time it goes through and changes neither a row
  nor the catalogue; in particular the time a session was revoked stays.
\<close>

theorem migration_idempotent:
  assumes "automigrate_ok G" "legacy_ok s" "MigrateDB G now s = (None, s')"
  shows "MigrateDB G later s' = (None, s')"
proof -
  have "legacy_ok s'" using run_keeps [OF assms(1) assms(3) [unfolded MigrateDB_def] assms(2)] migration_ordered by blast
  moreover have "\<forall>q\<in>set migration. settled q s'" using run_settles [OF assms(1) assms(3) [unfolded MigrateDB_def]] by blast
  ultimately show ?thesis unfolding MigrateDB_def by (rule run_settled_idle [OF assms(1)])
qed

lemma run_frame:
  assumes "automigrate_ok G" "run_statements G now qs s = (None, s')"
  shows "map r_id (roles (sc_db s')) = map r_id (roles (sc_db s)) \<and> sc_parent_id s' = sc_parent_id s"
  using assms(2)
proof (induction qs arbitrary: s)
  case (Cons q qs)
  then obtain s1 where 1: "exec G now q s = Inr s1" "run_statements G now qs s1 = (None, s')" by (auto split: sum.splits)
  then show ?case using Cons.IH [OF 1(2)] exec_frame(1,2) [OF assms(1) 1(1)] by simp
qed simp

text \<open>
  C16. A legacy parent comes back with every start. When a role that an old version put under a parent is
  unmounted, the next migration mounts it again, although the store refused nothing and forgot the mount;
  the copy has no check for cycles.
\<close>

theorem restart_remounts:
  assumes "automigrate_ok G" "sc_parent_id s x = Some p" "x \<in> role_ids (sc_db s)"
    and "UnmountRole x p (sc_db s) = Inr (u, d)" "MigrateDB G now (s\<lparr>sc_db := d\<rparr>) = (None, s')"
  shows "(x, p) \<notin> edges d \<and> (x, p) \<in> edges (sc_db s')"
proof
  show "(x, p) \<notin> edges d" using assms(4) by (auto simp: UnmountRole_def writes_def edges_def table_simps)
  have roles: "roles d = roles (sc_db s)" using assms(4) by (auto simp: UnmountRole_def writes_def)
  have f: "map r_id (roles (sc_db s')) = map r_id (roles d)" "sc_parent_id s' = sc_parent_id s"
    using run_frame [OF assms(1) assms(5) [unfolded MigrateDB_def]] by simp_all
  have "settled CopyParentIDs s'"
    using run_settles [OF assms(1) assms(5) [unfolded MigrateDB_def]] by (simp add: migration_def table_statements_def index_statements_def)
  moreover obtain r where "r \<in> set (roles (sc_db s'))" "r_id r = x"
    using assms(3) f(1) roles by (metis (no_types, lifting) image_iff list.set_map role_ids_def)
  then have "\<lparr>m_child = x, m_parent = p\<rparr> \<in> set (legacy_mounts s')"
    using assms(2) f(2) by (force simp: legacy_mounts_def map_filter_def image_iff)
  ultimately show "(x, p) \<in> edges (sc_db s')" by (force simp: edges_def)
qed

section \<open>Examples\<close>

text \<open>
  A database of an older version: two accounts, one of them banned while it had a session; a role \<open>staff\<close>
  whose legacy parent is \<open>all\<close>.
\<close>

definition sample_migrator :: migrator where
  "sample_migrator = \<lparr>mg_lib = sample_lib,
     gorm_AutoMigrate = (\<lambda>s. if model_ok (sc_db s) then Inr (s\<lparr>sc_tables := True\<rparr>) else Inl UniqueViolation)\<rparr>"

lemma sample_migrator_ok: "automigrate_ok sample_migrator"
  by (simp add: automigrate_ok_def sample_migrator_def)

definition legacy_db :: db where
  "legacy_db = empty_db\<lparr>
     users := [(new_user 1 5 '' Ann'' UserHuman)\<lparr>u_email := Some ''ann@x''\<rparr>,
               (new_user 2 6 ''bob'' UserHuman)\<lparr>u_email := Some ''Bob@x'', u_banned_at := Some 7\<rparr>],
     roles := [\<lparr>r_id = 1, r_name = ''staff '', r_description = [], r_created_at = 1\<rparr>,
               \<lparr>r_id = 2, r_name = ''all'', r_description = [], r_created_at = 1\<rparr>],
     refresh_sessions := [\<lparr>s_id = 9, s_user = 2, s_device = ''d'', s_label = None, s_hash = ''h'', s_created_at = 6,
       s_expires_at = 90, s_used_at = None, s_revoked_at = None\<rparr>]\<rparr>"

definition legacy_schema :: schema where
  "legacy_schema = \<lparr>sc_db = legacy_db, sc_parent_id = (\<lambda>i. if i = 1 then Some 2 else None), sc_extensions = [], sc_types = [],
     sc_tables = False, sc_identity_installed = False, sc_indexes = [], sc_constraints = []\<rparr>"

lemma legacy_schema_ok: "legacy_ok legacy_schema"
  by (simp add: legacy_ok_def legacy_schema_def legacy_db_def versioned_bans_def keys_ok_def keys_ok_on_def new_user_def empty_db_def)

lemma sample_migration_runs: "fst (MigrateDB sample_migrator 50 legacy_schema) = None"
  by code_simp

lemma sample_migration: "MigrateDB sample_migrator 50 legacy_schema = (None, snd (MigrateDB sample_migrator 50 legacy_schema))"
  using sample_migration_runs by (metis prod.collapse)

theorem migration_establishes_store_witness: "store_ok (sc_db (snd (MigrateDB sample_migrator 50 legacy_schema)))"
  using migration_establishes_store [OF sample_migrator_ok legacy_schema_ok not_yet sample_migration] .

theorem migration_idempotent_witness:
  "MigrateDB sample_migrator 70 (snd (MigrateDB sample_migrator 50 legacy_schema)) = (None, snd (MigrateDB sample_migrator 50 legacy_schema))"
  using migration_idempotent [OF sample_migrator_ok legacy_schema_ok sample_migration] .


text \<open>The example after its migration, with the mount taken away.\<close>

definition unmounted :: "repo_error + (unit \<times> db)" where
  "unmounted = UnmountRole 1 2 (sc_db (snd (MigrateDB sample_migrator 50 legacy_schema)))"

definition mounts_after :: "(db \<Rightarrow> repo_error + (unit \<times> db)) \<Rightarrow> (uuid \<times> uuid) list option" where
  "mounts_after f =
     (case unmounted of
        Inl _ \<Rightarrow> None
      | Inr (_, d) \<Rightarrow>
          (case f d of
             Inl _ \<Rightarrow> None
           | Inr (_, d') \<Rightarrow>
               (case MigrateDB sample_migrator 60 ((snd (MigrateDB sample_migrator 50 legacy_schema))\<lparr>sc_db := d'\<rparr>) of
                  (None, s) \<Rightarrow> Some (map mount_pair (role_mounts (sc_db s)))
                | (Some _, _) \<Rightarrow> None)))"

theorem restart_remounts_witness: "\<exists>d s'. unmounted = Inr ((), d) \<and> (1, 2) \<notin> edges d \<and> (1, 2) \<in> edges (sc_db s')
    \<and> MigrateDB sample_migrator 60 ((snd (MigrateDB sample_migrator 50 legacy_schema))\<lparr>sc_db := d\<rparr>) = (None, s')"
proof -
  let ?s = "snd (MigrateDB sample_migrator 50 legacy_schema)"
  have "mounts_after (\<lambda>d. Inr ((), d)) \<noteq> None" by code_simp
  then obtain d s' where r: "unmounted = Inr ((), d)" "MigrateDB sample_migrator 60 (?s\<lparr>sc_db := d\<rparr>) = (None, s')"
    by (auto simp: mounts_after_def split: sum.splits option.splits prod.splits)
  moreover have "sc_parent_id ?s 1 = Some 2" "1 \<in> role_ids (sc_db ?s)"
    using run_frame [OF sample_migrator_ok sample_migration [unfolded MigrateDB_def]]
    by (simp_all add: MigrateDB_def legacy_schema_def legacy_db_def role_ids_def flip: list.set_map)
  ultimately show ?thesis using restart_remounts [OF sample_migrator_ok _ _ r(1) [unfolded unmounted_def] r(2)] by blast
qed

text \<open>
  Taken from under its parent, the role may become the parent of its parent; the next start closes the cycle.
\<close>

lemma restart_closes_cycle: "mounts_after (MountRole 2 1) = Some [(2, 1), (1, 2)]"
  by code_simp

end
