(* ===== verification/Process.thy ===== *)
theory Process
  imports Grpc_Properties Migration_Runs
begin

text \<open>
  The process: \<open>cmd/authd/main.go\<close> with \<open>internal/migrate/migrate.go\<close>. The start runs the migration, builds the
  service, bootstraps the first key and accounts and binds the two listeners; then HTTP requests, gRPC calls,
  the rotation of the signing key and the mail workers interleave until a signal or a failing server ends them.

  Main results: a process that has started on a legacy database with \<open>legacy_ok\<close> serves a database that satisfies
  the invariant of the store and has a current signing key, and keeps it so in every state it can reach; the shutdown
  withdraws health and the key rotation before it closes the queue, and closes the queue only when no server accepts
  connections; a start that fails leaves no listener open and no queue accepting.

  What the database driver, the TLS loader and the network answer are parameters.
\<close>

section \<open>Start\<close>

record boot =
  bo_migrator :: migrator
  gorm_Open :: "string \<Rightarrow> bool"
  gorm_DB :: bool
  NewServerTLSFromFile :: "string \<Rightarrow> string \<Rightarrow> bool"
  net_Listen :: "string list \<Rightarrow> string \<Rightarrow> bool"

datatype slog_level = LevelDebug | LevelInfo | LevelWarn | LevelError

definition newLogger :: "string \<Rightarrow> slog_level" where
  "newLogger level =
     (if level = ''debug'' then LevelDebug
      else if level = ''warn'' then LevelWarn
      else if level = ''error'' then LevelError
      else LevelInfo)"

definition enabledDevelopmentAuthFlags :: "config \<Rightarrow> string list" where
  "enabledDevelopmentAuthFlags c =
     (if RegistrationOpen c then [''REGISTRATION_OPEN''] else []) @ (if SkipLoginOTP c then [''SKIP_LOGIN_OTP''] else [])"

text \<open>Without a certificate file the server speaks plain text.\<close>

definition loadGRPCCredentials :: "boot \<Rightarrow> config \<Rightarrow> string + bool" where
  "loadGRPCCredentials B c =
     (if GRPCTLSCertFile c = [] then Inr False
      else if NewServerTLSFromFile B (GRPCTLSCertFile c) (GRPCTLSKeyFile c) then Inr True
      else Inl ''load gRPC TLS certificate'')"

text \<open>The error, and the addresses that are bound afterwards.\<close>

definition bindListeners :: "boot \<Rightarrow> string \<Rightarrow> string \<Rightarrow> string option \<times> string list" where
  "bindListeners B httpAddr grpcAddr =
     (if \<not> net_Listen B [] httpAddr then (Some (''bind HTTP '' @ httpAddr), [])
      else if \<not> net_Listen B [httpAddr] grpcAddr then (Some (''bind gRPC '' @ grpcAddr), remove1 httpAddr [httpAddr])
      else (None, [httpAddr, grpcAddr]))"

definition Up :: "migrator \<Rightarrow> instant \<Rightarrow> schema \<Rightarrow> migrate_error option \<times> schema" where
  "Up G now s = MigrateDB G now s"

definition Open :: "boot \<Rightarrow> string \<Rightarrow> string option" where
  "Open B url = (if gorm_Open B url then None else Some ''open PostgreSQL database failed'')"

definition UpSQL :: "boot \<Rightarrow> string \<Rightarrow> instant \<Rightarrow> schema \<Rightarrow> (string + migrate_error option) \<times> schema" where
  "UpSQL B url now s =
     (case Open B url of
        Some e \<Rightarrow> (Inl e, s)
      | None \<Rightarrow> if \<not> gorm_DB B then (Inl ''db sql'', s) else apfst Inr (Up (bo_migrator B) now s))"

text \<open>Where \<open>run\<close> is: in its select; past it with health still reported; with health withdrawn; with the rotation
  stopped and both servers told to end; in the shutdown of the service; returned.\<close>

datatype phase = Running | Ending | Withdrawn | Draining | Closing | Stopped

datatype server_kind = HTTPServer | GRPCServer

datatype stop_error = ServeError string | HTTPShutdownError | HTTPShutdownCanceled

record process =
  p_auth :: auth
  p_queue :: publicMailQueue
  p_listeners :: "(server_kind \<times> string) list"
  p_serving :: "server_kind list"
  p_tls :: bool
  p_health :: bool
  p_rotating :: bool
  p_ticking :: bool
  p_serve_errors :: "string list"
  p_phase :: phase
  p_error :: "stop_error option"

datatype start_error = OpenFailed string | MigrateFailed migrate_error | ServiceFailed string svc_error | TransportFailed string

text \<open>A start that did not go through, with the queue and the listeners it leaves behind; or a running process.\<close>

datatype start_result = NotStarted start_error "publicMailQueue option" "string list" | Started process

text \<open>The deferred \<open>Shutdown\<close> of the service.\<close>

definition abandon :: "publicMailQueue \<Rightarrow> publicMailQueue" where
  "abandon q = (case close_jobs q of None \<Rightarrow> q | Some q' \<Rightarrow> q')"

definition listen :: "boot \<Rightarrow> config \<Rightarrow> auth \<Rightarrow> publicMailQueue \<Rightarrow> start_result" where
  "listen B c a q =
     (case loadGRPCCredentials B c of
        Inl e \<Rightarrow> NotStarted (TransportFailed e) (Some (abandon q)) []
      | Inr tls \<Rightarrow>
          (case bindListeners B (HTTPAddr c) (GRPCAddr c) of
             (Some e, bound) \<Rightarrow> NotStarted (TransportFailed e) (Some (abandon q)) bound
           | (None, bound) \<Rightarrow> Started \<lparr>p_auth = a, p_queue = q, p_listeners = zip [HTTPServer, GRPCServer] bound,
               p_serving = [], p_tls = tls, p_health = True, p_rotating = (SigningKeyRotateEvery c > 0), p_ticking = False,
               p_serve_errors = [], p_phase = Running, p_error = None\<rparr>))"

definition boot_stage :: "string \<Rightarrow> unit svc \<Rightarrow> publicMailQueue \<Rightarrow> start_result prog \<Rightarrow> start_result prog" where
  "boot_stage stage m q k = State_Monad.bind m (\<lambda>r. case r of
     Inl e \<Rightarrow> State_Monad.return (NotStarted (ServiceFailed stage e) (Some (abandon q)) [])
   | Inr _ \<Rightarrow> k)"

definition start_service :: "boot \<Rightarrow> config \<Rightarrow> start_result prog" where
  "start_service B c =
     (case NewAuth c (mg_lib (bo_migrator B)) True of
        Inl e \<Rightarrow> State_Monad.return (NotStarted (ServiceFailed ''auth service'' e) None [])
      | Inr (a, q) \<Rightarrow>
          boot_stage ''signing bootstrap'' (EnsureBootstrap a) q
           (boot_stage ''bootstrap admin'' (EnsureBootstrapAdmin a) q
             (boot_stage ''bootstrap superuser service'' (EnsureBootstrapSuperuserService a) q
               (State_Monad.return (listen B c a q)))))"

text \<open>The first half of \<open>run\<close>, up to the two goroutines that serve.\<close>

definition start :: "boot \<Rightarrow> config \<Rightarrow> schema \<Rightarrow> world \<Rightarrow> (start_result \<times> schema) \<times> world" where
  "start B c s w =
     (case Open B (DatabaseURL c) of
        Some e \<Rightarrow> ((NotStarted (OpenFailed e) None [], s), w)
      | None \<Rightarrow>
          if \<not> gorm_DB B then ((NotStarted (OpenFailed ''db sql'') None [], s), w)
          else case Up (bo_migrator B) (w_clock w) (s\<lparr>sc_db := w_db w\<rparr>) of
            (Some e, s') \<Rightarrow> ((NotStarted (MigrateFailed e) None [], s'), w\<lparr>w_db := sc_db s'\<rparr>)
          | (None, s') \<Rightarrow>
              (case run_state (start_service B c) (w\<lparr>w_db := sc_db s'\<rparr>) of (r, w') \<Rightarrow> ((r, s'\<lparr>sc_db := w_db w'\<rparr>), w')))"

section \<open>The running process\<close>

text \<open>
  What happens in a process that runs: an HTTP request or a gRPC call is served (also one that is still in flight
  when the servers are told to stop), the ticker starts a rotation of the signing key and the rotation ends (also one
  whose context is cancelled meanwhile), a goroutine of the mail queue takes a step, a worker does its job.

  The goroutine of a server enters \<open>Serve\<close>; when \<open>Serve\<close> fails it has closed its listener, and its error waits in the
  channel until \<open>run\<close> selects it. A signal or such an error ends the select; then \<open>run\<close> withdraws health, stops the
  rotation and tells the servers to end. From then on each listener is closed at some time, by \<open>Shutdown\<close> or
  \<open>GracefulStop\<close>, or by a late \<open>Serve\<close> that finds its server stopped; when both have returned no listener that a server
  has taken over is open, and the service is shut down. When the queue has drained or the time is over, \<open>run\<close> returns and
  its deferred calls close what is left.

  The others' schedule around the next effects is anything that moves by steps of the store.
\<close>

definition close_listener :: "server_kind \<Rightarrow> process \<Rightarrow> process" where
  "close_listener e p = p\<lparr>p_listeners := filter (\<lambda>l. fst l \<noteq> e) (p_listeners p)\<rparr>"

fun serve_failure :: "server_kind \<Rightarrow> string \<Rightarrow> string" where
  "serve_failure HTTPServer err = ''HTTP serve: '' @ err"
| "serve_failure GRPCServer err = ''gRPC serve: '' @ err"

inductive process_step :: "process \<times> world \<Rightarrow> process \<times> world \<Rightarrow> bool" where
  http_request: "p_phase p \<noteq> Stopped \<Longrightarrow> srv_auth s = p_auth p \<Longrightarrow> run_state (serve s r (p_queue p)) w = ((rs, q), w')
    \<Longrightarrow> process_step (p, w) (p\<lparr>p_queue := q\<rparr>, w')"
| grpc_call: "p_phase p \<noteq> Stopped \<Longrightarrow> srv_auth (gs_server g) = p_auth p
    \<Longrightarrow> run_state (serve_rpc g (GRPCReflection (cfg (p_auth p))) md req (p_queue p)) w = ((out, q), w')
    \<Longrightarrow> process_step (p, w) (p\<lparr>p_queue := q\<rparr>, w')"
| tick_begins: "p_phase p \<noteq> Stopped \<Longrightarrow> p_rotating p \<Longrightarrow> \<not> p_ticking p \<Longrightarrow> process_step (p, w) (p\<lparr>p_ticking := True\<rparr>, w)"
| tick_ends: "p_phase p \<noteq> Stopped \<Longrightarrow> p_ticking p \<Longrightarrow> run_state (RotateSigningKey (p_auth p)) w = (res, w')
    \<Longrightarrow> process_step (p, w) (p\<lparr>p_ticking := False\<rparr>, w')"
| queue_moves_on: "p_phase p \<noteq> Stopped \<Longrightarrow> internal (p_queue p) q \<Longrightarrow> process_step (p, w) (p\<lparr>p_queue := q\<rparr>, w)"
| mail_work: "p_phase p \<noteq> Stopped \<Longrightarrow> job \<in> set (running (p_queue p)) \<Longrightarrow> run_state (processPublicMail (p_auth p) job) w = (u, w')
    \<Longrightarrow> process_step (p, w) (p, w')"
| serve_begins: "p_phase p \<notin> {Closing, Stopped} \<Longrightarrow> e \<in> fst ` set (p_listeners p) \<Longrightarrow> e \<notin> set (p_serving p)
    \<Longrightarrow> process_step (p, w) (p\<lparr>p_serving := e # p_serving p\<rparr>, w)"
| serve_fails: "p_phase p \<noteq> Stopped \<Longrightarrow> e \<in> fst ` set (p_listeners p) \<Longrightarrow> e \<in> set (p_serving p)
    \<Longrightarrow> process_step (p, w) ((close_listener e p)\<lparr>p_serve_errors := p_serve_errors p @ [serve_failure e err]\<rparr>, w)"
| stop_signal: "p_phase p = Running \<Longrightarrow> process_step (p, w) (p\<lparr>p_phase := Ending\<rparr>, w)"
| serve_error: "p_phase p = Running \<Longrightarrow> p_serve_errors p = err # errs
    \<Longrightarrow> process_step (p, w) (p\<lparr>p_phase := Ending, p_serve_errors := errs, p_error := Some (ServeError err)\<rparr>, w)"
| health_withdrawn: "p_phase p = Ending \<Longrightarrow> process_step (p, w) (p\<lparr>p_phase := Withdrawn, p_health := False\<rparr>, w)"
| rotation_stopped: "p_phase p = Withdrawn \<Longrightarrow> process_step (p, w) (p\<lparr>p_phase := Draining, p_rotating := False\<rparr>, w)"
| listener_closed: "p_phase p \<in> {Draining, Closing} \<Longrightarrow> process_step (p, w) (close_listener e p, w)"
| servers_stopped: "p_phase p = Draining \<Longrightarrow> \<forall>l\<in>set (p_listeners p). fst l \<notin> set (p_serving p) \<Longrightarrow> close_jobs (p_queue p) = Some q
    \<Longrightarrow> process_step (p, w) (p\<lparr>p_phase := Closing, p_queue := q,
          p_error := (if p_error p = None \<and> httpErr = Some HTTPShutdownError then httpErr else p_error p)\<rparr>, w)"
| service_down: "p_phase p = Closing \<Longrightarrow> (res, q) \<in> set (shutdown_select ctxDone (p_queue p))
    \<Longrightarrow> process_step (p, w) (p\<lparr>p_phase := Stopped, p_queue := q, p_listeners := []\<rparr>, w)"
| surroundings: "\<forall>e\<in>set es. \<forall>d. db_steps d (e_other e d) \<Longrightarrow> process_step (p, w) (p, w\<lparr>w_schedule := es\<rparr>)"

inductive_cases process_stepE: "process_step (p, w) pw"

section \<open>What a start establishes\<close>

text \<open>Signing keys are never deleted.\<close>

definition keyed :: "db \<Rightarrow> bool" where
  "keyed d \<longleftrightarrow> signing_keys d \<noteq> []"

lemma signing_writes_keyed:
  "DeprecateCurrentAndSet now kid cipher nonce d = Inr (u, d') \<Longrightarrow> keyed d'"
  "InsertSigningKey now kid cipher nonce dep d = Inr (u, d') \<Longrightarrow> keyed d'"
  by (auto simp: keyed_def DeprecateCurrentAndSet_def InsertSigningKey_def insert_key_def Let_def split: sum.splits if_splits)

lemma keyed_frame: "signing_keys d' = signing_keys d \<Longrightarrow> keyed d' = keyed d"
  by (simp add: keyed_def)

lemmas keys_untouched =
  account_step_frame [THEN arg_cong, of _ _ signing_keys]
  invite_step_frame [THEN arg_cong, of _ _ signing_keys]
  session_step_frame [THEN arg_cong, of _ _ signing_keys]
  otp_step_frame [THEN arg_cong, of _ _ signing_keys]
  reset_step_frame [THEN arg_cong, of _ _ signing_keys]
  role_step_frame [THEN arg_cong, of _ _ signing_keys]
  request_step_frame [THEN arg_cong, of _ _ signing_keys]
  link_step_frame [THEN arg_cong, of _ _ signing_keys]
  step_up_step_frame [THEN arg_cong, of _ _ signing_keys]
  login_step_frame [THEN arg_cong, of _ _ signing_keys]

lemma db_step_keyed:
  assumes "db_step d d'" "keyed d"
  shows "keyed d'"
  using assms(1)
proof (cases rule: db_step.cases)
  case by_key
  then show ?thesis by (cases rule: key_step.cases) (auto dest: signing_writes_keyed)
qed (use assms(2) in \<open>auto dest!: keys_untouched simp: keyed_def\<close>)

lemma db_steps_keyed: "db_steps d d' \<Longrightarrow> keyed d \<Longrightarrow> keyed d'"
  unfolding db_steps_def by (induction rule: rtranclp_induct) (auto dest: db_step_keyed)

lemma bootstrap_keyed:
  assumes "run_state (EnsureBootstrap a) w = (Inr (), w')"
  shows "keyed (w_db w')"
proof -
  obtain n w1 where n: "run_state (repo CountSigningKeys) w = (Inr n, w1)"
    "run_state (if n > 0 then ret () else do {
         x \<leftarrow> uuid_New;
         let kid = uuid_String (alib a) x;
         checked (new_signing_material a kid) (\<lambda>(nonce, cipher).
           repo_now (\<lambda>now. InsertSigningKey now kid cipher nonce False)) }) w1 = (Inr (), w')"
    using assms unfolding EnsureBootstrap_def ensureSigningBootstrap_def by (rule checked_InrE)
  show ?thesis
  proof (cases "n > 0")
    case True
    then have "w' = w1" using n(2) by simp
    moreover obtain w2 d where "CountSigningKeys (w_db w2) = Inr (n, d)" "w1 = w2\<lparr>w_db := d\<rparr>"
      using n(1) by (rule repo_InrE)
    ultimately show ?thesis using True by (auto simp: CountSigningKeys_def reads_def keyed_def)
  next
    case False
    then obtain now kid cipher nonce w2 where "run_state (repo_now (\<lambda>now. InsertSigningKey now kid cipher nonce False)) w2 = (Inr (), w')"
      using n(2) by (auto elim!: checked_InrE simp: Let_def split: prod.splits)
    then show ?thesis by (rule repo_now_InrE) (auto dest: signing_writes_keyed)
  qed
qed

lemma boot_stage_Started:
  assumes "run_state (boot_stage stage m q k) w = (Started p, w')"
  obtains x w1 where "run_state m w = (Inr x, w1)" "run_state k w1 = (Started p, w')"
  using assms unfolding boot_stage_def by (elim bindE) (auto split: sum.splits)

lemma new_auth_queue: "NewAuth c L b = Inr (a, q) \<Longrightarrow> queue_ok q \<and> queue_reachable q"
  by (auto simp: NewAuth_def Let_def split: sum.splits intro: new_queue_ok queue_reachable.start)

text \<open>What holds of a started process and stays with it.\<close>

definition listening :: "process \<Rightarrow> bool" where
  "listening p \<longleftrightarrow> (p_health p \<longrightarrow> p_phase p \<in> {Running, Ending}) \<and> (p_rotating p \<longrightarrow> p_phase p \<in> {Running, Ending, Withdrawn})
     \<and> (p_phase p \<in> {Closing, Stopped} \<longrightarrow> shut (p_queue p) \<and> (\<forall>l\<in>set (p_listeners p). fst l \<notin> set (p_serving p)))
     \<and> (p_phase p = Stopped \<longrightarrow> p_listeners p = [])"

definition sound :: "process \<Rightarrow> world \<Rightarrow> bool" where
  "sound p w \<longleftrightarrow> store_ok (w_db w) \<and> keyed (w_db w) \<and> others db_steps w \<and> queue_reachable (p_queue p) \<and> listening p"

lemma listen_Started:
  assumes "listen B c a q = Started p" "queue_reachable q"
  shows "queue_reachable (p_queue p) \<and> listening p \<and> p_auth p = a
    \<and> p_listeners p = [(HTTPServer, HTTPAddr c), (GRPCServer, GRPCAddr c)]"
  using assms by (auto simp: listen_def listening_def bindListeners_def split: sum.splits prod.splits option.splits if_splits)

lemma start_sound:
  assumes "automigrate_ok (bo_migrator B)" "legacy_ok (s\<lparr>sc_db := w_db w\<rparr>)" "others db_steps w"
    and "start B c s w = ((Started p, s'), w')"
  shows "sound p w'"
proof -
  obtain s1 where m: "MigrateDB (bo_migrator B) (w_clock w) (s\<lparr>sc_db := w_db w\<rparr>) = (None, s1)"
    and r: "run_state (start_service B c) (w\<lparr>w_db := sc_db s1\<rparr>) = (Started p, w')"
    using assms(4) by (auto simp: start_def Up_def split: option.splits if_splits prod.splits)
  let ?w = "w\<lparr>w_db := sc_db s1\<rparr>"
  obtain a q where a: "NewAuth c (mg_lib (bo_migrator B)) True = Inr (a, q)"
    using r by (auto simp: start_service_def split: sum.splits)
  obtain x w1 y w2 z w3 where 1: "run_state (EnsureBootstrap a) ?w = (Inr x, w1)" "run_state (EnsureBootstrapAdmin a) w1 = (Inr y, w2)"
    "run_state (EnsureBootstrapSuperuserService a) w2 = (Inr z, w3)" "run_state (State_Monad.return (listen B c a q)) w3 = (Started p, w')"
    using r unfolding start_service_def a by (auto elim!: boot_stage_Started)
  have "store_ok (w_db ?w)" using migration_ok [OF assms(1,2) m] by simp
  moreover have o: "others db_steps ?w" using assms(3) by (simp add: others_def)
  moreover have b: "moves db_steps (EnsureBootstrap a)" unfolding EnsureBootstrap_def by (rule key_service_moves)
  note s1 = movesD [OF b 1(1) o]
  note s2 = movesD [OF onboarding_moves(6) 1(2) s1(2)]
  note s3 = movesD [OF onboarding_moves(7) 1(3) s2(2)]
  have "store_ok (w_db w3)" using \<open>store_ok (w_db ?w)\<close> s1(1) s2(1) s3(1) db_steps_ok by blast
  moreover have "keyed (w_db w3)" using bootstrap_keyed 1(1) db_steps_keyed s2(1) s3(1) by simp
  ultimately show ?thesis
    using 1(4) s3(2) listen_Started [of B c a q p] new_auth_queue [OF a] by (simp add: sound_def)
qed

lemma queue_step_shut: "queue_step q q' \<Longrightarrow> shut q \<Longrightarrow> shut q'"
proof (cases rule: queue_stepE, assumption)
  assume "internal q q'" "shut q"
  then show "shut q'" by (cases rule: internal.cases) (auto simp: logClass_def split: if_splits)
next
  fix job assume "enqueue job q = Some q'" "shut q"
  then show "shut q'" by (auto simp: enqueue_def logClass_def split: if_splits)
next
  assume "close_jobs q = Some q'"
  then show "shut q'" by (auto simp: close_jobs_def split: if_splits)
next
  fix r ctxDone assume "(r, q') \<in> set (shutdown_select ctxDone q)" "shut q"
  then show "shut q'" by (auto simp: shutdown_select_def split: if_splits)
qed

lemma sound_served:
  assumes "sound p w" "db_steps (w_db w) (w_db w')" "others db_steps w'" "q = p_queue p \<or> queue_step (p_queue p) q"
  shows "sound (p\<lparr>p_queue := q\<rparr>) w'"
  using assms db_steps_ok db_steps_keyed queue_step_shut
  by (auto simp: sound_def listening_def intro: queue_reachable.more)

lemma sound_moved: "sound p w \<Longrightarrow> db_steps (w_db w) (w_db w') \<Longrightarrow> others db_steps w' \<Longrightarrow> sound p w'"
  using sound_served [of p w w' "p_queue p"] by simp

lemma process_step_sound:
  assumes "process_step (p, w) (p', w')" "sound p w"
  shows "sound p' w'"
  using assms(1)
proof (cases rule: process_step.cases)
  case (http_request s r rs q)
  have "others db_steps w" using assms(2) by (simp add: sound_def)
  with http_refines_store [OF this http_request(4)] movesD(2) [OF serve_moves http_request(4) this] show ?thesis
    unfolding http_request(1) using sound_served [OF assms(2)] by simp
next
  case (grpc_call g md req out q)
  have "others db_steps w" using assms(2) by (simp add: sound_def)
  with grpc_refines_store [OF this grpc_call(4)] movesD(2) [OF serve_rpc_moves grpc_call(4) this] show ?thesis
    unfolding grpc_call(1) using sound_served [OF assms(2)] by simp
next
  case (tick_ends res)
  have "others db_steps w" using assms(2) by (simp add: sound_def)
  with movesD [OF key_service_moves(5) tick_ends(4) this] have "sound p w'" using sound_moved [OF assms(2)] by simp
  then show ?thesis using tick_ends(1) by (simp add: sound_def listening_def)
next
  case (mail_work job u)
  have "others db_steps w" using assms(2) by (simp add: sound_def)
  with movesD [OF mail_job_moves(2) mail_work(4) this] show ?thesis using sound_moved [OF assms(2)] mail_work(1) by simp
next
  case (queue_moves_on q)
  then show ?thesis using sound_served [OF assms(2), of w q] assms(2) stepping.refl by (auto simp: sound_def intro: step_internal)
next
  case (servers_stopped q httpErr)
  moreover have "shut q" using servers_stopped(5) by (auto simp: close_jobs_def split: if_splits)
  ultimately show ?thesis using assms(2) by (auto simp: sound_def listening_def intro: queue_reachable.more step_close)
next
  case (service_down res q ctxDone)
  moreover have "shut (p_queue p)" using assms(2) service_down(3) by (simp add: sound_def listening_def)
  moreover have s: "queue_step (p_queue p) q" using step_select [OF \<open>shut (p_queue p)\<close> service_down(4)] .
  ultimately show ?thesis using assms(2) queue_step_shut [OF s]
    by (auto simp: sound_def listening_def intro: queue_reachable.more)
qed (use assms(2) in \<open>auto simp: sound_def listening_def others_def close_listener_def\<close>)

lemma process_run_sound: "process_step\<^sup>*\<^sup>* (p, w) (p', w') \<Longrightarrow> sound p w \<Longrightarrow> sound p' w'"
  by (induction rule: rtranclp_induct2) (auto dest: process_step_sound)

text \<open>
  C12. The whole process, from a legacy database to the last state it reaches. The legacy database is one that its own
  catalogue enforces, in which no banned account with a raised token version has a live session, and whose signing
  keys are in order (\<open>legacy_ok\<close>). When the start went through, then however requests, calls, key rotations, mail
  workers, failing servers, other replicas and the end of the process interleave, and whichever effects fail: the
  database satisfies the invariant of the store; there is exactly one current signing key; the mail queue neither panics
  nor exceeds its bounds. In the shutdown health is withdrawn and the rotation stopped before the servers are told to end;
  once the service closes its queue, no server accepts connections; a process that has returned has no listener.
\<close>

theorem process_keeps_store:
  assumes "automigrate_ok (bo_migrator B)" "legacy_ok (s\<lparr>sc_db := w_db w\<rparr>)" "others db_steps w"
    and "start B c s w = ((Started p, s'), w1)" "process_step\<^sup>*\<^sup>* (p, w1) (p', w')"
  shows "store_ok (w_db w') \<and> count_rows k_is_current (signing_keys (w_db w')) = 1
    \<and> enqueue job (p_queue p') \<noteq> None \<and> length (jobs (p_queue p')) \<le> capacity (p_queue p')
    \<and> (p_phase p' \<in> {Draining, Closing, Stopped} \<longrightarrow> \<not> p_health p' \<and> \<not> p_rotating p')
    \<and> (p_phase p' \<in> {Closing, Stopped} \<longrightarrow> shut (p_queue p') \<and> (\<forall>l\<in>set (p_listeners p'). fst l \<notin> set (p_serving p')))
    \<and> (p_phase p' = Stopped \<longrightarrow> p_listeners p' = [])"
proof -
  have "sound p' w'" using process_run_sound [OF assms(5) start_sound [OF assms(1-4)]] .
  moreover from this have "queue_ok (p_queue p')" by (simp add: sound_def reachable_ok)
  then have "enqueue job (p_queue p') \<noteq> None" "length (jobs (p_queue p')) \<le> capacity (p_queue p')"
    by (auto simp: queue_ok_def enqueue_def split: if_splits)
  moreover have "p_phase p' \<in> {Draining, Closing, Stopped} \<longrightarrow> \<not> p_health p' \<and> \<not> p_rotating p'"
    using \<open>sound p' w'\<close> by (auto simp: sound_def listening_def)
  ultimately show ?thesis by (simp add: sound_def listening_def store_ok_def keys_ok_def keys_ok_on_def keyed_def)
qed

text \<open>What a failing start returns.\<close>

fun cleaned_up :: "start_result \<Rightarrow> bool" where
  "cleaned_up (NotStarted e q bound) \<longleftrightarrow> bound = [] \<and> (\<forall>q'. q = Some q' \<longrightarrow> shut q' \<and> \<not> accepting q' \<and> closed q') \<and> (\<forall>m. e \<noteq> MigrateFailed m)"
| "cleaned_up (Started p) \<longleftrightarrow> True"

lemma abandon_new: "NewAuth c L b = Inr (a, q) \<Longrightarrow> shut (abandon q) \<and> \<not> accepting (abandon q) \<and> closed (abandon q)"
  by (auto simp: NewAuth_def newPublicMailQueue_def Let_def abandon_def close_jobs_def split: sum.splits if_splits)

lemma boot_stage_cleaned:
  assumes "shut (abandon q) \<and> \<not> accepting (abandon q) \<and> closed (abandon q)" "\<And>w. cleaned_up (fst (run_state k w))"
  shows "cleaned_up (fst (run_state (boot_stage stage m q k) w))"
  using assms by (auto simp: boot_stage_def split: prod.split sum.split)

lemma listen_cleaned:
  "shut (abandon q) \<and> \<not> accepting (abandon q) \<and> closed (abandon q) \<Longrightarrow> cleaned_up (listen B c a q)"
  by (auto simp: listen_def bindListeners_def split: sum.split)

lemma start_service_cleaned: "cleaned_up (fst (run_state (start_service B c) w))"
  using abandon_new [of c "mg_lib (bo_migrator B)" True]
  by (auto simp: start_service_def intro!: boot_stage_cleaned listen_cleaned split: sum.split)

text \<open>
  C40. A start that fails leaves nothing behind: no listener is bound, the mail queue, if there was one already,
  accepts no job and is closed; and when the migration failed, no account and no key was bootstrapped.
\<close>

theorem failed_start_cleans_up:
  assumes "start B c s w = ((NotStarted e q bound, s'), w')"
  shows "bound = [] \<and> (\<forall>q'. q = Some q' \<longrightarrow> shut q' \<and> \<not> accepting q' \<and> closed q')
    \<and> (\<forall>m. e = MigrateFailed m \<longrightarrow> q = None \<and> MigrateDB (bo_migrator B) (w_clock w) (s\<lparr>sc_db := w_db w\<rparr>) = (Some m, s')
         \<and> w' = w\<lparr>w_db := sc_db s'\<rparr>)"
proof -
  obtain r s1 where u: "MigrateDB (bo_migrator B) (w_clock w) (s\<lparr>sc_db := w_db w\<rparr>) = (r, s1)" by fastforce
  show ?thesis
  proof (cases "Open B (DatabaseURL c) = None \<and> gorm_DB B")
    case opened: True
    show ?thesis
    proof (cases r)
      case None
      obtain x w1 where x: "run_state (start_service B c) (w\<lparr>w_db := sc_db s1\<rparr>) = (x, w1)" by fastforce
      then have "x = NotStarted e q bound" using assms u opened None by (simp add: start_def Up_def)
      moreover have "cleaned_up x" using start_service_cleaned [of B c "w\<lparr>w_db := sc_db s1\<rparr>"] by (simp add: x)
      ultimately show ?thesis by simp
    next
      case (Some m)
      then show ?thesis using assms u opened by (auto simp: start_def Up_def)
    qed
  next
    case False
    then show ?thesis using assms by (auto simp: start_def split: option.splits if_splits)
  qed
qed

section \<open>Examples\<close>

text \<open>A start on the legacy database, and one whose second address is taken.\<close>

definition sample_boot :: boot where
  "sample_boot = \<lparr>bo_migrator = sample_migrator, gorm_Open = (\<lambda>_. True), gorm_DB = True, NewServerTLSFromFile = (\<lambda>_ _. True),
     net_Listen = (\<lambda>bound a. a \<notin> set bound)\<rparr>"

definition sample_config :: config where
  "sample_config = default_config\<lparr>SigningKeyMasterKey := sample_key32, HTTPAddr := '':8080'', GRPCAddr := '':9090''\<rparr>"

definition legacy_world :: world where
  "legacy_world = \<lparr>w_db = legacy_db, w_clock = 50, w_outbox = [], w_rand = (\<lambda>k n. Some (replicate n CHR 0x00)), w_digits = (\<lambda>k. None),
     w_uuids = (\<lambda>k. k), w_draws = 0, w_schedule = []\<rparr>"

definition was_started :: "start_result \<Rightarrow> bool" where
  "was_started r = (case r of Started p \<Rightarrow> p_phase p = Running | NotStarted _ _ _ \<Rightarrow> False)"

lemma sample_started: "was_started (fst (fst (start sample_boot sample_config legacy_schema legacy_world)))"
  by code_simp

definition transport_error :: "start_result \<Rightarrow> string option" where
  "transport_error r = (case r of NotStarted (TransportFailed e) (Some q) bound \<Rightarrow> Some e | _ \<Rightarrow> None)"

lemma sample_collision:
  "transport_error (fst (fst (start sample_boot (sample_config\<lparr>GRPCAddr := '':8080''\<rparr>) legacy_schema legacy_world))) = Some ''bind gRPC :8080''"
  by code_simp

theorem process_keeps_store_witness:
  "\<exists>p s' w1. start sample_boot sample_config legacy_schema legacy_world = ((Started p, s'), w1)
     \<and> process_step (p, w1) (p\<lparr>p_phase := Ending\<rparr>, w1)
     \<and> store_ok (w_db w1) \<and> count_rows k_is_current (signing_keys (w_db w1)) = 1"
proof -
  obtain r s' w1 where r: "start sample_boot sample_config legacy_schema legacy_world = ((r, s'), w1)" by (metis prod.collapse)
  then have "was_started r" using sample_started by simp
  then obtain p where p: "r = Started p" "p_phase p = Running" by (cases r) (auto simp: was_started_def)
  have s: "process_step (p, w1) (p\<lparr>p_phase := Ending\<rparr>, w1)" using stop_signal p(2) by blast
  have "automigrate_ok (bo_migrator sample_boot)" "legacy_ok (legacy_schema\<lparr>sc_db := w_db legacy_world\<rparr>)" "others db_steps legacy_world"
    using sample_migrator_ok legacy_schema_ok by (simp_all add: sample_boot_def legacy_world_def legacy_schema_def others_def)
  from process_keeps_store [OF this r [unfolded p(1)] r_into_rtranclp [where r = process_step, OF s]] r s show ?thesis unfolding p(1) by blast
qed

theorem failed_start_cleans_up_witness:
  "\<exists>e q s' w'. start sample_boot (sample_config\<lparr>GRPCAddr := '':8080''\<rparr>) legacy_schema legacy_world = ((NotStarted e (Some q) [], s'), w')
     \<and> \<not> accepting q"
proof -
  obtain r s' w' where r: "start sample_boot (sample_config\<lparr>GRPCAddr := '':8080''\<rparr>) legacy_schema legacy_world = ((r, s'), w')"
    by (metis prod.collapse)
  then have "transport_error r \<noteq> None" using sample_collision by simp
  then obtain e q bound where "r = NotStarted e (Some q) bound"
    by (cases r) (auto simp: transport_error_def split: start_error.splits option.splits)
  with r failed_start_cleans_up [OF r [unfolded this]] show ?thesis by blast
qed

section \<open>The first administrator\<close>

text \<open>
  \<open>EnsureBootstrapAdmin\<close> creates the account and makes it a superuser in two transactions, and does nothing once
  there is a person. When the second transaction fails, the start fails; every later start goes through and leaves
  the installation without an administrator.
\<close>

lemma bootstrap_admin_gives_up:
  assumes "w_schedule w = []" "count_rows (\<lambda>u. u_kind u = UserHuman) (users (w_db w)) > 0"
  shows "run_state (EnsureBootstrapAdmin a) w = (Inr (), w)"
  using assms by (simp add: EnsureBootstrapAdmin_def Let_def run_simps CountHumanUsers_def reads_def transact_def)

lemma new_human: "CreateHumanUser i now lg em h d = Inr (x, d') \<Longrightarrow> \<exists>u. users d' = users d @ [u] \<and> u_kind u = UserHuman \<and> \<not> u_superuser u"
  by (auto simp: CreateHumanUser_def insert_user_def canonicalize_user_identity_def new_user_def Let_def split: sum.splits if_splits)

lemma interrupted_bootstrap_leaves_no_admin:
  assumes "w_schedule w = [quiet, quiet, \<lparr>e_elapsed = 0, e_other = (\<lambda>d. d), e_outcome = Refused\<rparr>]"
    and "TrimSpace (BootstrapSuperuserLogin (cfg a)) \<noteq> []" "TrimSpace (BootstrapSuperuserEmail (cfg a)) \<noteq> []" "BootstrapSuperuserPassword (cfg a) \<noteq> []"
    and "count_rows (\<lambda>u. u_kind u = UserHuman) (users (w_db w)) = 0" "\<forall>u\<in>set (users (w_db w)). \<not> u_superuser u"
    and "HashPassword (alib a) (w_rand w (w_draws w) argonSaltLen) (BootstrapSuperuserPassword (cfg a)) = Inr h"
    and "CreateHumanUser (w_uuids w (w_draws w + 1)) (w_clock w) (normalizeLogin (TrimSpace (BootstrapSuperuserLogin (cfg a))))
      (TrimSpace (BootstrapSuperuserEmail (cfg a))) h (w_db w) = Inr (i, d)"
  shows "\<exists>e w1. run_state (EnsureBootstrapAdmin a) w = (Inl e, w1) \<and> run_state (EnsureBootstrapAdmin a) w1 = (Inr (), w1)
    \<and> (\<forall>u\<in>set (users (w_db w1)). \<not> u_superuser u)"
proof -
  have "\<exists>e w1. run_state (EnsureBootstrapAdmin a) w = (Inl e, w1) \<and> w_db w1 = d \<and> w_schedule w1 = []"
    using assms by (auto simp: EnsureBootstrapAdmin_def Let_def run_checked run_draw repo_def repo_now_def arrive_def pop_def settle_def quiet_def
        CountHumanUsers_def reads_def transact_def)
  then obtain e w1 where w1: "run_state (EnsureBootstrapAdmin a) w = (Inl e, w1)" "w_db w1 = d" "w_schedule w1 = []" by blast
  obtain u where u: "users d = users (w_db w) @ [u]" "u_kind u = UserHuman" "\<not> u_superuser u" using new_human [OF assms(8)] by blast
  then have "run_state (EnsureBootstrapAdmin a) w1 = (Inr (), w1)" using w1(2,3) by (intro bootstrap_admin_gives_up) (simp_all add: count_rows_def)
  then show ?thesis using w1(1,2) u assms(6) by auto
qed

end
