(* ===== verification/Mcp.thy ===== *)
theory Mcp
  imports Grpc_Properties
begin

text \<open>
  The MCP server: \<open>internal/mcpserver/client.go\<close> and \<open>server.go\<close>. It offers thirteen tools to a language
  model and serves each of them by a call of the gRPC interface as one service account, with a token that it
  keeps until shortly before it expires.

  The program at the other end is the gRPC server of \<open>Grpc_Server\<close>; a call on the way to it may be refused or
  its answer lost, as any other effect. What the operating system, the parser of durations, the certificate pool,
  the gRPC dialler and the formatting of times answer are parameters, and so is the MCP library, which decodes the arguments
  of a tool into its input and encodes its output.
\<close>

section \<open>Configuration\<close>

record host =
  os_Getenv :: "string \<Rightarrow> string"
  os_ReadFile :: "string \<Rightarrow> bytes option"
  time_ParseDuration :: "string \<Rightarrow> duration option"
  AppendCertsFromPEM :: "bytes \<Rightarrow> bool"
  grpc_NewClient :: "string \<Rightarrow> bool"

record client_config =
  Address :: string
  ServiceLogin :: string
  ServiceSecret :: string
  TLSCAFile :: string
  TLSServerName :: string
  RequestTimeout :: duration
  InsecureTransport :: bool

definition valueOrDefault :: "string \<Rightarrow> string \<Rightarrow> string" where
  "valueOrDefault v fallback = (let t = TrimSpace v in if t \<noteq> [] then t else fallback)"

definition ConfigFromEnv :: "host \<Rightarrow> string + client_config" where
  "ConfigFromEnv H =
     (let c = \<lparr>Address = valueOrDefault (os_Getenv H ''AUTH_MASTER_GRPC_ADDR'') ''localhost:9090'',
               ServiceLogin = TrimSpace (os_Getenv H ''AUTH_MASTER_SERVICE_LOGIN''),
               ServiceSecret = os_Getenv H ''AUTH_MASTER_SERVICE_SECRET'',
               TLSCAFile = TrimSpace (os_Getenv H ''AUTH_MASTER_GRPC_TLS_CA_FILE''),
               TLSServerName = TrimSpace (os_Getenv H ''AUTH_MASTER_GRPC_TLS_SERVER_NAME''),
               RequestTimeout = 10 * Second, InsecureTransport = False\<rparr>;
          raw = TrimSpace (os_Getenv H ''AUTH_MASTER_REQUEST_TIMEOUT'');
          finish = (\<lambda>c. if ServiceLogin c = [] then Inl ''AUTH_MASTER_SERVICE_LOGIN is required''
            else if ServiceSecret c = [] then Inl ''AUTH_MASTER_SERVICE_SECRET is required''
            else if TLSCAFile c = [] then Inr (c\<lparr>InsecureTransport := True\<rparr>) else Inr c)
      in if raw = [] then finish c
         else case time_ParseDuration H raw of
           None \<Rightarrow> Inl ''AUTH_MASTER_REQUEST_TIMEOUT must be a positive duration''
         | Some t \<Rightarrow> if t \<le> 0 then Inl ''AUTH_MASTER_REQUEST_TIMEOUT must be a positive duration''
             else finish (c\<lparr>RequestTimeout := t\<rparr>))"

datatype transport_credentials = InsecureCredentials | TLSCredentials bytes string

definition transportCredentials :: "host \<Rightarrow> client_config \<Rightarrow> string + transport_credentials" where
  "transportCredentials H c =
     (if InsecureTransport c then Inr InsecureCredentials
      else case os_ReadFile H (TLSCAFile c) of
        None \<Rightarrow> Inl ''read auth-master TLS CA''
      | Some pem \<Rightarrow>
          if \<not> AppendCertsFromPEM H pem then Inl ''AUTH_MASTER_GRPC_TLS_CA_FILE contains no valid certificates''
          else Inr (TLSCredentials pem (TLSServerName c)))"

section \<open>The client\<close>

definition tokenRefreshSkew :: duration where
  "tokenRefreshSkew = 30 * Second"

record mcp_client =
  cl_login :: string
  cl_secret :: string
  cl_timeout :: duration
  cl_accessToken :: string
  cl_tokenExpires :: instant

definition NewClient :: "string \<Rightarrow> string \<Rightarrow> duration \<Rightarrow> mcp_client" where
  "NewClient login secret timeout =
     \<lparr>cl_login = login, cl_secret = secret, cl_timeout = timeout, cl_accessToken = [], cl_tokenExpires = 0\<rparr>"

definition Dial :: "host \<Rightarrow> client_config \<Rightarrow> string + mcp_client" where
  "Dial H c =
     (case transportCredentials H c of
        Inl e \<Rightarrow> Inl e
      | Inr _ \<Rightarrow>
          if \<not> grpc_NewClient H (Address c) then Inl ''create auth-master gRPC client''
          else Inr (NewClient (ServiceLogin c) (ServiceSecret c) (RequestTimeout c)))"

text \<open>A call that did not come back (also when its deadline has passed), a status of the server, an error of the
  client itself, and an error with the name of the operation in front.\<close>

datatype client_error = Unreachable | ServerStatus grpc_status | ClientError string | Wrap string client_error

record mcp =
  mc_grpc :: grpc_server
  mc_reflection :: bool
  time_Format :: "instant \<Rightarrow> string"

definition arriving :: "outcome prog" where
  "arriving = State arrive"

definition remote :: "mcp \<Rightarrow> string list option \<Rightarrow> rpc_request \<Rightarrow> publicMailQueue \<Rightarrow> ((client_error + reply) \<times> publicMailQueue) prog" where
  "remote M md req q = State_Monad.bind arriving (\<lambda>out. case out of
     Refused \<Rightarrow> State_Monad.return (Inl Unreachable, q)
   | Served \<Rightarrow> State_Monad.bind (serve_rpc (mc_grpc M) (mc_reflection M) md req q) (\<lambda>(r, q').
       State_Monad.return (case r of Inl st \<Rightarrow> Inl (ServerStatus st) | Inr x \<Rightarrow> Inr x, q'))
   | Lost \<Rightarrow> State_Monad.bind (serve_rpc (mc_grpc M) (mc_reflection M) md req q) (\<lambda>(r, q'). State_Monad.return (Inl Unreachable, q')))"

type_synonym 'a call = "mcp_client \<Rightarrow> publicMailQueue \<Rightarrow> ((client_error + 'a) \<times> mcp_client \<times> publicMailQueue) prog"

text \<open>The answer to a request for a token; the client keeps a complete one.\<close>

definition take_token :: "mcp \<Rightarrow> mcp_client \<Rightarrow> client_error + reply \<Rightarrow> (client_error + string) \<times> mcp_client" where
  "take_token M c r =
     (case r of
        Inl e \<Rightarrow> (Inl (Wrap ''issue auth-master service token'' e), c)
      | Inr (ServiceTokenReply tok expires) \<Rightarrow>
          if tok = [] then (Inl (ClientError ''auth-master returned an incomplete service token''), c)
          else if \<not> timestamp_CheckValid (mc_grpc M) expires then (Inl (ClientError ''auth-master returned an invalid token expiry''), c)
          else (Inr tok, c\<lparr>cl_accessToken := tok, cl_tokenExpires := expires\<rparr>)
      | Inr _ \<Rightarrow> (Inl (ClientError ''auth-master returned an incomplete service token''), c))"

definition token :: "mcp \<Rightarrow> string call" where
  "token M c q =
     (let issue = State_Monad.bind (remote M None (AuthService (IssueServiceTokenRequest (cl_login c) (cl_secret c))) q)
            (\<lambda>(r, q'). State_Monad.return (case take_token M c r of (res, c') \<Rightarrow> (res, c', q')))
      in if cl_accessToken c = [] then issue
         else State_Monad.bind time_Now (\<lambda>now.
           if cl_tokenExpires c - now > tokenRefreshSkew then State_Monad.return (Inr (cl_accessToken c), c, q) else issue))"

definition actor_call :: "mcp \<Rightarrow> rpc_request \<Rightarrow> reply call" where
  "actor_call M req c q = State_Monad.bind (token M c q) (\<lambda>(res, c1, q1). case res of
     Inl e \<Rightarrow> State_Monad.return (Inl e, c1, q1)
   | Inr t \<Rightarrow> State_Monad.bind (remote M (Some [''Bearer '' @ t]) req q1) (\<lambda>(r, q2). State_Monad.return (r, c1, q2)))"

record list_input =
  li_query :: string
  li_cursor :: string
  li_page_size :: int64

definition pageRequest :: "list_input \<Rightarrow> string \<times> string \<times> int32" where
  "pageRequest i = (li_query i, li_cursor i, ucast (li_page_size i))"

definition parseRoleLevel :: "string \<Rightarrow> client_error + role_level" where
  "parseRoleLevel level =
     (let l = ToLower (TrimSpace level)
      in if l = ''direct_member'' then Inr RoleDirectMember
         else if l = ''member'' then Inr RoleMember
         else if l = ''role_admin'' then Inr RoleRoleAdmin
         else Inl (ClientError ''level must be direct_member, member, or role_admin''))"

definition Client_ListUsers :: "mcp \<Rightarrow> list_input \<Rightarrow> reply call" where
  "Client_ListUsers M i = actor_call M (AdminService (ListUsersRequest (Some (pageRequest i))))"

definition Client_ListRoles :: "mcp \<Rightarrow> list_input \<Rightarrow> reply call" where
  "Client_ListRoles M i = actor_call M (RoleService (ListRolesRequest (Some (pageRequest i))))"

definition Client_CreateRole :: "mcp \<Rightarrow> string \<Rightarrow> string \<Rightarrow> string list \<Rightarrow> reply call" where
  "Client_CreateRole M name description parents = actor_call M (RoleService (CreateRoleRequest name description parents))"

definition Client_AssignRole :: "mcp \<Rightarrow> string \<Rightarrow> string \<Rightarrow> string \<Rightarrow> string list \<Rightarrow> reply call" where
  "Client_AssignRole M role user level tags c q =
     (case parseRoleLevel level of
        Inl e \<Rightarrow> State_Monad.return (Inl e, c, q)
      | Inr l \<Rightarrow> actor_call M (RoleService (AssignRoleRequest role user (Level l) None tags)) c q)"

definition Client_RemoveRole :: "mcp \<Rightarrow> string \<Rightarrow> string \<Rightarrow> reply call" where
  "Client_RemoveRole M role user = actor_call M (RoleService (RemoveRoleRequest role user))"

definition Client_BanUser :: "mcp \<Rightarrow> string \<Rightarrow> string \<Rightarrow> reply call" where
  "Client_BanUser M user reason = actor_call M (AdminService (BanUserRequest user reason))"

definition Client_UnbanUser :: "mcp \<Rightarrow> string \<Rightarrow> reply call" where
  "Client_UnbanUser M user = actor_call M (AdminService (UnbanUserRequest user))"

definition Client_ChangeRoleTag :: "mcp \<Rightarrow> string \<Rightarrow> string \<Rightarrow> bool \<Rightarrow> reply call" where
  "Client_ChangeRoleTag M role tag add =
     actor_call M (RoleService (if add then AddRoleTagRequest role tag else DeleteRoleTagRequest role tag))"

definition Client_ChangeMembershipTag :: "mcp \<Rightarrow> string \<Rightarrow> string \<Rightarrow> string \<Rightarrow> bool \<Rightarrow> reply call" where
  "Client_ChangeMembershipTag M role user tag add =
     actor_call M (RoleService (if add then GrantMembershipTagRequest role user tag else RevokeMembershipTagRequest role user tag))"

definition Client_ListUserRoles :: "mcp \<Rightarrow> string \<Rightarrow> reply call" where
  "Client_ListUserRoles M user = actor_call M (RoleService (ListUserRolesRequest user))"

definition Client_ListRoleMembers :: "mcp \<Rightarrow> string \<Rightarrow> reply call" where
  "Client_ListRoleMembers M role = actor_call M (RoleService (ListRoleMembersRequest role))"

section \<open>Outputs\<close>

record user_output =
  uo_id :: string
  uo_login :: string
  uo_email :: "string option"
  uo_kind :: string
  uo_superuser :: bool
  uo_banned_at :: "string option"
  uo_ban_reason :: string
  uo_created_at :: string

record role_output =
  ro_id :: string
  ro_name :: string
  ro_description :: string
  ro_parents :: "string list"
  ro_tags :: "string list"
  ro_created_at :: string

record user_role_output =
  mo_id :: string
  mo_user :: string
  mo_role :: string
  mo_level :: string
  mo_valid_from :: string
  mo_valid_until :: "string option"
  mo_granted_by :: "string option"

record role_member_output =
  eo_user :: string
  eo_login :: string
  eo_email :: "string option"
  eo_level :: string
  eo_tags :: "string list"

definition kind_String :: "user_kind \<Rightarrow> string" where
  "kind_String k = (case k of UserHuman \<Rightarrow> ''USER_KIND_HUMAN'' | UserService \<Rightarrow> ''USER_KIND_SERVICE'')"

definition level_String :: "role_level \<Rightarrow> string" where
  "level_String l = (case l of RoleDirectMember \<Rightarrow> ''ROLE_LEVEL_DIRECT_MEMBER'' | RoleMember \<Rightarrow> ''ROLE_LEVEL_MEMBER''
     | RoleRoleAdmin \<Rightarrow> ''ROLE_LEVEL_ROLE_ADMIN'')"

definition userOutput :: "mcp \<Rightarrow> pb_user \<Rightarrow> user_output" where
  "userOutput M u = \<lparr>uo_id = pu_id u, uo_login = pu_login u, uo_email = pu_email u, uo_kind = kind_String (pu_kind u),
     uo_superuser = pu_superuser u, uo_banned_at = map_option (time_Format M) (pu_banned_at u), uo_ban_reason = pu_ban_reason u,
     uo_created_at = time_Format M (pu_created_at u)\<rparr>"

definition roleOutput :: "mcp \<Rightarrow> pb_role \<Rightarrow> role_output" where
  "roleOutput M r = \<lparr>ro_id = pr_id r, ro_name = pr_name r, ro_description = pr_description r, ro_parents = pr_parents r,
     ro_tags = pr_tags r, ro_created_at = time_Format M (pr_created_at r)\<rparr>"

definition userRoleOutput :: "mcp \<Rightarrow> pb_user_role \<Rightarrow> user_role_output" where
  "userRoleOutput M m = \<lparr>mo_id = pm_id m, mo_user = pm_user m, mo_role = pm_role m, mo_level = level_String (pm_level m),
     mo_valid_from = time_Format M (pm_valid_from m), mo_valid_until = map_option (time_Format M) (pm_valid_until m),
     mo_granted_by = pm_granted_by m\<rparr>"

definition roleMemberOutput :: "pb_member \<Rightarrow> role_member_output" where
  "roleMemberOutput m = \<lparr>eo_user = pe_user m, eo_login = pe_login m, eo_email = pe_email m, eo_level = level_String (pe_level m),
     eo_tags = pe_tags m\<rparr>"

datatype tool_output =
    NoOutput
  | UserPage "user_output list" int "nat option" string
  | RolePage "role_output list" int "nat option" string
  | UserRolesOutput "user_role_output list"
  | RoleMembersOutput "role_member_output list"
  | CreateRoleOutput string
  | MutationOutput bool

section \<open>The tools\<close>

datatype tool =
    List_users list_input
  | List_roles list_input
  | List_user_roles string
  | List_role_members string
  | Create_role string string "string list"
  | Assign_role string string string "string list"
  | Remove_role string string
  | Ban_user string string
  | Unban_user string
  | Add_role_tag string string
  | Delete_role_tag string string
  | Grant_membership_tag string string string
  | Revoke_membership_tag string string string

record annotations =
  ReadOnlyHint :: bool
  DestructiveHint :: "bool option"
  OpenWorldHint :: "bool option"

definition readTool :: annotations where
  "readTool = \<lparr>ReadOnlyHint = True, DestructiveHint = None, OpenWorldHint = Some False\<rparr>"

definition additiveTool :: annotations where
  "additiveTool = \<lparr>ReadOnlyHint = False, DestructiveHint = Some False, OpenWorldHint = Some False\<rparr>"

definition destructiveTool :: annotations where
  "destructiveTool = \<lparr>ReadOnlyHint = False, DestructiveHint = Some True, OpenWorldHint = Some False\<rparr>"

text \<open>The name and the hints a tool is registered with.\<close>

fun registered :: "tool \<Rightarrow> string \<times> annotations" where
  "registered (List_users i) = (''list_users'', readTool)"
| "registered (List_roles i) = (''list_roles'', readTool)"
| "registered (List_user_roles u) = (''list_user_roles'', readTool)"
| "registered (List_role_members r) = (''list_role_members'', readTool)"
| "registered (Create_role n d ps) = (''create_role'', additiveTool)"
| "registered (Assign_role r u l ts) = (''assign_role'', destructiveTool)"
| "registered (Remove_role r u) = (''remove_role'', destructiveTool)"
| "registered (Ban_user u reason) = (''ban_user'', destructiveTool)"
| "registered (Unban_user u) = (''unban_user'', additiveTool)"
| "registered (Add_role_tag r t) = (''add_role_tag'', additiveTool)"
| "registered (Delete_role_tag r t) = (''delete_role_tag'', destructiveTool)"
| "registered (Grant_membership_tag r u t) = (''grant_membership_tag'', additiveTool)"
| "registered (Revoke_membership_tag r u t) = (''revoke_membership_tag'', destructiveTool)"

definition normalizeList :: "list_input \<Rightarrow> list_input" where
  "normalizeList i = (if li_page_size i = 0 then i\<lparr>li_page_size := 25\<rparr> else i)"

type_synonym tool_result = "tool_output \<times> client_error option"

definition mutation :: "string \<Rightarrow> client_error + reply \<Rightarrow> tool_result" where
  "mutation operation r = (case r of Inl e \<Rightarrow> (MutationOutput False, Some (Wrap operation e)) | Inr _ \<Rightarrow> (MutationOutput True, None))"

definition listing :: "string \<Rightarrow> (reply \<Rightarrow> tool_output) \<Rightarrow> client_error + reply \<Rightarrow> tool_result" where
  "listing operation k r = (case r of Inl e \<Rightarrow> (NoOutput, Some (Wrap operation e)) | Inr x \<Rightarrow> (k x, None))"

definition created :: "client_error + reply \<Rightarrow> tool_result" where
  "created r = (case r of
     Inl e \<Rightarrow> (CreateRoleOutput [], Some (Wrap ''create role'' e))
   | Inr x \<Rightarrow> (CreateRoleOutput (case x of RoleIdReply i \<Rightarrow> i | _ \<Rightarrow> []), None))"

definition read_reply :: "mcp \<Rightarrow> reply \<Rightarrow> tool_output" where
  "read_reply M x = (case x of
     UsersReply us n cursor all \<Rightarrow> UserPage (map (userOutput M) us) n all cursor
   | RolesReply rs n cursor all \<Rightarrow> RolePage (map (roleOutput M) rs) n all cursor
   | UserRolesReply ms \<Rightarrow> UserRolesOutput (map (userRoleOutput M) ms)
   | MembersReply ms \<Rightarrow> RoleMembersOutput (map roleMemberOutput ms)
   | _ \<Rightarrow> NoOutput)"

type_synonym tool_run = "(tool_result \<times> mcp_client \<times> publicMailQueue) prog"

definition finish :: "(client_error + reply \<Rightarrow> tool_result) \<Rightarrow> reply call \<Rightarrow> mcp_client \<Rightarrow> publicMailQueue \<Rightarrow> tool_run" where
  "finish k m c q = State_Monad.bind (m c q) (\<lambda>(r, c', q'). State_Monad.return (k r, c', q'))"

fun registerReadTools :: "mcp \<Rightarrow> tool \<Rightarrow> (mcp_client \<Rightarrow> publicMailQueue \<Rightarrow> tool_run) option" where
  "registerReadTools M (List_users i) = Some (finish (listing ''list users'' (read_reply M)) (Client_ListUsers M (normalizeList i)))"
| "registerReadTools M (List_roles i) = Some (finish (listing ''list roles'' (read_reply M)) (Client_ListRoles M (normalizeList i)))"
| "registerReadTools M (List_user_roles u) = Some (finish (listing ''list user roles'' (read_reply M)) (Client_ListUserRoles M u))"
| "registerReadTools M (List_role_members r) = Some (finish (listing ''list role members'' (read_reply M)) (Client_ListRoleMembers M r))"
| "registerReadTools M _ = None"

fun registerMutationTools :: "mcp \<Rightarrow> tool \<Rightarrow> (mcp_client \<Rightarrow> publicMailQueue \<Rightarrow> tool_run) option" where
  "registerMutationTools M (Create_role n d ps) = Some (finish created (Client_CreateRole M n d ps))"
| "registerMutationTools M (Assign_role r u l ts) = Some (finish (mutation ''assign role'') (Client_AssignRole M r u l ts))"
| "registerMutationTools M (Remove_role r u) = Some (finish (mutation ''remove role membership'') (Client_RemoveRole M r u))"
| "registerMutationTools M (Ban_user u reason) = Some (finish (mutation ''ban user'') (Client_BanUser M u reason))"
| "registerMutationTools M (Unban_user u) = Some (finish (mutation ''unban user'') (Client_UnbanUser M u))"
| "registerMutationTools M (Add_role_tag r t) = Some (finish (mutation ''add role tag'') (Client_ChangeRoleTag M r t True))"
| "registerMutationTools M (Delete_role_tag r t) = Some (finish (mutation ''delete role tag'') (Client_ChangeRoleTag M r t False))"
| "registerMutationTools M (Grant_membership_tag r u t) = Some (finish (mutation ''grant membership tag'') (Client_ChangeMembershipTag M r u t True))"
| "registerMutationTools M (Revoke_membership_tag r u t) = Some (finish (mutation ''revoke membership tag'') (Client_ChangeMembershipTag M r u t False))"
| "registerMutationTools M _ = None"

text \<open>\<open>None\<close>: no such tool.\<close>

definition call_tool :: "mcp \<Rightarrow> tool \<Rightarrow> (mcp_client \<Rightarrow> publicMailQueue \<Rightarrow> tool_run) option" where
  "call_tool M t = (case registerReadTools M t of Some h \<Rightarrow> Some h | None \<Rightarrow> registerMutationTools M t)"

end
