(* ===== verification/Mcp_Properties.thy ===== *)
theory Mcp_Properties
  imports Mcp
begin

text \<open>
  Properties of the MCP server: its tools move the database by steps of the store only, the tools announced as
  read-only write nothing, and the token a call carries is one the client may use.
\<close>

section \<open>Calls as moves\<close>

context database_moves
begin

lemma moves_arriving: "moves R arriving"
  by (rule movesI) (auto simp: arriving_def dest: arrive_moves)

lemma moves_remote: "moves R (serve_rpc (mc_grpc M) (mc_reflection M) md req q) \<Longrightarrow> moves R (remote M md req q)"
  unfolding remote_def
  by (intro moves_bind moves_arriving) (auto intro!: moves_bind moves_return split: outcome.split)

lemma moves_token:
  assumes "\<And>q. moves R (remote M None (AuthService (IssueServiceTokenRequest (cl_login c) (cl_secret c))) q)"
  shows "moves R (token M c q)"
  unfolding token_def Let_def by (auto intro!: moves_bind moves_return moves_time_Now moves_if assms split: prod.split)

lemma moves_actor_call:
  assumes "\<And>q. moves R (remote M None (AuthService (IssueServiceTokenRequest (cl_login c) (cl_secret c))) q)"
    and "\<And>md q. moves R (remote M md req q)"
  shows "moves R (actor_call M req c q)"
  unfolding actor_call_def
  by (auto intro!: moves_bind moves_token moves_return assms split: prod.split sum.split)

lemma moves_finish: "moves R (m c q) \<Longrightarrow> moves R (finish k m c q)"
  unfolding finish_def by (auto intro!: moves_bind moves_return split: prod.split)

end

text \<open>The RPC behind a tool.\<close>

fun tool_request :: "tool \<Rightarrow> rpc_request option" where
  "tool_request (List_users i) = Some (AdminService (ListUsersRequest (Some (pageRequest (normalizeList i)))))"
| "tool_request (List_roles i) = Some (RoleService (ListRolesRequest (Some (pageRequest (normalizeList i)))))"
| "tool_request (List_user_roles u) = Some (RoleService (ListUserRolesRequest u))"
| "tool_request (List_role_members r) = Some (RoleService (ListRoleMembersRequest r))"
| "tool_request (Create_role n d ps) = Some (RoleService (CreateRoleRequest n d ps))"
| "tool_request (Assign_role r u l ts) =
     (case parseRoleLevel l of Inl e \<Rightarrow> None | Inr level \<Rightarrow> Some (RoleService (AssignRoleRequest r u (Level level) None ts)))"
| "tool_request (Remove_role r u) = Some (RoleService (RemoveRoleRequest r u))"
| "tool_request (Ban_user u reason) = Some (AdminService (BanUserRequest u reason))"
| "tool_request (Unban_user u) = Some (AdminService (UnbanUserRequest u))"
| "tool_request (Add_role_tag r t) = Some (RoleService (AddRoleTagRequest r t))"
| "tool_request (Delete_role_tag r t) = Some (RoleService (DeleteRoleTagRequest r t))"
| "tool_request (Grant_membership_tag r u t) = Some (RoleService (GrantMembershipTagRequest r u t))"
| "tool_request (Revoke_membership_tag r u t) = Some (RoleService (RevokeMembershipTagRequest r u t))"

lemmas client_defs = Client_ListUsers_def Client_ListRoles_def Client_CreateRole_def Client_AssignRole_def Client_RemoveRole_def
  Client_BanUser_def Client_UnbanUser_def Client_ChangeRoleTag_def Client_ChangeMembershipTag_def Client_ListUserRoles_def
  Client_ListRoleMembers_def

lemma tool_is_call:
  obtains (call) req k where "tool_request t = Some req" "call_tool M t = Some (finish k (actor_call M req))"
  | (malformed) e r u l ts where "t = Assign_role r u l ts" "parseRoleLevel l = Inl e"
      "call_tool M t = Some (finish (mutation ''assign role'') (\<lambda>c q. State_Monad.return (Inl e, c, q)))"
proof (cases t)
  case (Assign_role r u l ts)
  show ?thesis
  proof (cases "parseRoleLevel l")
    case (Inl e)
    then have "Client_AssignRole M r u l ts = (\<lambda>c q. State_Monad.return (Inl e, c, q))" by (simp add: Client_AssignRole_def fun_eq_iff)
    then show ?thesis using malformed [OF Assign_role Inl] by (simp add: Assign_role call_tool_def)
  next
    case (Inr level)
    then have "Client_AssignRole M r u l ts = actor_call M (RoleService (AssignRoleRequest r u (Level level) None ts))"
      by (simp add: Client_AssignRole_def fun_eq_iff)
    then show ?thesis using call Inr by (simp add: Assign_role call_tool_def)
  qed
qed (use that(1) in \<open>simp_all add: call_tool_def client_defs\<close>)

lemma tool_moves:
  assumes "database_moves R" "call_tool M t = Some h"
    and "\<And>q. moves R (serve_rpc (mc_grpc M) (mc_reflection M) None (AuthService (IssueServiceTokenRequest (cl_login c) (cl_secret c))) q)"
    and "\<And>req md q. tool_request t = Some req \<Longrightarrow> moves R (serve_rpc (mc_grpc M) (mc_reflection M) md req q)"
  shows "moves R (h c q)"
proof (cases rule: tool_is_call [of t M])
  case (call req k)
  then show ?thesis
    using assms(2) database_moves.moves_finish [OF assms(1)] database_moves.moves_actor_call [OF assms(1)]
      database_moves.moves_remote [OF assms(1)] assms(3,4) by fastforce
next
  case (malformed e r u l ts)
  then have h: "h = finish (mutation ''assign role'') (\<lambda>c q. State_Monad.return (Inl e, c, q))" using assms(2) by simp
  show ?thesis unfolding h by (rule database_moves.moves_finish [OF assms(1)]) (rule database_moves.moves_return [OF assms(1)])
qed

lemma every_tool_served: "\<exists>h. call_tool M t = Some h"
  by (cases rule: tool_is_call [of t M]) auto

text \<open>
  The MCP server refines the store. Whatever tool is called, whether the token is kept or issued anew,
  whichever call or effect on the way is refused or lost and whatever other requests do in between, the
  database moves by steps of the store's transition system, and its invariant stays.
\<close>

theorem mcp_refines_store:
  assumes "call_tool M t = Some h" "others db_steps w" "run_state (h c q) w = (out, w')"
  shows "db_steps (w_db w) (w_db w') \<and> (store_ok (w_db w) \<longrightarrow> store_ok (w_db w'))"
proof -
  have "moves db_steps (h c q)"
    by (rule tool_moves [OF stepping.database_moves_axioms assms(1)]) (rule serve_rpc_moves)+
  from movesD(1) [OF this assms(3,2)] show ?thesis using db_steps_ok by blast
qed

section \<open>Tools that only read\<close>

text \<open>
  What the other requests did, and the first signing key, which the issue of a token makes when there is none: a
  current key is appended to a table without a current key, and nothing else changes.
\<close>

definition first_key :: "db \<Rightarrow> db \<Rightarrow> bool" where
  "first_key d d' \<longleftrightarrow> (\<forall>k\<in>set (signing_keys d). \<not> k_is_current k)
     \<and> (\<exists>k. k_is_current k \<and> d' = d\<lparr>signing_keys := signing_keys d @ [k]\<rparr>)"

definition reads_only :: "world \<Rightarrow> db \<Rightarrow> db \<Rightarrow> bool" where
  "reads_only w d d' \<longleftrightarrow> (\<lambda>d d'. (\<exists>e\<in>set (w_schedule w). d' = e_other e d) \<or> first_key d d')\<^sup>*\<^sup>* d d'"

interpretation reading: database_moves "reads_only w" for w
  by unfold_locales (auto simp: reads_only_def)

lemma others_reads_only: "others (reads_only w) w"
  by (auto simp: others_def reads_only_def)

lemma insert_first_key:
  assumes "InsertSigningKey now kid cipher nonce False d = Inr (x, d')"
  shows "first_key d d'"
proof -
  let ?k = "\<lparr>k_kid = kid, k_secret_cipher = cipher, k_nonce = nonce, k_deprecated_at = None, k_is_current = True\<rparr>"
  have "d' = d\<lparr>signing_keys := signing_keys d @ [?k]\<rparr>" "\<forall>k\<in>set (signing_keys d). \<not> k_is_current k"
    using assms by (auto simp: InsertSigningKey_def insert_key_def exists_row_def list_ex_iff Let_def split: if_splits)
  moreover have "k_is_current ?k" by simp
  ultimately show ?thesis unfolding first_key_def by blast
qed

lemma bootstrap_reads_only: "moves (reads_only w) (ensureSigningBootstrap a)"
proof -
  have "moves (reads_only w) (repo_now (\<lambda>now. InsertSigningKey now kid cipher nonce False))" for kid cipher nonce
    by (rule reading.moves_repo_now) (auto simp: reads_only_def dest!: insert_first_key)
  then show ?thesis
    unfolding ensureSigningBootstrap_def CountSigningKeys_def new_signing_material_def EncryptAESGCM_def Let_def
    by (intro preserves_intros reading.moves_reads; assumption?)
qed

text \<open>As long as there is a key the bootstrap does nothing at all.\<close>

lemma bootstrap_schedule:
  "run_state (ensureSigningBootstrap a) w = (x, w') \<Longrightarrow> set (w_schedule w') \<subseteq> set (w_schedule w)"
  by (auto simp: ensureSigningBootstrap_def new_signing_material_def CountSigningKeys_def reads_def run_checked run_draw Let_def
      repo_def repo_now_def arrive_def pop_def settle_def split: if_splits option.splits sum.splits prod.splits outcome.splits list.splits)

lemma bootstrap_keyed_idle:
  assumes "\<And>d. J d \<Longrightarrow> signing_keys d \<noteq> []"
  shows "moves (keeping J) (ensureSigningBootstrap a)"
proof (rule movesI)
  fix w x w' assume run: "run_state (ensureSigningBootstrap a) w = (x, w')" and o: "others (keeping J) w"
  have "stays J (ensureSigningBootstrap a) (\<lambda>_. True)"
    unfolding ensureSigningBootstrap_def CountSigningKeys_def
    by (rule stays_checked [OF stays_reads]) (use assms in \<open>auto intro!: stays_return\<close>)
  from staysD [OF this run] have "J (w_db w) \<longrightarrow> J (w_db w')" using o by (simp add: under_def)
  moreover have "others (keeping J) w'" using o bootstrap_schedule [OF run] by (auto simp: others_def)
  ultimately show "keeping J (w_db w) (w_db w') \<and> others (keeping J) w'" by (simp add: keeping_def)
qed

context database_moves
begin

lemma moves_serve_rpc: "(\<And>ctx. moves R (run_method g ctx q req)) \<Longrightarrow> moves R (serve_rpc g reflect md req q)"
  unfolding serve_rpc_def
  by (intro moves_bind authenticate_moves_nothing) (auto intro!: moves_bind moves_return split: sum.split)

lemma moves_unqueued: "moves R m \<Longrightarrow> moves R (unqueued q m)"
  unfolding unqueued_def by (intro moves_bind moves_return)

lemma moves_provided: "(\<And>y. moves R (h y)) \<Longrightarrow> moves R (provided x h)"
  unfolding provided_def by (auto intro: moves_return split: sum.split)

lemma moves_call_service: "moves R m \<Longrightarrow> moves R (call_service m k)"
  unfolding call_service_def by (intro moves_bind moves_return)

lemma moves_guarded: "moves R m \<Longrightarrow> moves R n \<Longrightarrow> moves R (guarded m n)"
  unfolding guarded_def by (auto intro!: moves_checked moves_return)

lemma decisions_move_nothing:
  "moves R (IsSuperuser i)" "moves R (CanViewUserRoles i j)" "moves R (CanAssignRole i x)"
proof -
  show su: "moves R (IsSuperuser i)"
    unfolding IsSuperuser_def GetUserByID_def by (auto intro!: moves_checked moves_reads moves_return split: option.split)
  then show "moves R (CanViewUserRoles i j)"
    unfolding CanViewUserRoles_def by (auto intro!: moves_checked moves_return)
  have "moves R (IsRoleAdmin i x)"
    unfolding IsRoleAdmin_def UserIsEffectiveRoleAdmin_def
    by (auto intro!: moves_checked moves_bind moves_time_Now moves_reads moves_return checks_move_nothing)
  with su show "moves R (CanAssignRole i x)"
    unfolding CanAssignRole_def by (auto intro!: moves_checked moves_return)
qed

lemma listings_move_nothing:
  "moves R (UsersPage i query cursor n)" "moves R (RolesPage query cursor n)" "moves R (UserRoles i j)" "moves R (RoleMembers i x)"
proof -
  have "moves R (repo (SearchUsers query cursor n b))" "moves R (repo (SearchRoles query cursor n b))" for b
    by (rule moves_repo; auto simp: SearchUsers_def SearchRoles_def Let_def refl split: sum.splits prod.splits)+
  then show "moves R (UsersPage i query cursor n)" "moves R (RolesPage query cursor n)"
    unfolding UsersPage_def RolesPage_def by (auto intro!: moves_guarded decisions_move_nothing)
  show "moves R (UserRoles i j)" "moves R (RoleMembers i x)"
    unfolding UserRoles_def RoleMembers_def ListUserRoles_def ListRoleMembers_def
    by (intro moves_guarded decisions_move_nothing moves_bind moves_time_Now moves_reads)+
qed

lemma listing_methods_move_nothing:
  "moves R (rpc_ListUsers g ctx p)" "moves R (rpc_ListRoles g p)" "moves R (rpc_ListUserRoles g ctx u)" "moves R (rpc_ListRoleMembers g ctx r)"
  unfolding rpc_ListUsers_def rpc_ListRoles_def rpc_ListUserRoles_def rpc_ListRoleMembers_def actorAndRole_def
  by (auto intro!: moves_provided moves_call_service listings_move_nothing split: prod.split)

text \<open>The issue of a token moves what the bootstrap of the keys moves.\<close>

lemma token_issue_moves:
  assumes "moves R (ensureSigningBootstrap (gs_auth g))"
  shows "moves R (serve_rpc g reflect md (AuthService (IssueServiceTokenRequest login secret)) q)"
proof -
  have "moves R (currentSigningSecret a)" for a
    unfolding currentSigningSecret_def GetCurrentSigningKeyMaterial_def
    by (auto intro!: moves_checked moves_reads moves_return split: option.split)
  moreover have "moves R (SignAccess L sec kid i lg ty v ttl)" for L sec kid i lg ty v ttl
    unfolding SignAccess_def by (auto intro!: moves_bind moves_time_Now moves_return)
  ultimately have "moves R (IssueServiceToken (gs_auth g) login secret)"
    unfolding IssueServiceToken_def GetUserByLogin_def
    by (auto intro!: moves_bind moves_checked moves_reads moves_return moves_time_Now assms split: sum.split option.split)
  then show ?thesis
    by (auto intro!: moves_serve_rpc moves_unqueued moves_call_service simp: rpc_IssueServiceToken_def)
qed

end

lemma read_tools: "ReadOnlyHint (snd (registered t)) \<longleftrightarrow>
    (\<exists>i. t = List_users i) \<or> (\<exists>i. t = List_roles i) \<or> (\<exists>u. t = List_user_roles u) \<or> (\<exists>r. t = List_role_members r)"
  by (cases t) (auto simp: readTool_def additiveTool_def destructiveTool_def)

lemma read_tool_moves:
  assumes "database_moves R" "call_tool M t = Some h" "ReadOnlyHint (snd (registered t))"
    and "moves R (ensureSigningBootstrap (gs_auth (mc_grpc M)))"
  shows "moves R (h c q)"
proof (rule tool_moves [OF assms(1,2)])
  show "moves R (serve_rpc (mc_grpc M) (mc_reflection M) None (AuthService (IssueServiceTokenRequest (cl_login c) (cl_secret c))) q)" for q
    using database_moves.token_issue_moves [OF assms(1,4)] .
  show "moves R (serve_rpc (mc_grpc M) (mc_reflection M) md req q)" if "tool_request t = Some req" for md req q
    using assms(3) that unfolding read_tools
    by (auto intro!: database_moves.moves_serve_rpc [OF assms(1)] database_moves.moves_unqueued [OF assms(1)]
        database_moves.listing_methods_move_nothing [OF assms(1)])
qed

subsection \<open>No mail\<close>

text \<open>\<open>silent m Q\<close>: the program sends no mail, and its answer satisfies \<open>Q\<close>.\<close>

definition silent :: "'a prog \<Rightarrow> ('a \<Rightarrow> bool) \<Rightarrow> bool" where
  "silent m Q \<longleftrightarrow> (\<forall>w x w'. run_state m w = (x, w') \<longrightarrow> w_outbox w' = w_outbox w \<and> Q x)"

lemma silentI: "(\<And>w x w'. run_state m w = (x, w') \<Longrightarrow> w_outbox w' = w_outbox w \<and> Q x) \<Longrightarrow> silent m Q"
  by (simp add: silent_def)

lemma silentD: "silent m Q \<Longrightarrow> run_state m w = (x, w') \<Longrightarrow> w_outbox w' = w_outbox w \<and> Q x"
  by (simp add: silent_def)

lemma silent_return: "Q x \<Longrightarrow> silent (State_Monad.return x) Q"
  by (simp add: silent_def)

lemma silent_bind:
  assumes "silent m P" "\<And>x. P x \<Longrightarrow> silent (k x) Q"
  shows "silent (State_Monad.bind m k) Q"
proof (rule silentI)
  fix w x w' assume "run_state (State_Monad.bind m k) w = (x, w')"
  then obtain y w1 where 1: "run_state m w = (y, w1)" "run_state (k y) w1 = (x, w')" by (rule bindE)
  from silentD [OF assms(1) 1(1)] silentD [OF assms(2) 1(2)] show "w_outbox w' = w_outbox w \<and> Q x" by simp
qed

abbreviation (input) mute :: "'a prog \<Rightarrow> bool" where
  "mute m \<equiv> silent m (\<lambda>_. True)"

lemma mute_bind: "mute m \<Longrightarrow> (\<And>x. mute (k x)) \<Longrightarrow> mute (State_Monad.bind m k)"
  by (rule silent_bind)

lemma mute_checked: "mute m \<Longrightarrow> (\<And>x. mute (k x)) \<Longrightarrow> mute (checked m k)"
  unfolding checked_def by (auto intro!: silent_bind silent_return split: sum.split)

lemma arrive_outbox: "arrive w = (out, w') \<Longrightarrow> w_outbox w' = w_outbox w"
  by (auto simp: arrive_def pop_def settle_def split: list.splits)

lemma mute_repo_now: "mute (repo_now f)"
  by (rule silentI) (auto simp: repo_now_def dest: arrive_outbox split: prod.splits outcome.splits)

lemma mute_repo: "mute (repo f)"
  unfolding repo_def by (rule mute_repo_now)

lemma mute_time_Now: "mute time_Now"
  by (rule silentI) (auto simp: time_Now_def dest: arrive_outbox split: prod.splits)

lemma mute_draw: "mute (rand_Read n)" "mute uuid_New"
  by (rule silentI; auto simp: run_draw)+

lemma mute_guarded: "mute m \<Longrightarrow> mute n \<Longrightarrow> mute (guarded m n)"
  unfolding guarded_def by (auto intro!: mute_checked silent_return)

lemmas mute_intros = mute_checked mute_bind mute_guarded mute_repo mute_repo_now mute_time_Now mute_draw silent_return

lemma token_programs_mute:
  "mute (IssueServiceToken a login secret)" "mute (VerifyAccessToken a tok typ)" "mute (VerifyAccessOrServiceToken a tok)"
proof -
  have "mute (ensureSigningBootstrap a)"
    unfolding ensureSigningBootstrap_def new_signing_material_def Let_def
    by (auto intro!: mute_intros split: option.split prod.split)
  moreover have "mute (currentSigningSecret a)" unfolding currentSigningSecret_def by (auto intro!: mute_intros split: option.split)
  moreover have "mute (SignAccess L sec kid i lg ty v ttl)" for L sec kid i lg ty v ttl
    unfolding SignAccess_def by (auto intro!: mute_intros)
  ultimately show "mute (IssueServiceToken a login secret)"
    unfolding IssueServiceToken_def by (auto intro!: mute_intros split: option.split sum.split prod.split)
  have "mute (tokenSubject a subject v)" for subject v
    unfolding tokenSubject_def by (auto intro!: mute_intros split: option.split)
  moreover have "mute (secretForKID a kid now)" for kid now
    unfolding secretForKID_def by (auto intro!: mute_intros split: option.split)
  moreover have "mute (ParseAndVerify L tok sec)" for L sec
    unfolding ParseAndVerify_def by (auto intro!: mute_intros split: option.split)
  ultimately show "mute (VerifyAccessToken a tok typ)" "mute (VerifyAccessOrServiceToken a tok)"
    unfolding VerifyAccessToken_def VerifyAccessOrServiceToken_def by (auto intro!: mute_intros split: prod.split)
qed

lemma listings_mute:
  "mute (UsersPage i query cursor n)" "mute (RolesPage query cursor n)" "mute (UserRoles i j)" "mute (RoleMembers i x)"
proof -
  have "mute (IsSuperuser i)" for i unfolding IsSuperuser_def by (auto intro!: mute_intros split: option.split)
  moreover from this have "mute (CanAssignRole i x)"
    unfolding CanAssignRole_def IsRoleAdmin_def IsBanned_def by (auto intro!: mute_intros split: option.split)
  ultimately show "mute (UsersPage i query cursor n)" "mute (RolesPage query cursor n)" "mute (UserRoles i j)" "mute (RoleMembers i x)"
    unfolding UsersPage_def RolesPage_def UserRoles_def RoleMembers_def CanViewUserRoles_def by (auto intro!: mute_intros)
qed

text \<open>A method that has no access to the queue leaves it as it is.\<close>

lemma silent_unqueued: "mute m \<Longrightarrow> silent (unqueued q m) (\<lambda>(r, q'). q' = Some q)"
  unfolding unqueued_def by (auto intro!: silent_bind silent_return)

lemma silent_serve_rpc:
  assumes "\<And>ctx. silent (run_method g ctx q req) (\<lambda>(r, q'). q' = Some q)"
  shows "silent (serve_rpc g reflect md req q) (\<lambda>(r, q'). q' = q)"
proof -
  have "mute (authenticate g name reflect md)" for name
    unfolding authenticate_def by (auto intro!: mute_intros token_programs_mute split: option.split sum.split)
  then show ?thesis
    unfolding serve_rpc_def
    by (auto intro!: silent_bind silent_bind [OF assms] silent_return simp: recovered_def split: sum.split)
qed

lemma silent_remote:
  assumes "silent (serve_rpc (mc_grpc M) (mc_reflection M) md req q) (\<lambda>(r, q'). q' = q)"
  shows "silent (remote M md req q) (\<lambda>(r, q'). q' = q)"
proof -
  have "mute arriving" by (rule silentI) (auto simp: arriving_def dest: arrive_outbox)
  then show ?thesis
    unfolding remote_def by (auto intro!: silent_bind silent_bind [OF assms] silent_return split: outcome.split prod.split)
qed

lemma token_request_silent:
  "silent (remote M None (AuthService (IssueServiceTokenRequest login secret)) q) (\<lambda>(r, q'). q' = q)"
  by (rule silent_remote, rule silent_serve_rpc)
    (auto intro!: silent_unqueued mute_intros token_programs_mute simp: rpc_IssueServiceToken_def call_service_def)

lemma silent_token: "silent (token M c q) (\<lambda>(r, c', q'). q' = q)"
  unfolding token_def Let_def
  by (auto intro!: silent_bind mute_time_Now silent_bind [OF token_request_silent] silent_return split: prod.splits)

lemma silent_actor_call:
  assumes "\<And>md q. silent (remote M md req q) (\<lambda>(r, q'). q' = q)"
  shows "silent (finish k (actor_call M req) c q) (\<lambda>(r, c', q'). q' = q)"
proof -
  have "silent (actor_call M req c q) (\<lambda>(r, c', q'). q' = q)"
    unfolding actor_call_def by (rule silent_bind [OF silent_token]) (auto intro!: silent_bind [OF assms] silent_return split: sum.split)
  then show ?thesis unfolding finish_def by (rule silent_bind) (auto intro: silent_return)
qed

lemma listing_request_silent:
  assumes "ReadOnlyHint (snd (registered t))" "tool_request t = Some req"
  shows "silent (serve_rpc g reflect md req q) (\<lambda>(r, q'). q' = q)"
proof -
  have "mute (rpc_ListUsers g ctx p)" "mute (rpc_ListRoles g p)" "mute (rpc_ListUserRoles g ctx u)" "mute (rpc_ListRoleMembers g ctx r)"
    for ctx p u r
    unfolding rpc_ListUsers_def rpc_ListRoles_def rpc_ListUserRoles_def rpc_ListRoleMembers_def actorAndRole_def provided_def call_service_def
    by (auto intro!: mute_intros listings_mute split: prod.split sum.split)
  then show ?thesis using assms unfolding read_tools by (auto intro!: silent_serve_rpc silent_unqueued)
qed

text \<open>
  C22. The tools that are announced as read-only write nothing, under every interleaving and every failure. After such a
  tool the database differs only by what other requests did and, when there was no current signing key, by one
  that was made for the token; when there are keys and the other requests leave some, it differs only by what
  the others did. No mail is sent and the mail queue is as it was.
\<close>

theorem read_only_tools_write_nothing:
  assumes "call_tool M t = Some h" "ReadOnlyHint (snd (registered t))" "run_state (h c q) w = ((out, c', q'), w')"
  shows "reads_only w (w_db w) (w_db w') \<and> w_outbox w' = w_outbox w \<and> q' = q
    \<and> (signing_keys (w_db w) \<noteq> [] \<and> (\<forall>e\<in>set (w_schedule w). \<forall>d. signing_keys d \<noteq> [] \<longrightarrow> signing_keys (e_other e d) \<noteq> [])
       \<longrightarrow> by_others w (w_db w) (w_db w'))"
proof -
  have "reads_only w (w_db w) (w_db w')"
    using movesD(1) [OF read_tool_moves [OF reading.database_moves_axioms assms(1,2) bootstrap_reads_only] assms(3) others_reads_only] .
  moreover have "w_outbox w' = w_outbox w \<and> q' = q"
  proof (cases rule: tool_is_call [of t M])
    case (call req k)
    have "silent (remote M md req q) (\<lambda>(r, q'). q' = q)" for md q
      by (rule silent_remote) (rule listing_request_silent [OF assms(2) call(1)])
    then have "silent (h c q) (\<lambda>(r, c', q'). q' = q)" using silent_actor_call call(2) assms(1) by simp
    from silentD [OF this assms(3)] show ?thesis by simp
  next
    case (malformed e r u l ts)
    then show ?thesis using assms(2) by (simp add: destructiveTool_def)
  qed
  moreover have "by_others w (w_db w) (w_db w')"
    if keyed: "signing_keys (w_db w) \<noteq> []" "\<forall>e\<in>set (w_schedule w). \<forall>d. signing_keys d \<noteq> [] \<longrightarrow> signing_keys (e_other e d) \<noteq> []"
  proof -
    let ?J = "\<lambda>d. signing_keys d \<noteq> [] \<and> by_others w (w_db w) d"
    have "others (keeping ?J) w" using keyed(2) idle_request.trans others_by_others [of w]
      by (auto simp: others_def keeping_def intro: idle_request.trans)
    from movesD(1) [OF read_tool_moves [OF keeping.database_moves_axioms assms(1,2) bootstrap_keyed_idle] assms(3) this]
    show ?thesis using keyed(1) idle_request.refl by (simp add: keeping_def)
  qed
  ultimately show ?thesis by blast
qed

section \<open>The token\<close>

lemma time_Now_clock: "run_state time_Now w = (now, w') \<Longrightarrow> now = w_clock w' \<and> w_clock w \<le> now"
  by (auto simp: time_Now_def arrive_def pop_def settle_def quiet_def split: prod.splits list.splits)

text \<open>A token the server signed for a service, which lives to within a second of the time named with it.\<close>

definition good_token :: "lib \<Rightarrow> string \<Rightarrow> instant \<Rightarrow> bool" where
  "good_token L t expires \<longleftrightarrow> (\<exists>sec cl. t = jwt_Sign L sec cl \<and> c_typ cl = TypeService \<and> expires < (c_expires_at cl + 1) * Second)"

lemma numeric_date_bound: "t < (NewNumericDate t + 1) * Second"
  by (simp add: NewNumericDate_def Second_def)

lemma SignAccess_good:
  assumes "run_state (SignAccess L sec kid i lg TypeService v ttl) w = (Inr tok, w')" "now \<le> w_clock w"
  shows "good_token L tok (now + ttl)"
proof -
  obtain n w1 where n: "run_state time_Now w = (n, w1)" by fastforce
  let ?cl = "\<lparr>c_login = lg, c_typ = TypeService, c_kid = kid, c_token_version = v, c_subject = i,
    c_issued_at = NewNumericDate n, c_expires_at = NewNumericDate (n + ttl)\<rparr>"
  have "tok = jwt_Sign L sec ?cl" using assms(1) n by (simp add: SignAccess_def)
  moreover have "now + ttl \<le> n + ttl" using time_Now_clock [OF n] assms(2) by simp
  then have "now + ttl < (c_expires_at ?cl + 1) * Second" using numeric_date_bound [of "n + ttl"] by simp
  ultimately show ?thesis unfolding good_token_def by (metis claims.select_convs(2))
qed

lemma IssueServiceToken_good:
  assumes "run_state (IssueServiceToken a login secret) w = (Inr (tok, expires), w')"
  shows "good_token (alib a) tok expires"
proof -
  let ?sign = "\<lambda>kid sec u. SignAccess (alib a) sec kid (uuid_String (alib a) (u_id u)) (u_login u) TypeService (u_token_version u)
    (AccessTokenTTL (cfg a))"
  let ?rest = "\<lambda>u (kid, sec). State_Monad.bind time_Now (\<lambda>now. checked (?sign kid sec u) (\<lambda>tok. ret (tok, now + AccessTokenTTL (cfg a))))"
  obtain u :: user and w0 where "run_state (checked (ensureSigningBootstrap a) (\<lambda>_. checked (currentSigningSecret a) (?rest u))) w0 = (Inr (tok, expires), w')"
    using assms unfolding IssueServiceToken_def by (elim bindE) (auto split: sum.splits option.splits if_splits)
  then obtain p w1 where "run_state (?rest u p) w1 = (Inr (tok, expires), w')" by (elim checked_InrE)
  then obtain kid sec where "run_state (?rest u (kid, sec)) w1 = (Inr (tok, expires), w')" by (cases p) blast
  then obtain now w2 where t: "run_state time_Now w1 = (now, w2)" "run_state (?sign kid sec u) w2 = (Inr tok, w')"
      "expires = now + AccessTokenTTL (cfg a)"
    unfolding prod.case by (elim bindE checked_InrE) simp
  have "now \<le> w_clock w2" using time_Now_clock [OF t(1)] by simp
  with SignAccess_good [OF t(2)] t(3) show ?thesis by simp
qed

lemma remote_token_good:
  assumes "run_state (remote M None (AuthService (IssueServiceTokenRequest login secret)) q) w = ((Inr (ServiceTokenReply tok expires), q'), w')"
  shows "good_token (gs_lib (mc_grpc M)) tok expires"
proof -
  let ?req = "AuthService (IssueServiceTokenRequest login secret)"
  obtain w1 where "run_state (serve_rpc (mc_grpc M) (mc_reflection M) None ?req q) w1 = ((Inr (ServiceTokenReply tok expires), q'), w')"
    using assms by (auto simp: remote_def split: prod.splits outcome.splits sum.splits)
  then obtain ctx w2 where
    "run_state (State_Monad.bind (run_method (mc_grpc M) ctx q ?req) (\<lambda>x. State_Monad.return (recovered (mc_grpc M) q x))) w2
      = ((Inr (ServiceTokenReply tok expires), q'), w')"
    by (cases rule: serve_rpc_cases) auto
  then have "\<exists>w3. run_state (IssueServiceToken (gs_auth (mc_grpc M)) login secret) w2 = (Inr (tok, expires), w3)"
    by (auto simp: unqueued_def recovered_def errorInterceptor_def rpc_IssueServiceToken_def call_service_def split: prod.splits sum.splits)
  then show ?thesis using IssueServiceToken_good by blast
qed

definition client_ok :: "mcp \<Rightarrow> mcp_client \<Rightarrow> bool" where
  "client_ok M c \<longleftrightarrow> (cl_accessToken c \<noteq> [] \<longrightarrow> good_token (gs_lib (mc_grpc M)) (cl_accessToken c) (cl_tokenExpires c))"

lemma take_token_cases:
  "take_token M c r = (res, c') \<Longrightarrow>
    (c' = c \<and> (\<exists>e. res = Inl e)) \<or> (\<exists>tok expires. r = Inr (ServiceTokenReply tok expires) \<and> res = Inr tok
       \<and> c' = c\<lparr>cl_accessToken := tok, cl_tokenExpires := expires\<rparr>)"
  by (auto simp: take_token_def split: sum.splits reply.splits if_splits)

lemma token_cases:
  assumes "run_state (token M c q) w = ((res, c', q'), w')"
  obtains (kept) "res = Inr (cl_accessToken c)" "c' = c" "cl_accessToken c \<noteq> []" "cl_tokenExpires c - w_clock w' > tokenRefreshSkew"
  | (asked) w1 r where "run_state (remote M None (AuthService (IssueServiceTokenRequest (cl_login c) (cl_secret c))) q) w1 = ((r, q'), w')"
      "take_token M c r = (res, c')"
proof -
  let ?issue = "State_Monad.bind (remote M None (AuthService (IssueServiceTokenRequest (cl_login c) (cl_secret c))) q)
    (\<lambda>(r, q'). State_Monad.return (case take_token M c r of (res, c') \<Rightarrow> (res, c', q')))"
  have issue: thesis if "run_state ?issue w1 = ((res, c', q'), w')" for w1
  proof -
    from that obtain x w2 where x: "run_state (remote M None (AuthService (IssueServiceTokenRequest (cl_login c) (cl_secret c))) q) w1 = (x, w2)"
      "run_state (case x of (r, q') \<Rightarrow> State_Monad.return (case take_token M c r of (res, c') \<Rightarrow> (res, c', q'))) w2 = ((res, c', q'), w')"
      by (rule bindE)
    then show ?thesis using asked by (cases x) (auto split: prod.splits)
  qed
  show ?thesis
  proof (cases "cl_accessToken c = []")
    case True
    then show ?thesis using assms issue by (simp add: token_def)
  next
    case False
    with assms have "run_state (State_Monad.bind time_Now (\<lambda>now.
        if cl_tokenExpires c - now > tokenRefreshSkew then State_Monad.return (Inr (cl_accessToken c), c, q) else ?issue)) w = ((res, c', q'), w')"
      by (simp add: token_def)
    then obtain now w1 where now: "run_state time_Now w = (now, w1)"
      "run_state (if cl_tokenExpires c - now > tokenRefreshSkew then State_Monad.return (Inr (cl_accessToken c), c, q) else ?issue) w1 = ((res, c', q'), w')"
      by (rule bindE)
    show ?thesis
    proof (cases "cl_tokenExpires c - now > tokenRefreshSkew")
      case True
      with now(2) have "res = Inr (cl_accessToken c)" "c' = c" "w' = w1" by auto
      then show ?thesis using kept True False time_Now_clock [OF now(1)] by simp
    next
      case False
      then show ?thesis using now(2) issue by simp
    qed
  qed
qed

lemma token_keeps_client:
  assumes "run_state (token M c q) w = ((res, c', q'), w')" "client_ok M c"
  shows "client_ok M c'"
  using assms(1)
proof (cases rule: token_cases)
  case (asked w1 r)
  then show ?thesis using take_token_cases [OF asked(2)] assms(2) remote_token_good by (fastforce simp: client_ok_def)
qed (use assms(2) in simp)

lemma tool_keeps_client:
  assumes "call_tool M t = Some h" "run_state (h c q) w = ((out, c', q'), w')" "client_ok M c"
  shows "client_ok M c'"
proof (cases rule: tool_is_call [of t M])
  case (call req k)
  then have "h = finish k (actor_call M req)" using assms(1) by simp
  with assms(2) obtain res w1 q1 where "run_state (token M c q) w = ((res, c', q1), w1)"
    by (auto simp: finish_def actor_call_def split: prod.splits sum.splits)
  then show ?thesis using token_keeps_client assms(3) by blast
next
  case (malformed e r u l ts)
  then show ?thesis using assms by (auto simp: finish_def)
qed

text \<open>The clients a process can have: a new one, and one that has served a tool.\<close>

inductive client_run :: "mcp \<Rightarrow> mcp_client \<Rightarrow> bool" for M where
  new_client: "client_run M (NewClient login secret timeout)"
| used: "client_run M c \<Longrightarrow> call_tool M t = Some h \<Longrightarrow> run_state (h c q) w = ((out, c', q'), w') \<Longrightarrow> client_run M c'"

lemma client_run_ok: "client_run M c \<Longrightarrow> client_ok M c"
proof (induction rule: client_run.induct)
  case (new_client login secret timeout)
  show ?case by (simp add: client_ok_def NewClient_def)
next
  case (used c t h q w out c' q' w')
  from used.hyps(2,3) used.IH show ?case by (rule tool_keeps_client)
qed

text \<open>
  C21. The token a call carries. After any history of tools, in whatever worlds they ran, the token the client
  uses is one the server signed for a service; and unless the server has just issued it, it stays valid for
  more than 29 seconds after the client looked at the clock (the refresh margin of 30 seconds, less the second
  that the rounding of the claim may cost).
\<close>

theorem mcp_token_fresh:
  assumes "client_run M c" "run_state (token M c q) w = ((Inr t, c', q'), w')"
  shows "\<exists>sec cl. t = jwt_Sign (gs_lib (mc_grpc M)) sec cl \<and> c_typ cl = TypeService
    \<and> (w_clock w' + 29 * Second < c_expires_at cl * Second
       \<or> (\<exists>w1. run_state (remote M None (AuthService (IssueServiceTokenRequest (cl_login c) (cl_secret c))) q) w1
            = ((Inr (ServiceTokenReply t (cl_tokenExpires c')), q'), w')))"
  using assms(2)
proof (cases rule: token_cases)
  case kept
  then have "good_token (gs_lib (mc_grpc M)) t (cl_tokenExpires c)" using client_run_ok [OF assms(1)] by (simp add: client_ok_def)
  then obtain sec cl where "t = jwt_Sign (gs_lib (mc_grpc M)) sec cl" "c_typ cl = TypeService" "cl_tokenExpires c < (c_expires_at cl + 1) * Second"
    by (auto simp: good_token_def)
  moreover from this(3) kept(4) have "w_clock w' + 29 * Second < c_expires_at cl * Second" by (simp add: tokenRefreshSkew_def algebra_simps)
  ultimately show ?thesis by blast
next
  case (asked w1 r)
  then obtain expires where e: "r = Inr (ServiceTokenReply t expires)" "cl_tokenExpires c' = expires"
    using take_token_cases [OF asked(2)] by auto
  with asked(1) have "good_token (gs_lib (mc_grpc M)) t expires" using remote_token_good by blast
  then show ?thesis using asked(1) e unfolding good_token_def by blast
qed

section \<open>Page sizes\<close>

text \<open>
  The page size of a tool is a machine integer, the one of the message has 32 bits: sizes that differ by a
  multiple of \<open>2^32\<close> ask for the same page, so a size far above the limit of 100 can be served as a small one.
\<close>

lemma page_size_wraps: "pageRequest (i\<lparr>li_page_size := n + 4294967296\<rparr>) = pageRequest (i\<lparr>li_page_size := n\<rparr>)"
proof -
  have "ucast (n + 4294967296) = (ucast n :: int32)" by transfer (simp add: take_bit_eq_mod mod_mod_cancel)
  then show ?thesis by (simp add: pageRequest_def)
qed

section \<open>Examples\<close>

definition sample_mcp :: mcp where
  "sample_mcp = \<lparr>mc_grpc = sample_grpc, mc_reflection = False, time_Format = (\<lambda>_. [])\<rparr>"

definition sample_client :: mcp_client where
  "sample_client = NewClient ''bot'' ''Secret-1'' (10 * Second)"

abbreviation (input) sample_page :: list_input where
  "sample_page \<equiv> \<lparr>li_query = [], li_cursor = [], li_page_size = 20\<rparr>"

theorem mcp_refines_store_witness:
  "\<exists>h. call_tool sample_mcp (Ban_user ''1'' ''spam'') = Some h \<and>
     db_steps (w_db sample_world) (w_db (snd (run_state (h sample_client sample_queue) sample_world)))"
proof -
  obtain h where h: "call_tool sample_mcp (Ban_user ''1'' ''spam'') = Some h" using every_tool_served by blast
  from mcp_refines_store [OF h sample_world_others prod.collapse [symmetric]] h show ?thesis by blast
qed

theorem read_only_tools_write_nothing_witness:
  "\<exists>h out c' w'. call_tool sample_mcp (List_roles sample_page) = Some h \<and>
     run_state (h sample_client sample_queue) sample_bot_world = ((out, c', sample_queue), w')
     \<and> w_db w' = w_db sample_bot_world \<and> w_outbox w' = []"
proof -
  obtain h where h: "call_tool sample_mcp (List_roles sample_page) = Some h" using every_tool_served by blast
  have hint: "ReadOnlyHint (snd (registered (List_roles sample_page)))" by (simp add: readTool_def)
  obtain out c' q' w' where run: "run_state (h sample_client sample_queue) sample_bot_world = ((out, c', q'), w')" by (metis prod.collapse)
  have w: "w_schedule sample_bot_world = []" "w_outbox sample_bot_world = []" "signing_keys (w_db sample_bot_world) \<noteq> []"
    by (simp_all add: sample_bot_world_def sample_world_def)
  from read_only_tools_write_nothing [OF h hint run] w have "by_others sample_bot_world (w_db sample_bot_world) (w_db w')" "q' = sample_queue"
    "w_outbox w' = []" by simp_all
  with h run w(1) show ?thesis by (auto simp: by_others_quiet)
qed

lemma sample_bot_remote:
  "\<exists>t. t \<noteq> [] \<and> run_state (remote sample_mcp None (AuthService (IssueServiceTokenRequest ''bot'' ''Secret-1'')) sample_queue) sample_bot_world
     = ((Inr (ServiceTokenReply t (5 + AccessTokenTTL default_config)), sample_queue), sample_bot_world)"
proof -
  obtain t where t: "run_state (IssueServiceToken sample_auth ''bot'' ''Secret-1'') sample_bot_world =
     (Inr (t, 5 + AccessTokenTTL default_config), sample_bot_world)" using sample_bot_issues by blast
  have "policy_of False ''/auth.v1.AuthService/IssueServiceToken'' = Some AuthPublic" by code_simp
  then have run: "run_state (remote sample_mcp None (AuthService (IssueServiceTokenRequest ''bot'' ''Secret-1'')) sample_queue) sample_bot_world
     = ((Inr (ServiceTokenReply t (5 + AccessTokenTTL default_config)), sample_queue), sample_bot_world)"
    using t by (simp add: remote_def arriving_def sample_bot_world_def serve_rpc_def authenticate_def sample_mcp_def sample_grpc_def
        sample_server_def unqueued_def rpc_IssueServiceToken_def call_service_def recovered_def errorInterceptor_def)
  then have "t \<noteq> []" using remote_token_good [OF run]
    by (auto simp: good_token_def sample_mcp_def sample_grpc_def sample_server_def sample_auth_def sample_lib_def sample_sign_def)
  with run show ?thesis by blast
qed

theorem mcp_token_fresh_witness:
  "\<exists>t c' sec cl. fst (run_state (token sample_mcp sample_client sample_queue) sample_bot_world) = (Inr t, c', sample_queue)
     \<and> t = jwt_Sign sample_lib sec cl \<and> c_typ cl = TypeService"
proof -
  obtain t where t: "t \<noteq> []" "run_state (remote sample_mcp None (AuthService (IssueServiceTokenRequest ''bot'' ''Secret-1'')) sample_queue)
      sample_bot_world = ((Inr (ServiceTokenReply t (5 + AccessTokenTTL default_config)), sample_queue), sample_bot_world)"
    using sample_bot_remote by blast
  let ?c = "sample_client\<lparr>cl_accessToken := t, cl_tokenExpires := 5 + AccessTokenTTL default_config\<rparr>"
  have run: "run_state (token sample_mcp sample_client sample_queue) sample_bot_world = ((Inr t, ?c, sample_queue), sample_bot_world)"
    using t by (simp add: token_def sample_client_def NewClient_def take_token_def sample_mcp_def sample_grpc_def)
  have "client_run sample_mcp sample_client" unfolding sample_client_def by (rule new_client)
  from mcp_token_fresh [OF this run] run show ?thesis
    by (auto simp: sample_mcp_def sample_grpc_def sample_server_def sample_auth_def)
qed

end
