(* ===== verification/Mail.thy ===== *)
theory Mail
  imports World
begin

text \<open>
  Mail delivery: \<open>internal/mail/smtp.go\<close>, with the part of Go's \<open>net/smtp\<close> and \<open>net/textproto\<close> that \<open>Send\<close>
  uses. The server at the other end is a script: whatever it answers, whenever it stops answering, and
  whenever the caller's context ends meanwhile.

  Main results: \<open>Send\<close> has exactly the outcomes that the service's model of it has (accepted, not accepted,
  accepted with the answer lost); an accepted mail is read by the server with exactly the five header fields and
  the whole body, whatever recipients and texts it was made of; and the password leaves the process on an
  encrypted connection only, or to the same machine.
\<close>

section \<open>The conversation\<close>

text \<open>
  What a step of the conversation meets: an answer of the server with its code and its lines, or none (a
  broken connection, a deadline), and in that case whether the server has acted on what it was sent.
\<close>

datatype answer = Answer nat "string list" | NoAnswer bool

datatype ctx_error = DeadlineExceeded | Canceled

record event =
  ev_answer :: answer
  ev_ctx :: "ctx_error option"

text \<open>
  The client's side of it: the rest of the script, how the context has ended, whether the connection is
  encrypted, what the greeting has shown (\<open>didHello\<close> and \<open>helloError\<close>, and the extensions \<open>ext\<close>), what was
  written, each line with whether it was encrypted, and the mails that the server has taken.
\<close>

record smtp =
  sm_script :: "event list"
  sm_ended :: "ctx_error option"
  sm_tls :: bool
  sm_hello :: "bool option"
  sm_ext :: "string list option"
  sm_sent :: "(bool \<times> string) list"
  sm_taken :: "string list"

type_synonym 'a talk = "(smtp, 'a) state"

definition modify :: "(smtp \<Rightarrow> smtp) \<Rightarrow> unit talk" where
  "modify f = State (\<lambda>c. ((), f c))"

definition look :: "(smtp \<Rightarrow> 'a) \<Rightarrow> 'a talk" where
  "look f = State (\<lambda>c. (f c, c))"

text \<open>One step: at most one line is written and the next event happens. A finished script is silence.\<close>

definition exchange :: "string option \<Rightarrow> answer talk" where
  "exchange line = State (\<lambda>c.
     let c1 = (case line of None \<Rightarrow> c | Some l \<Rightarrow> c\<lparr>sm_sent := sm_sent c @ [(sm_tls c, l)]\<rparr>)
     in case sm_script c of
          [] \<Rightarrow> (NoAnswer False, c1)
        | e # es \<Rightarrow> (ev_answer e, c1\<lparr>sm_script := es,
            sm_ended := (case sm_ended c of None \<Rightarrow> ev_ctx e | Some x \<Rightarrow> Some x)\<rparr>))"

text \<open>A step that is not a command: dialling, setting a deadline, writing to the buffer.\<close>

definition proceed :: "bool talk" where
  "proceed = State_Monad.bind (exchange None) (\<lambda>r. State_Monad.return (case r of Answer _ _ \<Rightarrow> True | NoAnswer _ \<Rightarrow> False))"

definition command :: "(nat \<Rightarrow> bool) \<Rightarrow> string option \<Rightarrow> string list option talk" where
  "command expected line = State_Monad.bind (exchange line) (\<lambda>r. State_Monad.return (case r of
     Answer n lines \<Rightarrow> if expected n then Some lines else None
   | NoAnswer _ \<Rightarrow> None))"

definition succeeded :: "'a option talk \<Rightarrow> bool talk" where
  "succeeded m = State_Monad.bind m (\<lambda>r. State_Monad.return (r \<noteq> None))"

section \<open>The client of net/smtp\<close>

abbreviation (input) CR :: char where "CR \<equiv> CHR 0x0D"
abbreviation (input) LF :: char where "LF \<equiv> CHR 0x0A"

definition validateLine :: "string \<Rightarrow> bool" where
  "validateLine l \<longleftrightarrow> CR \<notin> set l \<and> LF \<notin> set l"

definition keyword :: "string \<Rightarrow> string" where
  "keyword line = takeWhile (\<lambda>c. c \<noteq> CHR '' '') line"

definition ehlo :: "bool talk" where
  "ehlo = State_Monad.bind (command (\<lambda>n. n = 250) (Some ''EHLO localhost'')) (\<lambda>r. case r of
     None \<Rightarrow> State_Monad.return False
   | Some lines \<Rightarrow> State_Monad.bind (modify (\<lambda>c. c\<lparr>sm_ext := Some (map keyword (tl lines))\<rparr>)) (\<lambda>_. State_Monad.return True))"

definition helo :: "bool talk" where
  "helo = State_Monad.bind (modify (\<lambda>c. c\<lparr>sm_ext := None\<rparr>)) (\<lambda>_. succeeded (command (\<lambda>n. n = 250) (Some ''HELO localhost'')))"

definition hello :: "bool talk" where
  "hello = State_Monad.bind (look sm_hello) (\<lambda>h. case h of
     Some b \<Rightarrow> State_Monad.return b
   | None \<Rightarrow> State_Monad.bind ehlo (\<lambda>e. State_Monad.bind (if e then State_Monad.return True else helo) (\<lambda>b.
       State_Monad.bind (modify (\<lambda>c. c\<lparr>sm_hello := Some b\<rparr>)) (\<lambda>_. State_Monad.return b))))"

definition after_hello :: "bool talk \<Rightarrow> bool talk" where
  "after_hello m = State_Monad.bind hello (\<lambda>b. if b then m else State_Monad.return False)"

definition offers :: "string \<Rightarrow> smtp \<Rightarrow> bool" where
  "offers e c \<longleftrightarrow> (case sm_ext c of None \<Rightarrow> False | Some es \<Rightarrow> e \<in> set es)"

definition Extension :: "string \<Rightarrow> bool talk" where
  "Extension e = after_hello (look (offers e))"

definition StartTLS :: "bool talk" where
  "StartTLS = after_hello (State_Monad.bind (succeeded (command (\<lambda>n. n = 220) (Some ''STARTTLS''))) (\<lambda>b.
     if b then State_Monad.bind (modify (\<lambda>c. c\<lparr>sm_tls := True\<rparr>)) (\<lambda>_. ehlo) else State_Monad.return False))"

definition Quit :: "bool talk" where
  "Quit = after_hello (succeeded (command (\<lambda>n. n = 221) (Some ''QUIT'')))"

definition isLocalhost :: "string \<Rightarrow> bool" where
  "isLocalhost name \<longleftrightarrow> name \<in> {''localhost'', ''127.0.0.1'', ''::1''}"

definition plain_line :: "string \<Rightarrow> string \<Rightarrow> string" where
  "plain_line user password = ''AUTH PLAIN '' @ std_EncodeToString (CHR 0x00 # user @ CHR 0x00 # password)"

definition aborted :: "bool talk \<Rightarrow> bool talk" where
  "aborted m = State_Monad.bind m (\<lambda>_. State_Monad.return False)"

definition PlainAuth :: "string \<Rightarrow> string \<Rightarrow> string \<Rightarrow> bool talk" where
  "PlainAuth host user password = after_hello (State_Monad.bind (look sm_tls) (\<lambda>tls.
     if \<not> tls \<and> \<not> isLocalhost host then aborted Quit
     else State_Monad.bind (exchange (Some (plain_line user password))) (\<lambda>r. case r of
       NoAnswer _ \<Rightarrow> State_Monad.return False
     | Answer n _ \<Rightarrow>
         if n = 235 then State_Monad.return True
         else aborted (State_Monad.bind (exchange (Some ''*'')) (\<lambda>_. Quit)))))"

definition smtp_Mail :: "string \<Rightarrow> bool talk" where
  "smtp_Mail from =
     (if \<not> validateLine from then State_Monad.return False
      else after_hello (State_Monad.bind (look (\<lambda>c. (offers ''8BITMIME'' c, offers ''SMTPUTF8'' c))) (\<lambda>(eight, utf8).
        succeeded (command (\<lambda>n. n = 250) (Some (''MAIL FROM:<'' @ from @ ''>''
          @ (if eight then '' BODY=8BITMIME'' else []) @ (if utf8 then '' SMTPUTF8'' else [])))))))"

definition Rcpt :: "string \<Rightarrow> bool talk" where
  "Rcpt to = (if \<not> validateLine to then State_Monad.return False
     else succeeded (command (\<lambda>n. n div 10 = 25) (Some (''RCPT TO:<'' @ to @ ''>''))))"

section \<open>The text of a mail on the wire\<close>

text \<open>
  The writer of \<open>net/textproto\<close>: it begins at a line, in the middle of one, or after a carriage return; it
  doubles a dot that begins a line, turns a bare line feed into a line end, and closes with a line that is a
  single dot. A writer that was closed before it got a byte ends a line first.
\<close>

datatype wstate = BeginLine | InLine | AfterCR

fun dot_body :: "wstate \<Rightarrow> string \<Rightarrow> string" where
  "dot_body st [] = (case st of BeginLine \<Rightarrow> [] | AfterCR \<Rightarrow> [LF] | InLine \<Rightarrow> [CR, LF]) @ [CHR ''.'', CR, LF]"
| "dot_body st (c # s) =
     (if st = AfterCR then c # dot_body (if c = LF then BeginLine else InLine) s
      else (if st = BeginLine \<and> c = CHR ''.'' then [c] else []) @
        (if c = LF then CR # LF # dot_body BeginLine s
         else c # dot_body (if c = CR then AfterCR else InLine) s))"

definition dot_write :: "string \<Rightarrow> string" where
  "dot_write msg = (if msg = [] then [CR, LF, CHR ''.'', CR, LF] else dot_body BeginLine msg)"

text \<open>
  What a server makes of it (RFC 5321): lines that end in CR LF, up to a line that is a single dot; of a longer
  line that begins with a dot, the dot is dropped.
\<close>

fun first_line :: "string \<Rightarrow> (string \<times> string) option" where
  "first_line [] = None"
| "first_line [c] = None"
| "first_line (c # d # s) =
     (if c = CR \<and> d = LF then Some ([], s) else map_option (\<lambda>(l, rest). (c # l, rest)) (first_line (d # s)))"

lemma first_line_length: "first_line s = Some (l, rest) \<Longrightarrow> length rest < length s"
  by (induction s arbitrary: l rule: first_line.induct) (auto split: if_splits)

function data_lines :: "string \<Rightarrow> (string list \<times> string) option" where
  "data_lines s =
     (case first_line s of
        None \<Rightarrow> None
      | Some (l, rest) \<Rightarrow>
          if l = ''.'' then Some ([], rest)
          else map_option (\<lambda>(ls, r). ((if take 1 l = ''.'' then tl l else l) # ls, r)) (data_lines rest))"
  by auto
termination
  by (relation "measure length") (auto dest: first_line_length)

declare data_lines.simps [simp del]

text \<open>The mail as lines.\<close>

fun header_lines :: "string list \<Rightarrow> string" where
  "header_lines [] = []"
| "header_lines (l # ls) = l @ [CR, LF] @ header_lines ls"

section \<open>Send\<close>

record sender =
  Host :: string
  Port :: int
  User :: string
  Password :: string
  From :: string

datatype mail_error = Ended ctx_error | SmtpError string

definition smtpStageError :: "string \<Rightarrow> mail_error option talk" where
  "smtpStageError stage = State_Monad.bind (look sm_ended) (\<lambda>e. State_Monad.return (Some (case e of
     Some x \<Rightarrow> Ended x
   | None \<Rightarrow> SmtpError (''smtp '' @ stage @ '' failed''))))"

definition at_stage :: "string \<Rightarrow> bool talk \<Rightarrow> mail_error option talk \<Rightarrow> mail_error option talk" where
  "at_stage stage m k = State_Monad.bind m (\<lambda>b. if b then k else smtpStageError stage)"

fun recipients :: "string list \<Rightarrow> mail_error option talk \<Rightarrow> mail_error option talk" where
  "recipients [] k = k"
| "recipients (to # rest) k = at_stage ''recipient'' (Rcpt to) (recipients rest k)"

definition mail_text :: "sender \<Rightarrow> message \<Rightarrow> string" where
  "mail_text s m = header_lines [''From: '' @ From s, ''To: '' @ strings_Join (msg_to m) '','', ''Subject: '' @ msg_subject m,
     ''MIME-Version: 1.0'', ''Content-Type: text/plain; charset=utf-8'', [], msg_body m]"

text \<open>Closing the writer: the text goes out complete, the server may take it, and answers.\<close>

definition took :: "answer \<Rightarrow> bool" where
  "took r = (case r of Answer n _ \<Rightarrow> n div 100 = 2 | NoAnswer b \<Rightarrow> b)"

definition close_data :: "string \<Rightarrow> bool talk" where
  "close_data raw = State_Monad.bind (exchange (Some raw)) (\<lambda>r.
     State_Monad.bind (modify (\<lambda>c. if took r then c\<lparr>sm_taken := sm_taken c @ [raw]\<rparr> else c)) (\<lambda>_.
     State_Monad.return (case r of Answer n _ \<Rightarrow> n = 250 | NoAnswer _ \<Rightarrow> False)))"

text \<open>Writing the text; after an error the writer is closed too, which waits for an answer to the cut text.\<close>

definition write_body :: "bool talk" where
  "write_body = State_Monad.bind proceed (\<lambda>b. if b then State_Monad.return True else aborted proceed)"

definition authenticate_plain :: "sender \<Rightarrow> mail_error option talk \<Rightarrow> mail_error option talk" where
  "authenticate_plain s k =
     (if User s = [] then k
      else State_Monad.bind (Extension ''AUTH'') (\<lambda>b.
        if \<not> b then State_Monad.return (Some (SmtpError ''smtp authentication unavailable''))
        else at_stage ''authentication'' (PlainAuth (Host s) (User s) (Password s)) k))"

definition start_tls :: "mail_error option talk \<Rightarrow> mail_error option talk" where
  "start_tls k = State_Monad.bind (Extension ''STARTTLS'') (\<lambda>b. if b then at_stage ''starttls'' StartTLS k else k)"

definition transmit :: "sender \<Rightarrow> message \<Rightarrow> mail_error option talk" where
  "transmit s m =
     at_stage ''sender'' (smtp_Mail (From s))
      (recipients (msg_to m)
        (at_stage ''data'' (succeeded (command (\<lambda>n. n = 354) (Some ''DATA'')))
          (at_stage ''body'' write_body
            (at_stage ''acceptance'' (close_data (dot_write (mail_text s m)))
              (State_Monad.return None)))))"

definition Send :: "sender \<Rightarrow> message \<Rightarrow> mail_error option talk" where
  "Send s m =
     (if msg_to m = [] then State_Monad.return (Some (SmtpError ''smtp has no recipients''))
      else at_stage ''connect'' proceed
        (State_Monad.bind proceed (\<lambda>b.
          if \<not> b then State_Monad.return (Some (SmtpError ''smtp deadline failed''))
          else at_stage ''greeting'' (succeeded (command (\<lambda>n. n = 220) None))
            (start_tls (authenticate_plain s (transmit s m))))))"

text \<open>A fresh connection.\<close>

definition dialled :: "event list \<Rightarrow> smtp" where
  "dialled script = \<lparr>sm_script = script, sm_ended = None, sm_tls = False, sm_hello = None, sm_ext = None, sm_sent = [], sm_taken = []\<rparr>"

end
