(* ===== verification/Mail_Properties.thy ===== *)
theory Mail_Properties
  imports Mail
begin

text \<open>
  Properties of mail delivery: how the text survives the wire, what \<open>Send\<close> can end in, and where the password
  goes.
\<close>

section \<open>The text on the wire\<close>

text \<open>The lines a mail is read as: a bare line feed ends a line as well as CR LF does.\<close>

definition uncr :: "string \<Rightarrow> string" where
  "uncr l = (if odd (length (takeWhile (\<lambda>c. c = CR) (rev l))) then butlast l else l)"

definition mail_lines :: "string \<Rightarrow> string list" where
  "mail_lines msg = (let ps = split_on LF msg in map uncr (if last ps = [] then butlast ps else ps))"

text \<open>The state of the writer after a piece without a line feed.\<close>

fun after_piece :: "wstate \<Rightarrow> string \<Rightarrow> wstate" where
  "after_piece st [] = st"
| "after_piece st (c # p) = after_piece (if st \<noteq> AfterCR \<and> c = CR then AfterCR else InLine) p"

lemma after_piece_snoc: "after_piece st (p @ [c]) = (if after_piece st p \<noteq> AfterCR \<and> c = CR then AfterCR else InLine)"
  by (induction p arbitrary: st) auto

lemma after_piece_CR: "after_piece BeginLine p = AfterCR \<longleftrightarrow> odd (length (takeWhile (\<lambda>c. c = CR) (rev p)))"
  by (induction p rule: rev_induct) (auto simp: after_piece_snoc)

lemma after_piece_inside: "p \<noteq> [] \<Longrightarrow> after_piece st p \<noteq> BeginLine"
  by (induction p rule: rev_induct) (auto simp: after_piece_snoc)

abbreviation (input) stuffed :: "string \<Rightarrow> string" where
  "stuffed p \<equiv> (if take 1 p = ''.'' then ''.'' @ p else p)"

lemma dot_body_inside:
  "LF \<notin> set p \<Longrightarrow> st \<noteq> BeginLine \<Longrightarrow> dot_body st (p @ s) = p @ dot_body (after_piece st p) s"
  by (induction p arbitrary: st) auto

lemma dot_body_piece: "LF \<notin> set p \<Longrightarrow> dot_body BeginLine (p @ s) = stuffed p @ dot_body (after_piece BeginLine p) s"
  by (cases p) (auto simp: dot_body_inside)

lemma uncr_end:
  assumes "LF \<notin> set p"
  shows "p @ (if after_piece BeginLine p = AfterCR then [LF] else [CR, LF]) = uncr p @ [CR, LF]"
proof (cases p rule: rev_cases)
  case (snoc q c)
  then show ?thesis
    by (auto simp: uncr_def after_piece_CR [symmetric] after_piece_snoc split: if_splits)
qed (simp add: uncr_def)

lemma stuffed_end:
  assumes "LF \<notin> set p"
  shows "stuffed p @ (if after_piece BeginLine p = AfterCR then [LF] else [CR, LF]) = stuffed (uncr p) @ [CR, LF]"
proof -
  have "take 1 (uncr p) = ''.'' \<longleftrightarrow> take 1 p = ''.''"
    by (cases p rule: rev_cases; cases "butlast p") (auto simp: uncr_def)
  then show ?thesis using uncr_end [OF assms] by auto
qed

lemma uncr_subset: "set (uncr p) \<subseteq> set p"
  by (auto simp: uncr_def dest: in_set_butlastD)

lemma first_line_end: "LF \<notin> set l \<Longrightarrow> first_line (l @ CR # LF # rest) = Some (l, rest)"
proof (induction l)
  case (Cons c l)
  then show ?case by (cases l) auto
qed simp

text \<open>One line of the text, and its end.\<close>

lemma data_lines_line:
  assumes "LF \<notin> set p"
  shows "data_lines (stuffed (uncr p) @ CR # LF # rest) = map_option (\<lambda>(ls, r). (uncr p # ls, r)) (data_lines rest)"
proof -
  have "LF \<notin> set (stuffed (uncr p))" using assms uncr_subset [of p] by auto
  then have "first_line (stuffed (uncr p) @ CR # LF # rest) = Some (stuffed (uncr p), rest)" by (rule first_line_end)
  then show ?thesis
    by (subst data_lines.simps) (cases "uncr p"; auto split: if_splits)
qed

lemma data_lines_dot: "data_lines (CHR ''.'' # CR # LF # rest) = Some ([], rest)"
  by (subst data_lines.simps) simp

text \<open>
  The reader of the server undoes the writer of the client: the text ends where it was ended, no line of it ends it
  before, and the lines read are the lines written.
\<close>

lemma dot_body_roundtrip: "data_lines (dot_body BeginLine msg @ rest) = Some (mail_lines msg, rest)"
proof (induction msg rule: length_induct)
  case (1 msg)
  show ?case
  proof (cases "LF \<in> set msg")
    case False
    have "dot_body BeginLine msg = stuffed msg @ dot_body (after_piece BeginLine msg) []"
      using dot_body_piece [OF False, of "[]"] by simp
    moreover have "dot_body (after_piece BeginLine msg) [] = (if after_piece BeginLine msg = AfterCR then [LF] else [CR, LF]) @ ''.'' @ [CR, LF]"
      if "msg \<noteq> []" using after_piece_inside [OF that, of BeginLine] by (auto split: wstate.split)
    ultimately have "dot_body BeginLine msg = (if msg = [] then [] else stuffed (uncr msg) @ [CR, LF]) @ ''.'' @ [CR, LF]"
      using stuffed_end [OF False] by (cases "msg = []") (simp_all flip: append_assoc)
    then show ?thesis
      using data_lines_line [OF False] data_lines_dot by (simp add: mail_lines_def split_on_no_sep [OF False])
  next
    case True
    then obtain p s where msg: "msg = p @ LF # s" "LF \<notin> set p" by (meson split_list_first)
    have "dot_body BeginLine msg = stuffed p @ (if after_piece BeginLine p = AfterCR then [LF] else [CR, LF]) @ dot_body BeginLine s"
      using dot_body_piece [OF msg(2), of "LF # s"] by (simp add: msg)
    also have "\<dots> = stuffed (uncr p) @ [CR, LF] @ dot_body BeginLine s"
      using stuffed_end [OF msg(2)] by (metis append_assoc)
    finally have w: "dot_body BeginLine msg = stuffed (uncr p) @ [CR, LF] @ dot_body BeginLine s" .
    have "data_lines (dot_body BeginLine s @ rest) = Some (mail_lines s, rest)" using 1 msg(1) by simp
    moreover have "mail_lines msg = uncr p # mail_lines s"
    proof -
      have "split_on LF s \<noteq> []" by (induction s) (auto split: list.split)
      then show ?thesis by (simp add: mail_lines_def msg split_on_append Let_def)
    qed
    ultimately show ?thesis using data_lines_line [OF msg(2), of "dot_body BeginLine s @ rest"] by (simp add: w)
  qed
qed

lemma dot_roundtrip: "msg \<noteq> [] \<Longrightarrow> data_lines (dot_write msg @ rest) = Some (mail_lines msg, rest)"
  using dot_body_roundtrip by (simp add: dot_write_def)

lemma mail_lines_header:
  assumes "validateLine l"
  shows "mail_lines (l @ CR # LF # s) = l # mail_lines s"
proof -
  have l: "LF \<notin> set (l @ [CR])" "CR \<notin> set l" using assms by (auto simp: validateLine_def)
  have "uncr (l @ [CR]) = l"
    using l(2) by (cases l rule: rev_cases) (auto simp: uncr_def butlast_append)
  moreover have "split_on LF s \<noteq> []" by (induction s) (auto split: list.split)
  ultimately show ?thesis using split_on_append [OF l(1), of s] by (simp add: mail_lines_def Let_def)
qed

lemma mail_lines_headers: "list_all validateLine hs \<Longrightarrow> mail_lines (header_lines hs @ s) = hs @ mail_lines s"
  by (induction hs) (auto simp: mail_lines_header)

lemma validateLine_append [simp]: "validateLine (a @ b) \<longleftrightarrow> validateLine a \<and> validateLine b"
  by (auto simp: validateLine_def)

lemma validateLine_Join: "list_all validateLine to \<Longrightarrow> validateLine (strings_Join to '','')"
  by (induction to "'',''" rule: strings_Join.induct) (auto simp: validateLine_def)

section \<open>What a conversation keeps\<close>

text \<open>A relation that one step keeps and that does not look at the client's own fields is kept by every operation of the client.\<close>

definition along :: "(smtp \<Rightarrow> smtp \<Rightarrow> bool) \<Rightarrow> 'a talk \<Rightarrow> bool" where
  "along R m \<longleftrightarrow> (\<forall>c. R c (snd (run_state m c)))"

locale conversation =
  fixes R :: "smtp \<Rightarrow> smtp \<Rightarrow> bool"
  assumes refl: "R c c"
    and trans: "R c c1 \<Longrightarrow> R c1 c2 \<Longrightarrow> R c c2"
    and exchange: "along R (exchange line)"
    and fields: "R c (c\<lparr>sm_ext := es\<rparr>)" "R c (c\<lparr>sm_hello := h\<rparr>)" "R c (c\<lparr>sm_tls := True\<rparr>)"
begin

lemma along_return: "along R (State_Monad.return x)"
  by (simp add: along_def refl)

lemma along_look: "along R (look f)"
  by (simp add: along_def look_def refl)

lemma along_bind: "along R m \<Longrightarrow> (\<And>x. along R (k x)) \<Longrightarrow> along R (State_Monad.bind m k)"
  by (auto simp: along_def split: prod.split) (metis snd_conv trans)

lemma along_modify: "(\<And>c. R c (f c)) \<Longrightarrow> along R (modify f)"
  by (simp add: along_def modify_def)

lemma along_command: "along R (command expected line)" "along R proceed"
  unfolding command_def proceed_def by (auto intro!: along_bind along_return exchange)

lemma along_succeeded: "along R m \<Longrightarrow> along R (succeeded m)" "along R n \<Longrightarrow> along R (aborted n)"
  unfolding succeeded_def aborted_def by (auto intro!: along_bind along_return)

lemma along_ehlo: "along R ehlo"
  unfolding ehlo_def by (auto intro!: along_bind along_return along_command along_modify fields split: option.split)

lemma along_hello: "along R hello"
  unfolding hello_def helo_def
  by (auto intro!: along_bind along_return along_command along_modify along_look along_succeeded along_ehlo fields split: option.split)

lemma along_after_hello: "along R m \<Longrightarrow> along R (after_hello m)"
  unfolding after_hello_def by (auto intro!: along_bind along_hello along_return)

lemmas along_rules = along_after_hello along_bind along_return along_command along_modify along_look along_succeeded along_ehlo
  exchange fields

lemma along_client:
  "along R (Extension e)" "along R StartTLS" "along R Quit" "along R (PlainAuth h u p)" "along R (smtp_Mail f)" "along R (Rcpt t)" "along R write_body"
proof -
  show quit: "along R Quit" unfolding Quit_def by (intro along_rules)
  show "along R (Extension e)" unfolding Extension_def by (intro along_rules)
  show "along R StartTLS" unfolding StartTLS_def by (auto intro!: along_rules)
  show "along R (PlainAuth h u p)" unfolding PlainAuth_def by (auto intro!: along_rules quit split: answer.split)
  show "along R (smtp_Mail f)" unfolding smtp_Mail_def by (auto intro!: along_rules split: prod.split)
  show "along R (Rcpt t)" unfolding Rcpt_def by (auto intro!: along_rules)
  show "along R write_body" unfolding write_body_def by (auto intro!: along_rules)
qed

lemma along_at_stage: "along R m \<Longrightarrow> along R k \<Longrightarrow> along R (at_stage stage m k)"
  unfolding at_stage_def smtpStageError_def by (auto intro!: along_rules)

end

text \<open>Nothing but the end of the data makes the server take a mail.\<close>

interpretation untaken: conversation "\<lambda>c c'. sm_taken c' = sm_taken c"
  by unfold_locales (auto simp: along_def exchange_def Let_def split: list.split option.split)

section \<open>What Send ends in\<close>

text \<open>The rest of a delivery: without an error the server has taken the mail, with one it may have.\<close>

definition delivers :: "bool \<Rightarrow> string \<Rightarrow> mail_error option talk \<Rightarrow> bool" where
  "delivers valid raw k \<longleftrightarrow> (\<forall>c r c'. run_state k c = (r, c') \<longrightarrow>
     (r = None \<longrightarrow> sm_taken c' = sm_taken c @ [raw]) \<and> (sm_taken c' = sm_taken c \<or> sm_taken c' = sm_taken c @ [raw] \<and> valid))"

lemma delivers_stop:
  "delivers valid raw (smtpStageError stage)" "delivers valid raw (State_Monad.return (Some e))"
  by (auto simp: delivers_def smtpStageError_def look_def)

lemma delivers_bind:
  assumes "along (\<lambda>c c'. sm_taken c' = sm_taken c) m" "\<And>x. x \<in> range (\<lambda>c. fst (run_state m c)) \<Longrightarrow> delivers valid raw (k x)"
  shows "delivers valid raw (State_Monad.bind m k)"
  unfolding delivers_def
proof (intro allI impI)
  fix c r c' assume "run_state (State_Monad.bind m k) c = (r, c')"
  then obtain x c1 where x: "run_state m c = (x, c1)" "run_state (k x) c1 = (r, c')" by (auto split: prod.splits)
  then have "x \<in> range (\<lambda>c. fst (run_state m c))" by (metis fst_conv rangeI)
  then have "sm_taken c1 = sm_taken c" "delivers valid raw (k x)"
    using assms(1) [unfolded along_def, rule_format, of c] assms(2) [of x] x(1) by simp_all
  then show "(r = None \<longrightarrow> sm_taken c' = sm_taken c @ [raw]) \<and> (sm_taken c' = sm_taken c \<or> sm_taken c' = sm_taken c @ [raw] \<and> valid)"
    using x(2) unfolding delivers_def by metis
qed

lemma delivers_stage:
  assumes "along (\<lambda>c c'. sm_taken c' = sm_taken c) m" "(\<exists>c. fst (run_state m c)) \<Longrightarrow> delivers valid raw k"
  shows "delivers valid raw (at_stage stage m k)"
  unfolding at_stage_def
proof (rule delivers_bind [OF assms(1)])
  fix b assume "b \<in> range (\<lambda>c. fst (run_state m c))"
  then show "delivers valid raw (if b then k else smtpStageError stage)" using assms(2) delivers_stop by auto
qed

lemma accepts_valid:
  "fst (run_state (Rcpt t) c) \<Longrightarrow> validateLine t" "fst (run_state (smtp_Mail f) c) \<Longrightarrow> validateLine f"
  by (auto simp: Rcpt_def smtp_Mail_def split: if_splits)

lemma delivers_recipients:
  "(list_all validateLine to \<Longrightarrow> delivers valid raw k) \<Longrightarrow> delivers valid raw (recipients to k)"
  by (induction to) (auto intro!: delivers_stage untaken.along_client dest: accepts_valid)

lemma delivers_close: "valid \<Longrightarrow> delivers valid raw (at_stage stage (close_data raw) (State_Monad.return None))"
  by (auto simp: delivers_def at_stage_def close_data_def exchange_def modify_def took_def smtpStageError_def look_def Let_def
      split: list.splits answer.splits if_splits)

definition header_safe :: "sender \<Rightarrow> message \<Rightarrow> bool" where
  "header_safe s m \<longleftrightarrow> validateLine (From s) \<and> list_all validateLine (msg_to m)"

lemma transmit_delivers: "delivers (header_safe s m) (dot_write (mail_text s m)) (transmit s m)"
  unfolding transmit_def
  by (intro delivers_stage delivers_recipients delivers_close untaken.along_client untaken.along_succeeded untaken.along_command)
     (auto simp: header_safe_def dest: accepts_valid)

lemma Send_delivers: "delivers (header_safe s m) (dot_write (mail_text s m)) (Send s m)"
proof -
  let ?d = "delivers (header_safe s m) (dot_write (mail_text s m))"
  have "?d (authenticate_plain s (transmit s m))"
    unfolding authenticate_plain_def
    by (auto intro!: delivers_bind delivers_stage delivers_stop transmit_delivers untaken.along_client)
  then have "?d (start_tls (authenticate_plain s (transmit s m)))"
    unfolding start_tls_def by (auto intro!: delivers_bind delivers_stage untaken.along_client)
  then show ?thesis
    unfolding Send_def by (auto intro!: delivers_bind delivers_stage delivers_stop untaken.along_command untaken.along_succeeded)
qed

text \<open>
  C18. \<open>Send\<close> does what the service's methods take it to do. Whatever the server answers, whenever it falls
  silent and whenever the context ends, there is an outcome of the model's \<open>send_mail\<close> (served, refused, or served
  with the answer lost) with the same error or success and the same mail taken by the server. In particular success
  is reported only for a mail that the server has taken.
\<close>

theorem mail_refines_send:
  assumes "run_state (Send s m) c = (r, c')"
  shows "\<exists>out. let w' = w\<lparr>w_schedule := [\<lparr>e_elapsed = 0, e_other = id, e_outcome = out\<rparr>]\<rparr>; run = run_state (send_mail m) w'
    in (r = None \<longleftrightarrow> fst run = Inr ())
     \<and> (sm_taken c' = sm_taken c \<and> w_outbox (snd run) = w_outbox w
       \<or> sm_taken c' = sm_taken c @ [dot_write (mail_text s m)] \<and> w_outbox (snd run) = w_outbox w @ [m])"
proof -
  have "(r = None \<longrightarrow> sm_taken c' = sm_taken c @ [dot_write (mail_text s m)])
      \<and> (sm_taken c' = sm_taken c \<or> sm_taken c' = sm_taken c @ [dot_write (mail_text s m)])"
    using Send_delivers assms unfolding delivers_def by blast
  then have "r = None \<and> sm_taken c' = sm_taken c @ [dot_write (mail_text s m)] \<or> r \<noteq> None \<and> sm_taken c' = sm_taken c
      \<or> r \<noteq> None \<and> sm_taken c' = sm_taken c @ [dot_write (mail_text s m)]" by blast
  then show ?thesis
  proof (elim disjE conjE)
    assume "r = None" "sm_taken c' = sm_taken c @ [dot_write (mail_text s m)]"
    then show ?thesis by (intro exI [of _ Served]) (simp add: send_mail_def arrive_def pop_def settle_def)
  next
    assume "r \<noteq> None" "sm_taken c' = sm_taken c"
    then show ?thesis by (intro exI [of _ Refused]) (simp add: send_mail_def arrive_def pop_def settle_def)
  next
    assume "r \<noteq> None" "sm_taken c' = sm_taken c @ [dot_write (mail_text s m)]"
    then show ?thesis by (intro exI [of _ Lost]) (simp add: send_mail_def arrive_def pop_def settle_def)
  qed
qed

text \<open>
  C19. What arrives. A mail that the server has taken is read by it, up to the end of the data and no further,
  as exactly five header fields with the sender, the recipients and the subject of the mail, an empty line, and the
  lines of the body; no recipient and no body, whatever characters they hold, adds a field, ends the mail early or starts
  a second one. (The subjects of the service are fixed single lines.)
\<close>

theorem accepted_mail_reads_back:
  assumes "run_state (Send s m) (dialled script) = (r, c')" "raw \<in> set (sm_taken c')" "validateLine (msg_subject m)"
  shows "data_lines (raw @ rest) = Some ([''From: '' @ From s, ''To: '' @ strings_Join (msg_to m) '','', ''Subject: '' @ msg_subject m,
     ''MIME-Version: 1.0'', ''Content-Type: text/plain; charset=utf-8'', []] @ mail_lines (msg_body m @ [CR, LF]), rest)"
proof -
  let ?hs = "[''From: '' @ From s, ''To: '' @ strings_Join (msg_to m) '','', ''Subject: '' @ msg_subject m,
     ''MIME-Version: 1.0'', ''Content-Type: text/plain; charset=utf-8'', []]"
  have "sm_taken c' = [] \<or> sm_taken c' = [dot_write (mail_text s m)] \<and> header_safe s m"
    using Send_delivers [of s m, unfolded delivers_def, rule_format, OF assms(1)] by (simp add: dialled_def)
  then have raw: "raw = dot_write (mail_text s m)" and safe: "header_safe s m" using assms(2) by auto
  have "validateLine (strings_Join (msg_to m) '','')" using safe by (auto simp: header_safe_def intro: validateLine_Join)
  moreover have "validateLine ''From: ''" "validateLine ''To: ''" "validateLine ''Subject: ''" "validateLine ''MIME-Version: 1.0''"
    "validateLine ''Content-Type: text/plain; charset=utf-8''" "validateLine []"
    by (simp_all add: validateLine_def)
  ultimately have "list_all validateLine ?hs"
    using safe assms(3) by (simp only: list.pred_inject validateLine_append header_safe_def simp_thms)
  moreover have "mail_text s m = header_lines ?hs @ (msg_body m @ [CR, LF])" by (simp add: mail_text_def)
  ultimately have "mail_lines (mail_text s m) = ?hs @ mail_lines (msg_body m @ [CR, LF])" using mail_lines_headers by metis
  moreover have "mail_text s m \<noteq> []" by (simp add: mail_text_def)
  ultimately show ?thesis using dot_roundtrip raw by simp
qed

section \<open>Where the password goes\<close>

text \<open>Two conversations that someone who listens to the unencrypted connection cannot tell apart.\<close>

definition in_clear :: "smtp \<Rightarrow> string list" where
  "in_clear c = map snd (filter (\<lambda>x. \<not> fst x) (sm_sent c))"

definition same :: "smtp \<Rightarrow> smtp \<Rightarrow> bool" where
  "same c c' \<longleftrightarrow> in_clear c = in_clear c' \<and> c\<lparr>sm_sent := []\<rparr> = c'\<lparr>sm_sent := []\<rparr>"

definition alike :: "'a talk \<Rightarrow> 'a talk \<Rightarrow> bool" where
  "alike m m' \<longleftrightarrow> (\<forall>c c'. same c c' \<longrightarrow>
     fst (run_state m c) = fst (run_state m' c') \<and> same (snd (run_state m c)) (snd (run_state m' c')))"

lemma sameD:
  assumes "same c c'"
  shows "in_clear c = in_clear c'" "sm_script c = sm_script c'" "sm_ended c = sm_ended c'" "sm_tls c = sm_tls c'"
    "sm_hello c = sm_hello c'" "sm_ext c = sm_ext c'" "sm_taken c = sm_taken c'"
  using assms by (cases c; cases c'; simp add: same_def)+

lemma sameI:
  assumes "in_clear c = in_clear c'" "sm_script c = sm_script c'" "sm_ended c = sm_ended c'" "sm_tls c = sm_tls c'"
    "sm_hello c = sm_hello c'" "sm_ext c = sm_ext c'" "sm_taken c = sm_taken c'"
  shows "same c c'"
  using assms by (cases c; cases c') (simp add: same_def)

lemma alike_return: "alike (State_Monad.return x) (State_Monad.return x)"
  by (simp add: alike_def)

lemma alike_bind:
  assumes "alike m m'" "\<And>x. alike (k x) (k' x)"
  shows "alike (State_Monad.bind m k) (State_Monad.bind m' k')"
  unfolding alike_def
proof (intro allI impI)
  fix c c' assume c: "same c c'"
  obtain x c1 where x: "run_state m c = (x, c1)" by fastforce
  obtain x' c1' where x': "run_state m' c' = (x', c1')" by fastforce
  have "x' = x" "same c1 c1'" using assms(1) c x x' unfolding alike_def by (metis fst_conv, metis snd_conv)
  then show "fst (run_state (State_Monad.bind m k) c) = fst (run_state (State_Monad.bind m' k') c')
      \<and> same (snd (run_state (State_Monad.bind m k) c)) (snd (run_state (State_Monad.bind m' k') c'))"
    using assms(2) [of x] x x' unfolding alike_def by simp
qed

lemma alike_look: "(\<And>c x. f (c\<lparr>sm_sent := x\<rparr>) = f c) \<Longrightarrow> alike (look f) (look f)"
  unfolding alike_def look_def by (auto simp: same_def) metis

lemma alike_modify:
  assumes "\<And>c c'. same c c' \<Longrightarrow> same (f c) (f c')"
  shows "alike (modify f) (modify f)"
  using assms by (simp add: alike_def modify_def)

lemma same_fields:
  "same c c' \<Longrightarrow> same (c\<lparr>sm_ext := es\<rparr>) (c'\<lparr>sm_ext := es\<rparr>)" "same c c' \<Longrightarrow> same (c\<lparr>sm_hello := h\<rparr>) (c'\<lparr>sm_hello := h\<rparr>)"
  "same c c' \<Longrightarrow> same (c\<lparr>sm_tls := b\<rparr>) (c'\<lparr>sm_tls := b\<rparr>)"
  "same c c' \<Longrightarrow> same (if b then c\<lparr>sm_taken := sm_taken c @ ts\<rparr> else c) (if b then c'\<lparr>sm_taken := sm_taken c' @ ts\<rparr> else c')"
  by (auto intro!: sameI dest: sameD simp: in_clear_def)

lemma exchange_same:
  assumes "same c c'" "line = line' \<or> sm_tls c \<and> line \<noteq> None \<and> line' \<noteq> None"
  shows "fst (run_state (exchange line) c) = fst (run_state (exchange line') c')
    \<and> same (snd (run_state (exchange line) c)) (snd (run_state (exchange line') c'))"
  using assms sameD [OF assms(1)]
  by (auto simp: exchange_def Let_def in_clear_def intro!: sameI split: list.split option.split)

lemma alike_exchange: "alike (exchange line) (exchange line)"
  using exchange_same by (auto simp: alike_def)

lemma alike_if: "alike m m' \<Longrightarrow> alike n n' \<Longrightarrow> alike (if b then m else n) (if b then m' else n')"
  by simp

lemmas alike_rules = alike_return alike_bind alike_exchange alike_modify same_fields alike_if

lemma alike_command: "alike (command expected line) (command expected line)" "alike proceed proceed"
  unfolding command_def proceed_def by (intro alike_rules)+

lemma alike_succeeded: "alike m m' \<Longrightarrow> alike (succeeded m) (succeeded m')" "alike n n' \<Longrightarrow> alike (aborted n) (aborted n')"
  unfolding succeeded_def aborted_def by (intro alike_rules; assumption)+

lemma alike_ehlo: "alike ehlo ehlo"
  unfolding ehlo_def by (auto intro!: alike_rules alike_command split: option.split)

lemma alike_hello: "alike hello hello"
  unfolding hello_def helo_def
  by (auto intro!: alike_bind alike_look alike_rules alike_command alike_succeeded alike_ehlo split: option.split)

lemma alike_after_hello: "alike m m' \<Longrightarrow> alike (after_hello m) (after_hello m')"
  unfolding after_hello_def by (intro alike_rules alike_hello)

lemma alike_client:
  "alike (Extension e) (Extension e)" "alike StartTLS StartTLS" "alike Quit Quit" "alike (smtp_Mail f) (smtp_Mail f)"
  "alike (Rcpt t) (Rcpt t)" "alike write_body write_body" "alike (close_data raw) (close_data raw)"
  unfolding Extension_def StartTLS_def Quit_def smtp_Mail_def Rcpt_def write_body_def close_data_def
  by (auto intro!: alike_after_hello alike_rules alike_look alike_command alike_succeeded alike_ehlo simp: offers_def split: prod.split)

lemma alike_PlainAuth:
  assumes "\<not> isLocalhost host"
  shows "alike (PlainAuth host user p) (PlainAuth host user p')"
proof -
  let ?ends = "\<lambda>r. case r of NoAnswer _ \<Rightarrow> State_Monad.return False | Answer n _ \<Rightarrow>
    if n = 235 then State_Monad.return True else aborted (State_Monad.bind (exchange (Some ''*'')) (\<lambda>_. Quit))"
  let ?rest = "\<lambda>p tls. if \<not> tls \<and> \<not> isLocalhost host then aborted Quit else State_Monad.bind (exchange (Some (plain_line user p))) ?ends"
  have ends: "alike (?ends r) (?ends r)" for r
    by (auto intro!: alike_rules alike_succeeded alike_client split: answer.split)
  have "alike (State_Monad.bind (look sm_tls) (?rest p)) (State_Monad.bind (look sm_tls) (?rest p'))"
    unfolding alike_def
  proof (intro allI impI)
    fix c c' assume c: "same c c'"
    show "fst (run_state (State_Monad.bind (look sm_tls) (?rest p)) c) = fst (run_state (State_Monad.bind (look sm_tls) (?rest p')) c')
      \<and> same (snd (run_state (State_Monad.bind (look sm_tls) (?rest p)) c)) (snd (run_state (State_Monad.bind (look sm_tls) (?rest p')) c'))"
    proof (cases "sm_tls c")
      case True
      obtain r c1 where r: "run_state (exchange (Some (plain_line user p))) c = (r, c1)" by fastforce
      obtain r' c1' where r': "run_state (exchange (Some (plain_line user p'))) c' = (r', c1')" by fastforce
      have "r' = r" "same c1 c1'" using exchange_same [OF c, of "Some (plain_line user p)" "Some (plain_line user p')"] True r r' by auto
      then show ?thesis using ends [of r] r r' sameD(4) [OF c] True unfolding alike_def by (simp add: look_def)
    next
      case False
      then show ?thesis using alike_succeeded(2) [OF alike_client(3)] c sameD(4) [OF c] assms unfolding alike_def by (simp add: look_def)
    qed
  qed
  then show ?thesis unfolding PlainAuth_def by (rule alike_after_hello)
qed

lemma alike_stage: "alike m m' \<Longrightarrow> alike k k' \<Longrightarrow> alike (at_stage stage m k) (at_stage stage m' k')"
  unfolding at_stage_def smtpStageError_def by (intro alike_rules alike_look; simp)

lemma alike_transmit: "alike (transmit s m) (transmit (s\<lparr>Password := p\<rparr>) m)"
proof -
  have to: "alike (recipients to k) (recipients to k)" if "alike k k" for to k
    using that by (induction to) (auto intro!: alike_stage alike_client)
  have "mail_text (s\<lparr>Password := p\<rparr>) m = mail_text s m" by (simp add: mail_text_def)
  then show ?thesis
    unfolding transmit_def by (auto intro!: to alike_stage alike_client alike_succeeded alike_command alike_rules)
qed

text \<open>
  C20. The password leaves the process encrypted or not at all. Unless the mail server runs on the same machine,
  what \<open>Send\<close> writes to the connection in clear, what it answers and what the server takes are the same for every
  password, whatever the server answers and whether it offers encryption, refuses it or breaks off.
\<close>

theorem password_needs_encryption:
  assumes "\<not> isLocalhost (Host s)" "run_state (Send s m) (dialled script) = (r, c)"
    and "run_state (Send (s\<lparr>Password := p\<rparr>) m) (dialled script) = (r', c')"
  shows "r' = r \<and> in_clear c' = in_clear c \<and> sm_taken c' = sm_taken c"
proof -
  let ?s = "s\<lparr>Password := p\<rparr>"
  have "alike (authenticate_plain s (transmit s m)) (authenticate_plain ?s (transmit ?s m))"
    unfolding authenticate_plain_def using assms(1)
    by (auto intro!: alike_rules alike_stage alike_client alike_PlainAuth alike_transmit)
  then have "alike (Send s m) (Send ?s m)"
    unfolding Send_def start_tls_def
    by (auto intro!: alike_rules alike_stage alike_client alike_command alike_succeeded)
  moreover have "same (dialled script) (dialled script)" by (simp add: same_def)
  ultimately show ?thesis using assms(2,3) sameD(1,7) unfolding alike_def by (metis fst_conv snd_conv)
qed

section \<open>Examples\<close>

definition sample_sender :: sender where
  "sample_sender = \<lparr>Host = ''mail.example.org'', Port = 587, User = ''auth'', Password = ''pass'', From = ''auth@example.org''\<rparr>"

definition sample_message :: message where
  "sample_message = \<lparr>msg_to = [''ann@x.org''], msg_subject = ''New sign-in'',
     msg_body = ''Account ann signed in from x'' @ [LF, CHR ''.'', LF] @ ''MAIL FROM:<eve@x.org>''\<rparr>"

definition says :: "nat \<Rightarrow> string list \<Rightarrow> event" where
  "says n ls = \<lparr>ev_answer = Answer n ls, ev_ctx = None\<rparr>"

definition blank_world :: world where
  "blank_world = \<lparr>w_db = empty_db, w_clock = 0, w_outbox = [], w_rand = (\<lambda>k n. None), w_digits = (\<lambda>k. None), w_uuids = (\<lambda>k. k),
     w_draws = 0, w_schedule = []\<rparr>"

text \<open>A server that offers encryption and takes the mail, and one that does not offer it.\<close>

definition sample_script :: "event list" where
  "sample_script = [says 0 [], says 0 [], says 220 [''mail''], says 250 [''mail'', ''STARTTLS'', ''AUTH PLAIN''], says 220 [],
     says 250 [''mail'', ''AUTH PLAIN'', ''8BITMIME''], says 235 [], says 250 [], says 250 [], says 354 [], says 0 [], says 250 []]"

definition plain_script :: "event list" where
  "plain_script = [says 0 [], says 0 [], says 220 [''mail''], says 250 [''mail'', ''AUTH PLAIN''], says 221 []]"

lemma sample_send:
  "fst (run_state (Send sample_sender sample_message) (dialled sample_script)) = None"
  "sm_taken (snd (run_state (Send sample_sender sample_message) (dialled sample_script))) = [dot_write (mail_text sample_sender sample_message)]"
  by code_simp+

lemma plain_send:
  "fst (run_state (Send sample_sender sample_message) (dialled plain_script)) = Some (SmtpError ''smtp authentication failed'')"
  "in_clear (snd (run_state (Send sample_sender sample_message) (dialled plain_script))) = [''EHLO localhost'', ''QUIT'']"
  by code_simp+

theorem mail_refines_send_witness:
  "\<exists>out. fst (run_state (send_mail sample_message) (blank_world\<lparr>w_schedule := [\<lparr>e_elapsed = 0, e_other = id, e_outcome = out\<rparr>]\<rparr>)) = Inr ()
     \<and> sm_taken (snd (run_state (Send sample_sender sample_message) (dialled sample_script))) \<noteq> []"
  using mail_refines_send [OF prod.collapse [symmetric], where s = sample_sender and m = sample_message and c = "dialled sample_script" and w = blank_world]
  unfolding Let_def sample_send by auto

theorem accepted_mail_reads_back_witness:
  "data_lines (dot_write (mail_text sample_sender sample_message) @ ''next'') =
     Some ([''From: auth@example.org'', ''To: ann@x.org'', ''Subject: New sign-in'', ''MIME-Version: 1.0'',
       ''Content-Type: text/plain; charset=utf-8'', [], ''Account ann signed in from x'', ''.'', ''MAIL FROM:<eve@x.org>''], ''next'')"
proof -
  have "dot_write (mail_text sample_sender sample_message) \<in> set (sm_taken (snd (run_state (Send sample_sender sample_message) (dialled sample_script))))"
    by (simp add: sample_send)
  moreover have "validateLine (msg_subject sample_message)" by code_simp
  moreover have "mail_lines (msg_body sample_message @ [CR, LF]) = [''Account ann signed in from x'', ''.'', ''MAIL FROM:<eve@x.org>'']"
    by code_simp
  ultimately show ?thesis
    using accepted_mail_reads_back [OF prod.collapse [symmetric], where s = sample_sender and m = sample_message and script = sample_script and rest = "''next''"]
    by (simp add: sample_sender_def sample_message_def)
qed

theorem password_needs_encryption_witness:
  "in_clear (snd (run_state (Send (sample_sender\<lparr>Password := ''other''\<rparr>) sample_message) (dialled plain_script))) = [''EHLO localhost'', ''QUIT'']"
proof -
  have "\<not> isLocalhost (Host sample_sender)" by code_simp
  from password_needs_encryption [OF this prod.collapse [symmetric] prod.collapse [symmetric],
      where m = sample_message and script = plain_script and p = "''other''"] plain_send(2) show ?thesis by simp
qed

end
