(* ===== verification/Spec2Isabelle.thy ===== *)
theory Spec2Isabelle
  imports Sessions OTP Role_Properties Requests Signing_Keys Registration Links Edit_Distance Authorisation Store
    Passwords Step_Up Onboarding Mail_Queue Paging Revocation Http_Properties Grpc_Properties Migration_Runs Process Mcp_Properties Mail_Properties
begin

text \<open>
  A model of the authentication service auth-master (Go, \<open>src/\<close>) and the theorems about it.

  \<^bold>\<open>The program.\<close> The service keeps accounts, refresh sessions, one-time codes, magic links, signing keys
  and a hierarchy of roles in PostgreSQL. \<open>internal/repository\<close> is the store: every exported method is one
  transaction. \<open>internal/service\<close> has the use cases (login with a mailed code, refresh rotation, password
  change and reset, step-up confirmation, registration by invite, role management, token issue and
  verification) and calls the store, the mailer, the clock and the random source.
  \<open>internal/transport/http\<close> and \<open>internal/transport/grpc\<close> offer the use cases over two protocols;
  \<open>internal/transport/parity\<close> is the manifest that ties them together. Mail to addresses given by strangers goes
  through a queue with workers (\<open>internal/service/public_mail_queue.go\<close>) and out by SMTP (\<open>internal/mail\<close>).
  \<open>cmd/authd\<close> migrates the schema, bootstraps keys and accounts, and serves; \<open>cmd/auth-master-mcp\<close> with
  \<open>internal/mcpserver\<close> offers the administration to a language model, as a client of the gRPC interface.

  \<^bold>\<open>Layers of the model.\<close>

  \<^item> \<open>Prelude\<close>: rows as lists with \<open>find_row\<close>, \<open>update_rows\<close>, ordering and limits; Go's string
    functions on bytes; the collections \<open>preserves_intros\<close>, \<open>keeps_intros\<close> and others.
  \<^item> \<open>Schema\<close>: the tables of \<open>repository/models.go\<close> as records, the database \<open>db\<close> as a record of lists
    of rows, the sentinels of \<open>service/errors.go\<close> and the errors of the store. A store call has type
    \<open>'a repo = db \<Rightarrow> repo_error + ('a \<times> db)\<close>: an error rolls back.
  \<^item> Store: \<open>Users\<close> (\<open>users.go\<close> and the identity triggers of \<open>schema_migrate.go\<close>), \<open>Sessions\<close>
    (\<open>sessions.go\<close>), \<open>OTP\<close> (\<open>otp.go\<close>), \<open>Hierarchy\<close> and \<open>Roles\<close> (\<open>roles.go\<close>, with the recursive queries),
    \<open>Requests\<close> (\<open>role_requests.go\<close>), \<open>Signing_Keys\<close> (\<open>signing.go\<close>), \<open>Registration\<close> (\<open>invites.go\<close>),
    \<open>Links\<close> (\<open>magic_link.go\<close>, \<open>step_up_2fa.go\<close>, \<open>security.go\<close>), \<open>Paging\<close> (the searches). \<open>Store\<close>
    collects the commits of all of them in the step relation \<open>db_step\<close> with the invariant \<open>store_ok\<close>.
  \<^item> Pure parts: \<open>Encoding\<close>, \<open>Primitives\<close>, \<open>Crypto_Util\<close> (\<open>internal/crypto\<close>), \<open>Edit_Distance\<close>,
    \<open>Password_Policy\<close>, \<open>Validation\<close> (machine integers at their width), \<open>Config\<close> (\<open>internal/config\<close>).
  \<^item> \<open>World\<close>: a use case is a program in the state monad over the \<open>world\<close>: the database, the clock, the
    outbox, the random streams and a schedule. Before each effect an entry of the schedule is
    consumed: time passes, other requests change the database, and the effect is served, refused, or
    done with its answer lost. Interleaving and failure are thus inputs of every theorem.
  \<^item> Service: \<open>Access\<close> (\<open>rbac.go\<close>, \<open>user_status.go\<close>), \<open>Operations\<close> (\<open>operations.go\<close>), \<open>Tokens\<close>
    (\<open>jwtutil\<close>, \<open>signing.go\<close>, token checks of \<open>auth.go\<close>), \<open>Login\<close>, \<open>Passwords\<close>, \<open>Step_Up\<close>
    (\<open>auth.go\<close>), \<open>Onboarding\<close> (\<open>invites.go\<close>, \<open>magic_link.go\<close>, \<open>bootstrap.go\<close>), \<open>Mail_Queue\<close> (the queue as a
    step relation of its goroutines).
  \<^item> Transports: \<open>Wire\<close> (JSON into structs, cookies, cursors), \<open>Http_Handlers\<close> and \<open>Http_Roles\<close> (one
    definition per handler), \<open>Http_Server\<close> (guards, CSRF, the route table, \<open>serve\<close>); \<open>Grpc\<close> and
    \<open>Grpc_Methods\<close> (one definition per method), \<open>Grpc_Server\<close> (interceptors, error mapping, the manifest,
    \<open>serve_rpc\<close>).
  \<^item> Around the service: \<open>Migration\<close> (\<open>schema_migrate.go\<close> as a list of statements on rows and catalogue, with the
    results in \<open>Migration_Properties\<close> and \<open>Migration_Runs\<close>); \<open>Process\<close> (\<open>cmd/authd/main.go\<close>: the start as a function,
    the running process as a step relation); \<open>Mail\<close> (\<open>smtp.go\<close> as a conversation with a server that is a script);
    \<open>Mcp\<close> (the client with its cached token and the thirteen tools).

  \<^bold>\<open>What is shown.\<close>

  \<^item> \<^emph>\<open>Refinement.\<close> \<open>Refinement\<close> shows that every method of the service (and \<open>http_refines_store\<close> and
    \<open>grpc_refines_store\<close> that every HTTP request and gRPC call) moves the database by steps of the store's
    transition system whatever fails and interleaves. With \<open>Store\<close> this gives the invariants of the running service: unambiguous
    identities, no live session of a banned account, one usable reset code, one session per device, one
    membership and one pending request per role, one current signing key.
  \<^item> \<^emph>\<open>Access control.\<close> \<open>Authorisation\<close>, \<open>Http_Properties\<close> and \<open>Grpc_Properties\<close>: an actor without authority is
    refused by every managing method, route and call and changes nothing; guarded routes and methods need
    a token that some key verifies; routes of actors need the CSRF check; the two transports
    have the same guards. \<open>Authority\<close> and \<open>Role_Properties\<close>: the bounded recursive queries decide
    membership, administration and tags as the inheritance rules say; mounting keeps the hierarchy
    acyclic within the depth bound.
  \<^item> \<^emph>\<open>Credentials.\<close> \<open>Revocation\<close>: a ban revokes for good every token issued before it, with either verifier; a service
    token verifies until it expires. The theorem below carries the ban to both transports: with such a token no guarded
    route and no RPC that is not public does anything. \<open>OTP\<close>: attempts on a reset code are bounded, issue has a cooldown,
    activation has one winner. \<open>Registration\<close>, \<open>Links\<close>: invites and links are used once.
  \<^item> \<^emph>\<open>Data.\<close> Session limits, paging that ends and misses nothing, cursors that survive the wire, the edit
    distance, password hashes and keys that read back, durations without overflow, where the
    file-backed values of the configuration come from.
  \<^item> \<^emph>\<open>The queue.\<close> It never panics, loses no accepted job, and drains.
  \<^item> \<^emph>\<open>The life of a process.\<close> \<open>Migration_Runs\<close>: after any number of interrupted migrations one that goes through
    leaves a database that satisfies the store's invariant, and a second one changes nothing; the identity check
    refuses exactly the ambiguous account tables; a legacy parent is mounted again by every start. \<open>Process\<close>: from
    a legacy database that satisfies \<open>legacy_ok\<close> on, every state of the process keeps the invariant and a current key, and
    the shutdown keeps its order; a failed start leaves nothing open.
  \<^item> \<^emph>\<open>Outside.\<close> \<open>Mail_Properties\<close>: \<open>Send\<close> refines the effect \<open>send_mail\<close> of the service's model, an accepted mail
    reads back with its five header fields and its whole body, the password is written to encrypted connections
    only. \<open>Mcp_Properties\<close>: every tool moves the database by steps of the store, the tools announced as read-only
    write nothing but a first signing key and send no mail, and the cached token is used only while it is valid.

  \<^bold>\<open>Interfaces.\<close> The locale \<open>database_moves\<close> (a reflexive and transitive relation on databases) carries the
  composition rules for programs; it is interpreted for invariants (\<open>keeping\<close>), for the store's steps
  (\<open>stepping\<close>), for the moves of the other requests alone (\<open>idle_request\<close>) and for reads (\<open>reading\<close>). The locale
  \<open>conversation\<close> does the same for SMTP clients (\<open>untaken\<close>: no mail is taken). The locale \<open>powerless_actor\<close> has
  the refusals of all guards, methods, handlers and calls and is interpreted as \<open>confined\<close>.

  \<^bold>\<open>Parameters.\<close> Third-party code is an argument: the record \<open>lib\<close> (Argon2, SHA-256, HMAC, AES-GCM, the
  JWT library, UUID text, URLs, Unicode classes) with the laws \<open>gcm_ok\<close>, \<open>uuid_ok\<close>, \<open>jwt_ok\<close>; the record
  \<open>server\<close> (the lexer of JSON with the law \<open>json_ok\<close>, addresses, texts of times and of driver errors, the
  matching of the router) and \<open>grpc_server\<close> (validity of protobuf values); \<open>migrator\<close> (GORM's \<open>AutoMigrate\<close> with
  the law \<open>automigrate_ok\<close>), \<open>boot\<close> and \<open>host\<close> (driver, TLS loader, network, environment), \<open>mcp\<close> (texts of times).
  \<open>sample_lib\<close>, \<open>sample_server\<close>, \<open>sample_grpc\<close>, \<open>sample_migrator\<close>, \<open>sample_boot\<close> and \<open>sample_mcp\<close> satisfy the laws
  and compute. The parts of \<open>net/smtp\<close> and \<open>net/textproto\<close> that \<open>Send\<close> uses are modelled.

  \<^bold>\<open>Bounds.\<close> The recursive queries enumerate paths up to the depth 64 of the SQL; the retries of the mail
  jobs are the three of the code; the walk over pages takes as many requests as there are rows, shown
  to be enough. No other definition has a bound that the code does not have.

  \<^bold>\<open>Not modelled.\<close> Generated code (\<open>api\<close>, \<open>docs\<close>, \<open>swagger_types.go\<close>); CORS, metrics, request logging
  (\<open>internal/logging\<close>), the health probe, reflection and the documentation page, which are third-party code or
  write diagnostics only; the examples, which are clients of the service. Cancellation of a context is seen as a
  failed effect, and in \<open>Mail\<close> as an event of the conversation; deadlines have no length. Two migrations at the
  same time are not interleaved. The isolation of transactions is that of a serial order, which the row locks of
  the code are there to provide.
\<close>

section \<open>A ban closes both transports\<close>

text \<open>A token of a version the account had at the ban is verified by neither of the two methods.\<close>

lemma old_token_unverified:
  assumes "SetUserBan now i (Some admin) reason d = Inr ((), d1)" "account i d = Some u"
    and "db_steps d1 (w_db w)" "others db_steps w"
    and "\<And>key t c. jwt_ParseWithClaims (alib a) key t tok = Some c \<Longrightarrow>
      uuid_Parse (alib a) (c_subject c) = Some i \<and> c_token_version c \<le> u_token_version u"
    and "run_state (VerifyAccessToken a tok typ) w = (res, w') \<or> run_state (VerifyAccessOrServiceToken a tok) w = (res, w')"
  shows "\<exists>e. res = Inl e"
proof (cases res)
  case (Inr c)
  with assms(6) obtain key t where "jwt_ParseWithClaims (alib a) key t tok = Some c" using verified_claims by blast
  from assms(5) [OF this] banned_version_outgrown [OF assms(1-4) assms(6) [unfolded Inr]] show ?thesis by simp
qed blast

lemma refused_claims: "rs_status (fst (run_state (with_claims s (Inl e) k) w)) = 401
    \<and> rs_cookies (fst (run_state (with_claims s (Inl e) k) w)) = [] \<and> snd (run_state (with_claims s (Inl e) k) w) = w"
  by (auto simp: with_claims_def writeErr_def writeJSON_def stale_def with_header_def split: svc_error.split)

lemma guard_locked:
  assumes "run_state (run_guarded s r g checks h) w = (rs, w')" "bearer_token r = Some tok"
    and "\<And>res w1. run_state (VerifyAccessToken (srv_auth s) tok TypeAccess) w = (res, w1) \<or>
      run_state (VerifyAccessOrServiceToken (srv_auth s) tok) w = (res, w1) \<Longrightarrow> \<exists>e. res = Inl e"
  shows "rs_status rs = 401 \<and> rs_cookies rs = [] \<and> by_others w (w_db w) (w_db w')"
proof -
  obtain m k where m: "m = VerifyAccessToken (srv_auth s) tok TypeAccess \<or> m = VerifyAccessOrServiceToken (srv_auth s) tok"
    and run: "run_state (State_Monad.bind m (\<lambda>res. with_claims s res k)) w = (rs, w')"
    using assms(1,2) by (cases g) (auto simp: run_guarded_def Let_def requireAccessJWT_def requireActorJWT_def)
  obtain res w1 where 1: "run_state m w = (res, w1)" "run_state (with_claims s res k) w1 = (rs, w')"
    using run by (rule bindE)
  obtain e where "res = Inl e" using assms(3) [of res w1] m 1(1) by blast
  moreover have "by_others w (w_db w) (w_db w1)"
    using movesD(1) [OF _ 1(1) others_by_others] m idle_request.checks_move_nothing by blast
  ultimately show ?thesis using refused_claims [of s e k w1] 1(2) by simp
qed

lemma authenticate_locked:
  assumes "run_state (authenticate g (method_name req) reflect md) w = (res, w')" "RPCPolicies (method_name req) \<noteq> Some AuthPublic"
    and "bearer_value md = Inr tok"
    and "\<And>res w1. run_state (VerifyAccessToken (gs_auth g) tok TypeAccess) w = (res, w1) \<or>
      run_state (VerifyAccessOrServiceToken (gs_auth g) tok) w = (res, w1) \<Longrightarrow> \<exists>e. res = Inl e"
  shows "\<exists>st. res = Inl st"
proof -
  obtain p where p: "RPCPolicies (method_name req) = Some p" "p = AuthHuman \<or> p = AuthActor"
    using methods_classified [of req] assms(2) by (metis authPolicy.exhaust)
  let ?v = "if p = AuthHuman then VerifyAccessToken (gs_auth g) tok TypeAccess else VerifyAccessOrServiceToken (gs_auth g) tok"
  obtain x w1 where "run_state ?v w = (x, w1)" by fastforce
  moreover from this obtain e where "x = Inl e" using assms(4) [of x w1] by (auto split: if_splits)
  ultimately show ?thesis using assms(1,3) p by (auto simp: authenticate_def business_policy)
qed

text \<open>
  C11. A ban locks the account out of both transports. Once a ban has been committed, and whatever the store has done since
  (an unban included), a token that can only be verified as one of that account with the version it had at the
  ban, or an older one, opens nothing: every guarded HTTP route answers 401 without a cookie, every RPC that is not
  public answers an error, the mail queue stays as it was, and the database changes only by what other requests do,
  whichever effects fail and however the others interleave.
\<close>

theorem ban_locks_out:
  assumes "SetUserBan now i (Some admin) reason d = Inr ((), d1)" "account i d = Some u"
    and "db_steps d1 (w_db w)" "others db_steps w"
    and "\<And>key t c. jwt_ParseWithClaims (srv_lib s) key t tok = Some c \<Longrightarrow>
      uuid_Parse (srv_lib s) (c_subject c) = Some i \<and> c_token_version c \<le> u_token_version u"
    and "run_state (serve s r q) w = ((rs, q1), w1)" "bearer_token r = Some tok"
    and "chi_Match s route_table (rq_method r) (rq_path r) = Matched n ps" "n < length routes"
    and "routes ! n = (m, p, Guarded guard checks h)"
    and "run_state (serve_rpc g reflect md req q) w = ((out, q2), w2)" "gs_auth g = srv_auth s" "bearer_value md = Inr tok"
    and "RPCPolicies (method_name req) \<noteq> Some AuthPublic"
  shows "rs_status rs = 401 \<and> rs_cookies rs = [] \<and> q1 = q \<and> by_others w (w_db w) (w_db w1)
    \<and> (\<exists>st. out = Inl st) \<and> q2 = q \<and> by_others w (w_db w) (w_db w2)"
proof -
  have no: "\<exists>e. res = Inl e" if "w_db v = w_db w" "w_schedule v = w_schedule w"
    "run_state (VerifyAccessToken (srv_auth s) tok TypeAccess) v = (res, v') \<or>
     run_state (VerifyAccessOrServiceToken (srv_auth s) tok) v = (res, v')" for v v' res
    by (rule old_token_unverified [OF assms(1,2) _ _ assms(5) that(3)]) (use that(1,2) assms(3,4) in \<open>auto simp: others_def\<close>)
  obtain v rs1 rid where v: "w_db v = w_db w" "w_schedule v = w_schedule w"
    "run_state (run_guarded s (r\<lparr>rq_param := ps\<rparr>) guard checks h) v = (rs1, w1)"
    "rs = with_header ''X-Request-ID'' rid rs1" "q1 = q"
    using assms(6,8,9) by (rule serve_guarded) (use assms(10) in auto)
  have "rs_status rs1 = 401 \<and> rs_cookies rs1 = [] \<and> by_others v (w_db v) (w_db w1)"
    by (rule guard_locked [OF v(3)]) (use assms(7) no [OF v(1,2)] in simp_all)
  moreover have "(\<exists>st. out = Inl st) \<and> q2 = q \<and> by_others w (w_db w) (w_db w2)"
    using assms(11)
  proof (cases rule: serve_rpc_cases)
    case (denied st)
    then show ?thesis using movesD(1) [OF idle_request.authenticate_moves_nothing denied(1) others_by_others] by blast
  next
    case (allowed ctx w3)
    then show ?thesis using authenticate_locked [OF allowed(1) assms(14,13)] no [OF refl refl] assms(12) by fastforce
  qed
  ultimately show ?thesis
    using v(1,4,5) by_others_schedule [OF v(2)] by (simp add: with_header_def)
qed

text \<open>The account 4 was banned and unbanned; its token from before is of no use.\<close>

definition sample_old_token :: string where
  "sample_old_token = sample_sign ''-key'' (sample_claims\<lparr>c_token_version := 0, c_expires_at := 9\<rparr>)"

lemma sample_old_claims:
  assumes "jwt_ParseWithClaims (srv_lib sample_server) key t sample_old_token = Some c"
  shows "uuid_Parse (srv_lib sample_server) (c_subject c) = Some 4 \<and> c_token_version c \<le> u_token_version sample_bot"
  using assms
  by (auto simp: sample_old_token_def sample_server_def sample_auth_def sample_lib_def sample_parse_sign sample_claims_def sample_bot_def
      new_user_def split: if_splits)

lemma sample_old_bearer:
  "bearer_token (rotation sample_old_token) = Some sample_old_token" "bearer_value (Some [''Bearer '' @ sample_old_token]) = Inr sample_old_token"
proof -
  have "TrimSpace sample_old_token = sample_old_token" by code_simp
  then show "bearer_token (rotation sample_old_token) = Some sample_old_token" by (simp add: sample_bearer)
  show "bearer_value (Some [''Bearer '' @ sample_old_token]) = Inr sample_old_token" by code_simp
qed

theorem ban_locks_out_witness:
  "rs_status (served (rotation sample_old_token) sample_unbanned_world) = 401
   \<and> db_after (rotation sample_old_token) sample_unbanned_world = w_db sample_unbanned_world
   \<and> (\<exists>st. fst (fst (answered sample_old_token sample_unbanned_world)) = Inl st)
   \<and> w_db (snd (answered sample_old_token sample_unbanned_world)) = w_db sample_unbanned_world"
proof -
  have quiet: "w_schedule sample_unbanned_world = []" by (simp add: sample_unbanned_world_def sample_bot_world_def)
  have "gs_auth sample_grpc = srv_auth sample_server" by (simp add: sample_grpc_def)
  from ban_locks_out [OF sample_ban(2,1) sample_unban sample_old_claims sample_run sample_old_bearer(1) rotation_route rotate_route(3,2)
      sample_call this sample_old_bearer(2) rotate_not_public]
  show ?thesis by (simp add: by_others_quiet [OF quiet])
qed

end
